(* ===== verification/Prelude.thy ===== *)
theory Prelude
  imports Main "HOL-Library.Word"
begin

text \<open>
  What every component shares: the machine integers, the C library functions the sources call
  (strings, decimal conversion), the combinators for state and early return, and the generic
  lemmas on lists the proofs rest on.

  A C string is a \<open>string\<close> (a list of bytes without its terminator), a raw buffer is a
  \<open>string\<close> that may hold NUL bytes and is read through \<open>cstr\<close>. A C \<open>int\<close> that is
  only stored, compared or printed is an \<open>int\<close>; \<open>c_int\<close> wraps to 32 bits where the code
  computes with it and the result can leave the range.
\<close>

named_theorems cstring_simps
named_theorems step_simps
named_theorems frame_rules
named_theorems triple_rules

type_synonym u8 = "8 word"
type_synonym u16 = "16 word"
type_synonym u32 = "32 word"
type_synonym u64 = "64 word"

section \<open>Integers\<close>

definition int_min :: int where "int_min = - 2147483648"
definition int_max :: int where "int_max = 2147483647"

definition c_int :: "int \<Rightarrow> int" where
  "c_int x = signed_take_bit 31 x"

text \<open>The range of a C \<open>int\<close> (and of \<open>long\<close>: both have 32 bits on the console).\<close>

definition is_c_int :: "int \<Rightarrow> bool" where
  "is_c_int x \<longleftrightarrow> int_min \<le> x \<and> x \<le> int_max"

lemma c_int_in_range: "is_c_int (c_int x)"
  using signed_take_bit_int_greater_eq_minus_exp [of 31 x]
    signed_take_bit_int_less_exp [of 31 x]
  by (simp add: is_c_int_def c_int_def int_min_def int_max_def)

lemma c_int_id: "is_c_int x \<Longrightarrow> c_int x = x"
  by (simp add: is_c_int_def c_int_def int_min_def int_max_def signed_take_bit_int_eq_self_iff)

section \<open>C strings\<close>

definition nul :: char where "nul = CHR 0x00"

definition cstr :: "string \<Rightarrow> string" where
  "cstr s = takeWhile (\<lambda>c. c \<noteq> nul) s"

definition is_space :: "char \<Rightarrow> bool" where
  "is_space c \<longleftrightarrow> c \<in> set [CHR '' '', CHR 0x09, CHR 0x0A, CHR 0x0B, CHR 0x0C, CHR 0x0D]"

definition is_digit :: "char \<Rightarrow> bool" where
  "is_digit c \<longleftrightarrow> 48 \<le> (of_char c :: nat) \<and> (of_char c :: nat) \<le> 57"

definition digit_val :: "char \<Rightarrow> int" where
  "digit_val c = of_char c - 48"

definition to_lower :: "char \<Rightarrow> char" where
  "to_lower c =
     (if 65 \<le> (of_char c :: nat) \<and> (of_char c :: nat) \<le> 90
      then char_of ((of_char c :: nat) + 32) else c)"

text \<open>\<open>strcasecmp (a, b) == 0\<close>.\<close>

definition strcaseeq :: "string \<Rightarrow> string \<Rightarrow> bool" where
  "strcaseeq a b \<longleftrightarrow> map to_lower a = map to_lower b"

fun digits_val :: "int \<Rightarrow> string \<Rightarrow> int" where
  "digits_val acc [] = acc"
| "digits_val acc (c # cs) = (if is_digit c then digits_val (10 * acc + digit_val c) cs else acc)"

text \<open>\<open>strtol (s, NULL, 10)\<close> with the 32-bit \<open>long\<close> of the console: leading blanks, a sign,
  digits, and the clamp of an out-of-range value. \<open>atoi\<close> is the same conversion.\<close>

definition clamp_long :: "int \<Rightarrow> int" where
  "clamp_long v = (if v < int_min then int_min else if int_max < v then int_max else v)"

definition strtol10 :: "string \<Rightarrow> int" where
  "strtol10 s =
     (case dropWhile is_space s of
        [] \<Rightarrow> 0
      | c # cs \<Rightarrow>
          if c = CHR ''-'' then clamp_long (- digits_val 0 cs)
          else if c = CHR ''+'' then clamp_long (digits_val 0 cs)
          else clamp_long (digits_val 0 (c # cs)))"

definition atoi :: "string \<Rightarrow> int" where
  "atoi s = strtol10 s"

definition digit_char :: "nat \<Rightarrow> char" where
  "digit_char d = char_of (48 + d)"

fun show_nat :: "nat \<Rightarrow> string" where
  "show_nat n = (if n < 10 then [digit_char n] else show_nat (n div 10) @ [digit_char (n mod 10)])"

declare show_nat.simps [simp del]

text \<open>The conversion \<open>%d\<close> of \<open>printf\<close>.\<close>

definition show_int :: "int \<Rightarrow> string" where
  "show_int i = (if i < 0 then CHR ''-'' # show_nat (nat (- i)) else show_nat (nat i))"

text \<open>\<open>strchr\<close> and \<open>strstr\<close>, as the offset of the first match.\<close>

fun strchr :: "string \<Rightarrow> char \<Rightarrow> nat option" where
  "strchr [] c = None"
| "strchr (x # xs) c = (if x = c then Some 0 else map_option Suc (strchr xs c))"

fun strstr :: "string \<Rightarrow> string \<Rightarrow> nat option" where
  "strstr [] pat = (if pat = [] then Some 0 else None)"
| "strstr (x # xs) pat =
     (if take (length pat) (x # xs) = pat then Some 0 else map_option Suc (strstr xs pat))"

text \<open>What \<open>snprintf (buf, n, ...)\<close> leaves in \<open>buf\<close> of the formatted text \<open>s\<close>.\<close>

definition snprintf_to :: "nat \<Rightarrow> string \<Rightarrow> string" where
  "snprintf_to n s = take (n - 1) s"

section \<open>Facts about the C library functions\<close>

lemma of_char_digit [simp]: "d < 10 \<Longrightarrow> (of_char (digit_char d) :: nat) = 48 + d"
  by (simp add: digit_char_def)

lemma is_digit_digit_char [simp]: "d < 10 \<Longrightarrow> is_digit (digit_char d)"
  by (simp add: is_digit_def)

lemma digit_val_digit_char [simp]: "d < 10 \<Longrightarrow> digit_val (digit_char d) = int d"
  using of_nat_of_char [of "digit_char d", where ?'a = int] by (simp add: digit_val_def)

lemma is_digit_not_space [simp]: "is_digit c \<Longrightarrow> \<not> is_space c"
  by (auto simp: is_digit_def is_space_def)

lemma is_digit_not_sign [simp]: "is_digit c \<Longrightarrow> c \<noteq> CHR ''-'' \<and> c \<noteq> CHR ''+''"
  by (auto simp: is_digit_def)

lemma show_nat_nonempty [simp]: "show_nat n \<noteq> []"
  by (subst show_nat.simps) simp

lemma show_nat_digits: "c \<in> set (show_nat n) \<Longrightarrow> is_digit c"
proof (induction n rule: show_nat.induct)
  case (1 n)
  show ?case
  proof (cases "n < 10")
    case True
    with "1.prems" show ?thesis by (simp add: show_nat.simps [of n])
  next
    case False
    with "1" show ?thesis by (auto simp: show_nat.simps [of n])
  qed
qed

lemma digits_val_append:
  "(\<And>c. c \<in> set xs \<Longrightarrow> is_digit c) \<Longrightarrow> digits_val acc (xs @ ys) = digits_val (digits_val acc xs) ys"
  by (induction xs arbitrary: acc) auto

definition no_digit_head :: "string \<Rightarrow> bool" where
  "no_digit_head s \<longleftrightarrow> (case s of [] \<Rightarrow> True | c # _ \<Rightarrow> \<not> is_digit c)"

lemma digits_val_stop: "no_digit_head s \<Longrightarrow> digits_val acc s = acc"
  by (cases s) (auto simp: no_digit_head_def)

lemma digits_val_show_nat: "digits_val 0 (show_nat n) = int n"
proof (induction n rule: show_nat.induct)
  case (1 n)
  show ?case
  proof (cases "n < 10")
    case True
    then show ?thesis by (simp add: show_nat.simps [of n])
  next
    case False
    then have "digits_val 0 (show_nat n) = 10 * int (n div 10) + int (n mod 10)"
      using "1.IH" by (simp add: show_nat.simps [of n] digits_val_append show_nat_digits)
    also have "\<dots> = int n" by presburger
    finally show ?thesis .
  qed
qed

lemma digits_val_show_nat_rest:
  "no_digit_head s \<Longrightarrow> digits_val 0 (show_nat n @ s) = int n"
  by (simp add: digits_val_append show_nat_digits digits_val_show_nat digits_val_stop)

lemma clamp_long_id: "is_c_int v \<Longrightarrow> clamp_long v = v"
  by (simp add: is_c_int_def clamp_long_def)

lemma clamp_long_range: "is_c_int (clamp_long v)"
  by (simp add: is_c_int_def clamp_long_def int_min_def int_max_def)

lemma is_c_int_0 [simp]: "is_c_int 0"
  by (simp add: is_c_int_def int_min_def int_max_def)

lemma atoi_range: "is_c_int (atoi s)"
  by (simp add: atoi_def strtol10_def clamp_long_range split: list.split)

lemma atoi_show_nat_rest:
  assumes "no_digit_head s" and "is_c_int (int n)"
  shows "atoi (show_nat n @ s) = int n"
proof -
  obtain c cs where c: "show_nat n = c # cs" by (cases "show_nat n") auto
  then have d: "is_digit c" using show_nat_digits [of c n] by simp
  from c d have "atoi (show_nat n @ s) = clamp_long (digits_val 0 (show_nat n @ s))"
    by (simp add: atoi_def strtol10_def)
  with assms show ?thesis by (simp add: digits_val_show_nat_rest clamp_long_id)
qed

text \<open>What \<open>%d\<close> prints, \<open>atoi\<close> reads back.\<close>

lemma atoi_show_int_rest:
  assumes "no_digit_head s" and "is_c_int i"
  shows "atoi (show_int i @ s) = i"
proof (cases "i < 0")
  case True
  then have "atoi (show_int i @ s) = clamp_long (- digits_val 0 (show_nat (nat (- i)) @ s))"
    by (simp add: show_int_def atoi_def strtol10_def is_space_def)
  with True assms show ?thesis by (simp add: digits_val_show_nat_rest clamp_long_id)
next
  case False
  with assms show ?thesis by (simp add: show_int_def atoi_show_nat_rest)
qed

lemma atoi_show_int [cstring_simps]: "is_c_int i \<Longrightarrow> atoi (show_int i) = i"
  using atoi_show_int_rest [of "[]" i] by (simp add: no_digit_head_def)

lemma show_int_nonempty [simp]: "show_int i \<noteq> []"
  by (simp add: show_int_def)

lemma show_int_chars: "c \<in> set (show_int i) \<Longrightarrow> is_digit c \<or> c = CHR ''-''"
  by (auto simp: show_int_def dest: show_nat_digits split: if_splits)

lemma length_show_nat: "n < 10 ^ k \<Longrightarrow> 0 < k \<Longrightarrow> length (show_nat n) \<le> k"
proof (induction k arbitrary: n)
  case 0
  then show ?case by simp
next
  case (Suc k)
  show ?case
  proof (cases "n < 10")
    case True
    then show ?thesis by (simp add: show_nat.simps [of n])
  next
    case False
    then have "0 < k" using Suc.prems(1) by (cases k) auto
    moreover have "n div 10 < 10 ^ k" using Suc.prems(1) by auto
    ultimately have "length (show_nat (n div 10)) \<le> k" using Suc.IH by blast
    with False show ?thesis by (simp add: show_nat.simps [of n])
  qed
qed

lemma length_show_int: "is_c_int i \<Longrightarrow> length (show_int i) \<le> 11"
proof -
  assume i: "is_c_int i"
  then have "nat (- i) < 10 ^ 10" and "nat i < 10 ^ 10"
    by (auto simp: is_c_int_def int_min_def int_max_def)
  then show ?thesis
    using length_show_nat [of "nat (- i)" 10] length_show_nat [of "nat i" 10]
    by (simp add: show_int_def)
qed

lemma length_snprintf_to: "0 < n \<Longrightarrow> length (snprintf_to n s) < n"
  by (auto simp: snprintf_to_def)

lemma snprintf_to_fits [cstring_simps]: "length s < n \<Longrightarrow> snprintf_to n s = s"
  by (auto simp: snprintf_to_def)

lemma strchr_Some_nth: "strchr s c = Some i \<Longrightarrow> i < length s \<and> s ! i = c"
  by (induction s arbitrary: i) (auto split: if_splits)

lemma strchr_first: "strchr s c = Some i \<Longrightarrow> c \<notin> set (take i s)"
proof (induction s arbitrary: i)
  case Nil
  then show ?case by simp
next
  case (Cons x xs)
  then show ?case by (cases i) (auto split: if_splits)
qed

lemma strchr_None [cstring_simps]: "strchr s c = None \<longleftrightarrow> c \<notin> set s"
  by (induction s) auto

lemma strchr_append [cstring_simps]: "c \<notin> set s \<Longrightarrow> strchr (s @ c # t) c = Some (length s)"
  by (induction s) auto

lemma strstr_Some_bound: "strstr s p = Some i \<Longrightarrow> i + length p \<le> length s"
proof (induction s arbitrary: i)
  case Nil
  then show ?case by (auto split: if_splits)
next
  case (Cons x xs)
  show ?case
  proof (cases "take (length p) (x # xs) = p")
    case True
    then have "length p = min (length (x # xs)) (length p)" by (metis length_take)
    with True Cons.prems show ?thesis by simp
  next
    case False
    with Cons.prems obtain j where "strstr xs p = Some j" and "i = Suc j" by auto
    with Cons.IH [of j] show ?thesis by simp
  qed
qed

lemma strstr_Some_match: "strstr s p = Some i \<Longrightarrow> take (length p) (drop i s) = p"
proof (induction s arbitrary: i)
  case Nil
  then show ?case by (auto split: if_splits)
next
  case (Cons x xs)
  then show ?case by (auto split: if_splits)
qed

lemma cstr_id [cstring_simps]: "nul \<notin> set s \<Longrightarrow> cstr s = s"
  by (auto simp: cstr_def takeWhile_eq_all_conv)

lemma cstr_prefix: "\<exists>t. s = cstr s @ t"
  by (metis cstr_def takeWhile_dropWhile_id)

lemma cstr_no_nul [simp]: "nul \<notin> set (cstr s)"
  by (auto simp: cstr_def dest: set_takeWhileD)

lemma cstr_append: "nul \<notin> set a \<Longrightarrow> cstr (a @ b) = a @ cstr b"
  by (induction a) (auto simp: cstr_def)

lemma cstr_nul [simp]: "cstr (nul # s) = []"
  by (simp add: cstr_def)

section \<open>State and early return\<close>

text \<open>
  A procedure that may leave early (\<open>return\<close>, \<open>goto cleanup\<close>) takes the state and gives
  the new state with either the code it left with (\<open>Inl\<close>) or the value it goes on with
  (\<open>Inr\<close>). \<open>bindE\<close> is sequencing, \<open>liftE\<close> a step that cannot leave.
\<close>

definition bindE :: "('s \<Rightarrow> ('e + 'a) \<times> 's) \<Rightarrow> ('a \<Rightarrow> 's \<Rightarrow> ('e + 'b) \<times> 's) \<Rightarrow> 's \<Rightarrow> ('e + 'b) \<times> 's" where
  "bindE m f s = (case m s of (Inl e, s') \<Rightarrow> (Inl e, s') | (Inr a, s') \<Rightarrow> f a s')"

definition retE :: "'a \<Rightarrow> 's \<Rightarrow> ('e + 'a) \<times> 's" where
  "retE a s = (Inr a, s)"

definition leaveE :: "'e \<Rightarrow> 's \<Rightarrow> ('e + 'a) \<times> 's" where
  "leaveE e s = (Inl e, s)"

text \<open>Reading a part of the state.\<close>

definition asks :: "('s \<Rightarrow> 'a) \<Rightarrow> 's \<Rightarrow> ('e + 'a) \<times> 's" where
  "asks f s = (Inr (f s), s)"

definition liftE :: "('s \<Rightarrow> 'a \<times> 's) \<Rightarrow> 's \<Rightarrow> ('e + 'a) \<times> 's" where
  "liftE m s = (case m s of (a, s') \<Rightarrow> (Inr a, s'))"

lemma bindE_Inr_D:
  "bindE m f s = (Inr b, s') \<Longrightarrow> \<exists>a t. m s = (Inr a, t) \<and> f a t = (Inr b, s')"
  by (auto simp: bindE_def split: prod.splits sum.splits)

lemma bindE_InrE:
  "bindE m f s = (Inr b, s') \<Longrightarrow> (\<And>a t. m s = (Inr a, t) \<Longrightarrow> f a t = (Inr b, s') \<Longrightarrow> thesis) \<Longrightarrow> thesis"
  by (blast dest: bindE_Inr_D)

lemma bindE_Inr_iff: "bindE m f s = (Inr b, s') \<longleftrightarrow> (\<exists>a t. m s = (Inr a, t) \<and> f a t = (Inr b, s'))"
  by (auto simp: bindE_def split: prod.splits sum.splits)

lemma bindE_inv:
  assumes "\<And>r t. m s = (r, t) \<Longrightarrow> P t"
    and "\<And>a t r u. m s = (Inr a, t) \<Longrightarrow> P t \<Longrightarrow> f a t = (r, u) \<Longrightarrow> P u"
    and "bindE m f s = (r, s')"
  shows "P s'"
  using assms by (auto simp: bindE_def split: prod.splits sum.splits)

lemma bindE_retE [simp]: "bindE (retE a) f s = f a s"
  by (simp add: bindE_def retE_def)

lemma bindE_asks [simp]: "bindE (asks f) g s = g (f s) s"
  by (simp add: bindE_def asks_def)

lemma bindE_leaveE [simp]: "bindE (leaveE e) f s = (Inl e, s)"
  by (simp add: bindE_def leaveE_def)

text \<open>\<open>frames v m\<close>: the procedure \<open>m\<close> leaves the part \<open>v\<close> of the state as it is, on every path.\<close>

definition frames :: "('s \<Rightarrow> 'k) \<Rightarrow> ('s \<Rightarrow> ('e + 'a) \<times> 's) \<Rightarrow> bool" where
  "frames v m \<longleftrightarrow> (\<forall>s. v (snd (m s)) = v s)"

lemma framesD: "frames v m \<Longrightarrow> m s = (r, s') \<Longrightarrow> v s' = v s"
  by (auto simp: frames_def dest: spec [of _ s])

lemma frames_bindE [frame_rules]:
  "frames v m \<Longrightarrow> (\<And>a. frames v (f a)) \<Longrightarrow> frames v (bindE m f)"
  by (auto simp: frames_def bindE_def split: prod.split sum.split) (metis snd_conv)+

lemma frames_retE [frame_rules]: "frames v (retE a)" by (simp add: frames_def retE_def)

lemma frames_asks [frame_rules]: "frames v (asks f)" by (simp add: frames_def asks_def)

lemma frames_leaveE [frame_rules]: "frames v (leaveE e)" by (simp add: frames_def leaveE_def)

lemma frames_if [frame_rules]:
  "(b \<Longrightarrow> frames v m) \<Longrightarrow> (\<not> b \<Longrightarrow> frames v n) \<Longrightarrow> frames v (if b then m else n)"
  by simp

lemma frames_option [frame_rules]:
  "(x = None \<Longrightarrow> frames v m) \<Longrightarrow> (\<And>a. x = Some a \<Longrightarrow> frames v (f a)) \<Longrightarrow>
     frames v (case x of None \<Rightarrow> m | Some a \<Rightarrow> f a)"
  by (cases x) auto

lemma frames_pair [frame_rules]:
  "(\<And>a b. x = (a, b) \<Longrightarrow> frames v (f a b)) \<Longrightarrow> frames v (case x of (a, b) \<Rightarrow> f a b)"
  by (cases x) auto

text \<open>
  \<open>triple P m Q E\<close>: from a state with \<open>P\<close> the procedure ends with a value and a state in \<open>Q\<close>, or
  leaves early with a code and a state in \<open>E\<close>.
\<close>

definition triple ::
  "('s \<Rightarrow> bool) \<Rightarrow> ('s \<Rightarrow> ('e + 'a) \<times> 's) \<Rightarrow> ('a \<Rightarrow> 's \<Rightarrow> bool) \<Rightarrow> ('e \<Rightarrow> 's \<Rightarrow> bool) \<Rightarrow> bool" where
  "triple P m Q E \<longleftrightarrow> (\<forall>s. P s \<longrightarrow> (case m s of (Inl e, t) \<Rightarrow> E e t | (Inr a, t) \<Rightarrow> Q a t))"

lemma triple_bindE [triple_rules]:
  "triple P m R E \<Longrightarrow> (\<And>a. triple (R a) (f a) Q E) \<Longrightarrow> triple P (bindE m f) Q E"
proof -
  assume m: "triple P m R E" and f: "\<And>a. triple (R a) (f a) Q E"
  have "case bindE m f s of (Inl e, t) \<Rightarrow> E e t | (Inr a, t) \<Rightarrow> Q a t" if "P s" for s
  proof -
    obtain x t where x: "m s = (x, t)" by (cases "m s")
    show ?thesis
    proof (cases x)
      case (Inl e)
      with m that x show ?thesis by (auto simp: triple_def bindE_def dest: spec [of _ s])
    next
      case (Inr a)
      with m that x have "R a t" by (auto simp: triple_def dest: spec [of _ s])
      with f [of a] Inr x show ?thesis by (simp add: triple_def bindE_def)
    qed
  qed
  then show ?thesis by (simp add: triple_def)
qed

lemma triple_retE: "(\<And>s. P s \<Longrightarrow> Q a s) \<Longrightarrow> triple P (retE a) Q E"
  by (simp add: triple_def retE_def)

lemma triple_leaveE: "(\<And>s. P s \<Longrightarrow> E e s) \<Longrightarrow> triple P (leaveE e) Q E"
  by (simp add: triple_def leaveE_def)

lemma triple_if [triple_rules]:
  "(b \<Longrightarrow> triple P m Q E) \<Longrightarrow> (\<not> b \<Longrightarrow> triple P n Q E) \<Longrightarrow> triple P (if b then m else n) Q E"
  by simp

lemma triple_option [triple_rules]:
  "(x = None \<Longrightarrow> triple P m Q E) \<Longrightarrow> (\<And>a. x = Some a \<Longrightarrow> triple P (f a) Q E) \<Longrightarrow>
     triple P (case x of None \<Rightarrow> m | Some a \<Rightarrow> f a) Q E"
  by (cases x) auto

lemma triple_pair [triple_rules]:
  "(\<And>a b. x = (a, b) \<Longrightarrow> triple P (f a b) Q E) \<Longrightarrow> triple P (case x of (a, b) \<Rightarrow> f a b) Q E"
  by (cases x) auto

lemma triple_asks: "triple P (asks f) (\<lambda>a s. P s \<and> a = f s) E"
  by (simp add: triple_def asks_def)

lemma triple_conseq:
  "triple P m Q E \<Longrightarrow> (\<And>s. P' s \<Longrightarrow> P s) \<Longrightarrow> (\<And>a s. Q a s \<Longrightarrow> Q' a s) \<Longrightarrow> (\<And>e s. E e s \<Longrightarrow> E' e s) \<Longrightarrow>
     triple P' m Q' E'"
  by (fastforce simp: triple_def split: prod.splits sum.splits)

lemma triple_frames: "frames v m \<Longrightarrow> triple (\<lambda>s. P (v s)) m (\<lambda>_ s. P (v s)) (\<lambda>_ s. P (v s))"
  by (auto simp: frames_def triple_def split: prod.split sum.split) (metis snd_conv)+

lemma tripleD:
  "triple P m Q E \<Longrightarrow> P s \<Longrightarrow> m s = (r, t) \<Longrightarrow> (case r of Inl e \<Rightarrow> E e t | Inr a \<Rightarrow> Q a t)"
  by (auto simp: triple_def split: sum.splits)

text \<open>Division of \<open>int\<close>s in C, towards zero.\<close>

definition c_div :: "int \<Rightarrow> int \<Rightarrow> int" where
  "c_div a b = sgn a * sgn b * (\<bar>a\<bar> div \<bar>b\<bar>)"

section \<open>Lists\<close>

lemma take_append_drop_middle:
  "i + n \<le> length xs \<Longrightarrow> take i xs @ take n (drop i xs) @ drop (i + n) xs = xs"
  by (metis add.commute append_take_drop_id drop_drop)

text \<open>A word as it lies in the memory of the console, most significant byte first.\<close>

definition be32 :: "u32 \<Rightarrow> u8 list" where
  "be32 x = [ucast (drop_bit 24 x), ucast (drop_bit 16 x), ucast (drop_bit 8 x), ucast x]"

text \<open>Overwriting \<open>length ys\<close> elements from offset \<open>i\<close>: \<open>memcpy (xs + i, ys, n)\<close>.\<close>

definition blit :: "'a list \<Rightarrow> nat \<Rightarrow> 'a list \<Rightarrow> 'a list" where
  "blit xs i ys = take i xs @ ys @ drop (i + length ys) xs"

lemma length_blit [simp]: "i + length ys \<le> length xs \<Longrightarrow> length (blit xs i ys) = length xs"
  by (simp add: blit_def)

lemma take_blit [simp]: "i \<le> length xs \<Longrightarrow> take (i + length ys) (blit xs i ys) = take i xs @ ys"
  by (simp add: blit_def)

lemma nth_blit:
  assumes "i + length ys \<le> length xs" and "k < length xs"
  shows "blit xs i ys ! k = (if i \<le> k \<and> k < i + length ys then ys ! (k - i) else xs ! k)"
  using assms by (auto simp: blit_def nth_append)

section \<open>Rounding down to a power of two\<close>

unbundle bit_operations_syntax

lemma and_not_mask_word: "(v::'a::len word) AND NOT (mask n) = push_bit n (drop_bit n v)"
  by (rule bit_eqI) (auto simp: bit_and_iff bit_not_iff bit_mask_iff bit_push_bit_iff bit_drop_bit_eq bit_imp_le_length)

lemma and_not_mask_int: "(v::int) AND NOT (mask n) = v div 2 ^ n * 2 ^ n"
proof -
  have "v AND NOT (mask n) = push_bit n (drop_bit n v)"
    by (rule bit_eqI) (auto simp: bit_and_iff bit_not_iff bit_mask_iff bit_push_bit_iff bit_drop_bit_eq)
  then show ?thesis by (simp add: push_bit_eq_mult drop_bit_eq_div)
qed

lemma unat_and_not_mask: "unat ((v::'a::len word) AND NOT (mask n)) = unat v div 2 ^ n * 2 ^ n"
proof -
  have "unat v div 2 ^ n * 2 ^ n < 2 ^ LENGTH('a)"
    by (rule le_less_trans [OF div_times_less_eq_dividend unsigned_less])
  then show ?thesis
    unfolding and_not_mask_word unsigned_push_bit_eq unsigned_drop_bit_eq
    by (simp add: push_bit_eq_mult drop_bit_eq_div take_bit_eq_mod)
qed

end
