(* ===== verification/Compat.thy ===== *)
theory Compat
  imports Prelude
begin

text \<open>
  \<open>src/wii/compat.c\<close>: \<open>getdelim\<close> and \<open>getline\<close> over the unread bytes of a file. The line
  buffer is the caller's and lives on between calls, so it is part of the state: \<open>None\<close> is a
  NULL pointer, otherwise all its bytes (its size is their number). \<open>malloc\<close> is a parameter that
  gives the indeterminate bytes of a fresh block, or \<open>None\<close>. A file read error is not modelled:
  \<open>fgetc\<close> fails only at the end of the file.
\<close>

type_synonym allocator = "nat \<Rightarrow> string option"

text \<open>What \<open>malloc\<close> promises when memory is there: blocks of the size asked for.\<close>

definition alloc_ok :: "allocator \<Rightarrow> bool" where
  "alloc_ok malloc \<longleftrightarrow> (\<forall>n. \<exists>b. malloc n = Some b \<and> length b = n)"

definition BUFSIZ :: nat where "BUFSIZ = 1024"

text \<open>The result: the length read or \<open>None\<close> for -1, the buffer, the unread bytes.\<close>

type_synonym line_result = "nat option \<times> string option \<times> string"

fun getdelim_loop :: "allocator \<Rightarrow> char \<Rightarrow> string \<Rightarrow> nat \<Rightarrow> string \<Rightarrow> line_result" where
  "getdelim_loop malloc delimiter buf p [] = (if p = 0 then None else Some p, Some buf, [])"
| "getdelim_loop malloc delimiter buf p (c # inp) =
     (let buf1 = buf[p := c]; p1 = p + 1 in
      if c = delimiter then (Some p1, Some (buf1[p1 := nul]), inp)
      else if length buf1 \<le> p1 + 2 then
        (case malloc (2 * length buf1) of
           None \<Rightarrow> (None, Some buf1, inp)
         | Some junk \<Rightarrow>
             getdelim_loop malloc delimiter (buf1 @ drop (length buf1) junk) p1 inp)
      else getdelim_loop malloc delimiter buf1 p1 inp)"

definition getdelim :: "allocator \<Rightarrow> string option \<Rightarrow> char \<Rightarrow> string \<Rightarrow> line_result" where
  "getdelim malloc buf delimiter inp =
     (case buf of
        Some (b # bs) \<Rightarrow> getdelim_loop malloc delimiter (b # bs) 0 inp
      | _ \<Rightarrow> (case malloc BUFSIZ of
               None \<Rightarrow> (None, None, inp)
             | Some b \<Rightarrow> getdelim_loop malloc delimiter b 0 inp))"

definition getline :: "allocator \<Rightarrow> string option \<Rightarrow> string \<Rightarrow> line_result" where
  "getline malloc buf inp = getdelim malloc buf (CHR ''\<newline>'') inp"

section \<open>What a call consumes\<close>

lemma getdelim_loop_rest:
  "getdelim_loop malloc d buf p inp = (r, buf', rest) \<Longrightarrow> \<exists>used. inp = used @ rest"
proof (induction malloc d buf p inp rule: getdelim_loop.induct)
  case (1 malloc d buf p)
  then show ?case by simp
next
  case (2 malloc d buf p c inp)
  then have "\<exists>used. inp = used @ rest"
    by (auto simp: Let_def split: if_splits option.splits)
  then show ?case by (metis append_Cons)
qed

lemma getdelim_loop_progress:
  "getdelim_loop malloc d buf p inp = (Some n, buf', rest) \<Longrightarrow> inp \<noteq> [] \<Longrightarrow>
     length rest < length inp"
proof (induction malloc d buf p inp arbitrary: buf' rule: getdelim_loop.induct)
  case (1 malloc d buf p)
  then show ?case by simp
next
  case (2 malloc d buf p c inp)
  then show ?case
    by (auto simp: Let_def less_Suc_eq_le split: if_splits option.splits
        dest!: getdelim_loop_rest)
qed

lemma getline_progress:
  assumes "getline malloc buf inp = (Some n, buf', rest)"
  shows "length rest < length inp"
proof -
  have "inp \<noteq> []"
    using assms by (auto simp: getline_def getdelim_def split: option.splits list.splits if_splits)
  with assms show ?thesis
    by (auto simp: getline_def getdelim_def split: option.splits list.splits
        dest: getdelim_loop_progress)
qed

section \<open>A terminated line is read whole\<close>

text \<open>
  The loop keeps two bytes free behind the write position; a line that ends with the delimiter
  is then stored with its terminator, whatever the buffer held before.
\<close>

lemma take_update_snoc: "p < length buf \<Longrightarrow> take (Suc p) (buf[p := c]) = take p buf @ [c]"
  by (simp add: take_Suc_conv_app_nth)

lemma getdelim_loop_line:
  assumes "alloc_ok malloc" and "d \<notin> set xs" and "p + 2 < length buf"
  shows "\<exists>buf'. getdelim_loop malloc d buf p (xs @ d # rest)
                  = (Some (p + length xs + 1), Some buf', rest) \<and>
                take (p + length xs + 2) buf' = take p buf @ xs @ [d, nul] \<and>
                length buf \<le> length buf'"
  using assms(2,3)
proof (induction xs arbitrary: buf p)
  case Nil
  then show ?case
    by (auto simp: Let_def take_Suc_conv_app_nth nth_list_update)
next
  case (Cons x xs)
  let ?b1 = "buf[p := x]"
  have x: "x \<noteq> d" and xs: "d \<notin> set xs" using Cons.prems by auto
  obtain b2 where b2: "getdelim_loop malloc d buf p ((x # xs) @ d # rest)
      = getdelim_loop malloc d b2 (p + 1) (xs @ d # rest)"
    and len: "p + 1 + 2 < length b2" "length buf \<le> length b2"
    and tk: "take (p + 1) b2 = take p buf @ [x]"
  proof (cases "length ?b1 \<le> p + 1 + 2")
    case True
    obtain j where j: "malloc (2 * length ?b1) = Some j" "length j = 2 * length ?b1"
      using assms(1) unfolding alloc_ok_def by blast
    show ?thesis
      using that [of "?b1 @ drop (length ?b1) j"] True x j Cons.prems
      by (simp add: Let_def take_update_snoc)
  next
    case False
    then show ?thesis
      using that [of ?b1] x Cons.prems by (simp add: Let_def take_update_snoc)
  qed
  from Cons.IH [OF xs len(1)] obtain buf' where
    r: "getdelim_loop malloc d b2 (p + 1) (xs @ d # rest)
        = (Some (p + 1 + length xs + 1), Some buf', rest)"
    and t: "take (p + 1 + length xs + 2) buf' = take (p + 1) b2 @ xs @ [d, nul]"
    and l: "length b2 \<le> length buf'" by blast
  have "take (p + length (x # xs) + 2) buf' = take p buf @ (x # xs) @ [d, nul]"
    using t tk by simp
  then show ?case using b2 r l len(2) by fastforce
qed

text \<open>Buffers as \<open>getline\<close> leaves them: none yet, or at least the first size.\<close>

definition line_buf_ok :: "string option \<Rightarrow> bool" where
  "line_buf_ok buf \<longleftrightarrow> (case buf of None \<Rightarrow> True | Some b \<Rightarrow> BUFSIZ \<le> length b)"

lemma cstr_take:
  assumes "take (Suc (length xs)) b = xs @ [nul]" and "nul \<notin> set xs"
  shows "cstr b = xs"
proof -
  have "b = xs @ nul # drop (Suc (length xs)) b"
    using assms(1) by (metis append.assoc append_Cons append_Nil append_take_drop_id)
  then show ?thesis using assms(2)
    by (metis (mono_tags, lifting) cstr_def takeWhile_append2 takeWhile.simps(2) append_Nil2)
qed

lemma getline_line:
  assumes "alloc_ok malloc" and "line_buf_ok buf"
    and "CHR ''\<newline>'' \<notin> set xs" and "nul \<notin> set xs"
  shows "\<exists>b. getline malloc buf (xs @ CHR ''\<newline>'' # rest) = (Some (length xs + 1), Some b, rest) \<and>
             cstr b = xs @ [CHR ''\<newline>''] \<and> line_buf_ok (Some b)"
proof -
  obtain b0 where b0: "getline malloc buf (xs @ CHR ''\<newline>'' # rest)
      = getdelim_loop malloc (CHR ''\<newline>'') b0 0 (xs @ CHR ''\<newline>'' # rest)" "BUFSIZ \<le> length b0"
  proof (cases "buf = None")
    case True
    obtain j where "malloc BUFSIZ = Some j" "length j = BUFSIZ"
      using assms(1) unfolding alloc_ok_def by blast
    then show ?thesis using that [of j] True by (simp add: getline_def getdelim_def)
  next
    case False
    then obtain b where b: "buf = Some b" by auto
    with assms(2) have "BUFSIZ \<le> length b" by (simp add: line_buf_ok_def)
    with b show ?thesis
      using that [of b] by (cases b) (auto simp: getline_def getdelim_def BUFSIZ_def)
  qed
  then have "0 + 2 < length b0" by (simp add: BUFSIZ_def)
  from getdelim_loop_line [OF assms(1,3) this, of rest] obtain b where
    r: "getdelim_loop malloc (CHR ''\<newline>'') b0 0 (xs @ CHR ''\<newline>'' # rest)
        = (Some (length xs + 1), Some b, rest)"
    and t: "take (length xs + 2) b = xs @ [CHR ''\<newline>'', nul]"
    and l: "length b0 \<le> length b" by auto
  from t assms(4) have "cstr b = xs @ [CHR ''\<newline>'']"
    using cstr_take [of "xs @ [CHR ''\<newline>'']" b] by (simp add: nul_def)
  with r l b0 show ?thesis by (simp add: line_buf_ok_def)
qed

text \<open>At the end of the input the call gives -1.\<close>

lemma getline_eof:
  assumes "alloc_ok malloc" and "line_buf_ok buf"
  shows "\<exists>b. getline malloc buf [] = (None, Some b, [])"
proof (cases buf)
  case None
  obtain j where "malloc BUFSIZ = Some j"
    using assms(1) unfolding alloc_ok_def by blast
  with None show ?thesis by (simp add: getline_def getdelim_def)
next
  case (Some b)
  with assms(2) show ?thesis
    by (cases b) (auto simp: getline_def getdelim_def line_buf_ok_def BUFSIZ_def)
qed

end
