(* ===== verification/Config.thy ===== *)
theory Config
  imports Complex_Main Compat
begin

text \<open>
  \<open>src/config.c\<close> and \<open>src/config.h\<close>, in the build for the console (\<open>__WII__\<close> defined): the
  configuration record, the parser of \<open>moonlight.conf\<close>, the writer, the defaults and the
  bitrate table. The file system is a state with a map of file contents; what \<open>fopen\<close> and
  \<open>mkdir\<close> answer is part of it. \<open>exit\<close> is an outcome.
\<close>

unbundle bit_operations_syntax

section \<open>Data\<close>

datatype 'a outcome = Done 'a | Exit int | Null_deref | Out_of_fuel

datatype codecs = CODEC_UNSPECIFIED | CODEC_H264 | CODEC_HEVC | CODEC_AV1

definition STREAM_CFG_LOCAL :: int where "STREAM_CFG_LOCAL = 0"
definition STREAM_CFG_REMOTE :: int where "STREAM_CFG_REMOTE = 1"
definition STREAM_CFG_AUTO :: int where "STREAM_CFG_AUTO = 2"

definition ENCFLG_NONE :: int where "ENCFLG_NONE = 0"
definition ENCFLG_AUDIO :: int where "ENCFLG_AUDIO = 1"
definition ENCFLG_VIDEO :: int where "ENCFLG_VIDEO = 2"

definition MAKE_AUDIO_CONFIGURATION :: "int \<Rightarrow> int \<Rightarrow> int" where
  "MAKE_AUDIO_CONFIGURATION channelCount channelMask =
     push_bit 16 channelMask OR push_bit 8 channelCount OR 202"

definition AUDIO_CONFIGURATION_STEREO :: int where
  "AUDIO_CONFIGURATION_STEREO = MAKE_AUDIO_CONFIGURATION 2 3"
definition AUDIO_CONFIGURATION_51_SURROUND :: int where
  "AUDIO_CONFIGURATION_51_SURROUND = MAKE_AUDIO_CONFIGURATION 6 63"
definition AUDIO_CONFIGURATION_71_SURROUND :: int where
  "AUDIO_CONFIGURATION_71_SURROUND = MAKE_AUDIO_CONFIGURATION 8 1599"

definition SCM_H264 :: int where "SCM_H264 = 1"

record stream_configuration =
  st_width :: int
  st_height :: int
  st_fps :: int
  st_bitrate :: int
  st_packetSize :: int
  st_streamingRemotely :: int
  st_audioConfiguration :: int
  st_supportedVideoFormats :: int
  st_clientRefreshRateX100 :: int
  st_colorSpace :: int
  st_colorRange :: int
  st_encryptionFlags :: int
  st_remoteInputAesKey :: "u8 list"
  st_remoteInputAesIv :: "u8 list"

definition LiInitializeStreamConfiguration :: stream_configuration where
  "LiInitializeStreamConfiguration =
     \<lparr>st_width = 0, st_height = 0, st_fps = 0, st_bitrate = 0, st_packetSize = 0,
      st_streamingRemotely = 0, st_audioConfiguration = 0, st_supportedVideoFormats = 0,
      st_clientRefreshRateX100 = 0, st_colorSpace = 0, st_colorRange = 0,
      st_encryptionFlags = 0, st_remoteInputAesKey = replicate 16 0,
      st_remoteInputAesIv = replicate 16 0\<rparr>"

definition MAX_INPUTS :: nat where "MAX_INPUTS = 6"

text \<open>
  The array \<open>inputs\<close> with its count is the list of its first \<open>inputsCount\<close> entries. The globals
  \<open>inputAdded\<close> (config.c) and \<open>autostream\<close> (input.c), which the parser also writes, are the last
  two fields.
\<close>

record configuration =
  stream :: stream_configuration
  debug_level :: int
  app :: string
  action :: "string option"
  address :: "string option"
  mapping :: string
  platform :: string
  audio_device :: "string option"
  config_file :: "string option"
  key_dir :: string
  sops :: bool
  localaudio :: bool
  fullscreen :: bool
  rotate :: int
  unsupported :: bool
  quitappafter :: bool
  viewonly :: bool
  mouse_emulation :: bool
  inputs :: "string list"
  codec :: codecs
  hdr :: bool
  pin :: int
  port :: u16
  osd_overscan :: int
  tls_test :: "string option"
  inputAdded :: bool
  autostream :: bool

text \<open>The file system: file contents, and which paths \<open>fopen\<close> can open for writing.\<close>

record filesystem =
  fs_files :: "string \<Rightarrow> string option"
  fs_can_write :: "string \<Rightarrow> bool"

definition fs_write :: "string \<Rightarrow> string \<Rightarrow> filesystem \<Rightarrow> filesystem option" where
  "fs_write path text fs =
     (if fs_can_write fs path then Some (fs\<lparr>fs_files := (fs_files fs)(path \<mapsto> text)\<rparr>) else None)"

definition MOONLIGHT_WII_PATH :: string where "MOONLIGHT_WII_PATH = ''/moonlight''"

section \<open>Directories and the first configuration file\<close>

text \<open>
  \<open>mkdir_ok made p\<close> stands for \<open>mkdir (p, 0775) == 0 || errno == EEXIST\<close> after the calls on
  \<open>made\<close>; the directories tried are returned in order. \<open>wii_mkdirs\<close> makes every prefix that ends
  before a \<open>'/'\<close>, the empty one included, and then the whole path. \<open>path_max\<close> is the
  platform's \<open>PATH_MAX\<close>, the size of the copy of the path.
\<close>

fun mkdirs_at :: "(string list \<Rightarrow> string \<Rightarrow> bool) \<Rightarrow> string \<Rightarrow> string \<Rightarrow> string list \<Rightarrow> bool \<times> string list" where
  "mkdirs_at mkdir_ok done [] made = (mkdir_ok made done, made @ [done])"
| "mkdirs_at mkdir_ok done (c # cs) made =
     (if c = CHR ''/'' then
        (if mkdir_ok made done then mkdirs_at mkdir_ok (done @ [c]) cs (made @ [done])
         else (False, made @ [done]))
      else mkdirs_at mkdir_ok (done @ [c]) cs made)"

definition wii_mkdirs :: "nat \<Rightarrow> (string list \<Rightarrow> string \<Rightarrow> bool) \<Rightarrow> string \<Rightarrow> string list \<Rightarrow> bool \<times> string list" where
  "wii_mkdirs path_max mkdir_ok path made = mkdirs_at mkdir_ok [] (take (path_max - 1) path) made"

definition initial_config_text :: string where
  "initial_config_text =
     ''# Moonlight Wii configuration\<newline>'' @
     ''# Set the IP address of your Sunshine/GFE PC, then reboot.\<newline>'' @
     ''#address = 192.168.1.100\<newline>'' @
     ''#app = Steam\<newline>'' @
     ''#osd_overscan = 30\<newline>'' @
     ''#encrypt = none  # none|audio|video|all (video is slow on the Wii)\<newline>'' @
     ''#tls_test = 192.168.1.100:47984\<newline>''"

definition config_path :: string where
  "config_path = MOONLIGHT_WII_PATH @ ''/moonlight.conf''"

definition config_ensure_wii :: "nat \<Rightarrow> (string list \<Rightarrow> string \<Rightarrow> bool) \<Rightarrow> filesystem \<Rightarrow> string list \<times> filesystem" where
  "config_ensure_wii path_max mkdir_ok fs =
     (let (_, made1) = wii_mkdirs path_max mkdir_ok (MOONLIGHT_WII_PATH @ ''/keys'') [];
          (_, made2) = wii_mkdirs path_max mkdir_ok (MOONLIGHT_WII_PATH @ ''/hosts'') made1
      in (made2,
          if fs_files fs config_path = None then
            (case fs_write config_path initial_config_text fs of
               None \<Rightarrow> fs | Some fs' \<Rightarrow> fs')
          else fs))"

section \<open>The option table\<close>

datatype arg_kind = no_argument | required_argument

definition long_options :: "(string \<times> arg_kind \<times> char) list" where
  "long_options =
    [(''720'', no_argument, CHR ''a''),
     (''1080'', no_argument, CHR ''b''),
     (''4k'', no_argument, CHR ''0''),
     (''width'', required_argument, CHR ''c''),
     (''height'', required_argument, CHR ''d''),
     (''bitrate'', required_argument, CHR ''g''),
     (''packetsize'', required_argument, CHR ''h''),
     (''app'', required_argument, CHR ''i''),
     (''input'', required_argument, CHR ''j''),
     (''mapping'', required_argument, CHR ''k''),
     (''nosops'', no_argument, CHR ''l''),
     (''audio'', required_argument, CHR ''m''),
     (''localaudio'', no_argument, CHR ''n''),
     (''config'', required_argument, CHR ''o''),
     (''platform'', required_argument, CHR ''p''),
     (''save'', required_argument, CHR ''q''),
     (''keydir'', required_argument, CHR ''r''),
     (''remote'', required_argument, CHR ''s''),
     (''windowed'', no_argument, CHR ''t''),
     (''surround'', required_argument, CHR ''u''),
     (''fps'', required_argument, CHR ''v''),
     (''codec'', required_argument, CHR ''x''),
     (''nounsupported'', no_argument, CHR ''y''),
     (''quitappafter'', no_argument, CHR ''1''),
     (''viewonly'', no_argument, CHR ''2''),
     (''rotate'', required_argument, CHR ''3''),
     (''verbose'', no_argument, CHR ''z''),
     (''debug'', no_argument, CHR ''Z''),
     (''autostream'', no_argument, CHR ''C''),
     (''nomouseemulation'', no_argument, CHR ''4''),
     (''pin'', required_argument, CHR ''5''),
     (''port'', required_argument, CHR ''6''),
     (''hdr'', no_argument, CHR ''7''),
     (''osd_overscan'', required_argument, CHR ''8''),
     (''tls_test'', required_argument, CHR ''9''),
     (''encrypt'', required_argument, CHR ''e'')]"


section \<open>Parsing\<close>

definition outcome_bind :: "'a outcome \<Rightarrow> ('a \<Rightarrow> 'b outcome) \<Rightarrow> 'b outcome" where
  "outcome_bind m f =
     (case m of Done a \<Rightarrow> f a | Exit e \<Rightarrow> Exit e | Null_deref \<Rightarrow> Null_deref | Out_of_fuel \<Rightarrow> Out_of_fuel)"

text \<open>A use of \<open>value\<close> that dereferences it.\<close>

definition with_value :: "string option \<Rightarrow> (string \<Rightarrow> 'a) \<Rightarrow> 'a outcome" where
  "with_value v f = (case v of None \<Rightarrow> Null_deref | Some s \<Rightarrow> Done (f s))"

definition remote_of :: "string \<Rightarrow> int \<Rightarrow> int" where
  "remote_of v old =
     (if strcaseeq v ''auto'' then STREAM_CFG_AUTO
      else if strcaseeq v ''true'' \<or> strcaseeq v ''yes'' then STREAM_CFG_REMOTE
      else if strcaseeq v ''false'' \<or> strcaseeq v ''no'' then STREAM_CFG_LOCAL
      else old)"

definition surround_of :: "string \<Rightarrow> int \<Rightarrow> int" where
  "surround_of v old =
     (if strcaseeq v ''5.1'' then AUDIO_CONFIGURATION_51_SURROUND
      else if strcaseeq v ''7.1'' then AUDIO_CONFIGURATION_71_SURROUND
      else old)"

definition codec_of :: "string \<Rightarrow> codecs \<Rightarrow> codecs" where
  "codec_of v old =
     (if strcaseeq v ''auto'' then CODEC_UNSPECIFIED
      else if strcaseeq v ''h264'' then CODEC_H264
      else if strcaseeq v ''h265'' \<or> strcaseeq v ''hevc'' then CODEC_HEVC
      else if strcaseeq v ''av1'' then CODEC_AV1
      else old)"

definition encrypt_of :: "string \<Rightarrow> int \<Rightarrow> int" where
  "encrypt_of v old =
     (if strcaseeq v ''none'' then ENCFLG_NONE
      else if strcaseeq v ''audio'' then ENCFLG_AUDIO
      else if strcaseeq v ''video'' then ENCFLG_VIDEO
      else if strcaseeq v ''all'' then ENCFLG_AUDIO OR ENCFLG_VIDEO
      else old)"

definition set_stream :: "(stream_configuration \<Rightarrow> stream_configuration) \<Rightarrow> configuration \<Rightarrow> configuration" where
  "set_stream f cfg = cfg\<lparr>stream := f (stream cfg)\<rparr>"

text \<open>
  \<open>parse_argument\<close>, the \<open>switch\<close> in the source's order. \<open>parse_file\<close> is the call of
  \<open>config_file_parse\<close> in the case \<open>'o'\<close>. In this build the case \<open>'k'\<close> has no body and no
  \<open>break\<close>, so it falls through to \<open>'l'\<close>.
\<close>

definition parse_argument ::
  "(string \<Rightarrow> configuration \<Rightarrow> (bool \<times> configuration) outcome) \<Rightarrow> char \<Rightarrow> string option \<Rightarrow>
     configuration \<Rightarrow> configuration outcome" where
  "parse_argument parse_file c value cfg =
    (if c = CHR ''a'' then Done (set_stream (\<lambda>s. s\<lparr>st_width := 1280, st_height := 720\<rparr>) cfg)
     else if c = CHR ''b'' then Done (set_stream (\<lambda>s. s\<lparr>st_width := 1920, st_height := 1080\<rparr>) cfg)
     else if c = CHR ''0'' then Done (set_stream (\<lambda>s. s\<lparr>st_width := 3840, st_height := 2160\<rparr>) cfg)
     else if c = CHR ''c'' then
       with_value value (\<lambda>v. set_stream (\<lambda>s. s\<lparr>st_width := atoi v\<rparr>) cfg)
     else if c = CHR ''d'' then
       with_value value (\<lambda>v. set_stream (\<lambda>s. s\<lparr>st_height := atoi v\<rparr>) cfg)
     else if c = CHR ''g'' then
       with_value value (\<lambda>v. set_stream (\<lambda>s. s\<lparr>st_bitrate := atoi v\<rparr>) cfg)
     else if c = CHR ''h'' then
       with_value value (\<lambda>v. set_stream (\<lambda>s. s\<lparr>st_packetSize := atoi v\<rparr>) cfg)
     else if c = CHR ''i'' then with_value value (\<lambda>v. cfg\<lparr>app := v\<rparr>)
     else if c = CHR ''j'' then
       (if MAX_INPUTS \<le> length (inputs cfg) then Exit (-1)
        else with_value value (\<lambda>v. cfg\<lparr>inputs := inputs cfg @ [v], inputAdded := True\<rparr>))
     else if c = CHR ''k'' \<or> c = CHR ''l'' then Done (cfg\<lparr>sops := False\<rparr>)
     else if c = CHR ''m'' then with_value value (\<lambda>v. cfg\<lparr>audio_device := Some v\<rparr>)
     else if c = CHR ''n'' then Done (cfg\<lparr>localaudio := True\<rparr>)
     else if c = CHR ''o'' then
       (case value of
          None \<Rightarrow> Null_deref
        | Some v \<Rightarrow> outcome_bind (parse_file v cfg) (\<lambda>(ok, cfg'). if ok then Done cfg' else Exit 1))
     else if c = CHR ''p'' then with_value value (\<lambda>v. cfg\<lparr>platform := v\<rparr>)
     else if c = CHR ''q'' then with_value value (\<lambda>v. cfg\<lparr>config_file := Some v\<rparr>)
     else if c = CHR ''r'' then with_value value (\<lambda>v. cfg\<lparr>key_dir := v\<rparr>)
     else if c = CHR ''s'' then
       with_value value (\<lambda>v. set_stream (\<lambda>s. s\<lparr>st_streamingRemotely := remote_of v (st_streamingRemotely s)\<rparr>) cfg)
     else if c = CHR ''t'' then Done (cfg\<lparr>fullscreen := False\<rparr>)
     else if c = CHR ''u'' then
       with_value value (\<lambda>v. set_stream (\<lambda>s. s\<lparr>st_audioConfiguration := surround_of v (st_audioConfiguration s)\<rparr>) cfg)
     else if c = CHR ''v'' then
       with_value value (\<lambda>v. set_stream (\<lambda>s. s\<lparr>st_fps := atoi v\<rparr>) cfg)
     else if c = CHR ''x'' then with_value value (\<lambda>v. cfg\<lparr>codec := codec_of v (codec cfg)\<rparr>)
     else if c = CHR ''y'' then Done (cfg\<lparr>unsupported := False\<rparr>)
     else if c = CHR ''1'' then Done (cfg\<lparr>quitappafter := True\<rparr>)
     else if c = CHR ''2'' then Done (cfg\<lparr>viewonly := True\<rparr>)
     else if c = CHR ''3'' then with_value value (\<lambda>v. cfg\<lparr>rotate := atoi v\<rparr>)
     else if c = CHR ''z'' then Done (cfg\<lparr>debug_level := 1\<rparr>)
     else if c = CHR ''Z'' then Done (cfg\<lparr>debug_level := 2\<rparr>)
     else if c = CHR ''C'' then Done (cfg\<lparr>autostream := True\<rparr>)
     else if c = CHR ''4'' then Done (cfg\<lparr>mouse_emulation := False\<rparr>)
     else if c = CHR ''5'' then with_value value (\<lambda>v. cfg\<lparr>pin := atoi v\<rparr>)
     else if c = CHR ''6'' then with_value value (\<lambda>v. cfg\<lparr>port := word_of_int (atoi v)\<rparr>)
     else if c = CHR ''7'' then Done (cfg\<lparr>hdr := True\<rparr>)
     else if c = CHR ''8'' then with_value value (\<lambda>v. cfg\<lparr>osd_overscan := atoi v\<rparr>)
     else if c = CHR ''9'' then with_value value (\<lambda>v. cfg\<lparr>tls_test := Some v\<rparr>)
     else if c = CHR ''e'' then
       (case value of
          None \<Rightarrow> Done cfg
        | Some v \<Rightarrow>
            Done (set_stream (\<lambda>s. s\<lparr>st_encryptionFlags := encrypt_of v (st_encryptionFlags s)\<rparr>) cfg))
     else if c = CHR 0x01 then
       (if action cfg = None then with_value value (\<lambda>v. cfg\<lparr>action := Some v\<rparr>)
        else if address cfg = None then with_value value (\<lambda>v. cfg\<lparr>address := Some v\<rparr>)
        else Exit (-1))
     else Done cfg)"

text \<open>
  \<open>sscanf (line, "%1023s = %4095[^\<newline>]", key, value) == 2\<close>: blanks, a word of at most 1023
  characters, blanks, \<open>'='\<close>, blanks, and at least one character up to the end of the line.
\<close>

definition scan_assignment :: "string \<Rightarrow> (string \<times> string) option" where
  "scan_assignment line =
     (let s = dropWhile is_space line;
          key = take 1023 (takeWhile (\<lambda>c. \<not> is_space c) s);
          s2 = dropWhile is_space (drop (length key) s)
      in if key = [] then None
         else (case s2 of
                 [] \<Rightarrow> None
               | c # s3 \<Rightarrow>
                   if c \<noteq> CHR ''='' then None
                   else (let value = take 4095 (takeWhile (\<lambda>c. c \<noteq> CHR ''\<newline>'') (dropWhile is_space s3))
                         in if value = [] then None else Some (key, value))))"

text \<open>The loop over \<open>long_options\<close>: every entry with this name is applied.\<close>

fun apply_options ::
  "(string \<Rightarrow> configuration \<Rightarrow> (bool \<times> configuration) outcome) \<Rightarrow> string \<Rightarrow> string \<Rightarrow>
     (string \<times> arg_kind \<times> char) list \<Rightarrow> configuration \<Rightarrow> configuration outcome" where
  "apply_options parse_file key value [] cfg = Done cfg"
| "apply_options parse_file key value ((name, kind, val) # opts) cfg =
     outcome_bind
       (if name = key then
          (if kind = required_argument then parse_argument parse_file val (Some value) cfg
           else if value = ''true'' then parse_argument parse_file val None cfg
           else Done cfg)
        else Done cfg)
       (apply_options parse_file key value opts)"

definition process_line ::
  "(string \<Rightarrow> configuration \<Rightarrow> (bool \<times> configuration) outcome) \<Rightarrow> string \<Rightarrow> configuration \<Rightarrow>
     configuration outcome" where
  "process_line parse_file line cfg =
     (case scan_assignment line of
        None \<Rightarrow> Done cfg
      | Some (key, value) \<Rightarrow>
          if key = ''address'' then Done (cfg\<lparr>address := Some value\<rparr>)
          else if key = ''sops'' then Done (cfg\<lparr>sops := (value = ''true'')\<rparr>)
          else apply_options parse_file key value long_options cfg)"

function parse_lines ::
  "allocator \<Rightarrow> (string \<Rightarrow> configuration \<Rightarrow> (bool \<times> configuration) outcome) \<Rightarrow> string option \<Rightarrow>
     string \<Rightarrow> configuration \<Rightarrow> configuration outcome" where
  "parse_lines malloc parse_file buf inp cfg =
     (case getline malloc buf inp of
        (Some n, Some b, rest) \<Rightarrow>
          outcome_bind (process_line parse_file (cstr b) cfg) (parse_lines malloc parse_file (Some b) rest)
      | _ \<Rightarrow> Done cfg)"
  by pat_completeness auto
termination
  by (relation "measure (\<lambda>(malloc, parse_file, buf, inp, cfg). length inp)")
    (auto dest: getline_progress [OF sym])

declare parse_lines.simps [simp del]


text \<open>
  \<open>config_file_parse\<close> reads a file, and a \<open>config\<close> line in it reads another one; a file that
  names itself never returns, so the nesting is bounded by fuel. One unit is enough for a file
  without a \<open>config\<close> line.
\<close>

primrec config_file_parse ::
  "nat \<Rightarrow> allocator \<Rightarrow> filesystem \<Rightarrow> string \<Rightarrow> configuration \<Rightarrow> (bool \<times> configuration) outcome" where
  "config_file_parse 0 malloc fs filename cfg = Out_of_fuel"
| "config_file_parse (Suc fuel) malloc fs filename cfg =
     (case fs_files fs filename of
        None \<Rightarrow> Done (False, cfg)
      | Some text \<Rightarrow>
          (case malloc 4096 of
             None \<Rightarrow> Done (False, cfg)
           | Some _ \<Rightarrow>
               outcome_bind (parse_lines malloc (config_file_parse fuel malloc fs) None text cfg)
                 (\<lambda>cfg'. Done (True, cfg'))))"

section \<open>Saving\<close>

definition encryption_flags_string :: "int \<Rightarrow> string" where
  "encryption_flags_string flags =
     (let audio = (flags AND ENCFLG_AUDIO) \<noteq> 0; video = (flags AND ENCFLG_VIDEO) \<noteq> 0
      in if audio \<and> video then ''all''
         else if video then ''video''
         else if audio then ''audio''
         else ''none'')"

definition write_config_string :: "string \<Rightarrow> string \<Rightarrow> string" where
  "write_config_string key value = key @ '' = '' @ value @ ''\<newline>''"

definition write_config_int :: "string \<Rightarrow> int \<Rightarrow> string" where
  "write_config_int key value = key @ '' = '' @ show_int value @ ''\<newline>''"

definition write_config_bool :: "string \<Rightarrow> bool \<Rightarrow> string" where
  "write_config_bool key value = key @ '' = '' @ (if value then ''true'' else ''false'') @ ''\<newline>''"

text \<open>The lines \<open>config_save\<close> writes, in order, and the file they make.\<close>

definition config_lines :: "configuration \<Rightarrow> string list" where
  "config_lines cfg =
     (case address cfg of None \<Rightarrow> [] | Some a \<Rightarrow> [write_config_string ''address'' a]) @
     [write_config_int ''width'' (st_width (stream cfg)),
      write_config_int ''height'' (st_height (stream cfg)),
      write_config_int ''fps'' (st_fps (stream cfg)),
      write_config_int ''bitrate'' (st_bitrate (stream cfg)),
      write_config_int ''packetsize'' (st_packetSize (stream cfg)),
      write_config_string ''encrypt'' (encryption_flags_string (st_encryptionFlags (stream cfg)))] @
     (if \<not> sops cfg then [write_config_bool ''sops'' (sops cfg)] else []) @
     (if localaudio cfg then [write_config_bool ''localaudio'' (localaudio cfg)] else []) @
     (if quitappafter cfg then [write_config_bool ''quitappafter'' (quitappafter cfg)] else []) @
     (if viewonly cfg then [write_config_bool ''viewonly'' (viewonly cfg)] else []) @
     (if rotate cfg \<noteq> 0 then [write_config_int ''rotate'' (rotate cfg)] else []) @
     (if osd_overscan cfg \<noteq> 0 then [write_config_int ''osd_overscan'' (osd_overscan cfg)] else []) @
     (if app cfg \<noteq> ''Steam'' then [write_config_string ''app'' (app cfg)] else []) @
     (case tls_test cfg of None \<Rightarrow> [] | Some t \<Rightarrow> [write_config_string ''tls_test'' t])"

definition config_save :: "filesystem \<Rightarrow> string \<Rightarrow> configuration \<Rightarrow> filesystem outcome" where
  "config_save fs filename cfg =
     (case fs_write filename (concat (config_lines cfg)) fs of
        None \<Rightarrow> Exit 1
      | Some fs' \<Rightarrow> Done fs')"

section \<open>Defaults and the bitrate table\<close>

text \<open>
  The arithmetic on \<open>double\<close>: an operation gives the exact result rounded to 53 significant bits,
  ties to even (the build's \<open>-ffast-math\<close> lets the compiler round otherwise; results that are
  whole numbers do not depend on it). The conversion to \<open>int\<close> truncates and saturates.
\<close>

fun bit_len :: "nat \<Rightarrow> nat" where
  "bit_len n = (if n = 0 then 0 else Suc (bit_len (n div 2)))"

declare bit_len.simps [simp del]

definition round_half_even :: "rat \<Rightarrow> int" where
  "round_half_even x =
     (let f = \<lfloor>x\<rfloor>; d = x - of_int f
      in if d < 1 / 2 then f else if 1 / 2 < d then f + 1 else if even f then f else f + 1)"

definition double_exp :: "rat \<Rightarrow> int" where
  "double_exp x =
     (let (p, q) = quotient_of x;
          e = int (bit_len (nat \<bar>p\<bar>)) - int (bit_len (nat q))
      in (if \<bar>x\<bar> < 2 powi e then e - 1 else e) - 52)"

definition to_double :: "rat \<Rightarrow> rat" where
  "to_double x =
     (if x = 0 then 0
      else (let e = double_exp x in of_int (round_half_even (x / 2 powi e)) * 2 powi e))"

definition int_of_double :: "rat \<Rightarrow> int" where
  "int_of_double x = clamp_long (if x < 0 then - \<lfloor>- x\<rfloor> else \<lfloor>x\<rfloor>)"

text \<open>\<open>(int) (kbps * (fps / 30.0))\<close>\<close>

definition scale_fps :: "int \<Rightarrow> int \<Rightarrow> int" where
  "scale_fps kbps fps =
     int_of_double (to_double (of_int kbps * to_double (of_int fps / 30)))"

definition default_bitrate :: "stream_configuration \<Rightarrow> int" where
  "default_bitrate s =
     (let pixels = c_int (st_width s * st_height s)
      in if pixels \<le> 640 * 360 then scale_fps 1000 (st_fps s)
         else if pixels \<le> 854 * 480 then scale_fps 1500 (st_fps s)
         else if pixels \<le> 1366 * 768 then scale_fps 5000 (st_fps s)
         else if pixels \<le> 1920 * 1200 then scale_fps 10000 (st_fps s)
         else if pixels \<le> 2560 * 1600 then scale_fps 20000 (st_fps s)
         else scale_fps 40000 (st_fps s))"

text \<open>
  The assignments of \<open>config_parse\<close> before the file is read, with both values of the fields that
  are set twice. The two globals keep what they held.
\<close>

definition default_config :: "bool \<Rightarrow> bool \<Rightarrow> configuration" where
  "default_config added auto =
     \<lparr>stream = LiInitializeStreamConfiguration
        \<lparr>st_width := 1280, st_height := 720, st_fps := 60, st_bitrate := -1,
         st_packetSize := 1392, st_streamingRemotely := STREAM_CFG_AUTO,
         st_audioConfiguration := AUDIO_CONFIGURATION_STEREO,
         st_supportedVideoFormats := SCM_H264, st_encryptionFlags := ENCFLG_AUDIO\<rparr>
        \<lparr>st_encryptionFlags := ENCFLG_NONE, st_width := 640, st_height := 480, st_fps := 30\<rparr>,
      debug_level = 0, app = ''Steam'', action = None, address = None, mapping = [],
      platform = ''auto'', audio_device = None, config_file = None,
      key_dir = MOONLIGHT_WII_PATH @ ''/keys'', sops = True, localaudio = False,
      fullscreen = True, rotate = 0, unsupported = True, quitappafter = False,
      viewonly = False, mouse_emulation = True, inputs = [], codec = CODEC_H264, hdr = False,
      pin = 0, port = 47989, osd_overscan = 0, tls_test = None,
      inputAdded = added, autostream = auto\<rparr>"

definition fix_bitrate :: "configuration \<Rightarrow> configuration" where
  "fix_bitrate cfg =
     (if st_bitrate (stream cfg) = -1
      then set_stream (\<lambda>s. s\<lparr>st_bitrate := default_bitrate s\<rparr>) cfg else cfg)"

definition config_parse :: "nat \<Rightarrow> allocator \<Rightarrow> filesystem \<Rightarrow> bool \<Rightarrow> bool \<Rightarrow> configuration outcome" where
  "config_parse fuel malloc fs added auto =
     outcome_bind (config_file_parse fuel malloc fs config_path (default_config added auto))
       (\<lambda>(_, cfg). Done (fix_bitrate cfg))"

end
