(* ===== verification/ConfigFacts.thy ===== *)
theory ConfigFacts
  imports Config
begin

text \<open>
  The lemmas and properties of the configuration component: reading back what was saved, the
  bitrate table, the lines that change nothing, and the nesting of \<open>config\<close> lines.
\<close>

section \<open>One line at a time\<close>

definition clean :: "string \<Rightarrow> bool" where
  "clean s \<longleftrightarrow> CHR ''\<newline>'' \<notin> set s \<and> nul \<notin> set s"

lemma parse_lines_line:
  assumes "alloc_ok malloc" and "line_buf_ok buf" and "clean xs"
  shows "\<exists>b. line_buf_ok (Some b) \<and>
     parse_lines malloc pf buf (xs @ CHR ''\<newline>'' # rest) cfg =
     outcome_bind (process_line pf (xs @ ''\<newline>'') cfg) (parse_lines malloc pf (Some b) rest)"
proof -
  from getline_line [OF assms(1,2)] assms(3) obtain b where
    "getline malloc buf (xs @ CHR ''\<newline>'' # rest) = (Some (length xs + 1), Some b, rest)"
    "cstr b = xs @ ''\<newline>''" "line_buf_ok (Some b)"
    unfolding clean_def by blast
  then show ?thesis
    by (intro exI [of _ b]) (simp add: parse_lines.simps [of malloc pf buf])
qed

lemma parse_lines_eof:
  assumes "alloc_ok malloc" and "line_buf_ok buf"
  shows "parse_lines malloc pf buf [] cfg = Done cfg"
  using getline_eof [OF assms] by (auto simp: parse_lines.simps [of malloc pf buf])

text \<open>A file of terminated lines is processed line by line.\<close>

fun process_lines ::
  "(string \<Rightarrow> configuration \<Rightarrow> (bool \<times> configuration) outcome) \<Rightarrow> string list \<Rightarrow> configuration \<Rightarrow>
     configuration outcome" where
  "process_lines pf [] cfg = Done cfg"
| "process_lines pf (l # ls) cfg = outcome_bind (process_line pf l cfg) (process_lines pf ls)"

definition terminated :: "string \<Rightarrow> bool" where
  "terminated l \<longleftrightarrow> (\<exists>xs. clean xs \<and> l = xs @ ''\<newline>'')"

lemma parse_lines_process:
  assumes "alloc_ok malloc" and "line_buf_ok buf" and "\<forall>l \<in> set ls. terminated l"
  shows "parse_lines malloc pf buf (concat ls) cfg = process_lines pf ls cfg"
  using assms(2,3)
proof (induction ls arbitrary: buf cfg)
  case Nil
  with assms(1) show ?case by (simp add: parse_lines_eof)
next
  case (Cons l ls)
  then obtain xs where xs: "clean xs" "l = xs @ ''\<newline>''" by (auto simp: terminated_def)
  obtain b where b: "line_buf_ok (Some b)"
    "parse_lines malloc pf buf (xs @ CHR ''\<newline>'' # concat ls) cfg =
     outcome_bind (process_line pf l cfg) (parse_lines malloc pf (Some b) (concat ls))"
    using parse_lines_line [OF assms(1) Cons.prems(1) xs(1)] xs(2) by blast
  moreover have "parse_lines malloc pf (Some b) (concat ls) = process_lines pf ls"
    using Cons.IH [OF b(1)] Cons.prems(2) by (simp add: fun_eq_iff)
  ultimately show ?case using xs(2) by simp
qed

lemma outcome_bind_Done [simp]: "outcome_bind (Done a) f = f a"
  by (simp add: outcome_bind_def)

lemma process_lines_append:
  "process_lines pf (ls @ ms) cfg = outcome_bind (process_lines pf ls cfg) (process_lines pf ms)"
proof (induction ls arbitrary: cfg)
  case Nil
  show ?case by (simp add: outcome_bind_def)
next
  case (Cons l ls)
  show ?case
    by (cases "process_line pf l cfg") (simp_all add: outcome_bind_def Cons.IH [unfolded outcome_bind_def])
qed

section \<open>What a written line means\<close>

text \<open>Keys and values that survive \<open>sscanf\<close>.\<close>

definition good_key :: "string \<Rightarrow> bool" where
  "good_key k \<longleftrightarrow> k \<noteq> [] \<and> length k \<le> 1023 \<and> (\<forall>c \<in> set k. \<not> is_space c)"

definition good_value :: "string \<Rightarrow> bool" where
  "good_value v \<longleftrightarrow> v \<noteq> [] \<and> length v \<le> 4095 \<and> \<not> is_space (hd v) \<and> clean v"

lemma dropWhile_hd: "xs \<noteq> [] \<Longrightarrow> \<not> P (hd xs) \<Longrightarrow> dropWhile P (xs @ ys) = xs @ ys"
  by (cases xs) auto

lemma takeWhile_all_append: "(\<forall>c \<in> set xs. P c) \<Longrightarrow> takeWhile P (xs @ ys) = xs @ takeWhile P ys"
  by (induction xs) auto

lemma is_space_blank [simp]: "is_space (CHR '' '')" and is_space_newline [simp]: "is_space (CHR ''\<newline>'')"
  by (simp_all add: is_space_def)

lemma not_space_eq [simp]: "\<not> is_space (CHR ''='')"
  by (simp add: is_space_def)

lemma scan_written:
  assumes "good_key k" and "good_value v"
  shows "scan_assignment (k @ '' = '' @ v @ ''\<newline>'') = Some (k, v)"
proof -
  from assms(1) have k: "k \<noteq> []" "\<not> is_space (hd k)" "length k \<le> 1023" "\<forall>c \<in> set k. \<not> is_space c"
    by (auto simp: good_key_def)
  have 1: "dropWhile is_space (k @ '' = '' @ v @ ''\<newline>'') = k @ '' = '' @ v @ ''\<newline>''"
    using k by (simp add: dropWhile_hd)
  have 2: "takeWhile (\<lambda>c. \<not> is_space c) (k @ '' = '' @ v @ ''\<newline>'') = k"
    using k by (simp add: takeWhile_all_append)
  have 3: "dropWhile is_space (v @ ''\<newline>'') = v @ ''\<newline>''"
    using assms(2) by (simp add: good_value_def dropWhile_hd)
  have 4: "takeWhile (\<lambda>c. c \<noteq> CHR ''\<newline>'') (v @ ''\<newline>'') = v"
    using assms(2) by (subst takeWhile_all_append) (auto simp: good_value_def clean_def)
  show ?thesis
    using k assms(2) 1 2 3 4 by (simp add: scan_assignment_def Let_def good_value_def)
qed

lemma terminated_written: "good_key k \<Longrightarrow> clean k \<Longrightarrow> good_value v \<Longrightarrow> terminated (k @ '' = '' @ v @ ''\<newline>'')"
  by (auto simp: terminated_def clean_def good_value_def nul_def intro!: exI [of _ "k @ '' = '' @ v"])

lemma clean_show_int [simp]: "clean (show_int i)"
  by (auto simp: clean_def nul_def is_digit_def dest!: show_int_chars)

lemma good_value_int [simp]: "is_c_int i \<Longrightarrow> good_value (show_int i)"
proof -
  assume i: "is_c_int i"
  have "\<not> is_space (hd (show_int i))"
    using show_int_chars [of "hd (show_int i)" i] by (auto simp: is_space_def is_digit_def)
  with length_show_int [OF i] show ?thesis by (simp add: good_value_def)
qed

section \<open>Reading back what was saved\<close>

text \<open>The configurations \<open>config_save\<close> writes without loss.\<close>

definition savable :: "configuration \<Rightarrow> bool" where
  "savable c \<longleftrightarrow>
     (case address c of None \<Rightarrow> True | Some a \<Rightarrow> good_value a) \<and>
     good_value (app c) \<and>
     (case tls_test c of None \<Rightarrow> True | Some t \<Rightarrow> good_value t) \<and>
     is_c_int (st_width (stream c)) \<and> is_c_int (st_height (stream c)) \<and>
     is_c_int (st_fps (stream c)) \<and> is_c_int (st_bitrate (stream c)) \<and>
     is_c_int (st_packetSize (stream c)) \<and> is_c_int (rotate c) \<and> is_c_int (osd_overscan c)"

text \<open>What reading the saved lines does to a configuration \<open>d\<close>.\<close>

definition restore :: "configuration \<Rightarrow> configuration \<Rightarrow> configuration" where
  "restore c d =
     d\<lparr>stream := (stream d)\<lparr>st_width := st_width (stream c), st_height := st_height (stream c),
         st_fps := st_fps (stream c), st_bitrate := st_bitrate (stream c),
         st_packetSize := st_packetSize (stream c),
         st_encryptionFlags := st_encryptionFlags (stream c) AND 3\<rparr>,
       app := (if app c = ''Steam'' then app d else app c),
       address := (case address c of None \<Rightarrow> address d | Some a \<Rightarrow> Some a),
       sops := sops c \<and> sops d, localaudio := localaudio c \<or> localaudio d,
       rotate := (if rotate c = 0 then rotate d else rotate c),
       quitappafter := quitappafter c \<or> quitappafter d, viewonly := viewonly c \<or> viewonly d,
       osd_overscan := (if osd_overscan c = 0 then osd_overscan d else osd_overscan c),
       tls_test := (case tls_test c of None \<Rightarrow> tls_test d | Some t \<Rightarrow> Some t)\<rparr>"

lemma process_written:
  assumes "good_key k" and "good_value v"
  shows "process_line pf (k @ '' = '' @ v @ ''\<newline>'') cfg =
     (if k = ''address'' then Done (cfg\<lparr>address := Some v\<rparr>)
      else if k = ''sops'' then Done (cfg\<lparr>sops := (v = ''true'')\<rparr>)
      else apply_options pf k v long_options cfg)"
  by (simp only: process_line_def scan_written [OF assms] option.case prod.case)

lemma and2: "(f::int) AND 2 = (if bit f 1 then 2 else 0)"
proof (rule bit_eqI)
  fix n
  have "bit (2::int) n \<longleftrightarrow> n = 1" using bit_exp_iff [of 1 n, where ?'a = int] by simp
  then show "bit (f AND 2) n = bit (if bit f 1 then 2 else (0::int)) n" by (auto simp: bit_and_iff)
qed

lemma and1: "(f::int) AND 1 = (if bit f 0 then 1 else 0)"
  by (simp add: and_one_eq bit_0 odd_iff_mod_2_eq_one)

lemma and3: "(f::int) AND 3 = (f AND 1) OR (f AND 2)"
  by (simp add: bit.conj_disj_distrib [symmetric])

lemma encrypt_string_back: "encrypt_of (encryption_flags_string f) old = f AND 3"
  by (simp add: and3 and1 and2 encryption_flags_string_def encrypt_of_def strcaseeq_def to_lower_def
      ENCFLG_NONE_def ENCFLG_AUDIO_def ENCFLG_VIDEO_def Let_def)

lemma good_value_encrypt: "good_value (encryption_flags_string f)"
  by (simp add: encryption_flags_string_def good_value_def clean_def nul_def is_space_def Let_def)

lemma good_value_bool: "good_value (if b then ''true'' else ''false'')"
  by (simp add: good_value_def clean_def nul_def is_space_def)

lemmas option_lookup =
  long_options_def parse_argument_def outcome_bind_def with_value_def set_stream_def

definition saved_key :: "string \<Rightarrow> bool" where
  "saved_key k \<longleftrightarrow> good_key k \<and> clean k"

lemma saved_keys:
  "saved_key ''address''" "saved_key ''width''" "saved_key ''height''" "saved_key ''fps''"
  "saved_key ''bitrate''" "saved_key ''packetsize''" "saved_key ''encrypt''" "saved_key ''sops''"
  "saved_key ''localaudio''" "saved_key ''quitappafter''" "saved_key ''viewonly''"
  "saved_key ''rotate''" "saved_key ''osd_overscan''" "saved_key ''app''" "saved_key ''tls_test''"
  by (simp_all add: saved_key_def good_key_def clean_def nul_def is_space_def)

text \<open>What a written line does, with the line kept as the writer's call.\<close>

lemma process_string:
  assumes "saved_key k" and "good_value v"
  shows "process_line pf (write_config_string k v) cfg =
     (if k = ''address'' then Done (cfg\<lparr>address := Some v\<rparr>)
      else if k = ''sops'' then Done (cfg\<lparr>sops := (v = ''true'')\<rparr>)
      else apply_options pf k v long_options cfg)"
  unfolding write_config_string_def
  using assms process_written unfolding saved_key_def by blast

lemma write_int_string: "write_config_int k i = write_config_string k (show_int i)"
  by (simp add: write_config_int_def write_config_string_def)

lemma write_bool_string:
  "write_config_bool k b = write_config_string k (if b then ''true'' else ''false'')"
  by (simp add: write_config_bool_def write_config_string_def)

lemma terminated_string: "saved_key k \<Longrightarrow> good_value v \<Longrightarrow> terminated (write_config_string k v)"
  unfolding saved_key_def write_config_string_def by (rule terminated_written) auto

text \<open>One lemma per written key.\<close>

lemma apply_saved:
  "apply_options pf ''width'' v long_options cfg = Done (set_stream (\<lambda>s. s\<lparr>st_width := atoi v\<rparr>) cfg)"
  "apply_options pf ''height'' v long_options cfg = Done (set_stream (\<lambda>s. s\<lparr>st_height := atoi v\<rparr>) cfg)"
  "apply_options pf ''fps'' v long_options cfg = Done (set_stream (\<lambda>s. s\<lparr>st_fps := atoi v\<rparr>) cfg)"
  "apply_options pf ''bitrate'' v long_options cfg = Done (set_stream (\<lambda>s. s\<lparr>st_bitrate := atoi v\<rparr>) cfg)"
  "apply_options pf ''packetsize'' v long_options cfg =
     Done (set_stream (\<lambda>s. s\<lparr>st_packetSize := atoi v\<rparr>) cfg)"
  "apply_options pf ''encrypt'' v long_options cfg =
     Done (set_stream (\<lambda>s. s\<lparr>st_encryptionFlags := encrypt_of v (st_encryptionFlags s)\<rparr>) cfg)"
  "apply_options pf ''rotate'' v long_options cfg = Done (cfg\<lparr>rotate := atoi v\<rparr>)"
  "apply_options pf ''osd_overscan'' v long_options cfg = Done (cfg\<lparr>osd_overscan := atoi v\<rparr>)"
  "apply_options pf ''app'' v long_options cfg = Done (cfg\<lparr>app := v\<rparr>)"
  "apply_options pf ''tls_test'' v long_options cfg = Done (cfg\<lparr>tls_test := Some v\<rparr>)"
  "apply_options pf ''localaudio'' ''true'' long_options cfg = Done (cfg\<lparr>localaudio := True\<rparr>)"
  "apply_options pf ''quitappafter'' ''true'' long_options cfg = Done (cfg\<lparr>quitappafter := True\<rparr>)"
  "apply_options pf ''viewonly'' ''true'' long_options cfg = Done (cfg\<lparr>viewonly := True\<rparr>)"
  by (simp_all add: option_lookup)

lemma process_lines_single: "process_lines pf [l] cfg = process_line pf l cfg"
  by (cases "process_line pf l cfg") (simp_all add: outcome_bind_def)

lemma chunk_address:
  assumes "case address c of None \<Rightarrow> True | Some a \<Rightarrow> good_value a"
  shows "process_lines pf (case address c of None \<Rightarrow> [] | Some a \<Rightarrow> [write_config_string ''address'' a]) d
       = Done (d\<lparr>address := (case address c of None \<Rightarrow> address d | Some a \<Rightarrow> Some a)\<rparr>)"
  using assms
  by (cases "address c")
    (simp_all add: process_lines_single process_string saved_keys del: process_lines.simps(2))

lemma chunk_numbers:
  assumes "is_c_int (st_width (stream c))" and "is_c_int (st_height (stream c))"
    and "is_c_int (st_fps (stream c))" and "is_c_int (st_bitrate (stream c))"
    and "is_c_int (st_packetSize (stream c))"
  shows "process_lines pf
      [write_config_int ''width'' (st_width (stream c)),
       write_config_int ''height'' (st_height (stream c)),
       write_config_int ''fps'' (st_fps (stream c)),
       write_config_int ''bitrate'' (st_bitrate (stream c)),
       write_config_int ''packetsize'' (st_packetSize (stream c)),
       write_config_string ''encrypt'' (encryption_flags_string (st_encryptionFlags (stream c)))] d
     = Done (d\<lparr>stream := (stream d)\<lparr>st_width := st_width (stream c),
         st_height := st_height (stream c), st_fps := st_fps (stream c),
         st_bitrate := st_bitrate (stream c), st_packetSize := st_packetSize (stream c),
         st_encryptionFlags := st_encryptionFlags (stream c) AND 3\<rparr>\<rparr>)"
  using assms
  by (simp add: write_int_string process_string saved_keys good_value_encrypt apply_saved outcome_bind_def
      set_stream_def atoi_show_int encrypt_string_back)

lemma chunk_flag:
  assumes "saved_key k" and "k \<noteq> ''address''" and "k \<noteq> ''sops''"
    and "\<And>e. apply_options pf k ''true'' long_options e = Done (upd e)" and "\<not> b \<Longrightarrow> same = d"
    and "b \<Longrightarrow> same = upd d"
  shows "process_lines pf (if b then [write_config_bool k b] else []) d = Done same"
  using assms good_value_bool [of True]
  by (simp add: process_lines_single write_bool_string process_string del: process_lines.simps(2))

lemma chunk_int:
  assumes "saved_key k" and "k \<noteq> ''address''" and "k \<noteq> ''sops''" and "is_c_int i"
    and "\<And>v e. apply_options pf k v long_options e = Done (upd (atoi v) e)"
    and "same = (if i = 0 then d else upd i d)"
  shows "process_lines pf (if i \<noteq> 0 then [write_config_int k i] else []) d = Done same"
  using assms
  by (simp add: process_lines_single write_int_string process_string atoi_show_int del: process_lines.simps(2))

lemma chunk_string:
  assumes "saved_key k" and "k \<noteq> ''address''" and "k \<noteq> ''sops''" and "good_value s"
    and "\<And>v e. apply_options pf k v long_options e = Done (upd v e)"
  shows "process_lines pf [write_config_string k s] d = Done (upd s d)"
  using assms
  by (simp add: process_lines_single process_string del: process_lines.simps(2))

lemma chunk_sops:
  "process_lines pf (if \<not> sops c then [write_config_bool ''sops'' (sops c)] else []) d
     = Done (d\<lparr>sops := sops c \<and> sops d\<rparr>)"
  using good_value_bool [of False]
  by (simp add: process_lines_single write_bool_string process_string saved_keys del: process_lines.simps(2))

lemma process_config_lines:
  assumes "savable c"
  shows "process_lines pf (config_lines c) d = Done (restore c d)"
proof -
  have la: "\<And>d. process_lines pf (if localaudio c then [write_config_bool ''localaudio'' (localaudio c)] else []) d
      = Done (d\<lparr>localaudio := localaudio c \<or> localaudio d\<rparr>)"
    by (rule chunk_flag [where upd = "\<lambda>e. e\<lparr>localaudio := True\<rparr>"])
      (simp_all add: saved_keys apply_saved)
  have qa: "\<And>d. process_lines pf (if quitappafter c then [write_config_bool ''quitappafter'' (quitappafter c)] else []) d
      = Done (d\<lparr>quitappafter := quitappafter c \<or> quitappafter d\<rparr>)"
    by (rule chunk_flag [where upd = "\<lambda>e. e\<lparr>quitappafter := True\<rparr>"])
      (simp_all add: saved_keys apply_saved)
  have vo: "\<And>d. process_lines pf (if viewonly c then [write_config_bool ''viewonly'' (viewonly c)] else []) d
      = Done (d\<lparr>viewonly := viewonly c \<or> viewonly d\<rparr>)"
    by (rule chunk_flag [where upd = "\<lambda>e. e\<lparr>viewonly := True\<rparr>"])
      (simp_all add: saved_keys apply_saved)
  have ro: "\<And>d. process_lines pf (if rotate c \<noteq> 0 then [write_config_int ''rotate'' (rotate c)] else []) d
      = Done (d\<lparr>rotate := (if rotate c = 0 then rotate d else rotate c)\<rparr>)"
    using assms
    by (intro chunk_int [where upd = "\<lambda>i e. e\<lparr>rotate := i\<rparr>"])
      (simp_all add: saved_keys apply_saved savable_def)
  have os: "\<And>d. process_lines pf (if osd_overscan c \<noteq> 0 then [write_config_int ''osd_overscan'' (osd_overscan c)] else []) d
      = Done (d\<lparr>osd_overscan := (if osd_overscan c = 0 then osd_overscan d else osd_overscan c)\<rparr>)"
    using assms
    by (intro chunk_int [where upd = "\<lambda>i e. e\<lparr>osd_overscan := i\<rparr>"])
      (simp_all add: saved_keys apply_saved savable_def)
  have ap: "\<And>d. process_lines pf (if app c \<noteq> ''Steam'' then [write_config_string ''app'' (app c)] else []) d
      = Done (d\<lparr>app := (if app c = ''Steam'' then app d else app c)\<rparr>)"
    using assms chunk_string [of "''app''" "app c" pf "\<lambda>v e. e\<lparr>app := v\<rparr>"]
    by (simp add: saved_keys apply_saved savable_def del: process_lines.simps(2))
  have tl: "\<And>d. process_lines pf (case tls_test c of None \<Rightarrow> [] | Some t \<Rightarrow> [write_config_string ''tls_test'' t]) d
      = Done (d\<lparr>tls_test := (case tls_test c of None \<Rightarrow> tls_test d | Some t \<Rightarrow> Some t)\<rparr>)"
    using assms chunk_string [of "''tls_test''" "the (tls_test c)" pf "\<lambda>v e. e\<lparr>tls_test := Some v\<rparr>"]
    by (auto simp: saved_keys apply_saved savable_def simp del: process_lines.simps(2) split: option.split)
  have sv: "case address c of None \<Rightarrow> True | Some a \<Rightarrow> good_value a"
    "is_c_int (st_width (stream c))" "is_c_int (st_height (stream c))"
    "is_c_int (st_fps (stream c))" "is_c_int (st_bitrate (stream c))"
    "is_c_int (st_packetSize (stream c))"
    using assms by (simp_all add: savable_def)
  show ?thesis
    by (cases d)
      (simp only: config_lines_def process_lines_append chunk_address [OF sv(1)] outcome_bind_Done
        chunk_numbers [OF sv(2-6)] chunk_sops la qa vo ro os ap tl restore_def
        configuration.simps stream_configuration.simps)
qed

lemma terminated_int: "saved_key k \<Longrightarrow> is_c_int i \<Longrightarrow> terminated (write_config_int k i)"
  by (simp add: write_int_string terminated_string)

lemma terminated_bool: "saved_key k \<Longrightarrow> terminated (write_config_bool k b)"
  by (simp only: write_bool_string terminated_string good_value_bool)

lemma terminated_config_lines:
  assumes "savable c"
  shows "\<forall>l \<in> set (config_lines c). terminated l"
proof -
  have "list_all terminated (config_lines c)"
    using assms
    by (cases "address c"; cases "tls_test c")
      (simp_all add: config_lines_def savable_def terminated_int terminated_bool terminated_string
        saved_keys good_value_encrypt)
  then show ?thesis by (simp only: list_all_iff)
qed

lemma config_parse_saved:
  assumes "alloc_ok malloc" and "savable c"
    and "fs_files fs config_path = Some (concat (config_lines c))"
  shows "config_parse (Suc fuel) malloc fs added auto
       = Done (fix_bitrate (restore c (default_config added auto)))"
proof -
  obtain b where b: "malloc 4096 = Some b" using assms(1) unfolding alloc_ok_def by blast
  have "parse_lines malloc pf None (concat (config_lines c)) d = Done (restore c d)" for pf d
    using parse_lines_process [OF assms(1) _ terminated_config_lines [OF assms(2)]]
      process_config_lines [OF assms(2)]
    by (simp add: line_buf_ok_def)
  with assms(3) b show ?thesis by (simp add: config_parse_def)
qed

text \<open>C2. Saving a configuration and starting again restores every setting the writer keeps: the
  host address, the stream size, rate, bitrate and packet size, the encryption choice, the switches,
  the overscan, the application and the TLS test target come back as they were, and every setting
  without a line in the file is at its default.\<close>

theorem saved_config_reloads:
  assumes "alloc_ok malloc" and "savable c" and "fs_can_write fs config_path"
    and "st_bitrate (stream c) \<noteq> -1" and "st_encryptionFlags (stream c) AND 3 = st_encryptionFlags (stream c)"
  shows "\<exists>fs' cfg. config_save fs config_path c = Done fs' \<and>
     config_parse (Suc fuel) malloc fs' added auto = Done cfg \<and>
     cfg = (default_config added auto)
       \<lparr>stream := (stream (default_config added auto))
          \<lparr>st_width := st_width (stream c), st_height := st_height (stream c),
           st_fps := st_fps (stream c), st_bitrate := st_bitrate (stream c),
           st_packetSize := st_packetSize (stream c),
           st_encryptionFlags := st_encryptionFlags (stream c)\<rparr>,
        app := app c, address := address c, sops := sops c, localaudio := localaudio c,
        rotate := rotate c, quitappafter := quitappafter c, viewonly := viewonly c,
        osd_overscan := osd_overscan c, tls_test := tls_test c\<rparr>"
proof -
  let ?fs = "fs\<lparr>fs_files := (fs_files fs)(config_path \<mapsto> concat (config_lines c))\<rparr>"
  have save: "config_save fs config_path c = Done ?fs"
    using assms(3) by (simp add: config_save_def fs_write_def)
  have "config_parse (Suc fuel) malloc ?fs added auto
      = Done (fix_bitrate (restore c (default_config added auto)))"
    using assms(1,2) by (intro config_parse_saved) simp_all
  with save assms(4,5) show ?thesis
    by (simp add: fix_bitrate_def restore_def default_config_def option.case_eq_if)
qed

definition example_malloc :: allocator where
  "example_malloc n = Some (replicate n (CHR ''?''))"

lemma example_malloc_ok: "alloc_ok example_malloc"
  by (simp add: alloc_ok_def example_malloc_def)

definition example_fs :: filesystem where
  "example_fs = \<lparr>fs_files = (\<lambda>_. None), fs_can_write = (\<lambda>_. True)\<rparr>"

definition example_config :: configuration where
  "example_config = (default_config False False)
     \<lparr>address := Some ''192.168.1.20'', app := ''Desktop'', sops := False, osd_overscan := 30,
      stream := (stream (default_config False False))
        \<lparr>st_fps := 60, st_bitrate := 8000, st_encryptionFlags := ENCFLG_AUDIO\<rparr>\<rparr>"

lemma example_config_savable: "savable example_config"
  by (simp add: savable_def example_config_def default_config_def good_value_def clean_def nul_def
      is_space_def is_c_int_def int_min_def int_max_def LiInitializeStreamConfiguration_def)

lemma example_config_fields:
  "address example_config = Some ''192.168.1.20''" "app example_config = ''Desktop''"
  "st_fps (stream example_config) = 60" "st_bitrate (stream example_config) = 8000"
  "st_encryptionFlags (stream example_config) = 1"
  by (simp_all add: example_config_def ENCFLG_AUDIO_def)

theorem saved_config_reloads_witness:
  "\<exists>fs' cfg. config_save example_fs config_path example_config = Done fs' \<and>
     config_parse (Suc 0) example_malloc fs' False False = Done cfg \<and>
     address cfg = Some ''192.168.1.20'' \<and> app cfg = ''Desktop'' \<and> st_fps (stream cfg) = 60"
proof -
  have w: "fs_can_write example_fs config_path" by (simp add: example_fs_def)
  have b: "st_bitrate (stream example_config) \<noteq> -1" by (simp add: example_config_fields)
  have e: "st_encryptionFlags (stream example_config) AND 3 = st_encryptionFlags (stream example_config)"
    by (simp add: example_config_fields)
  from saved_config_reloads [OF example_malloc_ok example_config_savable w b e, of 0 False False]
  obtain fs' cfg where r: "config_save example_fs config_path example_config = Done fs'"
    "config_parse (Suc 0) example_malloc fs' False False = Done cfg"
    "address cfg = address example_config" "app cfg = app example_config"
    "st_fps (stream cfg) = st_fps (stream example_config)" by auto
  then show ?thesis by (intro exI [of _ fs'] exI [of _ cfg]) (simp add: example_config_fields)
qed

section \<open>Nested configuration files\<close>

text \<open>Only a \<open>config\<close> line reads another file.\<close>

lemma parse_argument_same: "c \<noteq> CHR ''o'' \<Longrightarrow> parse_argument pf c v cfg = parse_argument pg c v cfg"
  by (simp add: parse_argument_def)

lemma apply_options_same:
  "key \<noteq> ''config'' \<Longrightarrow> list_all (\<lambda>(n, k, v). v = CHR ''o'' \<longrightarrow> n = ''config'') opts \<Longrightarrow>
     apply_options pf key value opts cfg = apply_options pg key value opts cfg"
proof (induction opts arbitrary: cfg)
  case Nil
  then show ?case by simp
next
  case (Cons x opts)
  obtain n k v where x: "x = (n, k, v)" by (cases x)
  have "apply_options pf key value opts = apply_options pg key value opts"
    using Cons by (simp add: fun_eq_iff)
  with Cons.prems x show ?case
    by (auto simp: parse_argument_same [of v pf _ _ pg])
qed

lemma only_config_nests: "list_all (\<lambda>(n, k, v). v = CHR ''o'' \<longrightarrow> n = ''config'') long_options"
  by (simp add: long_options_def)

definition nests :: "string \<Rightarrow> bool" where
  "nests line \<longleftrightarrow> (case scan_assignment line of Some (key, _) \<Rightarrow> key = ''config'' | None \<Rightarrow> False)"

lemma process_line_same: "\<not> nests l \<Longrightarrow> process_line pf l cfg = process_line pg l cfg"
  using apply_options_same [OF _ only_config_nests, of _ pf _ cfg pg]
  by (auto simp: process_line_def nests_def split: option.split)

text \<open>Such a line succeeds or runs out of input slots.\<close>

definition settled :: "'a outcome \<Rightarrow> bool" where
  "settled r \<longleftrightarrow> (case r of Done _ \<Rightarrow> True | Exit e \<Rightarrow> e = -1 | _ \<Rightarrow> False)"

lemma settled_bind: "settled m \<Longrightarrow> (\<And>a. settled (f a)) \<Longrightarrow> settled (outcome_bind m f)"
  by (cases m) (auto simp: settled_def outcome_bind_def)

lemma parse_argument_settled: "c \<noteq> CHR ''o'' \<Longrightarrow> settled (parse_argument pf c (Some v) cfg)"
  by (simp add: parse_argument_def settled_def with_value_def)

lemma no_argument_settled:
  "list_all (\<lambda>(n, k, c). k = no_argument \<longrightarrow> (\<forall>pf cfg. settled (parse_argument pf c None cfg))) long_options"
  by (simp add: long_options_def parse_argument_def settled_def)

lemma apply_options_settled:
  "key \<noteq> ''config'' \<Longrightarrow>
   list_all (\<lambda>(n, k, v). v = CHR ''o'' \<longrightarrow> n = ''config'') opts \<Longrightarrow>
   list_all (\<lambda>(n, k, c). k = no_argument \<longrightarrow> (\<forall>pf cfg. settled (parse_argument pf c None cfg))) opts \<Longrightarrow>
     settled (apply_options pf key value opts cfg)"
proof (induction opts arbitrary: cfg)
  case Nil
  then show ?case by (simp add: settled_def)
next
  case (Cons x opts)
  obtain n k v where x: "x = (n, k, v)" by (cases x)
  have k: "k = no_argument \<or> k = required_argument" by (cases k) auto
  have "settled (Done cfg)" by (simp add: settled_def)
  then show ?case
    using Cons x k by (auto intro!: settled_bind parse_argument_settled)
qed

lemma process_line_settled: "\<not> nests l \<Longrightarrow> settled (process_line pf l cfg)"
  using apply_options_settled [OF _ only_config_nests no_argument_settled, of _ pf _ cfg]
  by (auto simp: process_line_def nests_def settled_def split: option.split)

lemma process_lines_flat:
  "\<forall>l \<in> set ls. \<not> nests l \<Longrightarrow>
     process_lines pf ls cfg = process_lines pg ls cfg \<and> settled (process_lines pf ls cfg)"
proof (induction ls arbitrary: cfg)
  case Nil
  then show ?case by (simp add: settled_def)
next
  case (Cons l ls)
  then have "process_lines pf ls = process_lines pg ls" by (simp add: fun_eq_iff)
  moreover have "settled (process_lines pf (l # ls) cfg)"
    using Cons by (auto intro!: settled_bind process_line_settled)
  ultimately show ?case using Cons.prems process_line_same [of l pf cfg pg] by simp
qed


definition flat_lines :: "string list" where
  "flat_lines = [''# comment\<newline>'', ''fps = 60\<newline>'', ''codec = hevc\<newline>'']"

definition flat_fs :: filesystem where
  "flat_fs = example_fs\<lparr>fs_files := [''f'' \<mapsto> concat flat_lines]\<rparr>"


text \<open>C30. A configuration file whose first line names the file itself is never read to the end:
  no amount of nesting is enough.\<close>

theorem self_include_diverges:
  assumes "alloc_ok malloc" and "good_value p"
    and "fs_files fs p = Some (write_config_string ''config'' p @ rest)"
  shows "config_file_parse fuel malloc fs p cfg = Out_of_fuel"
proof (induction fuel arbitrary: cfg)
  case 0
  show ?case by simp
next
  case (Suc fuel)
  let ?pf = "config_file_parse fuel malloc fs"
  have k: "saved_key ''config''"
    by (simp add: saved_key_def good_key_def clean_def nul_def is_space_def)
  obtain b where b: "malloc 4096 = Some b" using assms(1) unfolding alloc_ok_def by blast
  obtain xs where xs: "clean xs" "write_config_string ''config'' p = xs @ ''\<newline>''"
    using terminated_string [OF k assms(2)] unfolding terminated_def by blast
  have "process_line ?pf (xs @ ''\<newline>'') cfg = Out_of_fuel"
    using process_string [OF k assms(2), of ?pf cfg] xs(2) Suc.IH by (simp add: option_lookup)
  then have "parse_lines malloc ?pf None (xs @ CHR ''\<newline>'' # rest) cfg = Out_of_fuel"
    using parse_lines_line [OF assms(1) _ xs(1), of None ?pf rest cfg]
    by (auto simp: line_buf_ok_def outcome_bind_def)
  with assms(3) b xs(2) show ?case by (simp add: outcome_bind_def)
qed

definition self_fs :: filesystem where
  "self_fs = example_fs\<lparr>fs_files := [''f'' \<mapsto> write_config_string ''config'' ''f'' @ []]\<rparr>"

theorem self_include_diverges_witness:
  "config_file_parse 100 example_malloc self_fs ''f'' example_config = Out_of_fuel"
proof -
  have 1: "good_value ''f''" by (simp add: good_value_def clean_def nul_def is_space_def)
  have 2: "fs_files self_fs ''f'' = Some (write_config_string ''config'' ''f'' @ [])"
    by (simp add: self_fs_def)
  show ?thesis by (rule self_include_diverges [OF example_malloc_ok 1 2])
qed

section \<open>Single settings\<close>

text \<open>A \<open>mapping\<close> line has no effect of its own but switches the optimal settings off, exactly
  as \<open>nosops\<close> does.\<close>

theorem mapping_line_disables_sops:
  assumes "good_value v"
  shows "process_line pf (write_config_string ''mapping'' v) cfg = Done (cfg\<lparr>sops := False\<rparr>)"
proof -
  have "saved_key ''mapping''"
    by (simp add: saved_key_def good_key_def clean_def nul_def is_space_def)
  then show ?thesis using assms by (simp add: process_string option_lookup)
qed

theorem mapping_line_disables_sops_witness:
  "process_line (\<lambda>_ c. Done (True, c)) (write_config_string ''mapping'' ''pad.txt'') example_config =
     Done (example_config\<lparr>sops := False\<rparr>)"
  by (rule mapping_line_disables_sops) (simp add: good_value_def clean_def nul_def is_space_def)

section \<open>The bitrate table\<close>

lemma power_int_neg_div:
  assumes "e \<le> 0"
  shows "(x::rat) / 2 powi e = x * 2 ^ nat (- e)"
proof -
  from assms have "(2::rat) powi e = inverse (2 ^ nat (- e))"
    by (cases "e = 0") (simp_all add: power_int_def flip: power_inverse)
  then show ?thesis by (simp add: divide_inverse)
qed

lemma bit_len_bound: "n < 2 ^ bit_len n"
proof (induction n rule: bit_len.induct)
  case (1 n)
  show ?case
  proof (cases "n = 0")
    case False
    with 1 have "n div 2 < 2 ^ bit_len (n div 2)" by simp
    then have "n < 2 * 2 ^ bit_len (n div 2)" by linarith
    with False show ?thesis by (subst bit_len.simps) simp
  qed (simp add: bit_len.simps)
qed

lemma bit_len_le: "n < 2 ^ k \<Longrightarrow> bit_len n \<le> k"
proof (induction k arbitrary: n)
  case 0
  then show ?case by (simp add: bit_len.simps)
next
  case (Suc k)
  have "n div 2 < 2 ^ k" using Suc.prems by auto
  with Suc.IH [of "n div 2"] show ?case by (subst bit_len.simps) simp
qed

text \<open>Whole numbers below \<open>2\<^sup>5\<^sup>2\<close> are exact as \<open>double\<close>.\<close>

lemma to_double_int:
  assumes "\<bar>i\<bar> < 2 ^ 52"
  shows "to_double (of_int i) = of_int i"
proof (cases "i = 0")
  case True
  then show ?thesis by (simp add: to_double_def)
next
  case False
  let ?e = "double_exp (of_int i)"
  have "nat \<bar>i\<bar> < 2 ^ 52" using assms by (simp add: nat_less_iff)
  then have "bit_len (nat \<bar>i\<bar>) \<le> 52" by (rule bit_len_le)
  moreover have "bit_len 1 = 1" by (simp add: bit_len.simps)
  ultimately have "?e \<le> 0" by (simp add: double_exp_def Let_def)
  then have 1: "of_int i / 2 powi ?e = (of_int (i * 2 ^ nat (- ?e)) :: rat)"
    by (simp add: power_int_neg_div)
  have 2: "round_half_even (of_int k) = k" for k by (simp add: round_half_even_def)
  have "of_int (round_half_even (of_int i / 2 powi ?e)) = (of_int i / 2 powi ?e :: rat)"
    by (simp only: 1 2)
  with False show ?thesis by (simp add: to_double_def Let_def)
qed

lemma scale_fps_exact:
  assumes "\<bar>m\<bar> < 2 ^ 31" and "is_c_int (kbps * m)"
  shows "scale_fps kbps (30 * m) = kbps * m"
proof -
  have 1: "to_double (of_int m) = of_int m" using assms(1) by (intro to_double_int) simp
  have "\<bar>kbps * m\<bar> < 2 ^ 52"
    using assms(2) by (simp add: is_c_int_def int_min_def int_max_def abs_less_iff)
  then have "to_double (of_int (kbps * m)) = of_int (kbps * m)" by (rule to_double_int)
  then have "to_double (of_int kbps * of_int m) = of_int (kbps * m)" by simp
  with 1 have "scale_fps kbps (30 * m) = int_of_double (of_int (kbps * m))"
    by (simp add: scale_fps_def)
  also have "\<dots> = clamp_long (kbps * m)"
    by (simp add: int_of_double_def flip: of_int_minus del: of_int_mult)
  finally show ?thesis using assms(2) by (simp add: clamp_long_id)
qed

text \<open>The rate in kbit/s at 30 frames per second for a number of pixels.\<close>

definition table_kbps :: "int \<Rightarrow> int" where
  "table_kbps pixels =
     (if pixels \<le> 640 * 360 then 1000 else if pixels \<le> 854 * 480 then 1500
      else if pixels \<le> 1366 * 768 then 5000 else if pixels \<le> 1920 * 1200 then 10000
      else if pixels \<le> 2560 * 1600 then 20000 else 40000)"

text \<open>The default bitrate is the table's rate times the frame rate over 30, exactly, for every
  frame rate that is a multiple of 30 and every frame size; it grows with both.\<close>

theorem default_bitrate_table:
  assumes "st_fps s = 30 * m" and "0 \<le> m" and "m \<le> 50000"
    and "is_c_int (st_width s * st_height s)"
  shows "default_bitrate s = m * table_kbps (st_width s * st_height s) \<and>
     (\<forall>t. st_fps t = 30 * m \<and> is_c_int (st_width t * st_height t) \<and>
          st_width s * st_height s \<le> st_width t * st_height t \<longrightarrow>
          default_bitrate s \<le> default_bitrate t)"
proof -
  have k: "scale_fps k (30 * m) = m * k" if "0 \<le> k" "k \<le> 40000" for k
  proof -
    have "0 \<le> k * m" "k * m \<le> 40000 * 50000"
      using that assms(2,3) mult_mono [of k 40000 m 50000] by simp_all
    then have "is_c_int (k * m)" by (simp add: is_c_int_def int_min_def int_max_def)
    with scale_fps_exact [of m k] assms(2,3) show ?thesis by (simp add: mult.commute)
  qed
  have d: "default_bitrate t = m * table_kbps (st_width t * st_height t)"
    if "st_fps t = 30 * m" "is_c_int (st_width t * st_height t)" for t
    using that by (simp add: default_bitrate_def table_kbps_def k c_int_id Let_def)
  have "table_kbps a \<le> table_kbps b" if "a \<le> b" for a b
    using that by (simp add: table_kbps_def)
  with d assms show ?thesis by (auto intro: mult_left_mono)
qed

theorem default_bitrate_table_witness:
  "default_bitrate (stream (default_config False False)) = 1500"
  using default_bitrate_table [of "stream (default_config False False)" 1]
  by (simp add: default_config_def LiInitializeStreamConfiguration_def is_c_int_def int_min_def
      int_max_def table_kbps_def)

end
