(* ===== verification/FrameQueue.thy ===== *)
theory FrameQueue
  imports Prelude
begin

text \<open>
  \<open>src/wii/wii.c\<close> and the frame type of \<open>src/wii/wii.h\<close>: the two frame buffers of the decoder and the
  queue that hands them from the decoder thread to the drawing thread. A pointer to
  \<open>frames[i]\<close> is the index \<open>i\<close>. Both queue operations hold \<open>queueMutex\<close> for their whole
  body, so an execution of the two threads is a sequence of whole operations.

  \<open>bounded_queue\<close> is the contract of a queue that drops what does not fit; the ring of \<open>wii.c\<close>, with
  its free-running 32-bit indices, is an instance of it.
\<close>

unbundle bit_operations_syntax

section \<open>The contract of a bounded queue\<close>

datatype 'e queue_op = Add 'e | Get

text \<open>An execution is a list of operations; it yields what the gets return.\<close>

primrec exec_ops ::
  "('e \<Rightarrow> 'q \<Rightarrow> 'q) \<Rightarrow> ('q \<Rightarrow> 'e option \<times> 'q) \<Rightarrow> 'e queue_op list \<Rightarrow> 'q \<Rightarrow> 'e option list \<times> 'q" where
  "exec_ops enq deq [] q = ([], q)"
| "exec_ops enq deq (op # ops) q =
     (case op of
        Add x \<Rightarrow> exec_ops enq deq ops (enq x q)
      | Get \<Rightarrow> (let (r, q1) = deq q; (rs, q2) = exec_ops enq deq ops q1 in (r # rs, q2)))"

text \<open>The same on a list that holds at most \<open>cap\<close> elements.\<close>

definition spec_enq :: "nat \<Rightarrow> 'e \<Rightarrow> 'e list \<Rightarrow> 'e list" where
  "spec_enq cap x xs = (if length xs < cap then xs @ [x] else xs)"

fun spec_deq :: "'e list \<Rightarrow> 'e option \<times> 'e list" where
  "spec_deq [] = (None, [])"
| "spec_deq (x # xs) = (Some x, xs)"

text \<open>The elements that are not dropped, when \<open>n\<close> are waiting at the start.\<close>

primrec accepted :: "nat \<Rightarrow> 'e queue_op list \<Rightarrow> nat \<Rightarrow> 'e list" where
  "accepted cap [] n = []"
| "accepted cap (op # ops) n =
     (case op of
        Add x \<Rightarrow> if n < cap then x # accepted cap ops (Suc n) else accepted cap ops n
      | Get \<Rightarrow> accepted cap ops (n - 1))"

definition somes :: "'e option list \<Rightarrow> 'e list" where
  "somes rs = concat (map (\<lambda>r. case r of None \<Rightarrow> [] | Some x \<Rightarrow> [x]) rs)"

lemma somes_simps [simp]: "somes [] = []" "somes (None # rs) = somes rs" "somes (Some x # rs) = x # somes rs"
  by (simp_all add: somes_def)

lemma spec_fifo:
  "exec_ops (spec_enq cap) spec_deq ops xs = (rs, ys) \<Longrightarrow>
     somes rs @ ys = xs @ accepted cap ops (length xs)"
proof (induction ops arbitrary: xs rs)
  case Nil
  then show ?case by simp
next
  case (Cons op ops)
  then show ?case
    by (cases op; cases xs) (auto simp: spec_enq_def split: prod.splits if_splits)
qed

locale bounded_queue =
  fixes enq :: "'e \<Rightarrow> 'q \<Rightarrow> 'q"
    and deq :: "'q \<Rightarrow> 'e option \<times> 'q"
    and contents :: "'q \<Rightarrow> 'e list"
    and ok :: "'q \<Rightarrow> bool"
    and cap :: nat
  assumes ok_cap: "ok q \<Longrightarrow> length (contents q) \<le> cap"
    and ok_enq: "ok q \<Longrightarrow> ok (enq x q)"
    and contents_enq: "ok q \<Longrightarrow> contents (enq x q) = spec_enq cap x (contents q)"
    and ok_deq: "ok q \<Longrightarrow> ok (snd (deq q))"
    and contents_deq: "ok q \<Longrightarrow> spec_deq (contents q) = (fst (deq q), contents (snd (deq q)))"
begin

lemma exec_refines:
  "ok q \<Longrightarrow> exec_ops enq deq ops q = (rs, q') \<Longrightarrow>
     ok q' \<and> exec_ops (spec_enq cap) spec_deq ops (contents q) = (rs, contents q')"
proof (induction ops arbitrary: q rs)
  case Nil
  then show ?case by simp
next
  case (Cons op ops)
  show ?case
  proof (cases op)
    case (Add x)
    with Cons.prems have "exec_ops enq deq ops (enq x q) = (rs, q')" by simp
    from Cons.IH [OF ok_enq [OF Cons.prems(1)] this] Add show ?thesis
      by (simp add: contents_enq [OF Cons.prems(1)])
  next
    case Get
    obtain rs1 where e: "exec_ops enq deq ops (snd (deq q)) = (rs1, q')" and rs: "rs = fst (deq q) # rs1"
      using Cons.prems(2) Get by (auto split: prod.splits)
    from Cons.IH [OF ok_deq [OF Cons.prems(1)] e] Get rs contents_deq [OF Cons.prems(1)]
    show ?thesis by simp
  qed
qed

lemma exec_fifo:
  assumes "ok q" and "exec_ops enq deq ops q = (rs, q')"
  shows "somes rs @ contents q' = contents q @ accepted cap ops (length (contents q))"
  using spec_fifo exec_refines [OF assms] by blast

lemma exec_cap: "ok q \<Longrightarrow> exec_ops enq deq ops q = (rs, q') \<Longrightarrow> length (contents q') \<le> cap"
  using exec_refines ok_cap by blast

end

text \<open>The entries of a producer that takes its \<open>pool\<close> buffers in turn, from number \<open>i\<close> on.\<close>

definition turns :: "nat \<Rightarrow> nat \<Rightarrow> nat \<Rightarrow> nat list" where
  "turns pool i n = map (\<lambda>k. (i + k) mod pool) [0..<n]"

lemma turns_Suc: "turns pool i (Suc n) = turns pool i n @ [(i + n) mod pool]"
  by (simp add: turns_def)

text \<open>
  Such a producer behind a queue with more room than there are buffers: a consumer that is late finds the same buffer twice in the
  queue, the first time with the contents of the second.
\<close>

locale buffer_pool = bounded_queue enq deq contents ok cap
  for enq :: "nat \<Rightarrow> 'q \<Rightarrow> 'q" and deq contents ok cap +
  fixes pool :: nat
  assumes pool_pos: "0 < pool"
    and pool_small: "pool < cap"
begin

lemma produced:
  "ok q \<Longrightarrow> contents q = [] \<Longrightarrow> n \<le> cap \<Longrightarrow> ok (fold enq (turns pool i n) q) \<and> contents (fold enq (turns pool i n) q) = turns pool i n"
proof (induction n)
  case 0
  then show ?case by (simp add: turns_def)
next
  case (Suc n)
  then have "ok (fold enq (turns pool i n) q)" "contents (fold enq (turns pool i n) q) = turns pool i n" by simp_all
  moreover have "length (turns pool i n) < cap" using Suc.prems(3) by (simp add: turns_def)
  ultimately show ?case by (simp add: turns_Suc ok_enq contents_enq spec_enq_def)
qed

lemma late_consumer:
  assumes "ok q" and "contents q = []" and "i < pool"
  shows "fst (deq (fold enq (turns pool i (Suc pool)) q)) = Some i \<and> last (contents (fold enq (turns pool i (Suc pool)) q)) = i"
proof -
  let ?q = "fold enq (turns pool i (Suc pool)) q"
  have q: "ok ?q" "contents ?q = turns pool i (Suc pool)" using produced [OF assms(1,2), of "Suc pool" i] pool_small by simp_all
  have "turns pool i (Suc pool) = i # map (\<lambda>k. (i + k) mod pool) [1..<Suc pool]"
    using assms(3) by (simp add: turns_def upt_conv_Cons del: upt_Suc)
  then have "fst (deq ?q) = Some i" using contents_deq [OF q(1)] q(2) by simp
  moreover have "last (contents ?q) = i" unfolding q(2) by (simp add: turns_Suc assms(3))
  ultimately show ?thesis by blast
qed

end

section \<open>The queue and the frame buffers\<close>

definition NUM_BUFFERS :: nat where "NUM_BUFFERS = 2"
definition MAX_QUEUEMESSAGES :: nat where "MAX_QUEUEMESSAGES = 16"

text \<open>A plane is the heap block it points to, \<open>None\<close> when the pointer is \<open>NULL\<close>.\<close>

record frame_t =
  frm_y :: "u8 list option"
  frm_u :: "u8 list option"
  frm_v :: "u8 list option"
  frm_width :: u32
  frm_height :: u32
  frm_ystride :: u32
  frm_uvstride :: u32

record wii_video =
  currentFrame :: u32
  nextFrame :: u32
  frames :: "frame_t list"
  queueMessages :: "nat option list"
  queueWriteIndex :: u32
  queueReadIndex :: u32

definition clear_planes :: "frame_t \<Rightarrow> frame_t" where
  "clear_planes f = f\<lparr>frm_y := None, frm_u := None, frm_v := None\<rparr>"

text \<open>The queue part of \<open>wii_stream_init\<close>, after \<open>gx_video_init\<close>.\<close>

definition wii_stream_init :: "wii_video \<Rightarrow> wii_video" where
  "wii_stream_init s =
     s\<lparr>currentFrame := 0, nextFrame := 0, queueReadIndex := 0, queueWriteIndex := 0,
       frames := map clear_planes (frames s)\<rparr>"

definition get_frame :: "wii_video \<Rightarrow> nat option \<times> wii_video" where
  "get_frame s =
     (let elements_in = queueWriteIndex s - queueReadIndex s
      in if elements_in = 0 then (None, s)
         else (let i = queueReadIndex s AND of_nat (MAX_QUEUEMESSAGES - 1)
               in (queueMessages s ! unat i, s\<lparr>queueReadIndex := queueReadIndex s + 1\<rparr>)))"

definition add_frame :: "nat \<Rightarrow> wii_video \<Rightarrow> wii_video" where
  "add_frame msg s =
     (let elements_in = queueWriteIndex s - queueReadIndex s
      in if elements_in = of_nat MAX_QUEUEMESSAGES then s
         else (let i = queueWriteIndex s AND of_nat (MAX_QUEUEMESSAGES - 1)
               in s\<lparr>queueWriteIndex := queueWriteIndex s + 1,
                    queueMessages := (queueMessages s)[unat i := Some msg]\<rparr>))"

definition wii_frame_buffer :: "nat \<Rightarrow> wii_video \<Rightarrow> frame_t" where
  "wii_frame_buffer index s = frames s ! index"

text \<open>
  \<open>wii_stream_draw\<close>: with an empty queue the thread sleeps for a millisecond, otherwise
  the frame's planes go to \<open>gx_video_draw_yuv\<close>, whose effect on the drawing state \<open>'g\<close> is \<open>draw_yuv\<close>.
\<close>

definition wii_stream_draw ::
  "(frame_t \<Rightarrow> 'g \<Rightarrow> 'g) \<Rightarrow> wii_video \<times> 'g \<Rightarrow> wii_video \<times> 'g" where
  "wii_stream_draw draw_yuv sg =
     (case sg of (s, g) \<Rightarrow>
        (case get_frame s of
           (None, s') \<Rightarrow> (s', g)
         | (Some i, s') \<Rightarrow> (s', draw_yuv (wii_frame_buffer i s') g)))"

section \<open>The ring implements the contract\<close>

definition queue_len :: "wii_video \<Rightarrow> nat" where
  "queue_len s = unat (queueWriteIndex s - queueReadIndex s)"

definition queue_slot :: "wii_video \<Rightarrow> nat \<Rightarrow> nat" where
  "queue_slot s k = (unat (queueReadIndex s) + k) mod 16"

definition queue_contents :: "wii_video \<Rightarrow> nat list" where
  "queue_contents s = map (\<lambda>k. the (queueMessages s ! queue_slot s k)) [0..<queue_len s]"

definition queue_ok :: "wii_video \<Rightarrow> bool" where
  "queue_ok s \<longleftrightarrow>
     queue_len s \<le> MAX_QUEUEMESSAGES \<and> length (queueMessages s) = MAX_QUEUEMESSAGES \<and>
     list_all (\<lambda>k. queueMessages s ! queue_slot s k \<noteq> None) [0..<queue_len s]"

lemmas queue_defs = queue_len_def queue_slot_def queue_contents_def queue_ok_def MAX_QUEUEMESSAGES_def

lemma and_15_mod: "unat ((x::u32) AND 15) = unat x mod 16"
proof -
  have "x AND 15 = take_bit 4 x" by (simp add: take_bit_eq_mask mask_eq_exp_minus_1 and.commute)
  then show ?thesis by (simp add: unsigned_take_bit_eq take_bit_eq_mod unat_mod_distrib)
qed

lemma unat_add_mod_16: "unat ((x::u32) + y) mod 16 = (unat x + unat y) mod 16"
  by (simp add: unat_word_ariths mod_mod_cancel)

lemma write_slot: "unat (queueWriteIndex s) mod 16 = queue_slot s (queue_len s)"
  using unat_add_mod_16 [of "queueReadIndex s" "queueWriteIndex s - queueReadIndex s"]
  by (simp add: queue_slot_def queue_len_def)

lemma mod_16_inj: "k < 16 \<Longrightarrow> l < 16 \<Longrightarrow> (a + k) mod 16 = (a + l) mod 16 \<Longrightarrow> k = (l::nat)"
proof (induction k l rule: linorder_wlog)
  case (le k l)
  then have "16 dvd l - k" using mod_eq_dvd_iff_nat [of "a + k" "a + l" 16] by simp
  with le show ?case by (auto dest: dvd_imp_le)
qed simp

lemma slot_inj: "k < 16 \<Longrightarrow> l < 16 \<Longrightarrow> queue_slot s k = queue_slot s l \<Longrightarrow> k = l"
  unfolding queue_slot_def by (rule mod_16_inj)

lemma unat_suc_small: "unat (x::u32) < 2 ^ 31 \<Longrightarrow> unat (x + 1) = unat x + 1"
  by (simp add: unat_word_ariths)

lemma queue_full_iff:
  "queueWriteIndex s - queueReadIndex s = of_nat MAX_QUEUEMESSAGES \<longleftrightarrow> queue_len s = 16"
  by (simp add: queue_len_def MAX_QUEUEMESSAGES_def word_unat_eq_iff)

lemma add_frame_ok:
  assumes "queue_ok s"
  shows "queue_ok (add_frame x s) \<and>
    queue_contents (add_frame x s) = spec_enq MAX_QUEUEMESSAGES x (queue_contents s)"
proof (cases "queue_len s = 16")
  case True
  then have "add_frame x s = s" using assms by (simp add: add_frame_def queue_full_iff)
  with True assms show ?thesis by (simp add: spec_enq_def queue_contents_def MAX_QUEUEMESSAGES_def)
next
  case False
  let ?n = "queue_len s" and ?t = "add_frame x s"
  have lt: "?n < 16" using assms False by (simp add: queue_defs)
  have lenm: "length (queueMessages s) = 16" using assms by (simp add: queue_defs)
  have t: "?t = s\<lparr>queueWriteIndex := queueWriteIndex s + 1,
      queueMessages := (queueMessages s)[queue_slot s ?n := Some x]\<rparr>"
    using False queue_full_iff [of s]
    by (simp add: add_frame_def and_15_mod write_slot MAX_QUEUEMESSAGES_def Let_def)
  have n': "queue_len ?t = Suc ?n"
    using lt unat_suc_small [of "queueWriteIndex s - queueReadIndex s"]
    by (simp add: t queue_len_def algebra_simps)
  have slot: "queue_slot ?t k = queue_slot s k" for k by (simp add: t queue_slot_def)
  have lenm': "length (queueMessages ?t) = 16" by (simp add: t lenm)
  have old: "queueMessages ?t ! queue_slot s k = queueMessages s ! queue_slot s k" if "k < ?n" for k
  proof -
    have "queue_slot s k \<noteq> queue_slot s ?n" using slot_inj [of k ?n s] that lt by auto
    then show ?thesis by (simp add: t)
  qed
  have new: "queueMessages ?t ! queue_slot s ?n = Some x"
    by (simp add: t lenm queue_slot_def)
  have "queue_ok ?t"
    using assms lt old new lenm'
    by (auto simp: queue_ok_def n' slot MAX_QUEUEMESSAGES_def list_all_iff less_Suc_eq)
  moreover have "queue_contents ?t = queue_contents s @ [x]"
    using old new by (simp add: queue_contents_def n' slot)
  ultimately show ?thesis using lt by (simp add: spec_enq_def queue_contents_def MAX_QUEUEMESSAGES_def)
qed

lemma get_frame_ok:
  assumes "queue_ok s" and "get_frame s = (r, t)"
  shows "queue_ok t \<and> spec_deq (queue_contents s) = (r, queue_contents t)"
proof (cases "queue_len s")
  case 0
  then have "queueWriteIndex s - queueReadIndex s = 0"
    by (simp add: queue_len_def unat_eq_0)
  with assms 0 show ?thesis by (simp add: get_frame_def queue_contents_def)
next
  case (Suc n)
  then have nz: "queueWriteIndex s - queueReadIndex s \<noteq> 0"
    by (auto simp: queue_len_def)
  then have t: "t = s\<lparr>queueReadIndex := queueReadIndex s + 1\<rparr>"
    and r: "r = queueMessages s ! queue_slot s 0"
    using assms(2) by (auto simp: get_frame_def Let_def MAX_QUEUEMESSAGES_def and_15_mod queue_slot_def)
  have "unat (queueWriteIndex s - queueReadIndex s - 1) = n"
    using Suc unat_minus_one [OF nz] by (simp add: queue_len_def)
  then have n': "queue_len t = n" by (simp add: t queue_len_def algebra_simps)
  have slot: "queue_slot t k = queue_slot s (Suc k)" for k
    using unat_add_mod_16 [of "queueReadIndex s" 1]
      mod_add_left_eq [of "unat (queueReadIndex s + 1)" 16 k]
      mod_add_left_eq [of "unat (queueReadIndex s) + 1" 16 k]
    by (simp add: t queue_slot_def)
  have msgs: "queueMessages t = queueMessages s" by (simp add: t)
  have "queue_contents s = the (queueMessages s ! queue_slot s 0) # queue_contents t"
    using msgs by (simp add: queue_contents_def n' Suc slot upt_conv_Cons del: upt_Suc)
      (simp add: map_Suc_upt [symmetric] comp_def del: upt_Suc)
  moreover have full: "\<forall>k < Suc n. queueMessages s ! queue_slot s k \<noteq> None"
    using assms(1) Suc by (simp add: queue_ok_def list_all_iff del: upt_Suc)
  moreover have "queue_ok t"
    using assms(1) Suc full
    by (auto simp: queue_ok_def n' list_all_iff slot MAX_QUEUEMESSAGES_def msgs)
  ultimately show ?thesis by (auto simp: r)
qed

interpretation fq: bounded_queue add_frame get_frame queue_contents queue_ok MAX_QUEUEMESSAGES
proof unfold_locales
  fix q :: wii_video
  assume q: "queue_ok q"
  then show "length (queue_contents q) \<le> MAX_QUEUEMESSAGES"
    by (simp add: queue_contents_def queue_ok_def)
  show "queue_ok (add_frame x q)" for x using add_frame_ok [OF q] by blast
  show "queue_contents (add_frame x q) = spec_enq MAX_QUEUEMESSAGES x (queue_contents q)" for x
    using add_frame_ok [OF q] by blast
  show "queue_ok (snd (get_frame q))"
    using get_frame_ok [OF q] by (cases "get_frame q") simp
  show "spec_deq (queue_contents q) = (fst (get_frame q), queue_contents (snd (get_frame q)))"
    using get_frame_ok [OF q] by (cases "get_frame q") simp
qed

interpretation fp: buffer_pool add_frame get_frame queue_contents queue_ok MAX_QUEUEMESSAGES NUM_BUFFERS
  by unfold_locales (simp_all add: MAX_QUEUEMESSAGES_def NUM_BUFFERS_def)

lemma wii_stream_init_ok:
  "length (queueMessages s) = MAX_QUEUEMESSAGES \<Longrightarrow>
     queue_ok (wii_stream_init s) \<and> queue_contents (wii_stream_init s) = []"
  by (simp add: queue_ok_def queue_contents_def queue_len_def wii_stream_init_def)

text \<open>C4. The frame queue is a first-in first-out queue of at most 16 entries that drops what does
  not fit: whatever the interleaving of the decoder's and the drawer's operations, and wherever
  the free-running 32-bit indices are (their wrap-around included), the gets return what the same
  operations return on a list, and the entries got so far followed by those still queued are the
  initial ones followed by those accepted, in order.\<close>

theorem frame_queue_fifo:
  assumes "queue_ok s" and "exec_ops add_frame get_frame ops s = (rs, t)"
  shows "queue_ok t \<and>
    exec_ops (spec_enq MAX_QUEUEMESSAGES) spec_deq ops (queue_contents s) = (rs, queue_contents t) \<and>
    somes rs @ queue_contents t =
      queue_contents s @ accepted MAX_QUEUEMESSAGES ops (length (queue_contents s))"
  using fq.exec_refines [OF assms] fq.exec_fifo [OF assms] by simp

definition example_video :: wii_video where
  "example_video =
     \<lparr>currentFrame = 0, nextFrame = 0, frames = replicate 2 \<lparr>frm_y = None, frm_u = None, frm_v = None,
       frm_width = 0, frm_height = 0, frm_ystride = 0, frm_uvstride = 0\<rparr>,
      queueMessages = replicate 16 None, queueWriteIndex = 2 ^ 32 - 1, queueReadIndex = 2 ^ 32 - 1\<rparr>"

theorem frame_queue_fifo_witness:
  "\<exists>t. exec_ops add_frame get_frame [Get, Add 0, Add 1, Get, Get] example_video =
     ([None, Some 0, Some 1], t) \<and> queue_ok t \<and> queue_contents t = []"
proof -
  have ok: "queue_ok example_video" and c: "queue_contents example_video = []"
    by (simp_all add: example_video_def queue_ok_def queue_len_def queue_contents_def MAX_QUEUEMESSAGES_def)
  obtain rs t where e: "exec_ops add_frame get_frame [Get, Add 0, Add 1, Get, Get] example_video = (rs, t)"
    by (cases "exec_ops add_frame get_frame [Get, Add 0, Add 1, Get, Get] example_video")
  show ?thesis
    using frame_queue_fifo [OF ok e] e c by (auto simp: spec_enq_def MAX_QUEUEMESSAGES_def)
qed

end
