(* ===== verification/Raster.thy ===== *)
theory Raster
  imports Prelude
begin

text \<open>
  The loop both text renderers share: two nested counters run over a bitmap of \<open>w\<close> columns and \<open>h\<close> rows and put each of its
  pixels at \<open>(x + p, y + q)\<close> of a canvas. The contract of one step says what \<open>put\<close> does to one pixel inside the canvas
  and what it leaves alone; the loop then inks each covered pixel once.
\<close>

locale raster =
  fixes put :: "nat \<Rightarrow> nat \<Rightarrow> 's \<Rightarrow> 's"
    and get :: "'s \<Rightarrow> int \<Rightarrow> int \<Rightarrow> 'v"
    and ink :: "'s \<Rightarrow> nat \<Rightarrow> nat \<Rightarrow> 'v \<Rightarrow> 'v"
    and inside :: "'s \<Rightarrow> int \<Rightarrow> int \<Rightarrow> bool"
    and same :: "'s \<Rightarrow> 's \<Rightarrow> bool"
    and x y :: int
  assumes same_refl: "same s s"
    and same_trans: "same s t \<Longrightarrow> same t u \<Longrightarrow> same s u"
    and same_put: "same s (put p q s)"
    and inside_same: "same s t \<Longrightarrow> inside t i j = inside s i j"
    and ink_same: "same s t \<Longrightarrow> ink t = ink s"
    and get_put: "inside s i j \<Longrightarrow>
      get (put p q s) i j = (if i = x + int p \<and> j = y + int q then ink s p q (get s i j) else get s i j)"
begin

lemma same_fold: "(\<And>k t. same t (f k t)) \<Longrightarrow> same s (fold f ks s)"
  by (induction ks arbitrary: s) (auto intro: same_refl same_trans)

lemma same_bitmap: "same s (fold (\<lambda>p. fold (put p) qs) ps s)"
  by (intro same_fold same_put)

lemma get_rows:
  assumes "inside s i j" and "distinct qs"
  shows "get (fold (put p) qs s) i j =
     (if i = x + int p \<and> (\<exists>q \<in> set qs. j = y + int q) then ink s p (nat (j - y)) (get s i j) else get s i j)"
  using assms
proof (induction qs arbitrary: s)
  case (Cons q qs)
  let ?t = "put p q s"
  have t: "inside ?t i j" "ink ?t = ink s"
    using inside_same [OF same_put] ink_same [OF same_put] Cons.prems(1) by auto
  have "get (fold (put p) (q # qs) s) i j =
     (if i = x + int p \<and> (\<exists>q \<in> set qs. j = y + int q) then ink s p (nat (j - y)) (get ?t i j) else get ?t i j)"
    using Cons.IH [OF t(1)] Cons.prems(2) t(2) by (cases "\<exists>q \<in> set qs. j = y + int q") simp_all
  with Cons.prems show ?case by (auto simp: get_put)
qed simp

lemma get_columns:
  assumes "inside s i j" and "distinct qs" and "distinct ps"
  shows "get (fold (\<lambda>p. fold (put p) qs) ps s) i j =
     (if (\<exists>p \<in> set ps. i = x + int p) \<and> (\<exists>q \<in> set qs. j = y + int q)
      then ink s (nat (i - x)) (nat (j - y)) (get s i j) else get s i j)"
  using assms
proof (induction ps arbitrary: s)
  case (Cons p ps)
  let ?t = "fold (put p) qs s"
  have same: "same s ?t" by (intro same_fold same_put)
  have t: "inside ?t i j" "ink ?t = ink s"
    using inside_same [OF same] ink_same [OF same] Cons.prems(1) by auto
  have "get (fold (\<lambda>p. fold (put p) qs) (p # ps) s) i j =
     (if (\<exists>p \<in> set ps. i = x + int p) \<and> (\<exists>q \<in> set qs. j = y + int q)
      then ink s (nat (i - x)) (nat (j - y)) (get ?t i j) else get ?t i j)"
    using Cons.IH [OF t(1) Cons.prems(2)] Cons.prems(3) t(2)
    by (cases "\<exists>p \<in> set ps. i = x + int p"; cases "\<exists>q \<in> set qs. j = y + int q") simp_all
  with Cons.prems show ?case by (auto simp: get_rows)
qed simp

lemma get_bitmap:
  assumes "inside s i j"
  shows "get (fold (\<lambda>p. fold (put p) [0..<h]) [0..<w] s) i j =
     (if x \<le> i \<and> i < x + int w \<and> y \<le> j \<and> j < y + int h
      then ink s (nat (i - x)) (nat (j - y)) (get s i j) else get s i j)"
proof -
  have "(\<exists>p \<in> set [0..<n]. k = z + int p) \<longleftrightarrow> z \<le> k \<and> k < z + int n" for n k z
  proof
    assume "z \<le> k \<and> k < z + int n"
    then have "nat (k - z) \<in> set [0..<n]" "k = z + int (nat (k - z))" by auto
    then show "\<exists>p \<in> set [0..<n]. k = z + int p" by blast
  qed auto
  then show ?thesis using get_columns [OF assms, of "[0..<h]" "[0..<w]"] by simp
qed

end

end
