(* ===== verification/Font.thy ===== *)
theory Font
  imports Raster
begin

text \<open>
  \<open>src/wii/font.c\<close>: text drawn into a grey-scale canvas. FreeType is a parameter, a \<open>face\<close> that gives the
  rendered glyph of a character at a pixel size and the line height of a size. The program never calls
  \<open>setlocale\<close>, so \<open>mbstowcs\<close> turns each byte into one wide character. What \<open>Font_Draw\<close> hands to
  \<open>gx_video_draw_gray\<close> is appended to \<open>shown\<close>.
\<close>

section \<open>State\<close>

record glyph =
  bm_width :: int
  bm_rows :: int
  bm_pitch :: int
  bm_buffer :: "u8 list"
  bitmap_left :: int
  bitmap_top :: int
  advance_px :: int

record face =
  face_glyph :: "u32 \<Rightarrow> nat \<Rightarrow> glyph"
  face_line_height :: "u32 \<Rightarrow> int"

record font_state =
  font_buffer :: "u8 list"
  font_width :: u32
  font_height :: u32
  font_pitch :: u32
  font_luma :: u8
  font_a :: u8
  font_overscan :: u32
  pixel_size :: u32
  shown :: "(u32 \<times> u32 \<times> u8 list \<times> u32) list"

definition bg_luma :: u8 where "bg_luma = 45"

section \<open>Operations\<close>

definition Font_SetOverscan :: "u32 \<Rightarrow> font_state \<Rightarrow> font_state" where
  "Font_SetOverscan margin s = s\<lparr>font_overscan := margin\<rparr>"

definition font_overscan_map :: "font_state \<Rightarrow> int \<times> int \<Rightarrow> int \<times> int" where
  "font_overscan_map s xy =
     (if font_overscan s \<le> 0 then xy
      else
        (let m = sint (font_overscan s);
             w = sint (font_width s); h = sint (font_height s);
             sw = c_int (w - 2 * m); sh = c_int (h - 2 * m);
             sw' = (if sw < 1 then 1 else sw); sh' = (if sh < 1 then 1 else sh)
         in (c_int (m + c_div (c_int (fst xy * sw')) w), c_int (m + c_div (c_int (snd xy * sh')) h))))"

definition Font_Clear :: "font_state \<Rightarrow> font_state" where
  "Font_Clear s = s\<lparr>font_buffer := blit (font_buffer s) 0 (replicate (unat (font_width s * font_height s)) bg_luma)\<rparr>"

text \<open>
  \<open>Font_Init\<close> after the face is opened at size 24; \<open>mem\<close> is the block \<open>memalign\<close> gives, \<open>None\<close> when it fails
  (the program then exits).
\<close>

definition Font_Init :: "u32 \<Rightarrow> u32 \<Rightarrow> u8 list option \<Rightarrow> font_state \<Rightarrow> font_state option" where
  "Font_Init efb_width efb_height mem s =
     (case mem of
        None \<Rightarrow> None
      | Some b \<Rightarrow> Some (Font_Clear (s\<lparr>pixel_size := 24, font_width := efb_width, font_height := efb_height,
                                  font_pitch := efb_width, font_buffer := b\<rparr>)))"

definition Font_Deinit :: "font_state \<Rightarrow> font_state" where
  "Font_Deinit s = s\<lparr>font_buffer := []\<rparr>"

definition Font_Draw :: "font_state \<Rightarrow> font_state" where
  "Font_Draw s = s\<lparr>shown := shown s @ [(font_width s, font_height s, font_buffer s, font_pitch s)]\<rparr>"

definition Font_Draw_TVDRC :: "font_state \<Rightarrow> font_state" where
  "Font_Draw_TVDRC s = Font_Draw s"

text \<open>\<open>(font_luma * a + *dst * (255 - a)) / 255\<close> with \<open>a = font_a * opacity / 255\<close> in a byte.\<close>

definition blend :: "u8 \<Rightarrow> u8 \<Rightarrow> u8 \<Rightarrow> u8 \<Rightarrow> u8" where
  "blend luma alpha opacity dst =
     (let a = of_int (uint alpha * uint opacity div 255) :: u8
      in of_int ((uint luma * uint a + uint dst * (255 - uint a)) div 255))"

definition draw_pixel :: "glyph \<Rightarrow> int \<Rightarrow> int \<Rightarrow> nat \<Rightarrow> nat \<Rightarrow> font_state \<Rightarrow> font_state" where
  "draw_pixel bm x y p q s =
     (let i = x + int p; j = y + int q
      in if i < 0 \<or> j < 0 \<or> sint (font_width s) \<le> i \<or> sint (font_height s) \<le> j then s
         else
           (let opacity = bm_buffer bm ! nat (int q * bm_pitch bm + int p)
            in if opacity = 0 then s
               else
                 (let at = unat (of_int j * font_pitch s + of_int i)
                  in s\<lparr>font_buffer := (font_buffer s)
                         [at := blend (font_luma s) (font_a s) opacity (font_buffer s ! at)]\<rparr>)))"

definition draw_freetype_bitmap :: "glyph \<Rightarrow> int \<Rightarrow> int \<Rightarrow> font_state \<Rightarrow> font_state" where
  "draw_freetype_bitmap bm x y s =
     fold (\<lambda>p. fold (\<lambda>q. draw_pixel bm x y p q) [0..<nat (bm_rows bm)]) [0..<nat (bm_width bm)] s"

fun print_glyphs :: "face \<Rightarrow> int \<Rightarrow> int \<Rightarrow> int \<Rightarrow> nat list \<Rightarrow> font_state \<Rightarrow> font_state" where
  "print_glyphs fc ox px py [] s = s"
| "print_glyphs fc ox px py (c # cs) s =
     (if c = 10 then print_glyphs fc ox ox (py + face_line_height fc (pixel_size s)) cs s
      else
        (let g = face_glyph fc (pixel_size s) c
         in print_glyphs fc ox (px + advance_px g) py cs
              (draw_freetype_bitmap g (px + bitmap_left g) (py - bitmap_top g) s)))"

definition Font_Printw :: "face \<Rightarrow> u32 \<Rightarrow> u32 \<Rightarrow> nat list \<Rightarrow> font_state \<Rightarrow> font_state" where
  "Font_Printw fc x y str s =
     (let (ox, oy) = font_overscan_map s (sint x, sint y) in print_glyphs fc ox ox oy str s)"

definition Font_Print :: "face \<Rightarrow> u32 \<Rightarrow> u32 \<Rightarrow> string \<Rightarrow> font_state \<Rightarrow> font_state" where
  "Font_Print fc x y str s = Font_Printw fc x y (map of_char str) s"

definition Font_SetColor :: "nat \<Rightarrow> nat \<Rightarrow> nat \<Rightarrow> nat \<Rightarrow> font_state \<Rightarrow> font_state" where
  "Font_SetColor r g b a s =
     s\<lparr>font_luma := of_nat ((r * 77 + g * 150 + b * 29) div 256), font_a := of_nat a\<rparr>"

definition Font_SetSize :: "u32 \<Rightarrow> font_state \<Rightarrow> font_state" where
  "Font_SetSize sz s = s\<lparr>pixel_size := sz\<rparr>"

definition Font_BufferSize :: "font_state \<Rightarrow> u32" where
  "Font_BufferSize s = font_width s * font_height s"

definition Font_PrintChar :: "face \<Rightarrow> u32 \<Rightarrow> u32 \<Rightarrow> char \<Rightarrow> font_state \<Rightarrow> font_state" where
  "Font_PrintChar fc x y c s =
     (if c = nul then Font_Printw fc x y [] s else Font_Printw fc x y [of_char c] s)"

section \<open>The canvas is only written inside\<close>

text \<open>A canvas as \<open>Font_Init\<close> makes it: rows of \<open>font_pitch = font_width\<close> bytes, of a size that an
  \<open>int\<close> holds.\<close>

definition canvas_ok :: "font_state \<Rightarrow> bool" where
  "canvas_ok s \<longleftrightarrow>
     font_pitch s = font_width s \<and> unat (font_width s) * unat (font_height s) < 2 ^ 31 \<and>
     unat (font_width s) < 2 ^ 31 \<and> unat (font_height s) < 2 ^ 31 \<and>
     length (font_buffer s) = unat (font_width s) * unat (font_height s)"

text \<open>The parts of the state that drawing leaves alone.\<close>

definition same_canvas :: "font_state \<Rightarrow> font_state \<Rightarrow> bool" where
  "same_canvas s t \<longleftrightarrow>
     font_width t = font_width s \<and> font_height t = font_height s \<and> font_pitch t = font_pitch s \<and>
     length (font_buffer t) = length (font_buffer s) \<and> font_luma t = font_luma s \<and> font_a t = font_a s \<and>
     pixel_size t = pixel_size s \<and> font_overscan t = font_overscan s \<and> shown t = shown s"

lemma same_canvas_refl [simp]: "same_canvas s s"
  by (simp add: same_canvas_def)

lemma same_canvas_trans: "same_canvas s t \<Longrightarrow> same_canvas t u \<Longrightarrow> same_canvas s u"
  by (simp add: same_canvas_def)

lemma same_canvas_ok: "same_canvas s t \<Longrightarrow> canvas_ok s \<Longrightarrow> canvas_ok t"
  by (simp add: same_canvas_def canvas_ok_def)

lemma draw_pixel_same: "same_canvas s (draw_pixel bm x y p q s)"
  by (simp add: draw_pixel_def same_canvas_def Let_def)

lemma fold_same: "(\<And>x t. same_canvas t (f x t)) \<Longrightarrow> same_canvas s (fold f xs s)"
  by (induction xs arbitrary: s) (auto intro: same_canvas_trans)

lemma draw_freetype_bitmap_same: "same_canvas s (draw_freetype_bitmap bm x y s)"
  unfolding draw_freetype_bitmap_def by (intro fold_same draw_pixel_same)

lemma print_glyphs_same: "same_canvas s (print_glyphs fc ox px py cs s)"
  by (induction fc ox px py cs s rule: print_glyphs.induct)
    (auto simp: Let_def intro: same_canvas_trans draw_freetype_bitmap_same)

lemma Font_Printw_same: "same_canvas s (Font_Printw fc x y cs s)"
  by (simp add: Font_Printw_def print_glyphs_same split: prod.split)

lemma sint_unat: "unat (w::u32) < 2 ^ 31 \<Longrightarrow> sint w = int (unat w)"
proof -
  assume "unat w < 2 ^ 31"
  then have "int (unat w) < int (2 ^ 31)" by (simp only: of_nat_less_iff)
  then have "uint w < 2 ^ 31" by simp
  moreover have "- (2 ^ 31) \<le> uint w" by (rule order_trans [OF _ uint_ge_0]) simp
  ultimately have "- (2 ^ 31) \<le> uint w \<and> uint w < 2 ^ 31" by blast
  then have "signed_take_bit 31 (uint w) = uint w" by (simp only: signed_take_bit_int_eq_self_iff)
  then show ?thesis by (simp add: sint_uint)
qed

text \<open>Inside the clip the address is the pixel's, below the size of the canvas.\<close>

lemma pixel_address:
  assumes "canvas_ok s" and "0 \<le> i" and "0 \<le> j"
    and "i < sint (font_width s)" and "j < sint (font_height s)"
  shows "unat (of_int j * font_pitch s + of_int i) = nat j * unat (font_width s) + nat i \<and>
    nat j * unat (font_width s) + nat i < length (font_buffer s)"
proof -
  let ?w = "unat (font_width s)" and ?h = "unat (font_height s)"
  have i: "nat i < ?w" and j: "nat j < ?h"
    using assms by (simp_all add: canvas_ok_def sint_unat nat_less_iff)
  then have "nat j * ?w + nat i < (nat j + 1) * ?w" by simp
  also have "\<dots> \<le> ?h * ?w" using j by (intro mult_right_mono) simp_all
  finally have lt: "nat j * ?w + nat i < ?w * ?h" by (simp add: mult.commute)
  have "of_int j * font_pitch s + of_int i = (of_nat (nat j * ?w + nat i) :: u32)"
    using assms by (simp add: canvas_ok_def)
  then have "unat (of_int j * font_pitch s + of_int i) = (nat j * ?w + nat i) mod 2 ^ 32"
    using unat_of_nat [of "nat j * ?w + nat i", where ?'a = 32] by (simp del: of_nat_add of_nat_mult)
  with lt assms(1) show ?thesis by (simp add: canvas_ok_def)
qed

definition pixel :: "font_state \<Rightarrow> int \<Rightarrow> int \<Rightarrow> u8" where
  "pixel s i j = font_buffer s ! (nat j * unat (font_width s) + nat i)"

text \<open>A byte of the blend lies between the two it blends.\<close>

lemma blend_between:
  "min (uint luma) (uint dst) \<le> uint (blend luma alpha op dst) \<and>
   uint (blend luma alpha op dst) \<le> max (uint luma) (uint dst)"
proof -
  define a where "a = uint (of_int (uint alpha * uint op div 255) :: u8)"
  have a: "0 \<le> a" "a \<le> 255" using uint_lt2p [of "of_int (uint alpha * uint op div 255) :: u8"]
    by (simp_all add: a_def)
  have b: "0 \<le> uint luma" "uint luma \<le> 255" "0 \<le> uint dst" "uint dst \<le> 255"
    using uint_lt2p [of luma] uint_lt2p [of dst] by simp_all
  let ?lo = "min (uint luma) (uint dst)" and ?hi = "max (uint luma) (uint dst)"
  let ?v = "uint luma * a + uint dst * (255 - a)"
  have "?lo * a \<le> uint luma * a" "?lo * (255 - a) \<le> uint dst * (255 - a)"
    using a by (intro mult_right_mono; simp)+
  then have lo: "?lo * 255 \<le> ?v" by (simp add: algebra_simps)
  have "uint luma * a \<le> ?hi * a" "uint dst * (255 - a) \<le> ?hi * (255 - a)"
    using a by (intro mult_right_mono; simp)+
  then have hi: "?v \<le> ?hi * 255" by (simp add: algebra_simps)
  have "?lo \<le> ?v div 255" "?v div 255 \<le> ?hi" using lo hi by linarith+
  moreover have "0 \<le> ?v div 255" "?v div 255 < 256" using calculation b by linarith+
  moreover from this have "uint (of_int (?v div 255) :: u8) = ?v div 255"
    by (simp add: uint_word_of_int)
  ultimately show ?thesis by (simp add: blend_def Let_def a_def)
qed


text \<open>The opacity the bitmap at \<open>(x, y)\<close> has at the canvas pixel \<open>(i, j)\<close>; zero outside of it.\<close>

definition opacity_at :: "glyph \<Rightarrow> int \<Rightarrow> int \<Rightarrow> int \<Rightarrow> int \<Rightarrow> u8" where
  "opacity_at bm x y i j =
     (if x \<le> i \<and> i < x + bm_width bm \<and> y \<le> j \<and> j < y + bm_rows bm
      then bm_buffer bm ! nat ((j - y) * bm_pitch bm + (i - x)) else 0)"

lemma pixel_inj:
  assumes "a * w + b = c * w + d" and "b < w" and "d < w"
  shows "a = c \<and> b = (d::nat)"
proof -
  have "(a * w + b) div w = a" "(c * w + d) div w = c" using assms(2,3) by simp_all
  with assms(1) have "a = c" by simp
  with assms(1) show ?thesis by simp
qed

lemma pixel_draw_pixel:
  assumes "canvas_ok s" and "0 \<le> i" and "i < sint (font_width s)" and "0 \<le> j" and "j < sint (font_height s)"
  shows "pixel (draw_pixel bm x y p q s) i j =
     (let opacity = bm_buffer bm ! nat (int q * bm_pitch bm + int p)
      in if i = x + int p \<and> j = y + int q \<and> opacity \<noteq> 0
         then blend (font_luma s) (font_a s) opacity (pixel s i j) else pixel s i j)"
proof -
  let ?i = "x + int p" and ?j = "y + int q"
  note wh = sint_unat [of "font_width s"] sint_unat [of "font_height s"]
  show ?thesis
  proof (cases "0 \<le> ?i \<and> 0 \<le> ?j \<and> ?i < sint (font_width s) \<and> ?j < sint (font_height s)")
    case False
    with assms show ?thesis by (auto simp: draw_pixel_def Let_def)
  next
    case True
    then have a: "unat (of_int ?j * font_pitch s + of_int ?i) = nat ?j * unat (font_width s) + nat ?i"
      and l: "nat ?j * unat (font_width s) + nat ?i < length (font_buffer s)"
      using pixel_address [OF assms(1), of ?i ?j] by auto
    have eq: "nat ?j * unat (font_width s) + nat ?i = nat j * unat (font_width s) + nat i \<longleftrightarrow> ?i = i \<and> ?j = j"
    proof
      assume "nat ?j * unat (font_width s) + nat ?i = nat j * unat (font_width s) + nat i"
      moreover have "?i < int (unat (font_width s))" "i < int (unat (font_width s))"
        using True assms(3) wh(1) assms(1) by (simp_all only: canvas_ok_def)
      then have "nat ?i < unat (font_width s)" "nat i < unat (font_width s)"
        using True assms(2) by linarith+
      ultimately have "nat ?j = nat j \<and> nat ?i = nat i" by (rule pixel_inj)
      with True assms(2,4) show "?i = i \<and> ?j = j" using eq_nat_nat_iff by blast
    qed simp
    from True a l eq show ?thesis
      by (auto simp: draw_pixel_def Let_def pixel_def nth_list_update)
  qed
qed

text \<open>The contract of the shared loop for this canvas.\<close>

definition canvas_at :: "font_state \<Rightarrow> int \<Rightarrow> int \<Rightarrow> bool" where
  "canvas_at s i j \<longleftrightarrow> canvas_ok s \<and> 0 \<le> i \<and> i < sint (font_width s) \<and> 0 \<le> j \<and> j < sint (font_height s)"

definition ink_luma :: "glyph \<Rightarrow> font_state \<Rightarrow> nat \<Rightarrow> nat \<Rightarrow> u8 \<Rightarrow> u8" where
  "ink_luma bm s p q old =
     (let opacity = bm_buffer bm ! nat (int q * bm_pitch bm + int p)
      in if opacity = 0 then old else blend (font_luma s) (font_a s) opacity old)"

interpretation fr: raster "draw_pixel bm x y" pixel "ink_luma bm" canvas_at same_canvas x y for bm x y
proof
  show "same_canvas s s" "same_canvas s t \<Longrightarrow> same_canvas t u \<Longrightarrow> same_canvas s u"
    "same_canvas s (draw_pixel bm x y p q s)" for s t u p q
    by (simp, rule same_canvas_trans, assumption+, rule draw_pixel_same)
  show "canvas_at t i j = canvas_at s i j" if "same_canvas s t" for s t i j
    using that by (simp add: canvas_at_def same_canvas_def canvas_ok_def)
  show "ink_luma bm t = ink_luma bm s" if "same_canvas s t" for s t
    using that by (intro ext) (simp add: ink_luma_def same_canvas_def Let_def)
  show "pixel (draw_pixel bm x y p q s) i j =
      (if i = x + int p \<and> j = y + int q then ink_luma bm s p q (pixel s i j) else pixel s i j)"
    if "canvas_at s i j" for s i j p q
    using that by (auto simp: canvas_at_def pixel_draw_pixel ink_luma_def Let_def)
qed

text \<open>C32. Drawing a glyph anywhere, clipped or not, blends each canvas pixel its bitmap covers exactly once with the
  current luma and leaves every other pixel, the size of the canvas and the pens alone.\<close>

theorem draw_bitmap_pixels:
  assumes "canvas_ok s" and "0 \<le> i" and "i < sint (font_width s)" and "0 \<le> j" and "j < sint (font_height s)"
  shows "pixel (draw_freetype_bitmap bm x y s) i j =
     (if opacity_at bm x y i j = 0 then pixel s i j
      else blend (font_luma s) (font_a s) (opacity_at bm x y i j) (pixel s i j)) \<and>
    same_canvas s (draw_freetype_bitmap bm x y s)"
proof -
  have at: "canvas_at s i j" using assms by (simp add: canvas_at_def)
  have "int (nat (bm_width bm)) = bm_width bm \<or> bm_width bm < 0" "int (nat (bm_rows bm)) = bm_rows bm \<or> bm_rows bm < 0"
    by linarith+
  then show ?thesis
    using fr.get_bitmap [OF at, of bm x y "nat (bm_rows bm)" "nat (bm_width bm)"]
    by (auto simp: draw_freetype_bitmap_def opacity_at_def ink_luma_def Let_def
        draw_freetype_bitmap_same [unfolded draw_freetype_bitmap_def])
qed

definition example_canvas :: font_state where
  "example_canvas = \<lparr>font_buffer = replicate 12 45, font_width = 4, font_height = 3, font_pitch = 4,
     font_luma = 255, font_a = 255, font_overscan = 0, pixel_size = 24, shown = []\<rparr>"

definition example_glyph :: glyph where
  "example_glyph = \<lparr>bm_width = 2, bm_rows = 2, bm_pitch = 2, bm_buffer = [255, 0, 255, 128],
     bitmap_left = 0, bitmap_top = 0, advance_px = 3\<rparr>"

theorem draw_bitmap_pixels_witness:
  "pixel (draw_freetype_bitmap example_glyph 3 (- 1) example_canvas) 3 0 = 255 \<and>
   pixel (draw_freetype_bitmap example_glyph 3 (- 1) example_canvas) 0 1 = 45"
proof -
  have ok: "canvas_ok example_canvas" by (simp add: canvas_ok_def example_canvas_def)
  have w: "sint (font_width example_canvas) = 4" "sint (font_height example_canvas) = 3"
    by (simp_all add: example_canvas_def)
  have 1: "(0::int) \<le> 3" "3 < sint (font_width example_canvas)" "(0::int) \<le> 0" "0 < sint (font_height example_canvas)"
    and 2: "(0::int) \<le> 0" "0 < sint (font_width example_canvas)" "(0::int) \<le> 1" "1 < sint (font_height example_canvas)"
    by (simp_all add: w)
  show ?thesis
    using draw_bitmap_pixels [OF ok 1, of example_glyph 3 "- 1"]
      draw_bitmap_pixels [OF ok 2, of example_glyph 3 "- 1"]
    by (simp add: opacity_at_def example_glyph_def pixel_def example_canvas_def blend_def)
qed

end
