(* ===== verification/Input.thy ===== *)
theory Input
  imports Prelude
begin

text \<open>
  \<open>src/wii/proc.c\<close> and \<open>src/wii/input.c\<close>: the flags of the process, the HOME button automaton
  and the translation of a Wiimote sample into a controller event of the stream or into the buttons of the
  menu. A call of \<open>WPAD_ScanPads\<close> followed by \<open>WPAD_Data\<close> gives a sample, which is an argument, as is
  the clock; the masks of \<open>wpad.h\<close> and the flags of \<open>Limelight.h\<close> have their published values.
\<close>

unbundle bit_operations_syntax

section \<open>Data\<close>

definition WPAD_BUTTON_2 :: u32 where "WPAD_BUTTON_2 = 0x0001"
definition WPAD_BUTTON_1 :: u32 where "WPAD_BUTTON_1 = 0x0002"
definition WPAD_BUTTON_B :: u32 where "WPAD_BUTTON_B = 0x0004"
definition WPAD_BUTTON_A :: u32 where "WPAD_BUTTON_A = 0x0008"
definition WPAD_BUTTON_MINUS :: u32 where "WPAD_BUTTON_MINUS = 0x0010"
definition WPAD_BUTTON_HOME :: u32 where "WPAD_BUTTON_HOME = 0x0080"
definition WPAD_BUTTON_LEFT :: u32 where "WPAD_BUTTON_LEFT = 0x0100"
definition WPAD_BUTTON_RIGHT :: u32 where "WPAD_BUTTON_RIGHT = 0x0200"
definition WPAD_BUTTON_DOWN :: u32 where "WPAD_BUTTON_DOWN = 0x0400"
definition WPAD_BUTTON_UP :: u32 where "WPAD_BUTTON_UP = 0x0800"
definition WPAD_BUTTON_PLUS :: u32 where "WPAD_BUTTON_PLUS = 0x1000"

lemmas wpad_defs = WPAD_BUTTON_2_def WPAD_BUTTON_1_def WPAD_BUTTON_B_def WPAD_BUTTON_A_def
  WPAD_BUTTON_MINUS_def WPAD_BUTTON_HOME_def WPAD_BUTTON_LEFT_def WPAD_BUTTON_RIGHT_def
  WPAD_BUTTON_DOWN_def WPAD_BUTTON_UP_def WPAD_BUTTON_PLUS_def

definition A_FLAG :: u16 where "A_FLAG = 0x1000"
definition B_FLAG :: u16 where "B_FLAG = 0x2000"
definition X_FLAG :: u16 where "X_FLAG = 0x4000"
definition Y_FLAG :: u16 where "Y_FLAG = 0x8000"
definition UP_FLAG :: u16 where "UP_FLAG = 0x0001"
definition DOWN_FLAG :: u16 where "DOWN_FLAG = 0x0002"
definition LEFT_FLAG :: u16 where "LEFT_FLAG = 0x0004"
definition RIGHT_FLAG :: u16 where "RIGHT_FLAG = 0x0008"
definition LB_FLAG :: u16 where "LB_FLAG = 0x0100"
definition RB_FLAG :: u16 where "RB_FLAG = 0x0200"
definition PLAY_FLAG :: u16 where "PLAY_FLAG = 0x0010"
definition BACK_FLAG :: u16 where "BACK_FLAG = 0x0020"

lemmas flag_defs = A_FLAG_def B_FLAG_def X_FLAG_def Y_FLAG_def UP_FLAG_def DOWN_FLAG_def
  LEFT_FLAG_def RIGHT_FLAG_def LB_FLAG_def RB_FLAG_def PLAY_FLAG_def BACK_FLAG_def

text \<open>The Nunchuk of a sample, \<open>None\<close> when the expansion type is another one.\<close>

record nunchuk =
  nun_btns :: u8
  nun_btns_held :: u8
  js_pos_x :: u8
  js_pos_y :: u8
  js_center_x :: u8
  js_center_y :: u8

definition NUNCHUK_BUTTON_Z :: u8 where "NUNCHUK_BUTTON_Z = 1"
definition NUNCHUK_BUTTON_C :: u8 where "NUNCHUK_BUTTON_C = 2"

record wpad =
  pad_err :: bool
  data_present :: bool
  btns_l :: u32
  btns_h :: u32
  btns_d :: u32
  exp_nunchuk :: "nunchuk option"

definition pad_ready :: "wpad \<Rightarrow> bool" where
  "pad_ready w \<longleftrightarrow> \<not> pad_err w \<and> data_present w"

record controller_event =
  controllerNumber :: int
  activeGamepadMask :: u16
  buttonFlags :: u16
  leftTrigger :: u8
  rightTrigger :: u8
  leftStickX :: u16
  leftStickY :: u16
  rightStickX :: u16
  rightStickY :: u16

text \<open>The states of the client (\<open>wii.h\<close>); \<open>state\<close> is a global of \<open>main.c\<close>.\<close>

datatype client_state = STATE_INVALID | STATE_DISCONNECTED | STATE_CONNECTING | STATE_CONNECTED
  | STATE_PAIRING | STATE_START_STREAM | STATE_STOP_STREAM | STATE_STREAMING

record proc_state =
  running :: bool
  want_main_menu :: bool
  homeEnabled :: bool

record input_state = proc_state +
  homeDownMicros :: u64
  homeHeld :: bool
  homeLongFired :: bool
  client :: client_state

section \<open>The process flags\<close>

definition wii_proc_init :: "'a proc_state_scheme \<Rightarrow> 'a proc_state_scheme" where
  "wii_proc_init s = s\<lparr>running := True\<rparr>"

definition wii_proc_shutdown :: "'a proc_state_scheme \<Rightarrow> 'a proc_state_scheme" where
  "wii_proc_shutdown s = s\<lparr>running := False\<rparr>"

definition wii_proc_stop_running :: "'a proc_state_scheme \<Rightarrow> 'a proc_state_scheme" where
  "wii_proc_stop_running s = s\<lparr>running := False\<rparr>"

definition wii_proc_set_home_enabled :: "bool \<Rightarrow> 'a proc_state_scheme \<Rightarrow> 'a proc_state_scheme" where
  "wii_proc_set_home_enabled enabled s = s\<lparr>homeEnabled := enabled\<rparr>"

definition wii_proc_set_want_main_menu :: "bool \<Rightarrow> 'a proc_state_scheme \<Rightarrow> 'a proc_state_scheme" where
  "wii_proc_set_want_main_menu v s = s\<lparr>want_main_menu := v\<rparr>"

section \<open>The HOME button\<close>

datatype home_action = HOME_NONE | HOME_BACK | HOME_QUIT

definition HOME_HOLD_MICROS :: u64 where "HOME_HOLD_MICROS = 3 * 1000 * 1000"

text \<open>\<open>micros_now\<close>: the seconds and microseconds of \<open>gettimeofday\<close> in 64 bits.\<close>

definition micros_now :: "u64 \<Rightarrow> u64 \<Rightarrow> u64" where
  "micros_now tv_sec tv_usec = tv_sec * 1000000 + tv_usec"

definition home_poll :: "u32 \<Rightarrow> u64 \<Rightarrow> input_state \<Rightarrow> home_action \<times> input_state" where
  "home_poll btns now s =
     (if btns AND WPAD_BUTTON_HOME \<noteq> 0 then
        (if \<not> homeHeld s then
           (HOME_NONE, s\<lparr>homeHeld := True, homeLongFired := False, homeDownMicros := now\<rparr>)
         else if \<not> homeLongFired s \<and> HOME_HOLD_MICROS < now - homeDownMicros s then
           (HOME_QUIT, s\<lparr>homeLongFired := True\<rparr>)
         else (HOME_NONE, s))
      else
        (if homeHeld s \<and> \<not> homeLongFired s then HOME_BACK else HOME_NONE,
         s\<lparr>homeHeld := False, homeLongFired := False\<rparr>))"

section \<open>Controller events\<close>

text \<open>\<open>CHECKBTN\<close> and \<open>MAPBTNS\<close>, over the table of their uses.\<close>

fun or_flags :: "u32 \<Rightarrow> (u32 \<times> 'f::len word) list \<Rightarrow> 'f word \<Rightarrow> 'f word" where
  "or_flags btns [] flags = flags"
| "or_flags btns ((v, f) # t) flags = or_flags btns t (if btns AND v \<noteq> 0 then flags OR f else flags)"

definition checkbtn_table :: "(u32 \<times> u16) list" where
  "checkbtn_table =
     [(WPAD_BUTTON_A, A_FLAG), (WPAD_BUTTON_B, B_FLAG), (WPAD_BUTTON_1, LB_FLAG),
      (WPAD_BUTTON_2, RB_FLAG), (WPAD_BUTTON_UP, UP_FLAG), (WPAD_BUTTON_DOWN, DOWN_FLAG),
      (WPAD_BUTTON_LEFT, LEFT_FLAG), (WPAD_BUTTON_RIGHT, RIGHT_FLAG),
      (WPAD_BUTTON_PLUS, PLAY_FLAG), (WPAD_BUTTON_MINUS, BACK_FLAG)]"

text \<open>\<open>(int16_t) ((int16_t) pos - (int16_t) center) * 2\<close>, stored in an \<open>int16_t\<close>.\<close>

definition stick_axis :: "u8 \<Rightarrow> u8 \<Rightarrow> u16" where
  "stick_axis pos center = (ucast pos - ucast center) * 2"

definition send_controller_event :: "wpad \<Rightarrow> controller_event" where
  "send_controller_event w =
     (let btns = btns_l w OR btns_h w;
          flags = or_flags btns checkbtn_table 0;
          base = \<lparr>controllerNumber = 0, activeGamepadMask = 1, buttonFlags = flags, leftTrigger = 0,
             rightTrigger = 0, leftStickX = 0, leftStickY = 0, rightStickX = 0, rightStickY = 0\<rparr>
      in case exp_nunchuk w of
           None \<Rightarrow> base
         | Some n \<Rightarrow>
             (let z = nun_btns_held n AND NUNCHUK_BUTTON_Z \<noteq> 0; c = nun_btns_held n AND NUNCHUK_BUTTON_C \<noteq> 0;
                  f1 = (if c then flags OR Y_FLAG else flags)
              in base\<lparr>rightTrigger := (if z then 0xFF else 0),
                   buttonFlags := (if z then f1 OR X_FLAG else f1),
                   leftStickX := stick_axis (js_pos_x n) (js_center_x n),
                   leftStickY := stick_axis (js_pos_y n) (js_center_y n)\<rparr>))"

definition wii_input_update :: "wpad \<Rightarrow> u64 \<Rightarrow> input_state \<Rightarrow> controller_event option \<times> input_state" where
  "wii_input_update w now s =
     (if \<not> pad_ready w then (None, s)
      else if homeEnabled s then
        (let (action, s') = home_poll (btns_l w OR btns_h w) now s
         in if action = HOME_QUIT then (None, wii_proc_stop_running s')
            else if action = HOME_BACK then (None, s'\<lparr>client := STATE_STOP_STREAM\<rparr>)
            else (Some (send_controller_event w), s'))
      else (Some (send_controller_event w), s))"

definition wii_input_num_controllers :: "wpad \<Rightarrow> nat" where
  "wii_input_num_controllers w = (if pad_ready w then 1 else 0)"

definition mapbtns_table :: "(u32 \<times> u32) list" where
  "mapbtns_table = map (\<lambda>v. (v, v))
     [WPAD_BUTTON_A, WPAD_BUTTON_B, WPAD_BUTTON_1, WPAD_BUTTON_2, WPAD_BUTTON_UP, WPAD_BUTTON_DOWN,
      WPAD_BUTTON_LEFT, WPAD_BUTTON_RIGHT, WPAD_BUTTON_PLUS, WPAD_BUTTON_MINUS, WPAD_BUTTON_HOME]"

definition wii_input_buttons_triggered :: "wpad \<Rightarrow> u64 \<Rightarrow> input_state \<Rightarrow> u32 \<times> input_state" where
  "wii_input_buttons_triggered w now s =
     (if \<not> pad_ready w then (0, s)
      else
        (let s' = (if homeEnabled s then
               (let (action, t) = home_poll (btns_l w OR btns_h w) now s
                in if action = HOME_QUIT then wii_proc_stop_running t
                   else if action = HOME_BACK then wii_proc_set_want_main_menu True t
                   else t)
             else s);
             btns = or_flags (btns_d w) mapbtns_table 0
         in (case exp_nunchuk w of
               None \<Rightarrow> btns
             | Some n \<Rightarrow>
                 (let b1 = (if nun_btns n AND NUNCHUK_BUTTON_Z \<noteq> 0 then btns OR WPAD_BUTTON_2 else btns)
                  in if nun_btns n AND NUNCHUK_BUTTON_C \<noteq> 0 then b1 OR WPAD_BUTTON_1 else b1), s')))"

text \<open>
  \<open>input_thread_proc\<close>: one poll for each time the loop finds \<open>input_thread_running\<close> set; a tick of
  the script is that flag, the sample and the clock. The events sent are returned in order.
\<close>

fun input_thread_proc :: "(bool \<times> wpad \<times> u64) list \<Rightarrow> input_state \<Rightarrow> controller_event list \<times> input_state" where
  "input_thread_proc [] s = ([], s)"
| "input_thread_proc ((go, w, now) # ticks) s =
     (if \<not> go then ([], s)
      else (let (ev, s1) = wii_input_update w now s; (evs, s2) = input_thread_proc ticks s1
            in (case ev of None \<Rightarrow> evs | Some e \<Rightarrow> e # evs, s2)))"

section \<open>Properties\<close>

text \<open>A sequence of polls of the HOME button alone.\<close>

fun home_polls :: "(u32 \<times> u64) list \<Rightarrow> input_state \<Rightarrow> home_action list \<times> input_state" where
  "home_polls [] s = ([], s)"
| "home_polls ((b, t) # ps) s =
     (let (a, s1) = home_poll b t s; (as, s2) = home_polls ps s1 in (a # as, s2))"

text \<open>What is expected of a hold from time \<open>t0\<close>: the first poll past the limit quits.\<close>

fun hold_actions :: "u64 \<Rightarrow> u64 list \<Rightarrow> home_action list" where
  "hold_actions t0 [] = []"
| "hold_actions t0 (t # ts) =
     (if HOME_HOLD_MICROS < t - t0 then HOME_QUIT # map (\<lambda>_. HOME_NONE) ts
      else HOME_NONE # hold_actions t0 ts)"

lemma home_polls_append:
  "home_polls (ps @ qs) s =
     (let (as, s1) = home_polls ps s; (bs, s2) = home_polls qs s1 in (as @ bs, s2))"
  by (induction ps arbitrary: s) (auto split: prod.splits simp: Let_def)

lemma home_polls_fired:
  assumes "homeHeld s" and "homeLongFired s" and "\<forall>b \<in> set bs. b AND WPAD_BUTTON_HOME \<noteq> 0"
  shows "length bs = length ts \<Longrightarrow> home_polls (zip bs ts) s = (map (\<lambda>_. HOME_NONE) ts, s)"
  using assms(3)
proof (induction bs arbitrary: ts)
  case (Cons b bs)
  then show ?case using assms(1,2) by (cases ts) (auto simp: home_poll_def)
qed simp

lemma home_polls_hold:
  assumes "homeHeld s" and "\<not> homeLongFired s"
  shows "length bs = length ts \<Longrightarrow> \<forall>b \<in> set bs. b AND WPAD_BUTTON_HOME \<noteq> 0 \<Longrightarrow>
     home_polls (zip bs ts) s = (hold_actions (homeDownMicros s) ts,
       s\<lparr>homeLongFired := list_ex (\<lambda>t. HOME_HOLD_MICROS < t - homeDownMicros s) ts\<rparr>)"
proof (induction bs arbitrary: ts)
  case Nil
  then show ?case using assms by (cases s) simp
next
  case (Cons b bs)
  then obtain t ts' where ts: "ts = t # ts'" and len: "length bs = length ts'" by (cases ts) auto
  show ?case
  proof (cases "HOME_HOLD_MICROS < t - homeDownMicros s")
    case True
    then have "home_poll b t s = (HOME_QUIT, s\<lparr>homeLongFired := True\<rparr>)"
      using assms Cons.prems(2) by (simp add: home_poll_def)
    moreover have "home_polls (zip bs ts') (s\<lparr>homeLongFired := True\<rparr>) =
        (map (\<lambda>_. HOME_NONE) ts', s\<lparr>homeLongFired := True\<rparr>)"
      using Cons.prems(2) assms(1) len by (intro home_polls_fired) auto
    ultimately show ?thesis using True by (simp add: ts)
  next
    case False
    then have "home_poll b t s = (HOME_NONE, s)"
      using assms Cons.prems(2) by (simp add: home_poll_def)
    with False Cons.IH [OF len] Cons.prems(2) show ?thesis by (simp add: ts)
  qed
qed

text \<open>C23. One press of HOME, whatever else is pressed: pressed at \<open>t0\<close>, still held at the polls \<open>ts\<close>,
  then released. Nothing happens on the press; the first poll more than three seconds after it
  quits, once; the release goes back to the menu exactly when no poll quit; and the automaton
  is ready for the next press.\<close>

theorem home_press_cycle:
  assumes "\<not> homeHeld s"
    and "b0 AND WPAD_BUTTON_HOME \<noteq> 0" and "\<forall>b \<in> set bs. b AND WPAD_BUTTON_HOME \<noteq> 0"
    and "length bs = length ts" and "b1 AND WPAD_BUTTON_HOME = 0"
  shows "home_polls ((b0, t0) # zip bs ts @ [(b1, t1)]) s =
     (HOME_NONE # hold_actions t0 ts @ [if HOME_QUIT \<in> set (hold_actions t0 ts) then HOME_NONE else HOME_BACK],
      s\<lparr>homeHeld := False, homeLongFired := False, homeDownMicros := t0\<rparr>)"
proof -
  let ?s1 = "s\<lparr>homeHeld := True, homeLongFired := False, homeDownMicros := t0\<rparr>"
  have quit: "HOME_QUIT \<in> set (hold_actions t0 ts) \<longleftrightarrow> list_ex (\<lambda>t. HOME_HOLD_MICROS < t - t0) ts" for ts
    by (induction ts) auto
  have "home_poll b0 t0 s = (HOME_NONE, ?s1)" using assms(1,2) by (simp add: home_poll_def)
  moreover have "home_polls (zip bs ts) ?s1 = (hold_actions t0 ts,
      ?s1\<lparr>homeLongFired := list_ex (\<lambda>t. HOME_HOLD_MICROS < t - t0) ts\<rparr>)"
    using home_polls_hold [of ?s1 bs ts] assms(3,4) by simp
  ultimately show ?thesis
    using assms(5) by (simp add: home_polls_append quit home_poll_def)
qed

definition example_input :: input_state where
  "example_input = \<lparr>running = True, want_main_menu = False, homeEnabled = True, homeDownMicros = 0,
     homeHeld = False, homeLongFired = False, client = STATE_STREAMING\<rparr>"

theorem home_press_cycle_witness:
  "fst (home_polls [(0x80, 10), (0x88, 3000010), (0x80, 3000011), (0x80, 9000000), (0, 9000001)] example_input) =
     [HOME_NONE, HOME_NONE, HOME_QUIT, HOME_NONE, HOME_NONE]"
proof -
  have s: "\<not> homeHeld example_input" by (simp add: example_input_def)
  have b: "\<forall>b \<in> set [0x88, 0x80, 0x80::u32]. b AND WPAD_BUTTON_HOME \<noteq> 0"
    by (simp add: WPAD_BUTTON_HOME_def)
  show ?thesis
    using home_press_cycle [OF s, of "0x80" "[0x88, 0x80, 0x80]" "[3000010, 3000011, 9000000]" 0 10 9000001] b
    by (simp add: WPAD_BUTTON_HOME_def HOME_HOLD_MICROS_def)
qed


lemma bit_or_flags:
  "bit (or_flags btns t flags) k \<longleftrightarrow> bit flags k \<or> list_ex (\<lambda>(v, f). btns AND v \<noteq> 0 \<and> bit f k) t"
  by (induction btns t flags rule: or_flags.induct) (auto simp: bit_or_iff)

lemma flag_bit:
  "(x::u16) AND A_FLAG = 0 \<longleftrightarrow> \<not> bit x 12" "x AND B_FLAG = 0 \<longleftrightarrow> \<not> bit x 13"
  "x AND X_FLAG = 0 \<longleftrightarrow> \<not> bit x 14" "x AND Y_FLAG = 0 \<longleftrightarrow> \<not> bit x 15"
  "x AND UP_FLAG = 0 \<longleftrightarrow> \<not> bit x 0" "x AND DOWN_FLAG = 0 \<longleftrightarrow> \<not> bit x 1"
  "x AND LEFT_FLAG = 0 \<longleftrightarrow> \<not> bit x 2" "x AND RIGHT_FLAG = 0 \<longleftrightarrow> \<not> bit x 3"
  "x AND LB_FLAG = 0 \<longleftrightarrow> \<not> bit x 8" "x AND RB_FLAG = 0 \<longleftrightarrow> \<not> bit x 9"
  "x AND PLAY_FLAG = 0 \<longleftrightarrow> \<not> bit x 4" "x AND BACK_FLAG = 0 \<longleftrightarrow> \<not> bit x 5"
  using and_exp_eq_0_iff_not_bit [of x 12] and_exp_eq_0_iff_not_bit [of x 13]
    and_exp_eq_0_iff_not_bit [of x 14] and_exp_eq_0_iff_not_bit [of x 15]
    and_exp_eq_0_iff_not_bit [of x 0] and_exp_eq_0_iff_not_bit [of x 1]
    and_exp_eq_0_iff_not_bit [of x 2] and_exp_eq_0_iff_not_bit [of x 3]
    and_exp_eq_0_iff_not_bit [of x 8] and_exp_eq_0_iff_not_bit [of x 9]
    and_exp_eq_0_iff_not_bit [of x 4] and_exp_eq_0_iff_not_bit [of x 5]
  by (simp_all add: flag_defs)

lemma bit_flag:
  "bit A_FLAG k \<longleftrightarrow> k = 12" "bit B_FLAG k \<longleftrightarrow> k = 13" "bit X_FLAG k \<longleftrightarrow> k = 14" "bit Y_FLAG k \<longleftrightarrow> k = 15"
  "bit UP_FLAG k \<longleftrightarrow> k = 0" "bit DOWN_FLAG k \<longleftrightarrow> k = 1" "bit LEFT_FLAG k \<longleftrightarrow> k = 2"
  "bit RIGHT_FLAG k \<longleftrightarrow> k = 3" "bit LB_FLAG k \<longleftrightarrow> k = 8" "bit RB_FLAG k \<longleftrightarrow> k = 9"
  "bit PLAY_FLAG k \<longleftrightarrow> k = 4" "bit BACK_FLAG k \<longleftrightarrow> k = 5"
proof -
  have f: "A_FLAG = 2 ^ 12" "B_FLAG = 2 ^ 13" "X_FLAG = 2 ^ 14" "Y_FLAG = 2 ^ 15" "UP_FLAG = 2 ^ 0"
    "DOWN_FLAG = 2 ^ 1" "LEFT_FLAG = 2 ^ 2" "RIGHT_FLAG = 2 ^ 3" "LB_FLAG = 2 ^ 8" "RB_FLAG = 2 ^ 9"
    "PLAY_FLAG = 2 ^ 4" "BACK_FLAG = 2 ^ 5"
    by (simp_all add: flag_defs)
  have "bit (2 ^ m :: u16) k \<longleftrightarrow> k = m" if "m < 16" for m
    using that by (auto simp: bit_exp_iff possible_bit_word)
  note pow = this
  show "bit A_FLAG k \<longleftrightarrow> k = 12" "bit B_FLAG k \<longleftrightarrow> k = 13" "bit X_FLAG k \<longleftrightarrow> k = 14"
    "bit Y_FLAG k \<longleftrightarrow> k = 15" "bit UP_FLAG k \<longleftrightarrow> k = 0" "bit DOWN_FLAG k \<longleftrightarrow> k = 1"
    "bit LEFT_FLAG k \<longleftrightarrow> k = 2" "bit RIGHT_FLAG k \<longleftrightarrow> k = 3" "bit LB_FLAG k \<longleftrightarrow> k = 8"
    "bit RB_FLAG k \<longleftrightarrow> k = 9" "bit PLAY_FLAG k \<longleftrightarrow> k = 4" "bit BACK_FLAG k \<longleftrightarrow> k = 5"
    unfolding f by (rule pow, simp)+
qed

lemma table_all:
  "list_all P checkbtn_table \<longleftrightarrow>
     P (WPAD_BUTTON_A, A_FLAG) \<and> P (WPAD_BUTTON_B, B_FLAG) \<and> P (WPAD_BUTTON_1, LB_FLAG) \<and>
     P (WPAD_BUTTON_2, RB_FLAG) \<and> P (WPAD_BUTTON_UP, UP_FLAG) \<and> P (WPAD_BUTTON_DOWN, DOWN_FLAG) \<and>
     P (WPAD_BUTTON_LEFT, LEFT_FLAG) \<and> P (WPAD_BUTTON_RIGHT, RIGHT_FLAG) \<and>
     P (WPAD_BUTTON_PLUS, PLAY_FLAG) \<and> P (WPAD_BUTTON_MINUS, BACK_FLAG)"
  by (simp add: checkbtn_table_def)

lemma bit_table_flags:
  "bit (or_flags b checkbtn_table 0) k \<longleftrightarrow>
     (b AND WPAD_BUTTON_A \<noteq> 0 \<and> k = 12 \<or> b AND WPAD_BUTTON_B \<noteq> 0 \<and> k = 13 \<or>
      b AND WPAD_BUTTON_1 \<noteq> 0 \<and> k = 8 \<or> b AND WPAD_BUTTON_2 \<noteq> 0 \<and> k = 9 \<or>
      b AND WPAD_BUTTON_UP \<noteq> 0 \<and> k = 0 \<or> b AND WPAD_BUTTON_DOWN \<noteq> 0 \<and> k = 1 \<or>
      b AND WPAD_BUTTON_LEFT \<noteq> 0 \<and> k = 2 \<or> b AND WPAD_BUTTON_RIGHT \<noteq> 0 \<and> k = 3 \<or>
      b AND WPAD_BUTTON_PLUS \<noteq> 0 \<and> k = 4 \<or> b AND WPAD_BUTTON_MINUS \<noteq> 0 \<and> k = 5)"
  by (simp add: bit_or_flags checkbtn_table_def bit_flag del: or_flags.simps)

lemma sint_stick_axis: "sint (stick_axis p c) = 2 * (uint p - uint c)"
proof -
  have b: "uint p < 256" "uint c < 256" "0 \<le> uint p" "0 \<le> uint c"
    using uint_lt2p [of p] uint_lt2p [of c] by simp_all
  have "- 32768 \<le> 2 * (uint p - uint c)" using b unfolding right_diff_distrib by linarith
  moreover have "2 * (uint p - uint c) < 32768" using b unfolding right_diff_distrib by linarith
  ultimately have "signed_take_bit 15 (2 * (uint p - uint c)) = 2 * (uint p - uint c)"
    by (intro signed_take_bit_int_eq_self) (simp_all only: power_numeral, simp_all)
  moreover have "stick_axis p c = word_of_int (2 * (uint p - uint c))"
    by (simp only: stick_axis_def ucast_eq wi_hom_sub wi_hom_mult mult.commute [of _ 2] flip: word_of_int_numeral)
  ultimately show ?thesis by (simp add: sint_sbintrunc' del: of_int_diff of_int_mult)
qed


end
