(* ===== verification/Menu.thy ===== *)
theory Menu
  imports Font Input
begin

text \<open>
  \<open>src/wii/menu.c\<close>: the selection list and the text entry. The Wiimote samples of the successive
  \<open>wii_input_buttons_triggered\<close> calls, with their times, are a script in the state; a menu that is
  still open when the script ends is \<open>None\<close>. FreeType is the parameter \<open>fc\<close> of \<open>Font\<close>.
\<close>

unbundle bit_operations_syntax

section \<open>State\<close>

record ui =
  input :: input_state
  font :: font_state
  polls :: "(wpad \<times> u64) list"

definition on_font :: "(font_state \<Rightarrow> font_state) \<Rightarrow> ui \<Rightarrow> ui" where
  "on_font f u = u\<lparr>font := f (font u)\<rparr>"

definition poll_buttons :: "ui \<Rightarrow> (u32 \<times> ui) option" where
  "poll_buttons u =
     (case polls u of
        [] \<Rightarrow> None
      | (w, now) # ps \<Rightarrow>
          (let (btns, inp) = wii_input_buttons_triggered w now (input u)
           in Some (btns, u\<lparr>input := inp, polls := ps\<rparr>)))"

lemma poll_buttons_less: "poll_buttons u = Some (b, v) \<Longrightarrow> length (polls v) < length (polls u)"
  by (auto simp: poll_buttons_def split: list.splits prod.splits)

lemma polls_on_font [simp]: "polls (on_font f u) = polls u"
  and input_on_font [simp]: "input (on_font f u) = input u"
  by (simp_all add: on_font_def)

section \<open>Helpers\<close>

definition MENU_GREEN :: "font_state \<Rightarrow> font_state" where "MENU_GREEN = Font_SetColor 120 255 120 255"
definition MENU_WHITE :: "font_state \<Rightarrow> font_state" where "MENU_WHITE = Font_SetColor 235 235 235 255"
definition MENU_DIM :: "font_state \<Rightarrow> font_state" where "MENU_DIM = Font_SetColor 150 150 150 255"

fun charset_index_from :: "nat \<Rightarrow> string \<Rightarrow> char \<Rightarrow> nat" where
  "charset_index_from i [] c = 0"
| "charset_index_from i (x # xs) c = (if x = c then i else charset_index_from (Suc i) xs c)"

definition charset_index :: "string \<Rightarrow> char \<Rightarrow> nat" where
  "charset_index charset c = charset_index_from 0 charset c"

text \<open>The loop of \<open>extend_to\<close> on the buffer and its length.\<close>

function extend_to :: "string \<Rightarrow> nat \<Rightarrow> nat \<Rightarrow> string \<Rightarrow> string \<times> nat" where
  "extend_to b l p cs = (if l \<le> p then extend_to (b[l := cs ! 0]) (l + 1) p cs else (b, l))"
  by pat_completeness auto
termination by (relation "measure (\<lambda>(b, l, p, cs). Suc p - l)") auto

declare extend_to.simps [simp del]

definition draw_help :: "face \<Rightarrow> string \<Rightarrow> font_state \<Rightarrow> font_state" where
  "draw_help fc txt s = Font_Print fc 8 452 txt (Font_SetSize 18 (MENU_DIM s))"

fun draw_options :: "face \<Rightarrow> nat \<Rightarrow> string list \<Rightarrow> font_state \<Rightarrow> font_state" where
  "draw_options fc i [] s = s"
| "draw_options fc i (opt # opts) s =
     draw_options fc (Suc i) opts (Font_Print fc 56 (of_nat (96 + i * 40)) opt (MENU_WHITE s))"

definition menu_render_base :: "face \<Rightarrow> string \<Rightarrow> string list \<Rightarrow> font_state \<Rightarrow> font_state" where
  "menu_render_base fc title options s =
     draw_help fc ''Up/Down: select   A: ok   B: back''
       (draw_options fc 0 options
          (Font_SetSize 24 (Font_Print fc 8 24 title (Font_SetSize 28 (MENU_WHITE (Font_Clear s))))))"

section \<open>The selection list\<close>

text \<open>The redraw of the highlighted line on a copy of the cached screen, \<open>fsz\<close> bytes of it.\<close>

definition highlight_option :: "face \<Rightarrow> u8 list \<Rightarrow> string list \<Rightarrow> nat \<Rightarrow> font_state \<Rightarrow> font_state" where
  "highlight_option fc base options sel s =
     Font_Draw_TVDRC
       (Font_Print fc 56 (of_nat (96 + sel * 40)) (options ! sel)
          (Font_PrintChar fc 16 (of_nat (96 + sel * 40)) (CHR 0x3E)
             (Font_SetSize 24 (MENU_GREEN (s\<lparr>font_buffer := blit (font_buffer s) 0 base\<rparr>)))))"

definition clamp_index :: "int \<Rightarrow> nat \<Rightarrow> int" where
  "clamp_index sel count =
     (let s1 = (if sel < 0 then 0 else sel) in if int count \<le> s1 then int count - 1 else s1)"

function menu_select_loop ::
  "face \<Rightarrow> u8 list \<Rightarrow> string list \<Rightarrow> int \<Rightarrow> int \<Rightarrow> ui \<Rightarrow> (int \<times> ui) option" where
  "menu_select_loop fc base options sel prev u =
     (if \<not> running (input u) then Some (-1, u)
      else if want_main_menu (input u) then Some (-1, u)
      else
        (let sel = clamp_index sel (length options);
             u1 = (if sel \<noteq> prev then on_font (highlight_option fc base options (nat sel)) u else u)
         in case poll_buttons u1 of
              None \<Rightarrow> None
            | Some (btns, u2) \<Rightarrow>
                if btns AND WPAD_BUTTON_A \<noteq> 0 then Some (sel, u2)
                else if btns AND WPAD_BUTTON_B \<noteq> 0 then Some (-1, u2)
                else if btns AND WPAD_BUTTON_DOWN \<noteq> 0 then
                  menu_select_loop fc base options (sel + 1) sel u2
                else if btns AND WPAD_BUTTON_UP \<noteq> 0 then
                  menu_select_loop fc base options (sel - 1) sel u2
                else menu_select_loop fc base options sel sel u2))"
  by pat_completeness auto
termination
  by (relation "measure (\<lambda>(fc, base, options, sel, prev, u). length (polls u))")
    (auto dest: poll_buttons_less split: if_splits)

declare menu_select_loop.simps [simp del]

text \<open>\<open>options\<close> with its \<open>count\<close> is a list.\<close>

definition menu_select :: "face \<Rightarrow> string \<Rightarrow> string list \<Rightarrow> int \<Rightarrow> ui \<Rightarrow> (int \<times> ui) option" where
  "menu_select fc title options sel u =
     (if options = [] then Some (-1, u)
      else
        (let sel = (if sel < 0 then 0 else sel);
             u1 = on_font (menu_render_base fc title options) u;
             base = take (unat (Font_BufferSize (font u1))) (font_buffer (font u1))
         in menu_select_loop fc base options sel (-1) u1))"

section \<open>Text entry\<close>

text \<open>The value, its cursor, and the character set, redrawn.\<close>

definition draw_value_char :: "face \<Rightarrow> string \<Rightarrow> int \<Rightarrow> nat \<Rightarrow> nat \<Rightarrow> font_state \<Rightarrow> font_state" where
  "draw_value_char fc buf pos len i s =
     Font_PrintChar fc (of_nat (8 + i * 26)) 120 (if i < len then buf ! i else CHR ''.'')
       (if int i = pos then MENU_GREEN s else if i < len then MENU_WHITE s else MENU_DIM s)"

definition draw_charset_char :: "face \<Rightarrow> string \<Rightarrow> int \<Rightarrow> nat \<Rightarrow> font_state \<Rightarrow> font_state" where
  "draw_charset_char fc charset sel i s =
     Font_PrintChar fc 560 (of_nat (60 + i * 24)) (charset ! i)
       (if int i = sel then MENU_GREEN s else MENU_DIM s)"

definition draw_entry ::
  "face \<Rightarrow> string \<Rightarrow> string \<Rightarrow> string \<Rightarrow> int \<Rightarrow> int \<Rightarrow> nat \<Rightarrow> nat \<Rightarrow> font_state \<Rightarrow> font_state" where
  "draw_entry fc title charset buf pos sel len maxlen s =
     (let s1 = Font_SetSize 30 (Font_Print fc 8 24 title (Font_SetSize 28 (MENU_WHITE (Font_Clear s))));
          s2 = fold (draw_value_char fc buf pos len) [0..<(if maxlen < 16 then maxlen else 16)] s1;
          s3 = fold (draw_charset_char fc charset sel) [0..<length charset] (Font_SetSize 22 s2)
      in Font_Draw_TVDRC (draw_help fc ''Up/Down: char   L/R: move   A: done   B: cancel'' s3))"

text \<open>
  The state of one entry: the buffer of 256 bytes, its length, the cursor and the index of the
  selected character. \<open>edit_step\<close> is the reaction to the direction buttons.
\<close>

record edit =
  ed_buf :: string
  ed_len :: nat
  ed_pos :: int
  ed_sel :: int

definition put_char :: "string \<Rightarrow> int \<Rightarrow> edit \<Rightarrow> edit" where
  "put_char charset sel e =
     (let (b, l) = extend_to (ed_buf e) (ed_len e) (nat (ed_pos e)) charset
      in e\<lparr>ed_sel := sel, ed_len := l, ed_buf := b[nat (ed_pos e) := charset ! nat sel]\<rparr>)"

definition edit_step :: "string \<Rightarrow> nat \<Rightarrow> u32 \<Rightarrow> edit \<Rightarrow> edit" where
  "edit_step charset maxlen btns e =
     (let n = int (length charset)
      in if btns AND WPAD_BUTTON_UP \<noteq> 0 then put_char charset ((ed_sel e - 1 + n) mod n) e
         else if btns AND WPAD_BUTTON_DOWN \<noteq> 0 then put_char charset ((ed_sel e + 1) mod n) e
         else if btns AND WPAD_BUTTON_LEFT \<noteq> 0 then
           (if 0 < ed_pos e then
              (let p = ed_pos e - 1
               in e\<lparr>ed_pos := p, ed_sel := int (charset_index charset (ed_buf e ! nat p))\<rparr>)
            else e)
         else if btns AND WPAD_BUTTON_RIGHT \<noteq> 0 then
           (if ed_pos e < int maxlen - 1 then
              (let p = ed_pos e + 1
               in e\<lparr>ed_pos := p,
                    ed_sel := (if int (ed_len e) \<le> p then 0
                               else int (charset_index charset (ed_buf e ! nat p)))\<rparr>)
            else e)
         else e)"

definition edit_clamp :: "string \<Rightarrow> nat \<Rightarrow> edit \<Rightarrow> edit" where
  "edit_clamp charset maxlen e =
     (let p0 = (if ed_pos e < 0 then 0 else ed_pos e);
          p = (if int maxlen - 1 < p0 then int maxlen - 1 else p0)
      in e\<lparr>ed_pos := p, ed_sel := clamp_index (ed_sel e) (length charset)\<rparr>)"

text \<open>What the caller's \<open>out\<close> holds as a string: \<open>strncpy\<close> and the final terminator.\<close>

definition edit_result :: "nat \<Rightarrow> edit \<Rightarrow> string" where
  "edit_result maxlen e = take maxlen (cstr ((ed_buf e)[ed_len e := nul]))"

function menu_input_loop ::
  "face \<Rightarrow> string \<Rightarrow> string \<Rightarrow> nat \<Rightarrow> int \<times> int \<times> int \<Rightarrow> edit \<Rightarrow> ui \<Rightarrow> (string option \<times> ui) option" where
  "menu_input_loop fc title charset maxlen prev e u =
     (if \<not> running (input u) then Some (None, u)
      else if want_main_menu (input u) then Some (None, u)
      else
        (let e = edit_clamp charset maxlen e;
             now = (ed_pos e, ed_sel e, int (ed_len e));
             u1 = (if now \<noteq> prev then
                     on_font (draw_entry fc title charset (ed_buf e) (ed_pos e) (ed_sel e) (ed_len e) maxlen) u
                   else u)
         in case poll_buttons u1 of
              None \<Rightarrow> None
            | Some (btns, u2) \<Rightarrow>
                if btns AND WPAD_BUTTON_A \<noteq> 0 then Some (Some (edit_result maxlen e), u2)
                else if btns AND WPAD_BUTTON_B \<noteq> 0 then Some (None, u2)
                else menu_input_loop fc title charset maxlen now (edit_step charset maxlen btns e) u2))"
  by pat_completeness auto
termination
  by (relation "measure (\<lambda>(fc, title, charset, maxlen, prev, e, u). length (polls u))")
    (auto dest: poll_buttons_less split: if_splits)

declare menu_input_loop.simps [simp del]

definition edit_init :: "string \<Rightarrow> nat \<Rightarrow> string option \<Rightarrow> edit" where
  "edit_init charset maxlen initial =
     (let text = (case initial of None \<Rightarrow> [] | Some i \<Rightarrow> take maxlen i);
          buf = text @ replicate (256 - length text) nul
      in \<lparr>ed_buf = buf, ed_len = length (cstr buf), ed_pos = 0,
          ed_sel = int (charset_index charset (buf ! 0))\<rparr>)"

text \<open>\<open>Some s\<close> is the return value 1 with \<open>s\<close> in \<open>out\<close>, \<open>None\<close> the value 0.\<close>

definition menu_input_string ::
  "face \<Rightarrow> string \<Rightarrow> string \<Rightarrow> int \<Rightarrow> string option \<Rightarrow> ui \<Rightarrow> (string option \<times> ui) option" where
  "menu_input_string fc title charset maxlen initial u =
     (if charset = [] \<or> maxlen \<le> 0 \<or> 256 \<le> maxlen then Some (None, u)
      else menu_input_loop fc title charset (nat maxlen) (-1, -1, -1) (edit_init charset (nat maxlen) initial) u)"

definition menu_input_int :: "face \<Rightarrow> string \<Rightarrow> int \<Rightarrow> ui \<Rightarrow> (int \<times> ui) option" where
  "menu_input_int fc title initial u =
     (let buf = snprintf_to 16 (show_int (if initial < 0 then 0 else initial))
      in case menu_input_string fc title ''0123456789'' 15 (Some buf) u of
           None \<Rightarrow> None
         | Some (None, u') \<Rightarrow> Some (-1, u')
         | Some (Some out, u') \<Rightarrow>
             (let v = atoi out in Some (if v < 0 then 0 else v, u')))"

definition menu_select_bool :: "face \<Rightarrow> string \<Rightarrow> bool \<Rightarrow> ui \<Rightarrow> (int \<times> ui) option" where
  "menu_select_bool fc title initial u =
     (case menu_select fc title [''Yes'', ''No''] (if initial then 0 else 1) u of
        None \<Rightarrow> None
      | Some (r, u') \<Rightarrow> Some (if r < 0 then -1 else if r = 0 then 1 else 0, u'))"

end
