(* ===== verification/MenuFacts.thy ===== *)
theory MenuFacts
  imports Menu
begin

text \<open>
  What the menus promise: an answer as soon as A or B is pressed, a choice inside the list, and a text
  made only of allowed characters, never longer than asked for.
\<close>

unbundle bit_operations_syntax

section \<open>Buttons reach the menus\<close>

text \<open>A sample on which the menus see A or B.\<close>

definition answers :: "wpad \<Rightarrow> bool" where
  "answers w \<longleftrightarrow> pad_ready w \<and> (btns_d w AND WPAD_BUTTON_A \<noteq> 0 \<or> btns_d w AND WPAD_BUTTON_B \<noteq> 0)"

lemma and_nonzero: "(x::'a::len word) AND m \<noteq> 0 \<longleftrightarrow> (\<exists>k. bit x k \<and> bit m k)"
proof -
  have "x AND m = 0 \<longleftrightarrow> (\<forall>k. bit (x AND m) k = bit (0::'a word) k)" by (metis bit_eqI)
  then show ?thesis by (auto simp: bit_and_iff)
qed

lemma mapped_button:
  assumes "btns_d w AND m \<noteq> 0" and "(m, m) \<in> set mapbtns_table" and "pad_ready w"
  shows "fst (wii_input_buttons_triggered w now s) AND m \<noteq> 0"
proof -
  obtain k where k: "bit m k" using assms(1) and_nonzero by blast
  have "list_ex (\<lambda>(v, f). btns_d w AND v \<noteq> 0 \<and> bit f k) mapbtns_table"
    using assms(1,2) k by (auto simp: list_ex_iff)
  then have "bit (or_flags (btns_d w) mapbtns_table 0) k" by (simp add: bit_or_flags)
  then have "bit (fst (wii_input_buttons_triggered w now s)) k"
    using assms(3)
    by (auto simp: wii_input_buttons_triggered_def Let_def bit_or_iff split: option.splits)
  with k show ?thesis using and_nonzero by blast
qed

lemma mapped_AB: "(WPAD_BUTTON_A, WPAD_BUTTON_A) \<in> set mapbtns_table"
  "(WPAD_BUTTON_B, WPAD_BUTTON_B) \<in> set mapbtns_table"
  by (simp_all add: mapbtns_table_def)

lemma answers_button:
  "answers w \<Longrightarrow> fst (wii_input_buttons_triggered w now s) AND WPAD_BUTTON_A \<noteq> 0 \<or>
     fst (wii_input_buttons_triggered w now s) AND WPAD_BUTTON_B \<noteq> 0"
  using mapped_button [OF _ mapped_AB(1), of w now s] mapped_button [OF _ mapped_AB(2), of w now s]
  by (auto simp: answers_def)

section \<open>Selection\<close>

lemma clamp_index_range: "0 < n \<Longrightarrow> 0 \<le> clamp_index sel n \<and> clamp_index sel n < int n"
  by (auto simp: clamp_index_def Let_def)

definition nav_move :: "u32 \<Rightarrow> int" where
  "nav_move b = (if b AND WPAD_BUTTON_DOWN \<noteq> 0 then 1 else if b AND WPAD_BUTTON_UP \<noteq> 0 then -1 else 0)"

text \<open>One round of an open menu with a poll left.\<close>

lemma menu_select_loop_step:
  assumes "running (input u)" and "\<not> want_main_menu (input u)" and "polls u = (w, now) # ps"
    and "wii_input_buttons_triggered w now (input u) = (b, inp)"
  shows "\<exists>u2. polls u2 = ps \<and> input u2 = inp \<and>
    menu_select_loop fc base options sel prev u =
      (let k = clamp_index sel (length options)
       in if b AND WPAD_BUTTON_A \<noteq> 0 then Some (k, u2)
          else if b AND WPAD_BUTTON_B \<noteq> 0 then Some (-1, u2)
          else menu_select_loop fc base options (k + nav_move b) k u2)"
proof -
  let ?k = "clamp_index sel (length options)"
  define u1 where "u1 = (if ?k \<noteq> prev then on_font (highlight_option fc base options (nat ?k)) u else u)"
  have p: "polls u1 = polls u" and i: "input u1 = input u" by (simp_all add: u1_def)
  have poll: "poll_buttons u1 = Some (b, u1\<lparr>input := inp, polls := ps\<rparr>)"
    by (simp add: poll_buttons_def p i assms(3,4))
  have "menu_select_loop fc base options sel prev u =
      (if b AND WPAD_BUTTON_A \<noteq> 0 then Some (?k, u1\<lparr>input := inp, polls := ps\<rparr>)
       else if b AND WPAD_BUTTON_B \<noteq> 0 then Some (-1, u1\<lparr>input := inp, polls := ps\<rparr>)
       else menu_select_loop fc base options (?k + nav_move b) ?k (u1\<lparr>input := inp, polls := ps\<rparr>))"
    by (subst menu_select_loop.simps) (simp add: assms(1,2) u1_def [symmetric] poll nav_move_def Let_def)
  then show ?thesis by (intro exI [of _ "u1\<lparr>input := inp, polls := ps\<rparr>"]) (simp add: Let_def)
qed

lemma menu_select_loop_closed:
  "\<not> running (input u) \<or> want_main_menu (input u) \<Longrightarrow>
     menu_select_loop fc base options sel prev u = Some (-1, u)"
  by (subst menu_select_loop.simps) auto

lemma menu_select_loop_answers:
  assumes "options \<noteq> []"
  shows "list_ex (answers \<circ> fst) (polls u) \<Longrightarrow>
     \<exists>r v. menu_select_loop fc base options sel prev u = Some (r, v) \<and> -1 \<le> r \<and> r < int (length options)"
proof (induction "polls u" arbitrary: u sel prev)
  case (Cons x ps)
  obtain w now where x: "x = (w, now)" by (cases x)
  show ?case
  proof (cases "\<not> running (input u) \<or> want_main_menu (input u)")
    case True
    then show ?thesis by (simp add: menu_select_loop_closed)
  next
    case False
    obtain b inp where bi: "wii_input_buttons_triggered w now (input u) = (b, inp)" by fastforce
    let ?k = "clamp_index sel (length options)"
    obtain u2 where u2: "polls u2 = ps"
      and eq: "menu_select_loop fc base options sel prev u =
        (if b AND WPAD_BUTTON_A \<noteq> 0 then Some (?k, u2)
         else if b AND WPAD_BUTTON_B \<noteq> 0 then Some (-1, u2)
         else menu_select_loop fc base options (?k + nav_move b) ?k u2)"
      using menu_select_loop_step [of u w now ps b inp fc base options sel prev] False bi Cons.hyps(2) x
      by (auto simp: Let_def)
    have k: "0 \<le> ?k" "?k < int (length options)"
      using clamp_index_range [of "length options" sel] assms by auto
    show ?thesis
    proof (cases "answers w")
      case True
      with answers_button [OF True, of now "input u"] bi k show ?thesis by (auto simp: eq)
    next
      case False
      then have "list_ex (answers \<circ> fst) (polls u2)"
        using Cons.prems Cons.hyps(2) by (simp add: u2 x flip: Cons.hyps(2))
      from Cons.hyps(1) [OF u2 [symmetric] this] k show ?thesis by (simp add: eq)
    qed
  qed
qed simp

text \<open>A menu with entries answers as soon as A or B is pressed on any of its polls, whatever else happens
  before, and the answer is \<open>-1\<close> or an index of the list.\<close>

theorem menu_select_answers:
  assumes "options \<noteq> []" and "list_ex (answers \<circ> fst) (polls u)"
  shows "\<exists>r v. menu_select fc title options sel u = Some (r, v) \<and> -1 \<le> r \<and> r < int (length options)"
  using assms menu_select_loop_answers [OF assms(1)]
  by (simp add: menu_select_def Let_def)

definition press :: "u32 \<Rightarrow> wpad" where
  "press b = \<lparr>pad_err = False, data_present = True, btns_l = 0, btns_h = 0, btns_d = b, exp_nunchuk = None\<rparr>"

definition blank_face :: face where
  "blank_face = \<lparr>face_glyph = (\<lambda>_ _. \<lparr>bm_width = 0, bm_rows = 0, bm_pitch = 0, bm_buffer = [],
     bitmap_left = 0, bitmap_top = 0, advance_px = 10\<rparr>), face_line_height = (\<lambda>_. 30)\<rparr>"

definition example_ui :: "(wpad \<times> u64) list \<Rightarrow> ui" where
  "example_ui ps = \<lparr>input = example_input, font = example_canvas, polls = ps\<rparr>"

theorem menu_select_answers_witness:
  "\<exists>r v. menu_select blank_face ''Menu'' [''One'', ''Two''] 0
     (example_ui [(press WPAD_BUTTON_DOWN, 0), (press WPAD_BUTTON_A, 1)]) = Some (r, v) \<and> -1 \<le> r \<and> r < 2"
proof -
  have "[''One'', ''Two''] \<noteq> []" by simp
  moreover have "list_ex (answers \<circ> fst)
      (polls (example_ui [(press WPAD_BUTTON_DOWN, 0), (press WPAD_BUTTON_A, 1)]))"
    by (simp add: example_ui_def answers_def press_def pad_ready_def wpad_defs)
  ultimately show ?thesis using menu_select_answers by fastforce
qed

section \<open>Text entry\<close>

text \<open>The entry's invariant: the buffer keeps its size and its first \<open>ed_len\<close> bytes are characters of \<open>A\<close>.\<close>

definition edit_ok :: "char set \<Rightarrow> nat \<Rightarrow> edit \<Rightarrow> bool" where
  "edit_ok A maxlen e \<longleftrightarrow>
     length (ed_buf e) = 256 \<and> ed_len e \<le> maxlen \<and> set (take (ed_len e) (ed_buf e)) \<subseteq> A"

definition edit_placed :: "string \<Rightarrow> nat \<Rightarrow> edit \<Rightarrow> bool" where
  "edit_placed charset maxlen e \<longleftrightarrow>
     0 \<le> ed_pos e \<and> ed_pos e < int maxlen \<and> 0 \<le> ed_sel e \<and> ed_sel e < int (length charset)"

lemma set_take_update: "l < length b \<Longrightarrow> set (take (Suc l) (b[l := c])) \<subseteq> insert c (set (take l b))"
  by (simp add: take_Suc_conv_app_nth)

lemma extend_to_spec:
  "extend_to b l p cs = (b', l') \<Longrightarrow> p < length b \<Longrightarrow> l \<le> length b \<Longrightarrow>
     length b' = length b \<and> l' = max l (Suc p) \<and> set (take l' b') \<subseteq> insert (cs ! 0) (set (take l b))"
proof (induction b l p cs arbitrary: b' l' rule: extend_to.induct)
  case (1 b l p cs)
  show ?case
  proof (cases "l \<le> p")
    case True
    with "1.prems" have e: "extend_to (b[l := cs ! 0]) (l + 1) p cs = (b', l')"
      by (simp add: extend_to.simps [of b l])
    have "l < length b" using True "1.prems"(2) by simp
    with "1.IH" [OF True e] "1.prems" True set_take_update [of l b "cs ! 0"] show ?thesis by auto
  next
    case False
    with "1.prems" show ?thesis by (auto simp: extend_to.simps [of b l])
  qed
qed

lemma put_char_ok:
  assumes "edit_ok A maxlen e" and "edit_placed charset maxlen e" and "maxlen < 256"
    and "set charset \<subseteq> A" and "0 \<le> sel" and "sel < int (length charset)"
  shows "edit_ok A maxlen (put_char charset sel e)"
proof -
  obtain b l where e: "extend_to (ed_buf e) (ed_len e) (nat (ed_pos e)) charset = (b, l)" by fastforce
  have p: "nat (ed_pos e) < 256" "nat (ed_pos e) < maxlen" "length (ed_buf e) = 256" "ed_len e \<le> 256"
    using assms by (auto simp: edit_ok_def edit_placed_def)
  have x: "length b = 256 \<and> l = max (ed_len e) (Suc (nat (ed_pos e))) \<and>
      set (take l b) \<subseteq> insert (charset ! 0) (set (take (ed_len e) (ed_buf e)))"
    using extend_to_spec [OF e] p by auto
  have "charset \<noteq> []" using assms(5,6) by auto
  then have c: "charset ! 0 \<in> A" "charset ! nat sel \<in> A" using assms(4-6) nth_mem by fastforce+
  have "set (take l (b[nat (ed_pos e) := charset ! nat sel])) \<subseteq> insert (charset ! nat sel) (set (take l b))"
    by (metis set_update_subset_insert take_update_swap)
  also have "\<dots> \<subseteq> A" using x c assms(1) by (auto simp: edit_ok_def)
  finally show ?thesis using x p assms(1) by (simp add: put_char_def e edit_ok_def)
qed

lemma edit_clamp_placed: "0 < maxlen \<Longrightarrow> charset \<noteq> [] \<Longrightarrow> edit_placed charset maxlen (edit_clamp charset maxlen e)"
  using clamp_index_range [of "length charset" "ed_sel e"]
  by (auto simp: edit_placed_def edit_clamp_def Let_def)

lemma edit_clamp_ok: "edit_ok A maxlen e \<Longrightarrow> edit_ok A maxlen (edit_clamp charset maxlen e)"
  by (simp add: edit_ok_def edit_clamp_def Let_def)

lemma edit_step_ok:
  assumes "edit_ok A maxlen e" and "edit_placed charset maxlen e" and "maxlen < 256" and "set charset \<subseteq> A"
  shows "edit_ok A maxlen (edit_step charset maxlen b e)"
proof -
  have n: "0 < int (length charset)" using assms(2) by (auto simp: edit_placed_def)
  have m: "0 \<le> k mod int (length charset)" "k mod int (length charset) < int (length charset)" for k
    using n by simp_all
  have same: "edit_ok A maxlen (e\<lparr>ed_pos := p, ed_sel := q\<rparr>)" for p q
    using assms(1) by (simp add: edit_ok_def)
  show ?thesis
    unfolding edit_step_def Let_def
    by (simp add: same assms(1) put_char_ok [OF assms] m)
qed

lemma menu_input_loop_step:
  assumes "running (input u)" and "\<not> want_main_menu (input u)" and "polls u = (w, now) # ps"
    and "wii_input_buttons_triggered w now (input u) = (b, inp)"
  shows "\<exists>u2. polls u2 = ps \<and> input u2 = inp \<and>
    menu_input_loop fc title charset maxlen prev e u =
      (let k = edit_clamp charset maxlen e
       in if b AND WPAD_BUTTON_A \<noteq> 0 then Some (Some (edit_result maxlen k), u2)
          else if b AND WPAD_BUTTON_B \<noteq> 0 then Some (None, u2)
          else menu_input_loop fc title charset maxlen (ed_pos k, ed_sel k, int (ed_len k))
                 (edit_step charset maxlen b k) u2)"
proof -
  let ?k = "edit_clamp charset maxlen e"
  define u1 where "u1 = (if (ed_pos ?k, ed_sel ?k, int (ed_len ?k)) \<noteq> prev then
      on_font (draw_entry fc title charset (ed_buf ?k) (ed_pos ?k) (ed_sel ?k) (ed_len ?k) maxlen) u else u)"
  have p: "polls u1 = polls u" and i: "input u1 = input u" by (simp_all add: u1_def)
  have poll: "poll_buttons u1 = Some (b, u1\<lparr>input := inp, polls := ps\<rparr>)"
    by (simp add: poll_buttons_def p i assms(3,4))
  have "menu_input_loop fc title charset maxlen prev e u =
      (if b AND WPAD_BUTTON_A \<noteq> 0 then Some (Some (edit_result maxlen ?k), u1\<lparr>input := inp, polls := ps\<rparr>)
       else if b AND WPAD_BUTTON_B \<noteq> 0 then Some (None, u1\<lparr>input := inp, polls := ps\<rparr>)
       else menu_input_loop fc title charset maxlen (ed_pos ?k, ed_sel ?k, int (ed_len ?k))
              (edit_step charset maxlen b ?k) (u1\<lparr>input := inp, polls := ps\<rparr>))"
    by (subst menu_input_loop.simps) (simp only: assms(1,2) u1_def [symmetric] poll Let_def option.case prod.case
        not_True_eq_False if_False simp_thms)
  then show ?thesis by (intro exI [of _ "u1\<lparr>input := inp, polls := ps\<rparr>"]) (simp add: Let_def)
qed

lemma cstr_terminated:
  assumes "nul \<notin> set (take l b)" and "l < length b"
  shows "cstr (b[l := nul]) = take l b"
proof -
  have "b[l := nul] = take l b @ nul # drop (Suc l) b" by (simp add: assms(2) upd_conv_take_nth_drop)
  moreover have "takeWhile (\<lambda>c. c \<noteq> nul) (take l b) = take l b"
    using assms(1) by (auto simp: takeWhile_eq_all_conv)
  ultimately show ?thesis using assms(1) by (auto simp: cstr_def takeWhile_append2)
qed

lemma edit_result_ok:
  assumes "edit_ok A maxlen e" and "maxlen < 256" and "nul \<notin> A"
  shows "edit_result maxlen e = take (ed_len e) (ed_buf e)"
proof -
  have "cstr ((ed_buf e)[ed_len e := nul]) = take (ed_len e) (ed_buf e)"
    using assms by (intro cstr_terminated) (auto simp: edit_ok_def)
  then show ?thesis using assms by (simp add: edit_result_def edit_ok_def)
qed

lemma menu_input_loop_text:
  assumes "0 < maxlen" and "maxlen < 256" and "charset \<noteq> []" and "set charset \<subseteq> A" and "nul \<notin> A"
  shows "edit_ok A maxlen e \<Longrightarrow> menu_input_loop fc title charset maxlen prev e u = Some (Some s, v) \<Longrightarrow>
     length s \<le> maxlen \<and> set s \<subseteq> A"
proof (induction "polls u" arbitrary: u e prev)
  case Nil
  then show ?case
    by (subst (asm) menu_input_loop.simps) (auto simp: poll_buttons_def Let_def split: if_splits)
next
  case (Cons x ps)
  obtain w now where x: "x = (w, now)" by (cases x)
  have open_: "running (input u)" "\<not> want_main_menu (input u)"
    using Cons.prems(2) by (subst (asm) menu_input_loop.simps; auto split: if_splits)+
  obtain b inp where bi: "wii_input_buttons_triggered w now (input u) = (b, inp)" by fastforce
  let ?k = "edit_clamp charset maxlen e"
  obtain u2 where u2: "polls u2 = ps"
    and eq: "menu_input_loop fc title charset maxlen prev e u =
      (if b AND WPAD_BUTTON_A \<noteq> 0 then Some (Some (edit_result maxlen ?k), u2)
       else if b AND WPAD_BUTTON_B \<noteq> 0 then Some (None, u2)
       else menu_input_loop fc title charset maxlen (ed_pos ?k, ed_sel ?k, int (ed_len ?k))
              (edit_step charset maxlen b ?k) u2)"
    using menu_input_loop_step [of u w now ps b inp fc title charset maxlen prev e] open_ bi Cons.hyps(2) x
    by (auto simp: Let_def)
  have ok: "edit_ok A maxlen ?k" and placed: "edit_placed charset maxlen ?k"
    using Cons.prems(1) edit_clamp_ok edit_clamp_placed assms(1,3) by blast+
  show ?case
  proof (cases "b AND WPAD_BUTTON_A \<noteq> 0")
    case True
    then have "s = take (ed_len ?k) (ed_buf ?k)"
      using Cons.prems(2) eq edit_result_ok [OF ok assms(2,5)] by simp
    with ok show ?thesis by (auto simp: edit_ok_def)
  next
    case False
    then have "menu_input_loop fc title charset maxlen (ed_pos ?k, ed_sel ?k, int (ed_len ?k))
        (edit_step charset maxlen b ?k) u2 = Some (Some s, v)"
      using Cons.prems(2) eq by (auto split: if_splits)
    with Cons.hyps(1) [OF u2 [symmetric]] edit_step_ok [OF ok placed assms(2,4)] show ?thesis by blast
  qed
qed

lemma edit_init_ok:
  assumes "maxlen < 256" and "\<And>i. initial = Some i \<Longrightarrow> nul \<notin> set i \<and> set i \<subseteq> A"
  shows "edit_ok A maxlen (edit_init charset maxlen initial)"
proof -
  define t where "t = (case initial of None \<Rightarrow> [] | Some i \<Rightarrow> take maxlen i)"
  have t: "nul \<notin> set t" "set t \<subseteq> A" "length t \<le> maxlen"
    using assms(2) by (auto simp: t_def split: option.splits dest: in_set_takeD)
  have "cstr (t @ replicate (256 - length t) nul) = t"
    using t(1) by (auto simp: cstr_def takeWhile_append)
  then show ?thesis using t assms(1) by (simp add: edit_init_def edit_ok_def t_def [symmetric] Let_def)
qed

lemma input_string_text:
  assumes "menu_input_string fc title charset maxlen initial u = Some (Some s, v)"
    and "nul \<notin> set charset" and "\<And>i. initial = Some i \<Longrightarrow> nul \<notin> set i"
  shows "int (length s) \<le> maxlen \<and> set s \<subseteq> set charset \<union> (case initial of None \<Rightarrow> {} | Some i \<Rightarrow> set i)"
proof -
  let ?A = "set charset \<union> (case initial of None \<Rightarrow> {} | Some i \<Rightarrow> set i)"
  have m: "charset \<noteq> []" "0 < nat maxlen" "nat maxlen < 256"
    and l: "menu_input_loop fc title charset (nat maxlen) (-1, -1, -1)
      (edit_init charset (nat maxlen) initial) u = Some (Some s, v)"
    using assms(1) by (auto simp: menu_input_string_def split: if_splits)
  have A: "nul \<notin> ?A" using assms(2,3) by (auto split: option.splits)
  have "edit_ok ?A (nat maxlen) (edit_init charset (nat maxlen) initial)"
    using assms(3) m by (intro edit_init_ok) auto
  from menu_input_loop_text [OF m(2,3,1) _ A this l] m(2) show ?thesis by auto
qed


lemma menu_input_accept:
  assumes "running (input u)" and "\<not> want_main_menu (input u)" and "polls u = (w, now) # ps"
    and "pad_ready w" and "btns_d w AND WPAD_BUTTON_A \<noteq> 0"
    and "charset \<noteq> []" and "0 < maxlen" and "maxlen < 256"
    and "nul \<notin> set i" and "length i \<le> nat maxlen"
  shows "\<exists>v. menu_input_string fc title charset maxlen (Some i) u = Some (Some i, v)"
proof -
  let ?e = "edit_init charset (nat maxlen) (Some i)"
  obtain b inp where bi: "wii_input_buttons_triggered w now (input u) = (b, inp)" by fastforce
  have A: "b AND WPAD_BUTTON_A \<noteq> 0" using mapped_button [OF assms(5) mapped_AB(1) assms(4)] bi by (metis fst_conv)
  have ok: "edit_ok (set i) (nat maxlen) (edit_clamp charset (nat maxlen) ?e)"
    using assms by (intro edit_clamp_ok edit_init_ok) auto
  have c: "cstr (i @ replicate (256 - length i) nul) = i"
    using assms(9) by (auto simp: cstr_def takeWhile_append)
  have "edit_result (nat maxlen) (edit_clamp charset (nat maxlen) ?e) = i"
    using edit_result_ok [OF ok] assms(8-10) c
    by (simp add: edit_clamp_def edit_init_def Let_def)
  then show ?thesis
    using menu_input_loop_step [OF assms(1-3) bi, of fc title charset "nat maxlen" "(-1, -1, -1)" ?e] A assms(6-8)
    by (auto simp: menu_input_string_def Let_def)
qed

lemma example_press_A: "running (input (example_ui ps))" "\<not> want_main_menu (input (example_ui ps))"
  "polls (example_ui ps) = ps" "pad_ready (press WPAD_BUTTON_A)"
  "btns_d (press WPAD_BUTTON_A) AND WPAD_BUTTON_A \<noteq> 0"
  by (simp_all add: example_ui_def example_input_def press_def pad_ready_def WPAD_BUTTON_A_def)


text \<open>Confirming a number entry at once returns the number it was opened with (zero for a negative one),
  for every \<open>int\<close>: what \<open>%d\<close> prints into the 16 bytes fits and is read back.\<close>

theorem menu_input_int_accepts:
  assumes "running (input u)" and "\<not> want_main_menu (input u)" and "polls u = (w, now) # ps"
    and "pad_ready w" and "btns_d w AND WPAD_BUTTON_A \<noteq> 0" and "is_c_int i"
  shows "\<exists>v. menu_input_int fc title i u = Some (max 0 i, v)"
proof -
  let ?j = "if i < 0 then 0 else i"
  have j: "is_c_int ?j" "?j = max 0 i" using assms(6) by (auto simp: is_c_int_def int_min_def int_max_def)
  have l: "length (show_int ?j) \<le> 11" by (rule length_show_int [OF j(1)])
  then have s: "snprintf_to 16 (show_int ?j) = show_int ?j" by (intro snprintf_to_fits) simp
  have n: "nul \<notin> set (show_int ?j)" by (auto simp: nul_def is_digit_def dest: show_int_chars)
  obtain v where "menu_input_string fc title ''0123456789'' 15 (Some (show_int ?j)) u = Some (Some (show_int ?j), v)"
    using menu_input_accept [OF assms(1-5), of "''0123456789''" 15 "show_int ?j" fc title] l n by auto
  then show ?thesis using j atoi_show_int [OF j(1)] s
    by (auto simp: menu_input_int_def Let_def)
qed

theorem menu_input_int_accepts_witness:
  "\<exists>v. menu_input_int blank_face ''FPS'' 60 (example_ui [(press WPAD_BUTTON_A, 0)]) = Some (60, v)"
  using menu_input_int_accepts [OF example_press_A(1,2) example_press_A(3) example_press_A(4,5), of 60]
  by (auto simp: is_c_int_def int_min_def int_max_def)

end
