(* ===== verification/GsError.thy ===== *)
theory GsError
  imports Prelude
begin

text \<open>
  \<open>libgamestream/errors.h\<close> and \<open>libgamestream/set_error.c\<close>: the return codes and the last error, a
  global that is threaded as a record.
\<close>

definition GS_OK :: int where "GS_OK = 0"
definition GS_FAILED :: int where "GS_FAILED = -1"
definition GS_OUT_OF_MEMORY :: int where "GS_OUT_OF_MEMORY = -2"
definition GS_INVALID :: int where "GS_INVALID = -3"
definition GS_WRONG_STATE :: int where "GS_WRONG_STATE = -4"
definition GS_IO_ERROR :: int where "GS_IO_ERROR = -5"
definition GS_NOT_SUPPORTED_4K :: int where "GS_NOT_SUPPORTED_4K = -6"
definition GS_UNSUPPORTED_VERSION :: int where "GS_UNSUPPORTED_VERSION = -7"
definition GS_NOT_SUPPORTED_MODE :: int where "GS_NOT_SUPPORTED_MODE = -8"
definition GS_ERROR :: int where "GS_ERROR = -9"
definition GS_NOT_SUPPORTED_SOPS_RESOLUTION :: int where "GS_NOT_SUPPORTED_SOPS_RESOLUTION = -10"
definition GS_BAD_CONF :: int where "GS_BAD_CONF = -11"

lemmas gs_codes = GS_OK_def GS_FAILED_def GS_OUT_OF_MEMORY_def GS_INVALID_def GS_WRONG_STATE_def
  GS_IO_ERROR_def GS_NOT_SUPPORTED_4K_def GS_UNSUPPORTED_VERSION_def GS_NOT_SUPPORTED_MODE_def
  GS_ERROR_def GS_NOT_SUPPORTED_SOPS_RESOLUTION_def GS_BAD_CONF_def

record gs_error =
  gs_errno :: int
  gs_errmsg :: string

definition gs_get_error :: "gs_error \<Rightarrow> int \<times> string" where
  "gs_get_error e = (gs_errno e, gs_errmsg e)"

definition gs_get_error_message :: "gs_error \<Rightarrow> string" where
  "gs_get_error_message e = gs_errmsg e"

text \<open>\<open>gs_set_error\<close> with the formatted message, cut to the 1024 bytes of \<open>gs_errmsg\<close>; it returns the code.\<close>

definition gs_set_error :: "int \<Rightarrow> string option \<Rightarrow> gs_error \<Rightarrow> int \<times> gs_error" where
  "gs_set_error error msg e =
     (error, e\<lparr>gs_errno := error, gs_errmsg := (case msg of None \<Rightarrow> [] | Some m \<Rightarrow> snprintf_to 1024 m)\<rparr>)"

end
