(* ===== verification/Http.thy ===== *)
theory Http
  imports Prelude
begin

text \<open>
  \<open>libgamestream/http.c\<close>: the HTTP and HTTPS client. The network is a parameter \<open>internet\<close>: whether
  \<open>socket\<close> works, what names resolve to, and the peer that answers at an address, which may depend on
  the requests sent before (\<open>log\<close>). A peer says how many bytes each send takes, how each round of
  the handshake ends, and what comes back for a request: a finite list of network events after which
  nothing more arrives. mbedtls is behind these events. \<open>None\<close> is undefined behaviour: a read
  outside of an array.

  \<open>HTTP_DATA\<close> is its bytes without the terminator the code keeps behind them, and its size.
\<close>

section \<open>The network\<close>

datatype net_event = Interrupted | Data string | Closed | Broken

record peer =
  p_sends :: "int list"
  p_tls_ready :: "string \<Rightarrow> string \<Rightarrow> bool"
  p_handshake :: "int list"
  p_answer :: "string \<Rightarrow> net_event list"

type_synonym log = "(u32 \<times> u16 \<times> bool \<times> string) list"

record internet =
  in_socket :: "log \<Rightarrow> bool"
  in_aton :: "string \<Rightarrow> u32 option"
  in_dns :: "log \<Rightarrow> string \<Rightarrow> u32 option"
  in_peer :: "log \<Rightarrow> u32 \<Rightarrow> u16 \<Rightarrow> peer option"

record http =
  certPath :: string
  keyPath :: string
  timeout :: int

record http_data =
  memory :: "string option"
  data_size :: nat

section \<open>The TLS byte streams\<close>

text \<open>
  \<open>fd_send\<close> and \<open>fd_recv\<close>, given the native handle of the socket and what \<open>net_write\<close> and \<open>net_recv\<close>
  answer; the counters are those of the log output.
\<close>

definition to_net_fd :: "(string \<times> int) option \<Rightarrow> int" where
  "to_net_fd h = (case h of None \<Rightarrow> -1 | Some (device, native) \<Rightarrow> if device \<noteq> ''soc'' then -1 else native)"

definition fd_send :: "(string \<times> int) option \<Rightarrow> int \<Rightarrow> int \<Rightarrow> int \<times> int" where
  "fd_send h written tlsSendBytes =
     (if to_net_fd h < 0 then (-1, tlsSendBytes)
      else (written, if 0 < written then tlsSendBytes + written else tlsSendBytes))"

definition fd_recv :: "(string \<times> int) option \<Rightarrow> int \<Rightarrow> int \<Rightarrow> int \<times> int" where
  "fd_recv h got tlsRecvBytes =
     (if to_net_fd h < 0 then (-1, tlsRecvBytes)
      else if 0 < got then (got, tlsRecvBytes + got)
      else if got = 0 then (-1, tlsRecvBytes)
      else (got, tlsRecvBytes))"

section \<open>Responses\<close>

definition http_data_alloc :: http_data where
  "http_data_alloc = \<lparr>memory = None, data_size = 0\<rparr>"

text \<open>\<open>fits n\<close>: the allocation of \<open>n\<close> bytes succeeds.\<close>

definition append_data :: "(nat \<Rightarrow> bool) \<Rightarrow> http_data \<Rightarrow> string \<Rightarrow> http_data option" where
  "append_data fits d buf =
     (if \<not> fits (data_size d + length buf + 1) then None
      else Some \<lparr>memory = Some (take (data_size d) (case memory d of None \<Rightarrow> [] | Some m \<Rightarrow> m) @ buf),
                 data_size = data_size d + length buf\<rparr>)"

definition crlf2 :: string where "crlf2 = [CHR 0x0D, CHR 0x0A, CHR 0x0D, CHR 0x0A]"
definition lf2 :: string where "lf2 = [CHR 0x0A, CHR 0x0A]"

text \<open>The length of the header block, separator included.\<close>

definition header_end :: "string \<Rightarrow> nat option" where
  "header_end mem =
     (case strstr (cstr mem) crlf2 of
        Some i \<Rightarrow> Some (i + 4)
      | None \<Rightarrow> (case strstr (cstr mem) lf2 of None \<Rightarrow> None | Some i \<Rightarrow> Some (i + 2)))"

definition strip_headers :: "http_data \<Rightarrow> http_data" where
  "strip_headers d =
     (case memory d of
        None \<Rightarrow> d
      | Some mem \<Rightarrow>
          (case header_end mem of
             None \<Rightarrow> d
           | Some skip \<Rightarrow> \<lparr>memory = Some (drop skip mem), data_size = data_size d - skip\<rparr>))"

fun parse_content_length :: "string \<Rightarrow> nat \<Rightarrow> int" where
  "parse_content_length headers len =
     (if len < 14 then -1
      else if map to_lower (take 14 headers) = ''content-length'' then
        strtol10 (dropWhile (\<lambda>c. c = CHR '' '' \<or> c = CHR 0x09 \<or> c = CHR '':'') (drop 14 headers))
      else parse_content_length (tl headers) (len - 1))"

declare parse_content_length.simps [simp del]

definition response_complete :: "http_data \<Rightarrow> bool" where
  "response_complete d =
     (case memory d of
        None \<Rightarrow> False
      | Some mem \<Rightarrow>
          (case header_end mem of
             None \<Rightarrow> False
           | Some headerLen \<Rightarrow>
               (let cl = parse_content_length (cstr mem) headerLen
                in if cl < 0 then False else cl \<le> int (data_size d) - int headerLen)))"

text \<open>A \<open>recv\<close> takes at most 4096 bytes of what arrived and leaves the rest for the next one.\<close>

definition event_size :: "net_event \<Rightarrow> nat" where
  "event_size e = (case e of Data s \<Rightarrow> Suc (length s) | _ \<Rightarrow> 1)"

function read_loop :: "(nat \<Rightarrow> bool) \<Rightarrow> net_event list \<Rightarrow> http_data \<Rightarrow> http_data" where
  "read_loop fits [] d = d"
| "read_loop fits (Interrupted # es) d = read_loop fits es d"
| "read_loop fits (Closed # es) d = d"
| "read_loop fits (Broken # es) d = d"
| "read_loop fits (Data s # es) d =
     (if s = [] then d
      else
        (case append_data fits d (take 4096 s) of
           None \<Rightarrow> d
         | Some d' \<Rightarrow>
             if response_complete d' then d'
             else read_loop fits (if drop 4096 s = [] then es else Data (drop 4096 s) # es) d'))"
  by pat_completeness auto
termination
  by (relation "measure (\<lambda>(fits, es, d). sum_list (map event_size es))") (auto simp: event_size_def)

text \<open>\<open>read_response\<close> resets \<open>data\<close> first; the result is the return value and the new \<open>data\<close>.\<close>

definition read_response :: "(nat \<Rightarrow> bool) \<Rightarrow> net_event list \<Rightarrow> int \<times> http_data" where
  "read_response fits es =
     (let d = strip_headers (read_loop fits es \<lparr>memory = None, data_size = 0\<rparr>)
      in (if 0 < data_size d then 0 else -1, d))"

section \<open>Requests\<close>

definition strncmp_eq :: "string \<Rightarrow> string \<Rightarrow> bool" where
  "strncmp_eq pre s \<longleftrightarrow> take (length pre) s = pre"

text \<open>\<open>parse_url\<close> gives the scheme, the host, the port and the path.\<close>

definition parse_url :: "string \<Rightarrow> nat \<Rightarrow> nat \<Rightarrow> (bool \<times> string \<times> int \<times> string) option" where
  "parse_url url hostSize pathSize =
     (case (if strncmp_eq ''https://'' url then Some (True, drop 8 url)
            else if strncmp_eq ''http://'' url then Some (False, drop 7 url) else None) of
        None \<Rightarrow> None
      | Some (isHttps, p) \<Rightarrow>
          (let hostEnd = strchr p (CHR ''/''); colon = strchr p (CHR '':'');
               (hostLen, port) =
                 (case colon of
                    Some c \<Rightarrow>
                      if (case hostEnd of None \<Rightarrow> True | Some h \<Rightarrow> c < h) then (c, atoi (drop (c + 1) p))
                      else (the hostEnd, if isHttps then 443 else 80)
                  | None \<Rightarrow>
                      ((case hostEnd of Some h \<Rightarrow> h | None \<Rightarrow> length p), if isHttps then 443 else 80));
               pathStart = (case hostEnd of Some h \<Rightarrow> drop h p | None \<Rightarrow> drop hostLen p)
           in if hostSize \<le> hostLen then None
              else if pathSize \<le> length pathStart then None
              else Some (isHttps, take hostLen p, port, pathStart)))"

definition connect_host :: "internet \<Rightarrow> log \<Rightarrow> string \<Rightarrow> int \<Rightarrow> (u32 \<times> u16 \<times> peer) option" where
  "connect_host net lg host port =
     (if \<not> in_socket net lg then None
      else
        (case (case in_aton net host of Some a \<Rightarrow> Some a | None \<Rightarrow> in_dns net lg host) of
           None \<Rightarrow> None
         | Some addr \<Rightarrow>
             (case in_peer net lg addr (word_of_int port) of
                None \<Rightarrow> None
              | Some p \<Rightarrow> Some (addr, word_of_int port, p))))"

definition crlf :: string where "crlf = [CHR 0x0D, CHR 0x0A]"

definition plain_request :: "string \<Rightarrow> string \<Rightarrow> string" where
  "plain_request host path =
     ''GET '' @ path @ '' HTTP/1.1'' @ crlf @ ''Host: '' @ host @ crlf @ ''User-Agent: Moonlight/1.0'' @ crlf @
     ''Accept: */*'' @ crlf @ ''Connection: close'' @ crlf @ crlf"

definition tls_request_text :: "string \<Rightarrow> string \<Rightarrow> string" where
  "tls_request_text host path =
     ''GET '' @ path @ '' HTTP/1.1'' @ crlf @ ''Host: '' @ host @ crlf @ ''Connection: close'' @ crlf @ crlf"

text \<open>
  The send loops: \<open>request\<close> is the array of \<open>cap\<close> bytes that \<open>snprintf\<close> filled and \<open>requestLen\<close> its return
  value, which may be larger; \<open>results\<close> are the answers of the successive sends (none left: an
  error). The outcome is what was sent, \<open>Some None\<close> on failure; \<open>None\<close> when a send would read past
  the array.
\<close>

fun send_loop :: "nat \<Rightarrow> string \<Rightarrow> nat \<Rightarrow> nat \<Rightarrow> int list \<Rightarrow> string option option" where
  "send_loop cap request requestLen sent results =
     (if requestLen \<le> sent then Some (Some (take requestLen request))
      else if cap < requestLen then None
      else (case results of
              [] \<Rightarrow> Some None
            | r # rs \<Rightarrow> if r \<le> 0 then Some None
                       else send_loop cap request requestLen (sent + nat r) rs))"

declare send_loop.simps [simp del]

definition send_request :: "peer \<Rightarrow> string \<Rightarrow> string \<Rightarrow> string option option" where
  "send_request p host path =
     (let text = plain_request host path
      in send_loop 8192 (snprintf_to 8192 text @ [nul]) (length text) 0 (p_sends p))"

section \<open>HTTPS\<close>

definition MBEDTLS_ERR_SSL_WANT_READ :: int where "MBEDTLS_ERR_SSL_WANT_READ = - 0x6900"
definition MBEDTLS_ERR_SSL_WANT_WRITE :: int where "MBEDTLS_ERR_SSL_WANT_WRITE = - 0x6880"

text \<open>The rounds of the handshake; a peer that stops answering breaks it.\<close>

fun tls_handshake :: "int list \<Rightarrow> int" where
  "tls_handshake [] = -1"
| "tls_handshake (r # rs) =
     (if r = MBEDTLS_ERR_SSL_WANT_READ \<or> r = MBEDTLS_ERR_SSL_WANT_WRITE then tls_handshake rs else r)"

text \<open>\<open>mbedtls_ssl_read\<close> until it returns zero or an error; \<open>False\<close> when appending fails.\<close>

function tls_read_loop :: "(nat \<Rightarrow> bool) \<Rightarrow> net_event list \<Rightarrow> http_data \<Rightarrow> bool \<times> http_data" where
  "tls_read_loop fits [] d = (True, d)"
| "tls_read_loop fits (Interrupted # es) d = (True, d)"
| "tls_read_loop fits (Closed # es) d = (True, d)"
| "tls_read_loop fits (Broken # es) d = (True, d)"
| "tls_read_loop fits (Data s # es) d =
     (if s = [] then (True, d)
      else
        (case append_data fits d (take 4096 s) of
           None \<Rightarrow> (False, d)
         | Some d' \<Rightarrow> tls_read_loop fits (if drop 4096 s = [] then es else Data (drop 4096 s) # es) d'))"
  by pat_completeness auto
termination
  by (relation "measure (\<lambda>(fits, es, d). sum_list (map event_size es))") (auto simp: event_size_def)

text \<open>The return value, the new \<open>data\<close> and the request that was sent.\<close>

definition tls_request ::
  "(nat \<Rightarrow> bool) \<Rightarrow> peer \<Rightarrow> string \<Rightarrow> string \<Rightarrow> string \<Rightarrow> string \<Rightarrow> http_data \<Rightarrow>
     (int \<times> http_data \<times> string option) option" where
  "tls_request fits p host path cert key data =
     (if \<not> p_tls_ready p cert key then Some (-1, data, None)
      else if tls_handshake (p_handshake p) \<noteq> 0 then Some (-1, data, None)
      else
        (let text = tls_request_text host path
         in case send_loop 4096 (snprintf_to 4096 text @ [nul]) (length text) 0 (p_sends p) of
              None \<Rightarrow> None
            | Some None \<Rightarrow> Some (-1, data, None)
            | Some (Some req) \<Rightarrow>
                (case tls_read_loop fits (p_answer p req) \<lparr>memory = None, data_size = 0\<rparr> of
                   (False, d) \<Rightarrow> Some (-1, d, Some req)
                 | (True, d) \<Rightarrow> Some (0, strip_headers d, Some req))))"

section \<open>The interface\<close>

definition http_create :: "string \<Rightarrow> http" where
  "http_create keydir =
     \<lparr>certPath = snprintf_to 4096 (keydir @ ''/'' @ ''client.pem''),
      keyPath = snprintf_to 4096 (keydir @ ''/'' @ ''key.pem''), timeout = 10\<rparr>"

definition http_set_timeout :: "int \<Rightarrow> http \<Rightarrow> http" where
  "http_set_timeout t h = h\<lparr>timeout := t\<rparr>"

definition http_request ::
  "(nat \<Rightarrow> bool) \<Rightarrow> internet \<Rightarrow> http \<Rightarrow> string \<Rightarrow> http_data \<Rightarrow> log \<Rightarrow> (int \<times> http_data \<times> log) option" where
  "http_request fits net h url data lg =
     (case parse_url url 256 4096 of
        None \<Rightarrow> Some (-1, data, lg)
      | Some (isHttps, host, port, path) \<Rightarrow>
          (case connect_host net lg host port of
             None \<Rightarrow> Some (-1, data, lg)
           | Some (addr, pt, p) \<Rightarrow>
               if isHttps then
                 (case tls_request fits p host path (certPath h) (keyPath h) data of
                    None \<Rightarrow> None
                  | Some (ret, d, None) \<Rightarrow> Some (ret, d, lg)
                  | Some (ret, d, Some req) \<Rightarrow> Some (ret, d, lg @ [(addr, pt, True, req)]))
               else
                 (case send_request p host path of
                    None \<Rightarrow> None
                  | Some None \<Rightarrow> Some (-1, data, lg)
                  | Some (Some req) \<Rightarrow>
                      (let (ret, d) = read_response fits (p_answer p req)
                       in Some (ret, d, lg @ [(addr, pt, False, req)])))))"

end
