(* ===== verification/Hex.thy ===== *)
theory Hex
  imports Prelude
begin

text \<open>
  The byte helpers of \<open>libgamestream/client.c\<close> and \<open>libgamestream/crypto.h\<close>: \<open>bytes_to_hex\<close>,
  \<open>hex_to_bytes\<close> and the block loop of \<open>crypt_data\<close>. A byte array is a list of its size; a
  character of a string is a byte.
\<close>

unbundle bit_operations_syntax

section \<open>Definitions\<close>

definition hex_digit :: "nat \<Rightarrow> char" where
  "hex_digit d = char_of (if d < 10 then 48 + d else 87 + d)"

text \<open>\<open>%04x\<close> of an \<open>unsigned int\<close>.\<close>

fun show_hex :: "nat \<Rightarrow> string" where
  "show_hex n = (if n < 16 then [hex_digit n] else show_hex (n div 16) @ [hex_digit (n mod 16)])"

declare show_hex.simps [simp del]

definition hex4 :: "int \<Rightarrow> string" where
  "hex4 i =
     (let t = show_hex (nat (i mod 2 ^ 32)) in replicate (4 - length t) (CHR ''0'') @ t)"

text \<open>\<open>%02x\<close> of a byte.\<close>

definition hex_byte :: "u8 \<Rightarrow> string" where
  "hex_byte b = [hex_digit (unat b div 16), hex_digit (unat b mod 16)]"

definition bytes_to_hex :: "u8 list \<Rightarrow> string" where
  "bytes_to_hex bs = concat (map hex_byte bs)"

text \<open>\<open>map_table\<close>, from the character \<open>0x30\<close> on.\<close>

definition map_table :: "u8 list" where
  "map_table =
     [0, 1, 2, 3, 4, 5, 6, 7, 8, 9, 0, 0, 0, 0, 0, 0,
      0, 0xA, 0xB, 0xC, 0xD, 0xE, 0xF, 0, 0, 0, 0, 0, 0, 0, 0, 0,
      0, 0, 0, 0, 0, 0, 0, 0, 0, 0, 0, 0, 0, 0, 0, 0,
      0, 0xa, 0xb, 0xc, 0xd, 0xe, 0xf]"

definition char_code :: "char \<Rightarrow> nat" where
  "char_code c = of_char c"

text \<open>
  The loop, from input character \<open>count\<close> up to \<open>inl\<close>: the new \<open>out\<close> and whether it went through; a
  character outside \<open>0x30 .. 0x66\<close> ends it.
\<close>

function hex_loop :: "string \<Rightarrow> nat \<Rightarrow> nat \<Rightarrow> u8 list \<Rightarrow> u8 list \<times> bool" where
  "hex_loop inp inl count out =
     (if inl \<le> count then (out, True)
      else
        (let ch1 = char_code (inp ! count); ch2 = char_code (inp ! (count + 1))
         in if ch1 < 0x30 \<or> 0x66 < ch1 \<or> ch2 < 0x30 \<or> 0x66 < ch2 then (out, False)
            else hex_loop inp inl (count + 2)
                   (out[count div 2 := push_bit 4 (map_table ! (ch1 - 0x30)) OR map_table ! (ch2 - 0x30)])))"
  by pat_completeness auto
termination by (relation "measure (\<lambda>(inp, inl, count, out). inl - count)") auto

declare hex_loop.simps [simp del]

text \<open>The new \<open>out\<close>, and the new \<open>*len\<close> when it is assigned.\<close>

definition hex_to_bytes :: "string \<Rightarrow> u8 list \<Rightarrow> nat \<Rightarrow> u8 list \<times> nat option" where
  "hex_to_bytes inp out maxlen =
     (let inl = length inp
      in if odd inl then (out, None)
         else
           (let inl = (if maxlen < inl div 2 then maxlen * 2 else inl);
                (out', through) = hex_loop inp inl 0 out
            in (out', if through then Some (inl div 2) else None)))"

text \<open>\<open>crypt_data\<close> with the block operation \<open>f\<close>, which can fail.\<close>

function crypt_blocks :: "(u8 list \<Rightarrow> u8 list option) \<Rightarrow> u8 list \<Rightarrow> nat \<Rightarrow> nat \<Rightarrow> u8 list \<Rightarrow> bool \<times> u8 list" where
  "crypt_blocks f inp len i out =
     (if len \<le> i then (True, out)
      else
        (case f (take 16 (drop i inp)) of
           None \<Rightarrow> (False, out)
         | Some b \<Rightarrow> crypt_blocks f inp len (i + 16) (blit out i b)))"
  by pat_completeness auto
termination by (relation "measure (\<lambda>(f, inp, len, i, out). len - i)") auto

declare crypt_blocks.simps [simp del]

definition crypt_data :: "(u8 list \<Rightarrow> u8 list option) \<Rightarrow> u8 list \<Rightarrow> u8 list \<Rightarrow> nat \<Rightarrow> bool \<times> u8 list" where
  "crypt_data f inp out len = crypt_blocks f inp len 0 out"

section \<open>Hexadecimal text\<close>

lemma code_hex_digit: "d < 16 \<Longrightarrow> char_code (hex_digit d) = (if d < 10 then 48 + d else 87 + d)"
  by (simp add: char_code_def hex_digit_def)

lemma map_table_digit: "d < 16 \<Longrightarrow> map_table ! (char_code (hex_digit d) - 0x30) = of_nat d"
proof -
  assume d: "d < 16"
  have "list_all (\<lambda>d. map_table ! ((if d < 10 then 48 + d else 87 + d) - 48) = (of_nat d :: u8)) [0..<16]"
    by (simp add: map_table_def upt_rec)
  with d show ?thesis by (simp add: code_hex_digit list_all_iff)
qed

lemma nibbles: "push_bit 4 (of_nat (unat b div 16)) OR of_nat (unat b mod 16) = (b::u8)"
proof (rule bit_word_eqI)
  have b256: "unat b < 256" using unsigned_less [of b, where ?'a = nat] by simp
  fix n
  assume "n < LENGTH(8)"
  have 1: "(of_nat (unat b div 16) :: u8) = drop_bit 4 b"
    by (rule word_unat_eq_iff [THEN iffD2])
      (use b256 in \<open>simp add: unat_of_nat drop_bit_eq_div unat_div_distrib\<close>)
  have 2: "(of_nat (unat b mod 16) :: u8) = take_bit 4 b"
    by (rule word_unat_eq_iff [THEN iffD2])
      (use b256 in \<open>simp add: unat_of_nat take_bit_eq_mod unat_mod_distrib\<close>)
  show "bit (push_bit 4 (of_nat (unat b div 16)) OR (of_nat (unat b mod 16) :: u8)) n = bit b n"
    using \<open>n < LENGTH(8)\<close>
    by (auto simp: 1 2 bit_or_iff bit_push_bit_iff bit_take_bit_iff bit_drop_bit_eq)
qed

lemma length_bytes_to_hex [simp]: "length (bytes_to_hex bs) = 2 * length bs"
  by (induction bs) (simp_all add: bytes_to_hex_def hex_byte_def)

lemma bytes_to_hex_nth:
  "k < length bs \<Longrightarrow> bytes_to_hex bs ! (2 * k) = hex_digit (unat (bs ! k) div 16) \<and>
     bytes_to_hex bs ! (2 * k + 1) = hex_digit (unat (bs ! k) mod 16)"
proof (induction bs arbitrary: k)
  case Nil
  then show ?case by simp
next
  case (Cons b bs)
  then show ?case by (cases k) (simp_all add: bytes_to_hex_def hex_byte_def)
qed

lemma blit_take_Suc:
  assumes "k < length bs" and "length bs \<le> length out"
  shows "(blit out 0 (take k bs))[k := bs ! k] = blit out 0 (take (Suc k) bs)"
  using assms by (intro nth_equalityI) (auto simp: nth_list_update nth_blit less_Suc_eq)

lemma hex_loop_bytes:
  "n \<le> length bs \<Longrightarrow> n \<le> length out \<Longrightarrow> k \<le> n \<Longrightarrow>
   hex_loop (bytes_to_hex bs) (2 * n) (2 * k) (blit out 0 (take k bs)) = (blit out 0 (take n bs), True)"
proof (induction "n - k" arbitrary: k)
  case 0
  then show ?case by (simp add: hex_loop.simps)
next
  case (Suc d)
  then have k: "k < n" "k < length bs" by simp_all
  have h: "unat (bs ! k) div 16 < 16" "unat (bs ! k) mod 16 < 16"
    using unsigned_less [of "bs ! k", where ?'a = nat] by simp_all
  have c: "48 \<le> char_code (hex_digit e) \<and> char_code (hex_digit e) \<le> 102" if "e < 16" for e
    using that by (simp add: code_hex_digit)
  have s: "hex_loop (bytes_to_hex bs) (2 * n) (2 * k) out' =
      hex_loop (bytes_to_hex bs) (2 * n) (2 * Suc k) (out'[k := bs ! k])" for out'
    using k c [OF h(1)] c [OF h(2)] bytes_to_hex_nth [OF k(2)] map_table_digit [OF h(1)] map_table_digit [OF h(2)]
      nibbles [of "bs ! k"]
    by (subst hex_loop.simps) (simp add: Let_def not_less)
  have "(blit out 0 (take k bs))[k := bs ! k] = blit out 0 (take (Suc k) bs)"
    using blit_take_Suc [of k "take n bs" out] k Suc.prems by (simp add: min_def)
  moreover have "hex_loop (bytes_to_hex bs) (2 * n) (2 * Suc k) (blit out 0 (take (Suc k) bs)) =
      (blit out 0 (take n bs), True)"
    using Suc by (intro Suc.hyps(1)) simp_all
  ultimately show ?case by (simp only: s)
qed

text \<open>Hexadecimal text is read back into the bytes it was made from: as many as fit into \<open>maxlen\<close> are stored
  at the start of the array, the rest of the array is untouched, and the length says how many.\<close>

theorem hex_roundtrip:
  assumes "maxlen \<le> length out"
  shows "hex_to_bytes (bytes_to_hex bs) out maxlen =
    (blit out 0 (take maxlen bs), Some (min (length bs) maxlen))"
proof -
  have "hex_loop (bytes_to_hex bs) (2 * min (length bs) maxlen) 0 out =
      (blit out 0 (take (min (length bs) maxlen) bs), True)"
    using hex_loop_bytes [of "min (length bs) maxlen" bs out 0] assms by (simp add: blit_def)
  then show ?thesis
    by (simp add: hex_to_bytes_def Let_def min_def mult.commute split: if_splits)
qed

theorem hex_roundtrip_witness:
  "hex_to_bytes ''0aff10'' [7, 7, 7, 7] 4 = ([10, 255, 16, 7], Some 3)"
proof -
  have h: "bytes_to_hex [10, 255, 16] = ''0aff10''" by code_simp
  show ?thesis using hex_roundtrip [of 4 "[7, 7, 7, 7]" "[10, 255, 16]"] by (simp add: h blit_def)
qed

lemma hex_loop_length: "hex_loop inp inl count out = (out', b) \<Longrightarrow> length out' = length out"
proof (induction inp inl count out arbitrary: out' b rule: hex_loop.induct)
  case (1 inp inl count out)
  then show ?case
    by (subst (asm) (2) hex_loop.simps) (auto simp: Let_def split: if_splits)
qed

lemma hex_to_bytes_length: "length (fst (hex_to_bytes inp out maxlen)) = length out"
  using hex_loop_length [of inp _ 0 out]
  by (auto simp: hex_to_bytes_def Let_def split: prod.split)

end
