(* ===== verification/Conf.thy ===== *)
theory Conf
  imports Config GsError Http Hex
begin

text \<open>
  \<open>libgamestream/conf.c\<close>, \<open>libgamestream/mkcert.c\<close> and the client handle of \<open>libgamestream/priv.h\<close>: the client's
  identity on disk, its creation and its loading. The file system is that of \<open>Config\<close>; mbedtls is the
  parameter \<open>crypto_lib\<close>: the return codes of its calls and the texts it produces, as functions of the files' contents.
\<close>

section \<open>The platform\<close>

record platform_calls =
  path_max :: nat
  mkdir_ok :: "string list \<Rightarrow> string \<Rightarrow> bool"
  strerror_at :: "string \<Rightarrow> string"

record crypto_lib =
  crt_parse :: "string option \<Rightarrow> int"
  key_parse :: "string option \<Rightarrow> int"
  mbed_strerror :: "int \<Rightarrow> string"
  drbg_seed :: int
  pk_setup :: int
  rsa_gen_key :: int
  crt_set_validity :: int
  pk_write_key_pem :: "int \<times> string"
  crt_write_pem :: "int \<times> string"

text \<open>The parsed certificate and key are represented by the text they were parsed from.\<close>

record gs_client =
  unique_id :: string
  cl_cert :: string
  cl_key :: string
  cert_hex :: string
  cl_http :: http

definition UNIQUEID_CHARS :: nat where "UNIQUEID_CHARS = 16"
definition UNIQUE_ID_DEFAULT :: string where "UNIQUE_ID_DEFAULT = ''0123456789ABCDEF''"

definition path_in :: "platform_calls \<Rightarrow> string \<Rightarrow> string \<Rightarrow> string" where
  "path_in pc keydir file = snprintf_to (path_max pc) (keydir @ ''/'' @ file)"

section \<open>Creating the identity\<close>

text \<open>The loop of \<open>mkdirtree\<close>: \<open>done\<close> is before the cursor, which moves at least one character.\<close>

function mkdirtree_from ::
  "(string list \<Rightarrow> string \<Rightarrow> bool) \<Rightarrow> string \<Rightarrow> string \<Rightarrow> string list \<Rightarrow> bool \<times> string list" where
  "mkdirtree_from ok done [] made = (True, made)"
| "mkdirtree_from ok done (c # cs) made =
     (let seg = takeWhile (\<lambda>x. x \<noteq> CHR ''/'') cs; rest = dropWhile (\<lambda>x. x \<noteq> CHR ''/'') cs;
          buffer = done @ c # seg
      in if ok made buffer then mkdirtree_from ok buffer rest (made @ [buffer])
         else (False, made @ [buffer]))"
  by pat_completeness auto
termination
  by (relation "measure (\<lambda>(ok, done, s, made). length s)")
    (auto simp: le_imp_less_Suc length_dropWhile_le)

definition mkdirtree :: "platform_calls \<Rightarrow> string \<Rightarrow> string list \<Rightarrow> bool \<times> string list" where
  "mkdirtree pc directory made = mkdirtree_from (mkdir_ok pc) [] (take (path_max pc - 1) directory) made"

record conf_state =
  cs_fs :: filesystem
  cs_err :: gs_error
  cs_made :: "string list"

definition set_error :: "int \<Rightarrow> string \<Rightarrow> conf_state \<Rightarrow> int \<times> conf_state" where
  "set_error code msg s =
     (let (ret, e) = gs_set_error code (Some msg) (cs_err s) in (ret, s\<lparr>cs_err := e\<rparr>))"

definition init_unique_id :: "platform_calls \<Rightarrow> string \<Rightarrow> conf_state \<Rightarrow> int \<times> conf_state" where
  "init_unique_id pc keydir s =
     (let id_path = path_in pc keydir ''uniqueid.dat''
      in case fs_write id_path UNIQUE_ID_DEFAULT (cs_fs s) of
           None \<Rightarrow> set_error GS_BAD_CONF
             (''Failed to create unique ID file '' @ id_path @ '': '' @ strerror_at pc id_path) s
         | Some fs' \<Rightarrow> (GS_OK, s\<lparr>cs_fs := fs'\<rparr>))"

text \<open>A failed step of \<open>mkcert.c\<close>; \<open>what\<close> names the call in its message.\<close>

definition mkcert_error :: "crypto_lib \<Rightarrow> string \<Rightarrow> int \<Rightarrow> conf_state \<Rightarrow> int \<times> conf_state" where
  "mkcert_error cl what ret s =
     set_error GS_FAILED (what @ '' returned -0x'' @ hex4 (- ret) @ '' - '' @ mbed_strerror cl ret) s"

definition mkcert_generate_impl :: "crypto_lib \<Rightarrow> conf_state \<Rightarrow> int \<times> conf_state" where
  "mkcert_generate_impl cl s =
     (if pk_setup cl \<noteq> 0 then mkcert_error cl ''mbedtls_pk_setup'' (pk_setup cl) s
      else if rsa_gen_key cl \<noteq> 0 then mkcert_error cl ''mbedtls_rsa_gen_key'' (rsa_gen_key cl) s
      else if crt_set_validity cl \<noteq> 0 then
        mkcert_error cl ''mbedtls_x509write_crt_set_validity'' (crt_set_validity cl) s
      else (0, s))"

definition mkcert_generate :: "crypto_lib \<Rightarrow> string \<Rightarrow> string \<Rightarrow> conf_state \<Rightarrow> int \<times> conf_state" where
  "mkcert_generate cl certFile keyFile s =
     (if drbg_seed cl \<noteq> 0 then mkcert_error cl ''mbedtls_ctr_drbg_seed'' (drbg_seed cl) s
      else
        (let (ret, s1) = mkcert_generate_impl cl s
         in if ret \<noteq> 0 then (ret, s1)
            else if fst (pk_write_key_pem cl) \<noteq> 0 then
              mkcert_error cl ''mbedtls_pk_write_key_pem'' (fst (pk_write_key_pem cl)) s1
            else
              (case fs_write keyFile (snd (pk_write_key_pem cl)) (cs_fs s1) of
                 None \<Rightarrow> set_error GS_IO_ERROR (''Failed to open keyFile '' @ keyFile @ '' for writing'') s1
               | Some fs1 \<Rightarrow>
                   (let s2 = s1\<lparr>cs_fs := fs1\<rparr>
                    in if fst (crt_write_pem cl) \<noteq> 0 then
                         mkcert_error cl ''mbedtls_x509write_crt_pem'' (fst (crt_write_pem cl)) s2
                       else
                         (case fs_write certFile (snd (crt_write_pem cl)) (cs_fs s2) of
                            None \<Rightarrow> set_error GS_IO_ERROR (''Failed to open certFile '' @ certFile @ '' for writing'') s2
                          | Some fs2 \<Rightarrow> (0, s2\<lparr>cs_fs := fs2\<rparr>))))))"

definition init_cert :: "platform_calls \<Rightarrow> crypto_lib \<Rightarrow> string \<Rightarrow> conf_state \<Rightarrow> int \<times> conf_state" where
  "init_cert pc cl keydir s =
     mkcert_generate cl (path_in pc keydir ''client.pem'') (path_in pc keydir ''key.pem'') s"

definition gs_conf_init :: "platform_calls \<Rightarrow> crypto_lib \<Rightarrow> string \<Rightarrow> conf_state \<Rightarrow> int \<times> conf_state" where
  "gs_conf_init pc cl keydir s =
     (let (ok, made) = mkdirtree pc keydir (cs_made s); s1 = s\<lparr>cs_made := made\<rparr>
      in if \<not> ok then
           set_error GS_IO_ERROR
             (''Failed to create config directory '' @ keydir @ '': '' @ strerror_at pc keydir) s1
         else
           (let (ret, s2) = init_unique_id pc keydir s1
            in if ret \<noteq> GS_OK then (ret, s2) else init_cert pc cl keydir s2))"

section \<open>Loading it\<close>

definition load_unique_id :: "platform_calls \<Rightarrow> string \<Rightarrow> gs_client \<Rightarrow> conf_state \<Rightarrow> (int \<times> gs_client) \<times> conf_state" where
  "load_unique_id pc keydir hnd s =
     (let id_path = path_in pc keydir ''uniqueid.dat''
      in case fs_files (cs_fs s) id_path of
           None \<Rightarrow>
             (let (ret, s1) = set_error GS_BAD_CONF
                (''Failed to open unique ID file '' @ id_path @ '': '' @ strerror_at pc id_path) s
              in ((ret, hnd), s1))
         | Some text \<Rightarrow>
             if length text < UNIQUEID_CHARS then
               (let (ret, s1) = set_error GS_BAD_CONF ''Bad unique ID file'' s
                in ((ret, hnd\<lparr>unique_id := text @ drop (length text) (unique_id hnd)\<rparr>), s1))
             else ((GS_OK, hnd\<lparr>unique_id := take UNIQUEID_CHARS text\<rparr>), s))"

definition byte_of :: "char \<Rightarrow> u8" where
  "byte_of c = of_char c"

text \<open>The loop over the certificate file, with \<open>length\<close> characters written so far.\<close>

fun cert_hex_loop :: "nat \<Rightarrow> string \<Rightarrow> string" where
  "cert_hex_loop len [] = []"
| "cert_hex_loop len (c # cs) =
     (if 8192 \<le> len + 2 then [] else hex_byte (byte_of c) @ cert_hex_loop (len + 2) cs)"

definition load_cert ::
  "platform_calls \<Rightarrow> crypto_lib \<Rightarrow> string \<Rightarrow> gs_client \<Rightarrow> conf_state \<Rightarrow> (int \<times> gs_client) \<times> conf_state" where
  "load_cert pc cl keydir hnd s =
     (let cert_path = path_in pc keydir ''client.pem''; key_path = path_in pc keydir ''key.pem'';
          cert_ret = crt_parse cl (fs_files (cs_fs s) cert_path);
          key_ret = key_parse cl (fs_files (cs_fs s) key_path)
      in if cert_ret \<noteq> 0 then
           (let (ret, s1) = set_error GS_FAILED (''Failed to parse certificate: '' @ mbed_strerror cl cert_ret) s
            in ((ret, hnd), s1))
         else
           (case fs_files (cs_fs s) cert_path of
              None \<Rightarrow>
                (let (ret, s1) = set_error GS_IO_ERROR (''Failed to open certFile '' @ cert_path @ '' for reading'') s
                 in ((ret, hnd), s1))
            | Some pem \<Rightarrow>
                (let hnd1 = hnd\<lparr>cl_cert := pem, cert_hex := cert_hex_loop 0 pem\<rparr>
                 in if key_ret \<noteq> 0 then
                      (let (ret, s1) = set_error GS_FAILED (''Error loading key into memory: '' @ mbed_strerror cl key_ret) s
                       in ((ret, hnd1), s1))
                    else
                      ((GS_OK, hnd1\<lparr>cl_key := the (fs_files (cs_fs s) key_path)\<rparr>), s))))"

definition gs_conf_load ::
  "platform_calls \<Rightarrow> crypto_lib \<Rightarrow> string \<Rightarrow> gs_client \<Rightarrow> conf_state \<Rightarrow> (int \<times> gs_client) \<times> conf_state" where
  "gs_conf_load pc cl keydir hnd s =
     (case load_unique_id pc keydir hnd s of
        ((ret, hnd1), s1) \<Rightarrow>
          if ret \<noteq> GS_OK then ((ret, hnd1), s1) else load_cert pc cl keydir hnd1 s1)"

section \<open>Properties\<close>

fun ancestors :: "string \<Rightarrow> string list \<Rightarrow> string list" where
  "ancestors pre [] = []"
| "ancestors pre (d # ds) = (pre @ ''/'' @ d) # ancestors (pre @ ''/'' @ d) ds"

definition join_path :: "string list \<Rightarrow> string" where
  "join_path ds = concat (map (\<lambda>d. ''/'' @ d) ds)"

lemma mkdirtree_from_path:
  "list_all (\<lambda>d. CHR ''/'' \<notin> set d) ds \<Longrightarrow> (\<And>m p. ok m p) \<Longrightarrow>
   mkdirtree_from ok pre (join_path ds) made = (True, made @ ancestors pre ds)"
proof (induction ds arbitrary: pre made)
  case Nil
  then show ?case by (simp add: join_path_def)
next
  case (Cons d ds)
  have j: "join_path (d # ds) = CHR ''/'' # d @ join_path ds" by (simp add: join_path_def)
  have d: "CHR ''/'' \<notin> set d" using Cons.prems(1) by simp
  have 1: "takeWhile (\<lambda>x. x \<noteq> CHR ''/'') (d @ join_path ds) = d"
    and 2: "dropWhile (\<lambda>x. x \<noteq> CHR ''/'') (d @ join_path ds) = join_path ds"
    using d by (cases ds; auto simp: join_path_def takeWhile_append takeWhile_eq_all_conv
        dropWhile_append dropWhile_eq_Nil_conv)+
  have "mkdirtree_from ok pre (join_path (d # ds)) made =
      mkdirtree_from ok (pre @ CHR ''/'' # d) (join_path ds) (made @ [pre @ CHR ''/'' # d])"
    using Cons.prems(2) by (simp add: j 1 2 Let_def)
  also have "\<dots> = (True, (made @ [pre @ CHR ''/'' # d]) @ ancestors (pre @ CHR ''/'' # d) ds)"
    using Cons.prems(1) by (intro Cons.IH Cons.prems(2)) simp
  finally show ?case by simp
qed

text \<open>\<open>mkdirtree\<close> of an absolute path tries exactly its ancestors below the root, outermost first, and
  then the path, and succeeds when each exists or can be made.\<close>

theorem mkdirtree_ancestors:
  assumes "list_all (\<lambda>d. CHR ''/'' \<notin> set d) ds" and "\<And>m p. mkdir_ok pc m p"
    and "length (join_path ds) < path_max pc"
  shows "mkdirtree pc (join_path ds) made = (True, made @ ancestors [] ds)"
  using assms mkdirtree_from_path [OF assms(1), of "mkdir_ok pc" "[]" made]
  by (simp add: mkdirtree_def)

definition example_platform :: platform_calls where
  "example_platform = \<lparr>path_max = 1024, mkdir_ok = (\<lambda>_ _. True), strerror_at = (\<lambda>_. ''error'')\<rparr>"

theorem mkdirtree_ancestors_witness:
  "mkdirtree example_platform ''/moonlight/keys'' [] = (True, [''/moonlight'', ''/moonlight/keys''])"
  using mkdirtree_ancestors [of "[''moonlight'', ''keys'']" example_platform "[]"]
  by (simp add: join_path_def example_platform_def)

lemma cert_hex_loop_all:
  "len + 2 * length t < 8191 \<Longrightarrow> cert_hex_loop len t = concat (map (hex_byte \<circ> byte_of) t)"
  by (induction len t rule: cert_hex_loop.induct) auto

text \<open>C28. An identity that \<open>gs_conf_init\<close> created without an error is loaded back by \<open>gs_conf_load\<close>: the default
  unique id, the certificate and its hexadecimal form, the key.\<close>

theorem conf_init_then_load:
  assumes "gs_conf_init pc cl keydir s = (GS_OK, t)"
    and "crt_parse cl (Some (snd (crt_write_pem cl))) = 0" and "key_parse cl (Some (snd (pk_write_key_pem cl))) = 0"
    and "length keydir + 20 < path_max pc" and "length (snd (crt_write_pem cl)) \<le> 4095"
  shows "gs_conf_load pc cl keydir hnd t =
    ((GS_OK, hnd\<lparr>unique_id := UNIQUE_ID_DEFAULT, cl_cert := snd (crt_write_pem cl),
        cert_hex := concat (map (hex_byte \<circ> byte_of) (snd (crt_write_pem cl))),
        cl_key := snd (pk_write_key_pem cl)\<rparr>), t)"
proof -
  let ?id = "keydir @ ''/uniqueid.dat''" and ?cert = "keydir @ ''/client.pem''" and ?key = "keydir @ ''/key.pem''"
  have p: "path_in pc keydir ''uniqueid.dat'' = ?id" "path_in pc keydir ''client.pem'' = ?cert"
    "path_in pc keydir ''key.pem'' = ?key"
    using assms(4) by (simp_all add: path_in_def snprintf_to_fits)
  have f: "fs_files (cs_fs t) ?id = Some UNIQUE_ID_DEFAULT"
    "fs_files (cs_fs t) ?cert = Some (snd (crt_write_pem cl))"
    "fs_files (cs_fs t) ?key = Some (snd (pk_write_key_pem cl))"
    using assms(1)
    by (auto simp: gs_conf_init_def init_unique_id_def init_cert_def mkcert_generate_def mkcert_generate_impl_def
        mkcert_error_def set_error_def gs_set_error_def gs_codes p fs_write_def Let_def
        split: prod.splits if_splits option.splits)
  have h: "cert_hex_loop 0 (snd (crt_write_pem cl)) = concat (map (hex_byte \<circ> byte_of) (snd (crt_write_pem cl)))"
    using assms(5) by (intro cert_hex_loop_all) simp
  show ?thesis
    by (simp add: gs_conf_load_def load_unique_id_def load_cert_def p f h assms(2,3)
        UNIQUEID_CHARS_def UNIQUE_ID_DEFAULT_def Let_def)
qed

definition example_crypto :: crypto_lib where
  "example_crypto = \<lparr>crt_parse = (\<lambda>t. if t = Some ''CERT'' then 0 else 1),
     key_parse = (\<lambda>t. if t = Some ''KEY'' then 0 else 1), mbed_strerror = (\<lambda>_. ''mbedtls''), drbg_seed = 0,
     pk_setup = 0, rsa_gen_key = 0, crt_set_validity = 0, pk_write_key_pem = (0, ''KEY''),
     crt_write_pem = (0, ''CERT'')\<rparr>"

definition example_conf :: conf_state where
  "example_conf = \<lparr>cs_fs = \<lparr>fs_files = (\<lambda>_. None), fs_can_write = (\<lambda>_. True)\<rparr>,
     cs_err = \<lparr>gs_errno = 0, gs_errmsg = []\<rparr>, cs_made = []\<rparr>"

definition blank_client :: gs_client where
  "blank_client = \<lparr>unique_id = [], cl_cert = [], cl_key = [], cert_hex = [], cl_http = http_create ''keys''\<rparr>"

theorem conf_init_then_load_witness:
  "\<exists>t. fst (gs_conf_load example_platform example_crypto ''keys'' blank_client t) =
     (GS_OK, blank_client\<lparr>unique_id := UNIQUE_ID_DEFAULT, cl_cert := ''CERT'', cert_hex := ''43455254'', cl_key := ''KEY''\<rparr>)"
proof -
  obtain t where t: "gs_conf_init example_platform example_crypto ''keys'' example_conf = (GS_OK, t)"
    by (simp add: gs_conf_init_def init_unique_id_def init_cert_def mkcert_generate_def mkcert_generate_impl_def
        example_platform_def example_crypto_def example_conf_def mkdirtree_def fs_write_def GS_OK_def)
  have 1: "crt_parse example_crypto (Some (snd (crt_write_pem example_crypto))) = 0"
    "key_parse example_crypto (Some (snd (pk_write_key_pem example_crypto))) = 0"
    "length ''keys'' + 20 < path_max example_platform" "length (snd (crt_write_pem example_crypto)) \<le> 4095"
    by (simp_all add: example_crypto_def example_platform_def)
  have "concat (map (hex_byte \<circ> byte_of) ''CERT'') = ''43455254''" by code_simp
  with conf_init_then_load [OF t 1, of blank_client] show ?thesis
    by (intro exI [of _ t]) (simp add: example_crypto_def)
qed

end
