(* ===== verification/Xml.thy ===== *)
theory Xml
  imports GsError
begin

text \<open>
  \<open>libgamestream/xml.c\<close>: the handlers that expat calls and the four readers built on them. expat is a
  parameter: the events it delivers for a document, and its error when it stops early. The heap
  is explicit, because the application list keeps pointers into it: a list of blocks, \<open>None\<close> for a freed one;
  a block holds the bytes written to it, so that a fresh \<open>malloc\<close> has none and is no C string yet.
  \<open>fits n\<close> says whether an allocation of \<open>n\<close> bytes succeeds. The outcome \<open>None\<close> is undefined behaviour.
\<close>

section \<open>The heap and the events\<close>

type_synonym heap = "string option list"

definition heap_alloc :: "string \<Rightarrow> heap \<Rightarrow> nat \<times> heap" where
  "heap_alloc b h = (length h, h @ [Some b])"

definition heap_free :: "nat option \<Rightarrow> heap \<Rightarrow> heap" where
  "heap_free p h = (case p of None \<Rightarrow> h | Some i \<Rightarrow> h[i := None])"

text \<open>The C string at a pointer: undefined for \<open>NULL\<close>, a freed block or one without a terminator.\<close>

definition heap_string :: "nat option \<Rightarrow> heap \<Rightarrow> string option" where
  "heap_string p h =
     (case p of
        None \<Rightarrow> None
      | Some i \<Rightarrow>
          if i < length h then
            (case h ! i of None \<Rightarrow> None | Some b \<Rightarrow> if nul \<in> set b then Some (cstr b) else None)
          else None)"

datatype xml_event = Start string "(string \<times> string) list" | End string | Cdata string

type_synonym expat = "string \<Rightarrow> xml_event list \<times> (int \<times> string) option"

record xml_query =
  q_memory :: "nat option"
  q_size :: nat
  q_start :: int

definition STATUS_OK :: int where "STATUS_OK = 200"

text \<open>\<open>write_cdata\<close>; \<open>realloc\<close> moves the block.\<close>

definition write_cdata :: "(nat \<Rightarrow> bool) \<Rightarrow> string \<Rightarrow> xml_query \<times> heap \<Rightarrow> xml_query \<times> heap" where
  "write_cdata fits s qh =
     (case qh of (q, h) \<Rightarrow>
        if q_start q \<le> 0 then (q, h)
        else if \<not> fits (q_size q + length s + 1) then (q, h)
        else
          (let old = (case q_memory q of None \<Rightarrow> []
                      | Some i \<Rightarrow> (case h ! i of None \<Rightarrow> [] | Some b \<Rightarrow> take (q_size q) b));
               (p, h1) = heap_alloc (old @ s @ [nul]) (heap_free (q_memory q) h)
           in (q\<lparr>q_memory := Some p, q_size := q_size q + length s\<rparr>, h1)))"

section \<open>Searching for a value\<close>

definition start_element :: "string \<Rightarrow> string \<Rightarrow> xml_query \<Rightarrow> xml_query" where
  "start_element node name q = (if node = name then q\<lparr>q_start := q_start q + 1\<rparr> else q)"

definition end_element :: "string \<Rightarrow> string \<Rightarrow> xml_query \<Rightarrow> xml_query" where
  "end_element node name q = (if node = name then q\<lparr>q_start := q_start q - 1\<rparr> else q)"

definition search_event :: "(nat \<Rightarrow> bool) \<Rightarrow> string \<Rightarrow> xml_event \<Rightarrow> xml_query \<times> heap \<Rightarrow> xml_query \<times> heap" where
  "search_event fits node ev qh =
     (case qh of (q, h) \<Rightarrow>
        (case ev of
           Start name atts \<Rightarrow> (start_element node name q, h)
         | End name \<Rightarrow> (end_element node name q, h)
         | Cdata s \<Rightarrow> write_cdata fits s (q, h)))"

definition xml_error_text :: "int \<times> string \<Rightarrow> string" where
  "xml_error_text e = ''XML error '' @ show_int (fst e) @ '': '' @ snd e"

text \<open>The return value, what \<open>*result\<close> points to (\<open>None\<close>: it was not assigned or is \<open>NULL\<close>), the last error.\<close>

definition xml_search_ex ::
  "(nat \<Rightarrow> bool) \<Rightarrow> expat \<Rightarrow> string \<Rightarrow> string \<Rightarrow> bool \<Rightarrow> gs_error \<Rightarrow> (int \<times> string option) \<times> gs_error" where
  "xml_search_ex fits xp doc node required err =
     (let (mem, h0) = (if required then (None, []) else if fits 1 then (Some 0, [Some [nul]]) else (None, []));
          (events, failure) = xp doc;
          (q, h) = fold (search_event fits node) events (\<lparr>q_memory = mem, q_size = 0, q_start = 0\<rparr>, h0)
      in case failure of
           Some e \<Rightarrow>
             (let (ret, err') = gs_set_error GS_INVALID (Some (xml_error_text e)) err in ((ret, None), err'))
         | None \<Rightarrow>
             if q_memory q = None \<and> required then
               (let (ret, err') = gs_set_error GS_INVALID (Some (''Cant find value for `'' @ node @ ''`'')) err
                in ((ret, None), err'))
             else ((GS_OK, heap_string (q_memory q) h), err))"

definition xml_search ::
  "(nat \<Rightarrow> bool) \<Rightarrow> expat \<Rightarrow> string \<Rightarrow> string \<Rightarrow> gs_error \<Rightarrow> (int \<times> string option) \<times> gs_error" where
  "xml_search fits xp doc node err = xml_search_ex fits xp doc node False err"

section \<open>The application list\<close>

record app_entry =
  app_name :: "nat option"
  app_id :: int
  app_hdr :: int

text \<open>The query, the list built so far (its head is the last application) and the heap.\<close>

type_synonym app_query = "xml_query \<times> app_entry list \<times> heap"

definition begin_value :: "(nat \<Rightarrow> bool) \<Rightarrow> xml_query \<times> heap \<Rightarrow> xml_query \<times> heap" where
  "begin_value fits qh =
     (case qh of (q, h) \<Rightarrow>
        if fits 1 then
          (let (p, h1) = heap_alloc [] h in (q\<lparr>q_memory := Some p, q_size := 0, q_start := 1\<rparr>, h1))
        else (q\<lparr>q_memory := None, q_size := 0, q_start := 1\<rparr>, h))"

definition start_applist_element :: "(nat \<Rightarrow> bool) \<Rightarrow> string \<Rightarrow> app_query \<Rightarrow> app_query" where
  "start_applist_element fits name s =
     (case s of (q, apps, h) \<Rightarrow>
        if name = ''App'' then
          (if \<not> fits 16 then s else (q, \<lparr>app_name = None, app_id = 0, app_hdr = 0\<rparr> # apps, h))
        else if name = ''ID'' \<or> name = ''AppTitle'' \<or> name = ''IsHdrSupported'' then
          (let (q', h') = begin_value fits (q, h) in (q', apps, h'))
        else s)"

text \<open>\<open>strtol (search->memory)\<close> of a value that was never written is undefined.\<close>

definition end_applist_element :: "string \<Rightarrow> app_query \<Rightarrow> app_query option" where
  "end_applist_element name s =
     (case s of (q, apps, h) \<Rightarrow>
        if q_start q = 0 then Some s
        else
          (case apps of
             [] \<Rightarrow> Some s
           | a # as \<Rightarrow>
               if name = ''ID'' then
                 (case heap_string (q_memory q) h of
                    None \<Rightarrow> None
                  | Some t \<Rightarrow> Some (q\<lparr>q_memory := None, q_start := 0\<rparr>, a\<lparr>app_id := strtol10 t\<rparr> # as,
                                   heap_free (q_memory q) h))
               else if name = ''AppTitle'' then
                 Some (q\<lparr>q_start := 0\<rparr>, a\<lparr>app_name := q_memory q\<rparr> # as, h)
               else if name = ''IsHdrSupported'' then
                 (case heap_string (q_memory q) h of
                    None \<Rightarrow> None
                  | Some t \<Rightarrow> Some (q\<lparr>q_memory := None, q_start := 0\<rparr>, a\<lparr>app_hdr := strtol10 t\<rparr> # as,
                                   heap_free (q_memory q) h))
               else Some (q\<lparr>q_start := 0\<rparr>, apps, h)))"

fun applist_events :: "(nat \<Rightarrow> bool) \<Rightarrow> xml_event list \<Rightarrow> app_query \<Rightarrow> app_query option" where
  "applist_events fits [] s = Some s"
| "applist_events fits (Start name atts # es) s = applist_events fits es (start_applist_element fits name s)"
| "applist_events fits (End name # es) s =
     (case end_applist_element name s of None \<Rightarrow> None | Some s' \<Rightarrow> applist_events fits es s')"
| "applist_events fits (Cdata t # es) (q, apps, h) =
     (let (q', h') = write_cdata fits t (q, h) in applist_events fits es (q', apps, h'))"

definition empty_query :: xml_query where
  "empty_query = \<lparr>q_memory = None, q_size = 0, q_start = 0\<rparr>"

text \<open>The return value, the list with the heap its names point into, the last error.\<close>

definition xml_applist ::
  "(nat \<Rightarrow> bool) \<Rightarrow> expat \<Rightarrow> string \<Rightarrow> gs_error \<Rightarrow> ((int \<times> (app_entry list \<times> heap) option) \<times> gs_error) option" where
  "xml_applist fits xp doc err =
     (let (events, failure) = xp doc
      in case applist_events fits events (empty_query, [], []) of
           None \<Rightarrow> None
         | Some (q, apps, h) \<Rightarrow>
             (case failure of
                Some e \<Rightarrow>
                  (let (ret, err') = gs_set_error GS_INVALID (Some (xml_error_text e)) err
                   in Some ((ret, None), err'))
              | None \<Rightarrow> Some ((GS_OK, Some (apps, heap_free (q_memory q) h)), err)))"

section \<open>The display modes\<close>

record display_mode =
  mode_height :: u32
  mode_width :: u32
  mode_refresh :: u32

type_synonym mode_query = "xml_query \<times> display_mode list \<times> heap"

definition start_mode_element :: "(nat \<Rightarrow> bool) \<Rightarrow> string \<Rightarrow> mode_query \<Rightarrow> mode_query" where
  "start_mode_element fits name s =
     (case s of (q, modes, h) \<Rightarrow>
        if name = ''DisplayMode'' then
          (if fits 16 then (q, \<lparr>mode_height = 0, mode_width = 0, mode_refresh = 0\<rparr> # modes, h) else s)
        else if modes \<noteq> [] \<and> (name = ''Height'' \<or> name = ''Width'' \<or> name = ''RefreshRate'') then
          (let (q', h') = begin_value fits (q, h) in (q', modes, h'))
        else s)"

definition end_mode_element :: "string \<Rightarrow> mode_query \<Rightarrow> mode_query option" where
  "end_mode_element name s =
     (case s of (q, modes, h) \<Rightarrow>
        if modes = [] \<or> q_start q = 0 then Some s
        else
          (let done = (\<lambda>m. Some (q\<lparr>q_memory := None, q_start := 0\<rparr>, m # tl modes, heap_free (q_memory q) h));
               value = (\<lambda>set. case heap_string (q_memory q) h of
                          None \<Rightarrow> None | Some t \<Rightarrow> done (set (word_of_int (strtol10 t) :: u32)))
           in if name = ''Width'' then value (\<lambda>v. (hd modes)\<lparr>mode_width := v\<rparr>)
              else if name = ''Height'' then value (\<lambda>v. (hd modes)\<lparr>mode_height := v\<rparr>)
              else if name = ''RefreshRate'' then value (\<lambda>v. (hd modes)\<lparr>mode_refresh := v\<rparr>)
              else done (hd modes)))"

fun modelist_events :: "(nat \<Rightarrow> bool) \<Rightarrow> xml_event list \<Rightarrow> mode_query \<Rightarrow> mode_query option" where
  "modelist_events fits [] s = Some s"
| "modelist_events fits (Start name atts # es) s = modelist_events fits es (start_mode_element fits name s)"
| "modelist_events fits (End name # es) s =
     (case end_mode_element name s of None \<Rightarrow> None | Some s' \<Rightarrow> modelist_events fits es s')"
| "modelist_events fits (Cdata t # es) (q, modes, h) =
     (let (q', h') = write_cdata fits t (q, h) in modelist_events fits es (q', modes, h'))"

definition xml_modelist ::
  "(nat \<Rightarrow> bool) \<Rightarrow> expat \<Rightarrow> string \<Rightarrow> gs_error \<Rightarrow> ((int \<times> display_mode list option) \<times> gs_error) option" where
  "xml_modelist fits xp doc err =
     (let (events, failure) = xp doc
      in case modelist_events fits events (empty_query, [], []) of
           None \<Rightarrow> None
         | Some (q, modes, h) \<Rightarrow>
             (case failure of
                Some e \<Rightarrow>
                  (let (ret, err') = gs_set_error GS_INVALID (Some (xml_error_text e)) err
                   in Some ((ret, None), err'))
              | None \<Rightarrow> Some ((GS_OK, Some modes), err)))"

section \<open>The status\<close>

fun status_attributes :: "(string \<times> string) list \<Rightarrow> int \<times> gs_error \<Rightarrow> int \<times> gs_error" where
  "status_attributes [] s = s"
| "status_attributes ((name, value) # atts) (status, err) =
     status_attributes atts
       (if name = ''status_code'' then (atoi value, err)
        else if status \<noteq> STATUS_OK \<and> name = ''status_message'' then
          (status, snd (gs_set_error GS_FAILED
             (Some (''Bad status '' @ show_int status @ '': '' @ value)) err))
        else (status, err))"

definition status_event :: "xml_event \<Rightarrow> int \<times> gs_error \<Rightarrow> int \<times> gs_error" where
  "status_event ev s =
     (case ev of
        Start name atts \<Rightarrow> if name \<noteq> ''root'' then s else status_attributes atts s
      | _ \<Rightarrow> s)"

definition xml_status :: "expat \<Rightarrow> string \<Rightarrow> gs_error \<Rightarrow> int \<times> gs_error" where
  "xml_status xp doc err =
     (let (events, failure) = xp doc; (status, err1) = fold status_event events (0, err)
      in case failure of
           Some e \<Rightarrow> gs_set_error GS_INVALID (Some (xml_error_text e)) err1
         | None \<Rightarrow> (if status = STATUS_OK then GS_OK else GS_ERROR, err1))"

end
