(* ===== verification/Client.thy ===== *)
theory Client
  imports Conf Xml
begin

text \<open>
  \<open>libgamestream/client.c\<close>: the GameStream client. The environment holds what is not the program's:
  the network, expat, random data, the uuid library, mbedtls' hashes, AES, certificates and signatures. The
  state holds the client handle, the server record, the last error and what was consumed of the
  random data. A procedure that jumps to \<open>cleanup\<close> leaves with \<open>Leave ret\<close>; \<open>Undefined\<close> stands for
  undefined behaviour (a null or dangling pointer that is used, an uninitialised value).
\<close>

unbundle bit_operations_syntax

section \<open>State and environment\<close>

datatype leave = Leave int | Undefined

record server_information =
  si_address :: string
  serverInfoAppVersion :: "string option"
  serverInfoGfeVersion :: "string option"
  rtspSessionUrl :: "string option"
  serverCodecModeSupport :: int

record server_data =
  sv_uuid :: "string option"
  sv_mac :: "string option"
  sv_hostname :: "string option"
  sv_gpuType :: "string option"
  sv_paired :: bool
  sv_supports4K :: bool
  sv_supportsHdr :: bool
  sv_unsupported :: bool
  sv_isGfe :: bool
  sv_currentGame :: int
  sv_serverMajorVersion :: int
  sv_gsVersion :: "string option"
  sv_modes :: "display_mode list"
  sv_serverInfo :: server_information

record client_env =
  e_fits :: "nat \<Rightarrow> bool"
  e_net :: internet
  e_expat :: expat
  e_uuid :: "nat \<Rightarrow> string option"
  e_seed :: "nat \<Rightarrow> int"
  e_random :: "nat \<Rightarrow> nat \<Rightarrow> u8 list"
  e_junk :: "nat \<Rightarrow> u8"
  e_sha1 :: "u8 list \<Rightarrow> u8 list"
  e_sha256 :: "u8 list \<Rightarrow> u8 list"
  e_aes_enc :: "u8 list \<Rightarrow> u8 list \<Rightarrow> u8 list option"
  e_aes_dec :: "u8 list \<Rightarrow> u8 list \<Rightarrow> u8 list option"
  e_x509_parse :: "u8 list \<Rightarrow> int"
  e_x509_sig :: "u8 list \<Rightarrow> u8 list"
  e_pk_verify :: "u8 list \<Rightarrow> u8 list \<Rightarrow> u8 list \<Rightarrow> bool"
  e_pk_sign :: "string \<Rightarrow> u8 list \<Rightarrow> u8 list option"
  e_launch_params :: string
  e_can_write :: "string \<Rightarrow> bool"

record gs_state =
  gs_hnd :: gs_client
  gs_server :: server_data
  gs_err :: gs_error
  gs_log :: log
  gs_uuids :: nat
  gs_seeds :: nat
  gs_randoms :: nat
  gs_files :: "string \<Rightarrow> string option"

type_synonym 'a gs = "gs_state \<Rightarrow> (leave + 'a) \<times> gs_state"

definition on_server :: "(server_data \<Rightarrow> server_data) \<Rightarrow> unit gs" where
  "on_server f s = (Inr (), s\<lparr>gs_server := f (gs_server s)\<rparr>)"

definition error_gs :: "int \<Rightarrow> string \<Rightarrow> int gs" where
  "error_gs code msg s =
     (let (ret, e) = gs_set_error code (Some msg) (gs_err s) in (Inr ret, s\<lparr>gs_err := e\<rparr>))"

text \<open>\<open>ret = gs_set_error (...); goto cleanup\<close>, and the same without the assignment.\<close>

definition fail_gs :: "int \<Rightarrow> string \<Rightarrow> 'a gs" where
  "fail_gs code msg = bindE (error_gs code msg) (\<lambda>ret. leaveE (Leave ret))"

definition fail_keeping :: "int \<Rightarrow> int \<Rightarrow> string \<Rightarrow> 'a gs" where
  "fail_keeping ret code msg = bindE (error_gs code msg) (\<lambda>_. leaveE (Leave ret))"

text \<open>The label \<open>cleanup\<close>: what follows it sees the code the body left with.\<close>

definition at_cleanup :: "int gs \<Rightarrow> int gs" where
  "at_cleanup m s = (case m s of (Inl (Leave r), s') \<Rightarrow> (Inr r, s') | x \<Rightarrow> x)"

definition the_string :: "string option \<Rightarrow> string gs" where
  "the_string v = (case v of None \<Rightarrow> leaveE Undefined | Some t \<Rightarrow> retE t)"

definition random_bytes :: "client_env \<Rightarrow> nat \<Rightarrow> u8 list gs" where
  "random_bytes env n s = (Inr (e_random env (gs_randoms s) n), s\<lparr>gs_randoms := gs_randoms s + 1\<rparr>)"

definition ctr_drbg_seed :: "client_env \<Rightarrow> int gs" where
  "ctr_drbg_seed env s = (Inr (e_seed env (gs_seeds s)), s\<lparr>gs_seeds := gs_seeds s + 1\<rparr>)"

definition junk_array :: "client_env \<Rightarrow> nat \<Rightarrow> u8 list" where
  "junk_array env n = map (e_junk env) [0..<n]"

section \<open>URLs\<close>

text \<open>\<open>construct_url\<close> into a buffer of \<open>ulen\<close> bytes; without a uuid the old contents stay.\<close>

definition construct_url ::
  "client_env \<Rightarrow> string option \<Rightarrow> nat \<Rightarrow> bool \<Rightarrow> string \<Rightarrow> string option \<Rightarrow> string option gs" where
  "construct_url env old ulen secure act params s =
     (let s' = s\<lparr>gs_uuids := gs_uuids s + 1\<rparr>
      in case e_uuid env (gs_uuids s) of
           None \<Rightarrow> (Inr old, s')
         | Some uuid \<Rightarrow>
             (let port = (if secure then 47984 else 47989);
                  proto = (if secure then ''https'' else ''http'');
                  text = proto @ ''://'' @ si_address (sv_serverInfo (gs_server s)) @ '':'' @ show_int port @ ''/'' @
                         act @ ''?uniqueid='' @ unique_id (gs_hnd s) @ ''&uuid='' @ take 36 uuid @
                         (case params of None \<Rightarrow> [] | Some p \<Rightarrow> ''&'' @ snprintf_to 4096 p)
              in (Inr (Some (snprintf_to ulen text)), s')))"

definition append_param :: "string \<Rightarrow> nat \<Rightarrow> string \<Rightarrow> string \<Rightarrow> string" where
  "append_param url ulen param value =
     (let v = snprintf_to 256 value
      in if ulen < length url + (length param + length v + 3) then url
         else url @ ''&'' @ param @ ''='' @ v)"

definition strlcat :: "string \<Rightarrow> string \<Rightarrow> nat \<Rightarrow> string" where
  "strlcat url t ulen = url @ take (ulen - 1 - length url) t"

section \<open>Requests and answers\<close>

definition alloc_data :: "client_env \<Rightarrow> http_data option" where
  "alloc_data env = (if e_fits env 8 then Some http_data_alloc else None)"

definition request :: "client_env \<Rightarrow> string option \<Rightarrow> http_data \<Rightarrow> (int \<times> http_data) gs" where
  "request env url data s =
     (case url of
        None \<Rightarrow> (Inl Undefined, s)
      | Some u \<Rightarrow>
          (case http_request (e_fits env) (e_net env) (cl_http (gs_hnd s)) u data (gs_log s) of
             None \<Rightarrow> (Inl Undefined, s)
           | Some (ret, d, lg) \<Rightarrow> (Inr (ret, d), s\<lparr>gs_log := lg\<rparr>)))"

definition doc :: "http_data \<Rightarrow> string" where
  "doc d = (case memory d of None \<Rightarrow> [] | Some m \<Rightarrow> take (data_size d) m)"

definition status_of :: "client_env \<Rightarrow> http_data \<Rightarrow> int gs" where
  "status_of env d s =
     (let (ret, e) = xml_status (e_expat env) (doc d) (gs_err s) in (Inr ret, s\<lparr>gs_err := e\<rparr>))"

definition search_in :: "client_env \<Rightarrow> http_data \<Rightarrow> bool \<Rightarrow> string \<Rightarrow> (int \<times> string option) gs" where
  "search_in env d required node s =
     (let (r, e) = xml_search_ex (e_fits env) (e_expat env) (doc d) node required (gs_err s)
      in (Inr r, s\<lparr>gs_err := e\<rparr>))"

section \<open>The status of a server\<close>

text \<open>\<open>if (xml_search (...) != GS_OK) goto cleanup\<close>, with \<open>ret = GS_INVALID\<close>.\<close>

definition need :: "client_env \<Rightarrow> http_data \<Rightarrow> string \<Rightarrow> string option gs" where
  "need env d node =
     bindE (search_in env d False node)
       (\<lambda>(r, v). if r \<noteq> GS_OK then leaveE (Leave GS_INVALID) else retE v)"

definition set_info :: "(server_information \<Rightarrow> server_information) \<Rightarrow> unit gs" where
  "set_info f = on_server (\<lambda>v. v\<lparr>sv_serverInfo := f (sv_serverInfo v)\<rparr>)"

text \<open>The texts the rest of an attempt works on.\<close>

record status_texts =
  tx_currentGame :: "string option"
  tx_paired :: "string option"
  tx_state :: "string option"
  tx_codecs :: "string option"

definition status_fields :: "client_env \<Rightarrow> http_data \<Rightarrow> status_texts gs" where
  "status_fields env d =
     bindE (need env d ''uniqueid'') (\<lambda>v. bindE (on_server (\<lambda>x. x\<lparr>sv_uuid := v\<rparr>)) (\<lambda>_.
     bindE (need env d ''mac'') (\<lambda>v. bindE (on_server (\<lambda>x. x\<lparr>sv_mac := v\<rparr>)) (\<lambda>_.
     bindE (search_in env d False ''hostname'') (\<lambda>(r, v).
       bindE (on_server (\<lambda>x. x\<lparr>sv_hostname :=
                (if r \<noteq> GS_OK then Some (si_address (sv_serverInfo x)) else v)\<rparr>)) (\<lambda>_.
     bindE (need env d ''currentgame'') (\<lambda>game.
     bindE (need env d ''PairStatus'') (\<lambda>paired.
     bindE (need env d ''appversion'') (\<lambda>v. bindE (set_info (\<lambda>x. x\<lparr>serverInfoAppVersion := v\<rparr>)) (\<lambda>_.
     bindE (need env d ''state'') (\<lambda>state.
     bindE (need env d ''ServerCodecModeSupport'') (\<lambda>codecs.
     bindE (need env d ''gputype'') (\<lambda>v. bindE (on_server (\<lambda>x. x\<lparr>sv_gpuType := v\<rparr>)) (\<lambda>_.
     bindE (need env d ''GsVersion'') (\<lambda>v. bindE (on_server (\<lambda>x. x\<lparr>sv_gsVersion := v\<rparr>)) (\<lambda>_.
     bindE (need env d ''GfeVersion'') (\<lambda>v. bindE (set_info (\<lambda>x. x\<lparr>serverInfoGfeVersion := v\<rparr>)) (\<lambda>_.
       retE \<lparr>tx_currentGame = game, tx_paired = paired, tx_state = state, tx_codecs = codecs\<rparr>))))))))))))))))))"

definition mode_list :: "client_env \<Rightarrow> http_data \<Rightarrow> unit gs" where
  "mode_list env d s =
     (case xml_modelist (e_fits env) (e_expat env) (doc d) (gs_err s) of
        None \<Rightarrow> (Inl Undefined, s)
      | Some ((r, None), e) \<Rightarrow> (Inl (Leave GS_INVALID), s\<lparr>gs_err := e\<rparr>)
      | Some ((r, Some modes), e) \<Rightarrow>
          on_server (\<lambda>x. x\<lparr>sv_modes := modes\<rparr>) (s\<lparr>gs_err := e\<rparr>))"

text \<open>The check that the four fields every host sends are not empty, and the assignments behind it.\<close>

definition nonempty :: "string option \<Rightarrow> string gs" where
  "nonempty v = bindE (the_string v) (\<lambda>t. if t = [] then leaveE (Leave GS_INVALID) else retE t)"

definition apply_status :: "string \<Rightarrow> string \<Rightarrow> string \<Rightarrow> string \<Rightarrow> string option \<Rightarrow> server_data \<Rightarrow> server_data" where
  "apply_status game paired version state codecs x =
     (let support = (case codecs of None \<Rightarrow> 0 | Some c \<Rightarrow> atoi c)
      in x\<lparr>sv_paired := (paired = ''1''),
           sv_currentGame := (if strstr state ''_SERVER_BUSY'' = None then 0 else atoi game),
           sv_supports4K := (support \<noteq> 0),
           sv_supportsHdr := (support AND 0x200 \<noteq> 0),
           sv_serverInfo := (sv_serverInfo x)\<lparr>serverCodecModeSupport := support\<rparr>,
           sv_serverMajorVersion := atoi version,
           sv_isGfe := (strstr state ''MJOLNIR'' \<noteq> None)\<rparr>)"

definition server_version :: "string option gs" where
  "server_version s = (Inr (serverInfoAppVersion (sv_serverInfo (gs_server s))), s)"

definition check_status :: "status_texts \<Rightarrow> int gs" where
  "check_status tx =
     bindE (nonempty (tx_currentGame tx)) (\<lambda>game.
     bindE (nonempty (tx_paired tx)) (\<lambda>paired.
     bindE (bindE server_version nonempty) (\<lambda>version.
     bindE (nonempty (tx_state tx)) (\<lambda>state.
     bindE (on_server (apply_status game paired version state (tx_codecs tx))) (\<lambda>_.
       retE GS_OK)))))"

text \<open>One round of the loop; the first goes to the HTTPS port.\<close>

definition status_attempt :: "client_env \<Rightarrow> bool \<Rightarrow> int gs" where
  "status_attempt env secure =
     at_cleanup
       (bindE (construct_url env None 4096 secure ''serverinfo'' None) (\<lambda>url.
        case alloc_data env of
          None \<Rightarrow> leaveE (Leave GS_OUT_OF_MEMORY)
        | Some d0 \<Rightarrow>
            bindE (request env url d0) (\<lambda>(r, d).
              if r \<noteq> GS_OK then leaveE (Leave GS_IO_ERROR)
              else bindE (status_of env d) (\<lambda>st.
                if st = GS_ERROR then leaveE (Leave GS_ERROR)
                else bindE (status_fields env d) (\<lambda>tx. bindE (mode_list env d) (\<lambda>_. check_status tx))))))"

definition MIN_SUPPORTED_GFE_VERSION :: int where "MIN_SUPPORTED_GFE_VERSION = 3"
definition MAX_SUPPORTED_GFE_VERSION :: int where "MAX_SUPPORTED_GFE_VERSION = 7"

definition version_check :: "int \<Rightarrow> int gs" where
  "version_check ret s =
     (let sv = gs_server s
      in if ret = GS_OK \<and> \<not> sv_unsupported sv then
           (if MAX_SUPPORTED_GFE_VERSION < sv_serverMajorVersion sv then
              error_gs GS_UNSUPPORTED_VERSION
                (''Ensure you're running the latest version of Moonlight '' @
                 ''or downgrade GeForce Experience and try again'') s
            else if sv_serverMajorVersion sv < MIN_SUPPORTED_GFE_VERSION then
              error_gs GS_UNSUPPORTED_VERSION
                (''Moonlight requires a newer version of GeForce Experience. '' @
                 ''Please upgrade GFE on your PC and try again.'') s
            else (Inr ret, s))
         else (Inr ret, s))"

definition load_server_status :: "client_env \<Rightarrow> int gs" where
  "load_server_status env =
     bindE (status_attempt env True) (\<lambda>ret.
     bindE (if ret \<noteq> GS_OK then status_attempt env False else retE ret) version_check)"

definition gs_get_status :: "client_env \<Rightarrow> string \<Rightarrow> bool \<Rightarrow> int gs" where
  "gs_get_status env addr unsupp =
     bindE (on_server (\<lambda>x. x\<lparr>sv_serverInfo := \<lparr>si_address = addr, serverInfoAppVersion = None,
              serverInfoGfeVersion = None, rtspSessionUrl = None, serverCodecModeSupport = 0\<rparr>,
            sv_unsupported := unsupp\<rparr>))
       (\<lambda>_. load_server_status env)"

section \<open>Unpairing, the application list, quitting, covers\<close>

definition gs_unpair :: "client_env \<Rightarrow> int gs" where
  "gs_unpair env =
     (case alloc_data env of
        None \<Rightarrow> retE GS_OUT_OF_MEMORY
      | Some d0 \<Rightarrow>
          at_cleanup
            (bindE (construct_url env None 4096 False ''unpair'' None) (\<lambda>url.
             bindE (request env url d0) (\<lambda>(ret, d).
               if ret \<noteq> GS_OK then leaveE (Leave ret)
               else bindE (status_of env d) (\<lambda>st.
                 if st = GS_ERROR then leaveE (Leave GS_ERROR)
                 else bindE (on_server (\<lambda>x. x\<lparr>sv_paired := False\<rparr>)) (\<lambda>_. retE GS_OK))))))"

text \<open>The list with its heap is there when \<open>*list\<close> was assigned.\<close>

definition gs_applist :: "client_env \<Rightarrow> (int \<times> (app_entry list \<times> heap) option) gs" where
  "gs_applist env =
     (case alloc_data env of
        None \<Rightarrow> bindE (error_gs GS_OUT_OF_MEMORY ''Out of memory'') (\<lambda>ret. retE (ret, None))
      | Some d0 \<Rightarrow>
          bindE (construct_url env None 4096 True ''applist'' None) (\<lambda>url.
          bindE (request env url d0) (\<lambda>(r, d).
            if r \<noteq> GS_OK then
              bindE (error_gs GS_IO_ERROR ''Failed to get apps list'') (\<lambda>ret. retE (ret, None))
            else bindE (status_of env d) (\<lambda>st.
              if st = GS_ERROR then retE (GS_ERROR, None)
              else (\<lambda>s.
                (case xml_applist (e_fits env) (e_expat env) (doc d) (gs_err s) of
                   None \<Rightarrow> (Inl Undefined, s)
                 | Some ((ret, None), e) \<Rightarrow> (Inr (GS_INVALID, None), s\<lparr>gs_err := e\<rparr>)
                 | Some ((ret, Some apps), e) \<Rightarrow> (Inr (GS_OK, Some apps), s\<lparr>gs_err := e\<rparr>)))))))"

text \<open>\<open>if ((ret = xml_status (...) != GS_OK)) goto cleanup\<close>: \<open>ret\<close> is the comparison.\<close>

definition status_or_leave :: "client_env \<Rightarrow> http_data \<Rightarrow> unit gs" where
  "status_or_leave env d =
     bindE (status_of env d) (\<lambda>st. if st \<noteq> GS_OK then leaveE (Leave 1) else retE ())"

definition gs_quit_app :: "client_env \<Rightarrow> int gs" where
  "gs_quit_app env =
     (case alloc_data env of
        None \<Rightarrow> error_gs GS_OUT_OF_MEMORY ''Out of memory''
      | Some d0 \<Rightarrow>
          at_cleanup
            (bindE (construct_url env None 4096 True ''cancel'' None) (\<lambda>url.
             bindE (request env url d0) (\<lambda>(ret, d).
               if ret \<noteq> GS_OK then leaveE (Leave ret)
               else bindE (status_or_leave env d) (\<lambda>_.
                 bindE (search_in env d False ''cancel'') (\<lambda>(ret, v).
                   if ret \<noteq> GS_OK then leaveE (Leave ret)
                   else bindE (the_string v) (\<lambda>t.
                     if t = ''0'' then fail_gs GS_FAILED ''App quit request failed''
                     else bindE (on_server (\<lambda>x. x\<lparr>sv_currentGame := 0\<rparr>)) (\<lambda>_. retE GS_OK))))))))"

definition gs_download_cover :: "client_env \<Rightarrow> int \<Rightarrow> string \<Rightarrow> int gs" where
  "gs_download_cover env appid path =
     (case alloc_data env of
        None \<Rightarrow> retE GS_OUT_OF_MEMORY
      | Some d0 \<Rightarrow>
          at_cleanup
            (bindE (construct_url env None 4096 True ''appasset''
                      (Some (''appid='' @ show_int appid @ ''&AssetType=2&AssetIdx=0''))) (\<lambda>url.
             bindE (request env url d0) (\<lambda>(ret, d).
               if ret \<noteq> GS_OK then leaveE (Leave ret)
               else if \<not> e_can_write env path then fail_gs GS_IO_ERROR ''Failed to download cover''
               else (\<lambda>s. (Inr ret, s\<lparr>gs_files := (gs_files s)(path \<mapsto> doc d)\<rparr>))))))"

end
