(* ===== verification/Pairing.thy ===== *)
theory Pairing
  imports Client
begin

text \<open>
  \<open>gs_pair\<close> and \<open>gs_start_app\<close> of \<open>libgamestream/client.c\<close>. \<open>gs_pair\<close> is the composition of its five stages;
  what a stage hands to the next ones is its result. Arrays that the code does not initialise hold
  \<open>e_junk\<close>.
\<close>

unbundle bit_operations_syntax

section \<open>Pairing\<close>

definition hash_with :: "client_env \<Rightarrow> bool \<Rightarrow> u8 list \<Rightarrow> u8 list" where
  "hash_with env gen7 = (if gen7 then e_sha256 env else e_sha1 env)"

definition hash_length :: "bool \<Rightarrow> nat" where
  "hash_length gen7 = (if gen7 then 32 else 20)"

text \<open>Request, then \<open>paired\<close> has to be \<open>1\<close>; the message is the stage's.\<close>

definition pair_request :: "client_env \<Rightarrow> string option \<Rightarrow> http_data \<Rightarrow> string \<Rightarrow> http_data gs" where
  "pair_request env url data stage =
     bindE (request env url data) (\<lambda>(ret, d).
       if ret \<noteq> GS_OK then leaveE (Leave ret)
       else bindE (status_or_leave env d) (\<lambda>_.
         bindE (search_in env d False ''paired'') (\<lambda>(ret, v).
           if ret \<noteq> GS_OK then leaveE (Leave ret)
           else bindE (the_string v) (\<lambda>t.
             if t \<noteq> ''1'' then fail_gs GS_FAILED (''Failed pairing at stage #'' @ stage)
             else retE d))))"

definition pair_params :: "string" where
  "pair_params = ''devicename=roth&updateState=1&''"

text \<open>Stage 1: the salt goes out, the host's certificate comes back. A declined pairing and a certificate
  that is too big leave with the \<open>ret\<close> of the last successful search, which is \<open>GS_OK\<close>.\<close>

definition pair_getcert :: "client_env \<Rightarrow> u8 list \<Rightarrow> (string option \<times> http_data \<times> u8 list) gs" where
  "pair_getcert env salt =
     bindE (asks gs_hnd) (\<lambda>hnd. bindE (construct_url env None 5120 False ''pair''
               (Some (pair_params @ ''phrase=getservercert&salt='' @ bytes_to_hex salt @
                      ''&clientcert='' @ cert_hex hnd))) (\<lambda>url.
      case alloc_data env of
        None \<Rightarrow> if url = None then leaveE Undefined else fail_gs GS_OUT_OF_MEMORY ''Out of memory''
      | Some d0 \<Rightarrow>
          bindE (request env url d0) (\<lambda>(ret, d).
            if ret \<noteq> GS_OK then fail_keeping ret ret ''Failed to request pairing. Check connection.''
            else bindE (status_of env d) (\<lambda>st.
              if st \<noteq> GS_OK then fail_keeping st st ''Host returned malformed data.''
              else bindE (search_in env d False ''paired'') (\<lambda>(ret, v).
                if ret \<noteq> GS_OK then fail_keeping ret ret ''Host returned incorrect response.''
                else bindE (the_string v) (\<lambda>t.
                  if t \<noteq> ''1'' then fail_keeping ret GS_FAILED ''Pairing was declined.''
                  else bindE (search_in env d False ''plaincert'') (\<lambda>(ret, v).
                    if ret \<noteq> GS_OK then fail_keeping ret GS_FAILED ''Failed to parse plaincert''
                    else bindE (the_string v) (\<lambda>hex.
                      if 8191 < length hex div 2 then fail_keeping ret GS_FAILED ''Server certificate too big''
                      else
                        (let (str, n) = hex_to_bytes hex (junk_array env 8192) 8191;
                             len = (case n of None \<Rightarrow> 0 | Some k \<Rightarrow> k);
                             cert = take len str @ [0]
                         in if e_x509_parse env cert \<noteq> 0 then
                              fail_gs GS_FAILED ''Failed to parse server cert''
                            else retE (url, d, cert))))))))))"

text \<open>Stage 2: the random challenge goes out encrypted; the decrypted answer.\<close>

definition pair_challenge ::
  "client_env \<Rightarrow> u8 list \<Rightarrow> u8 list \<Rightarrow> string option \<Rightarrow> http_data \<Rightarrow> (string option \<times> http_data \<times> u8 list) gs" where
  "pair_challenge env key challenge url data =
     (case crypt_data (e_aes_enc env key) challenge (junk_array env 16) 16 of
        (False, _) \<Rightarrow> fail_gs GS_FAILED ''Failed to encrypt random_challenge''
      | (True, encrypted) \<Rightarrow>
          bindE (construct_url env url 5120 False ''pair''
                   (Some (pair_params @ ''clientchallenge='' @ bytes_to_hex encrypted))) (\<lambda>url.
          bindE (pair_request env url data ''2'') (\<lambda>d.
          bindE (search_in env d False ''challengeresponse'') (\<lambda>(ret, v).
            if ret \<noteq> GS_OK then leaveE (Leave GS_INVALID)
            else bindE (the_string v) (\<lambda>hex.
              (case hex_to_bytes hex (junk_array env 128) 128 of
                 (enc, None) \<Rightarrow> leaveE Undefined
               | (enc, Some n) \<Rightarrow>
                   retE (url, d, snd (crypt_data (e_aes_dec env key) enc (junk_array env 128) n))))))))"

text \<open>Stage 3: the hash of the host's challenge, our certificate's signature and our secret, encrypted.\<close>

definition pair_response ::
  "client_env \<Rightarrow> bool \<Rightarrow> u8 list \<Rightarrow> u8 list \<Rightarrow> u8 list \<Rightarrow> string option \<Rightarrow> http_data \<Rightarrow>
     (string option \<times> http_data \<times> u8 list) gs" where
  "pair_response env gen7 key dec secret url data =
     bindE (asks gs_hnd) (\<lambda>hnd.
      let response = take 16 (drop (hash_length gen7) dec) @
                     take 256 (e_x509_sig env (map byte_of (cl_cert hnd))) @ secret;
          hash = blit (replicate 32 0) 0 (hash_with env gen7 response);
          encrypted = snd (crypt_data (e_aes_enc env key) hash (junk_array env 32) 32)
      in bindE (construct_url env url 5120 False ''pair''
                  (Some (pair_params @ ''serverchallengeresp='' @ bytes_to_hex encrypted))) (\<lambda>url.
         bindE (pair_request env url data ''3'') (\<lambda>d.
         bindE (search_in env d False ''pairingsecret'') (\<lambda>(ret, v).
           if ret \<noteq> GS_OK then leaveE (Leave GS_INVALID)
           else bindE (the_string v) (\<lambda>hex.
             retE (url, d, fst (hex_to_bytes hex (junk_array env 272) 272)))))))"

text \<open>Stage 4: the two checks of the host, then our signed secret.\<close>

definition host_is_authentic :: "client_env \<Rightarrow> u8 list \<Rightarrow> u8 list \<Rightarrow> bool" where
  "host_is_authentic env cert pairing_secret =
     e_pk_verify env cert (e_sha256 env (take 16 pairing_secret)) (drop 16 pairing_secret)"

definition pin_is_correct ::
  "client_env \<Rightarrow> bool \<Rightarrow> u8 list \<Rightarrow> u8 list \<Rightarrow> u8 list \<Rightarrow> u8 list \<Rightarrow> bool" where
  "pin_is_correct env gen7 challenge cert pairing_secret dec =
     (let expected = hash_with env gen7 (challenge @ take 256 (e_x509_sig env cert) @ take 16 pairing_secret)
      in take (hash_length gen7) (blit (junk_array env 32) 0 expected) = take (hash_length gen7) dec)"

definition pair_secret ::
  "client_env \<Rightarrow> bool \<Rightarrow> u8 list \<Rightarrow> u8 list \<Rightarrow> u8 list \<Rightarrow> u8 list \<Rightarrow> u8 list \<Rightarrow> string option \<Rightarrow> http_data \<Rightarrow>
     (string option \<times> http_data) gs" where
  "pair_secret env gen7 challenge cert dec secret pairing_secret url data =
     (if \<not> host_is_authentic env cert pairing_secret then fail_gs GS_FAILED ''MITM attack detected''
      else if \<not> pin_is_correct env gen7 challenge cert pairing_secret dec then fail_gs GS_FAILED ''Incorrect PIN''
      else bindE (asks gs_hnd) (\<lambda>hnd.
        (case e_pk_sign env (cl_key hnd) (e_sha256 env secret) of
           None \<Rightarrow> fail_gs GS_FAILED ''Failed to sign data''
         | Some sig \<Rightarrow>
             bindE (construct_url env url 5120 False ''pair''
                      (Some (pair_params @ ''clientpairingsecret='' @
                             bytes_to_hex (secret @ blit (junk_array env 256) 0 (take 256 sig))))) (\<lambda>url.
             bindE (pair_request env url data ''4'') (\<lambda>d. retE (url, d))))))"

text \<open>Stage 5: the challenge over HTTPS, with the client certificate.\<close>

definition pair_final :: "client_env \<Rightarrow> string option \<Rightarrow> http_data \<Rightarrow> int gs" where
  "pair_final env url data =
     bindE (construct_url env url 5120 True ''pair'' (Some (pair_params @ ''phrase=pairchallenge''))) (\<lambda>url.
     bindE (pair_request env url data ''5'') (\<lambda>_.
     bindE (on_server (\<lambda>x. x\<lparr>sv_paired := True\<rparr>)) (\<lambda>_. retE GS_OK)))"

definition pair_stages :: "client_env \<Rightarrow> bool \<Rightarrow> string \<Rightarrow> int gs" where
  "pair_stages env gen7 pinText =
     bindE (random_bytes env 16) (\<lambda>salt.
     bindE (retE (take 16 (hash_with env gen7 (salt @ map byte_of (take 4 pinText))))) (\<lambda>key.
     bindE (pair_getcert env salt) (\<lambda>(url, d, cert).
     bindE (random_bytes env 16) (\<lambda>challenge.
     bindE (pair_challenge env key challenge url d) (\<lambda>(url, d, dec).
     bindE (random_bytes env 16) (\<lambda>secret.
     bindE (pair_response env gen7 key dec secret url d) (\<lambda>(url, d, pairing_secret).
     bindE (pair_secret env gen7 challenge cert dec secret pairing_secret url d) (\<lambda>(url, d).
       pair_final env url d))))))))"

definition pair_body :: "client_env \<Rightarrow> string \<Rightarrow> int gs" where
  "pair_body env pinText =
     bindE (ctr_drbg_seed env) (\<lambda>ret.
       if ret \<noteq> 0 then leaveE (Leave ret)
       else bindE (asks gs_server) (\<lambda>sv.
         if sv_paired sv then fail_gs GS_WRONG_STATE ''Already paired''
         else pair_stages env (7 \<le> sv_serverMajorVersion sv) pinText))"

definition pair_cleanup :: "client_env \<Rightarrow> int \<Rightarrow> int gs" where
  "pair_cleanup env ret =
     (if ret \<noteq> GS_OK then
        bindE (gs_unpair env) (\<lambda>_. bindE (asks gs_server) (\<lambda>sv.
          if sv_currentGame sv \<noteq> 0 then
            error_gs GS_WRONG_STATE
              (''The computer is currently in a game.'' @ [CHR 0x0A] @
               ''You must close the game before pairing.'')
          else retE ret))
      else retE ret)"

definition gs_pair :: "client_env \<Rightarrow> string \<Rightarrow> int gs" where
  "gs_pair env pinText = bindE (at_cleanup (pair_body env pinText)) (pair_cleanup env)"

section \<open>Starting an application\<close>

definition VIDEO_FORMAT_MASK_10BIT :: int where "VIDEO_FORMAT_MASK_10BIT = 0x2200"

definition SURROUNDAUDIOINFO_FROM_AUDIO_CONFIGURATION :: "int \<Rightarrow> int" where
  "SURROUNDAUDIOINFO_FROM_AUDIO_CONFIGURATION x =
     push_bit 16 (drop_bit 16 x AND 0xFFFF) OR (drop_bit 8 x AND 0xFF)"

text \<open>The loop over the host's display modes: \<open>unsigned\<close> comparisons with the configuration's \<open>int\<close>s.\<close>

definition mode_matches :: "stream_configuration \<Rightarrow> display_mode \<Rightarrow> bool" where
  "mode_matches config m \<longleftrightarrow>
     mode_width m = word_of_int (st_width config) \<and> mode_height m = word_of_int (st_height config) \<and>
     mode_refresh m = word_of_int (st_fps config)"

definition correct_mode :: "stream_configuration \<Rightarrow> server_data \<Rightarrow> bool" where
  "correct_mode config sv = list_ex (mode_matches config) (sv_modes sv)"

text \<open>The four bytes at the start of the IV as a big-endian word, printed with \<open>%d\<close>.\<close>

definition rikeyid_of :: "u8 list \<Rightarrow> int" where
  "rikeyid_of iv =
     sint (push_bit 24 (ucast (iv ! 0)) OR push_bit 16 (ucast (iv ! 1)) OR
           push_bit 8 (ucast (iv ! 2)) OR ucast (iv ! 3) :: u32)"

definition b2i :: "bool \<Rightarrow> int" where "b2i b = (if b then 1 else 0)"

text \<open>The calls of \<open>append_param\<close> in order: name and formatted value.\<close>

definition start_params ::
  "stream_configuration \<Rightarrow> bool \<Rightarrow> bool \<Rightarrow> bool \<Rightarrow> bool \<Rightarrow> int \<Rightarrow> (string \<times> string) list" where
  "start_params config launch is_gfe sopsFlag localFlag gamepad_mask =
     (let fps = (if is_gfe \<and> 60 < st_fps config then 0 else st_fps config)
      in [(''mode'', show_int (st_width config) @ ''x'' @ show_int (st_height config) @ ''x'' @ show_int fps),
          (''additionalStates'', ''1''),
          (''sops'', show_int (b2i sopsFlag)),
          (''rikey'', bytes_to_hex (st_remoteInputAesKey config)),
          (''rikeyid'', show_int (rikeyid_of (st_remoteInputAesIv config))),
          (''surroundAudioInfo'',
             show_int (SURROUNDAUDIOINFO_FROM_AUDIO_CONFIGURATION (st_audioConfiguration config)))] @
         (if \<not> launch \<or> \<not> is_gfe then
            (if st_supportedVideoFormats config AND VIDEO_FORMAT_MASK_10BIT \<noteq> 0 then
               [(''hdrMode'', ''1''), (''clientHdrCapVersion'', ''0''),
                (''clientHdrCapSupportedFlagsInUint32'', ''0''),
                (''clientHdrCapMetaDataId'', ''NV_STATIC_METADATA_TYPE_1''),
                (''clientHdrCapDisplayData'', ''0x0x0x0x0x0x0x0x0x0x0'')]
             else []) @
            [(''localAudioPlayMode'', show_int (b2i localFlag)),
             (''remoteControllersBitmap'', show_int gamepad_mask),
             (''gcmap'', show_int gamepad_mask)]
          else []))"

definition append_params :: "nat \<Rightarrow> (string \<times> string) list \<Rightarrow> string \<Rightarrow> string" where
  "append_params ulen ps url = fold (\<lambda>(n, v) u. append_param u ulen n v) ps url"

text \<open>From the request on; the result of a session is kept in the server record.\<close>

definition start_session :: "client_env \<Rightarrow> string option \<Rightarrow> http_data \<Rightarrow> int \<Rightarrow> int gs" where
  "start_session env url d0 appId =
     bindE (request env url d0) (\<lambda>(ret, d).
       if ret \<noteq> GS_OK then leaveE (Leave ret)
       else bindE (on_server (\<lambda>x. x\<lparr>sv_currentGame := appId\<rparr>)) (\<lambda>_.
         bindE (status_or_leave env d) (\<lambda>_.
           bindE (search_in env d True ''gamesession'') (\<lambda>(r1, v1).
             bindE (if r1 \<noteq> GS_OK then search_in env d True ''resume'' else retE (r1, v1)) (\<lambda>(ret, v).
               if ret \<noteq> GS_OK then leaveE (Leave ret)
               else bindE (the_string v) (\<lambda>t.
                 if t = ''0'' then fail_gs GS_FAILED ''App start request failed''
                 else bindE (search_in env d True ''sessionUrl0'') (\<lambda>(r2, v2).
                   if r2 = GS_OK then
                     bindE (set_info (\<lambda>x. x\<lparr>rtspSessionUrl := v2\<rparr>)) (\<lambda>_. retE ret)
                   else retE ret)))))))"

definition set_timeout_gs :: "int \<Rightarrow> unit gs" where
  "set_timeout_gs t s = (Inr (), s\<lparr>gs_hnd := (gs_hnd s)\<lparr>cl_http := http_set_timeout t (cl_http (gs_hnd s))\<rparr>\<rparr>)"

definition start_keys :: "client_env \<Rightarrow> stream_configuration \<Rightarrow> stream_configuration gs" where
  "start_keys env config =
     bindE (random_bytes env 16) (\<lambda>key.
     bindE (random_bytes env 4) (\<lambda>iv.
       retE (config\<lparr>st_remoteInputAesKey := key, st_remoteInputAesIv := iv @ replicate 12 0\<rparr>)))"

definition start_launch ::
  "client_env \<Rightarrow> stream_configuration \<Rightarrow> int \<Rightarrow> bool \<Rightarrow> bool \<Rightarrow> bool \<Rightarrow> int \<Rightarrow> int gs" where
  "start_launch env config appId is_gfe sopsFlag localFlag gamepad_mask =
     (case alloc_data env of
        None \<Rightarrow> fail_gs GS_OUT_OF_MEMORY ''Out of memory''
      | Some d0 \<Rightarrow> bindE (asks gs_server) (\<lambda>sv.
          (let launch = (sv_currentGame sv = 0)
           in bindE (set_timeout_gs (if launch then 30 else 120)) (\<lambda>_.
              bindE (construct_url env None 4096 True (if launch then ''launch'' else ''resume'')
                       (Some (''appid='' @ show_int appId))) (\<lambda>url.
                (case url of
                   None \<Rightarrow> leaveE Undefined
                 | Some u \<Rightarrow>
                     start_session env
                       (Some (strlcat (append_params 4096
                          (start_params config launch is_gfe sopsFlag localFlag gamepad_mask) u)
                          (e_launch_params env) 4096)) d0 appId))))))"

text \<open>The result is the return value and the configuration with its new keys.\<close>

definition gs_start_app ::
  "client_env \<Rightarrow> stream_configuration \<Rightarrow> int \<Rightarrow> bool \<Rightarrow> bool \<Rightarrow> bool \<Rightarrow> int \<Rightarrow> (int \<times> stream_configuration) gs" where
  "gs_start_app env config appId is_gfe sopsFlag localFlag gamepad_mask =
     bindE (ctr_drbg_seed env) (\<lambda>ret.
       if ret \<noteq> 0 then retE (ret, config)
       else bindE (asks gs_server) (\<lambda>sv.
         if \<not> correct_mode config sv \<and> \<not> sv_unsupported sv then
           bindE (error_gs GS_NOT_SUPPORTED_MODE ''Selected mode is not supported by the host'')
             (\<lambda>r. retE (r, config))
         else if 2160 \<le> st_height config \<and> \<not> sv_supports4K sv then
           bindE (error_gs GS_NOT_SUPPORTED_4K ''Host doesn't support 4K'') (\<lambda>r. retE (r, config))
         else
           bindE (start_keys env config) (\<lambda>config'.
           bindE (at_cleanup (start_launch env config' appId is_gfe sopsFlag localFlag gamepad_mask))
             (\<lambda>r. retE (r, config')))))"

section \<open>The client handle\<close>

definition gs_set_timeout :: "int \<Rightarrow> gs_client \<Rightarrow> gs_client" where
  "gs_set_timeout t hnd = hnd\<lparr>cl_http := http_set_timeout t (cl_http hnd)\<rparr>"

text \<open>\<open>fits\<close> is asked for the handle and for the HTTP client; the handle starts zeroed.\<close>

definition gs_new ::
  "platform_calls \<Rightarrow> crypto_lib \<Rightarrow> (nat \<Rightarrow> bool) \<Rightarrow> string \<Rightarrow> conf_state \<Rightarrow> gs_client option \<times> conf_state" where
  "gs_new pc cl fits keydir s =
     (if \<not> fits 8672 then (None, s)
      else
        (let zero = \<lparr>unique_id = [], cl_cert = [], cl_key = [], cert_hex = [],
                cl_http = \<lparr>certPath = [], keyPath = [], timeout = 0\<rparr>\<rparr>;
             ((ret, hnd), s1) = gs_conf_load pc cl keydir zero s
         in if ret \<noteq> GS_OK then (None, s1)
            else if \<not> fits 8196 then (None, s1)
            else (Some (gs_set_timeout 5 (hnd\<lparr>cl_http := http_create keydir\<rparr>)), s1)))"

end
