(* ===== verification/HttpFacts.thy ===== *)
theory HttpFacts
  imports Http
begin

text \<open>
  What the HTTP client promises: a response with a Content-Length is taken whole, however the network cuts
  it, and no longer waited for once it is there; the URLs the client builds are read back; a plain request always fits
  its array, and how a TLS request may not.
\<close>

section \<open>Searching\<close>

lemma strstr_None_iff: "p \<noteq> [] \<Longrightarrow> strstr s p = None \<longleftrightarrow> (\<forall>i. take (length p) (drop i s) \<noteq> p)"
proof (induction s)
  case Nil
  then show ?case by auto
next
  case (Cons x xs)
  show ?case
  proof (cases "take (length p) (x # xs) = p")
    case True
    then show ?thesis by (auto intro: exI [of _ 0])
  next
    case False
    then have "(\<forall>i. take (length p) (drop i (x # xs)) \<noteq> p) \<longleftrightarrow> (\<forall>i. take (length p) (drop i xs) \<noteq> p)"
      by (metis drop_0 drop_Suc_Cons not0_implies_Suc)
    with False Cons show ?thesis by simp
  qed
qed

lemma strstr_at:
  "take (length p) (drop k s) = p \<Longrightarrow> k < length s \<or> p = [] \<Longrightarrow>
   (\<And>i. i < k \<Longrightarrow> take (length p) (drop i s) \<noteq> p) \<Longrightarrow> k \<le> length s \<Longrightarrow> strstr s p = Some k"
proof (induction s arbitrary: k)
  case Nil
  then show ?case by simp
next
  case (Cons x xs)
  show ?case
  proof (cases k)
    case 0
    with Cons.prems(1) show ?thesis by simp
  next
    case (Suc j)
    have "take (length p) (x # xs) \<noteq> p" using Cons.prems(3) [of 0] Suc by simp
    moreover have "strstr xs p = Some j"
      using Cons.prems Suc Cons.prems(3) [of "Suc i" for i] by (intro Cons.IH) auto
    ultimately show ?thesis using Suc by simp
  qed
qed

lemma strstr_None_take: "p \<noteq> [] \<Longrightarrow> strstr s p = None \<Longrightarrow> strstr (take n s) p = None"
proof -
  assume p: "p \<noteq> []" and "strstr s p = None"
  then have a: "\<forall>i. take (length p) (drop i s) \<noteq> p" by (simp add: strstr_None_iff)
  have "take (length p) (drop i (take n s)) \<noteq> p" for i
  proof
    assume e: "take (length p) (drop i (take n s)) = p"
    then have "length p \<le> length (drop i (take n s))" by (metis length_take min.cobounded1)
    then have "length p \<le> n - i" by simp
    then have "take (length p) (drop i (take n s)) = take (length p) (drop i s)"
      by (simp add: drop_take)
    with a e show False by simp
  qed
  with p show ?thesis by (simp add: strstr_None_iff)
qed

text \<open>A separator that ends a text in which it does not occur earlier is found there, whatever follows.\<close>

lemma strstr_sep:
  assumes "p \<noteq> []" and "strstr (a @ butlast p) p = None"
  shows "strstr (a @ p @ b) p = Some (length a)"
proof (rule strstr_at)
  fix i
  assume i: "i < length a"
  have "take (length p) (drop i (a @ p @ b)) = take (length p) (drop i (a @ butlast p))"
    using i assms(1) by (simp add: take_append butlast_conv_take)
  then show "take (length p) (drop i (a @ p @ b)) \<noteq> p"
    using assms by (simp add: strstr_None_iff)
qed (use assms(1) in simp_all)

section \<open>A response with a Content-Length\<close>

text \<open>\<open>pre\<close> is what comes before the header field: no place in it looks like the field.\<close>

definition no_length_in :: "string \<Rightarrow> bool" where
  "no_length_in pre \<longleftrightarrow>
     list_all (\<lambda>i. map to_lower (take 14 (drop i (pre @ ''Content-Length''))) \<noteq> ''content-length'') [0..<length pre]"

definition length_head :: "string \<Rightarrow> string \<Rightarrow> string \<Rightarrow> string" where
  "length_head pre body post = pre @ ''Content-Length: '' @ show_nat (length body) @ post"

definition head_ok :: "string \<Rightarrow> string \<Rightarrow> string \<Rightarrow> bool" where
  "head_ok pre body post \<longleftrightarrow>
     no_length_in pre \<and> nul \<notin> set pre \<and> nul \<notin> set post \<and> no_digit_head post \<and>
     strstr (length_head pre body post @ butlast crlf2) crlf2 = None \<and>
     strstr (length_head pre body post @ butlast crlf2) lf2 = None \<and> is_c_int (int (length body))"

lemma content_length_skip:
  "i \<le> length pre \<Longrightarrow> no_length_in pre \<Longrightarrow> length pre + 14 \<le> n \<Longrightarrow>
   parse_content_length (drop i pre @ ''Content-Length'' @ rest) (n - i) =
     parse_content_length (''Content-Length'' @ rest) (n - length pre)"
proof (induction "length pre - i" arbitrary: i)
  case 0
  then show ?case by simp
next
  case (Suc k)
  then have i: "i < length pre" by simp
  then have nn: "\<not> n - i < 14" using Suc.prems(3) by linarith
  let ?s = "drop i pre @ ''Content-Length'' @ rest"
  have "map to_lower (take 14 (drop i (pre @ ''Content-Length''))) \<noteq> ''content-length''"
    using Suc.prems(2) i by (simp add: no_length_in_def list_all_iff)
  moreover have "take 14 (drop i (pre @ ''Content-Length'')) = take 14 ?s"
  proof -
    have "take 14 ?s = take 14 ((drop i pre @ ''Content-Length'') @ rest)" by (simp only: append_assoc)
    also have "\<dots> = take 14 (drop i pre @ ''Content-Length'')" by (simp only: take_append) simp
    finally show ?thesis using i by (simp only: drop_append) simp
  qed
  ultimately have "parse_content_length ?s (n - i) = parse_content_length (tl ?s) (n - i - 1)"
    using nn by (subst parse_content_length.simps) simp
  also have "tl ?s = drop (Suc i) pre @ ''Content-Length'' @ rest"
    using i by (simp add: tl_append2 drop_Suc tl_drop)
  finally show ?case using Suc i by simp
qed

lemma lower_content_length: "map to_lower ''Content-Length'' = ''content-length''"
  by code_simp

lemma content_length_found:
  assumes "no_length_in pre" and "no_digit_head rest" and "is_c_int (int n)" and "length pre + 14 \<le> k"
  shows "parse_content_length (pre @ ''Content-Length: '' @ show_nat n @ rest) k = int n"
proof -
  have s: "''Content-Length: '' @ show_nat n @ rest = ''Content-Length'' @ '': '' @ show_nat n @ rest" by simp
  obtain c cs where c: "show_nat n = c # cs" by (cases "show_nat n") auto
  then have d: "is_digit c" using show_nat_digits [of c n] by simp
  then have "c \<noteq> CHR '' ''" "c \<noteq> CHR '':''" "c \<noteq> CHR 0x09" by (auto simp: is_digit_def)
  then have dw: "dropWhile (\<lambda>c. c = CHR '' '' \<or> c = CHR 0x09 \<or> c = CHR '':'') ('': '' @ show_nat n @ rest) =
      show_nat n @ rest"
    by (simp add: c)
  have k: "\<not> k - length pre < 14" using assms(4) by linarith
  have "parse_content_length (pre @ ''Content-Length'' @ '': '' @ show_nat n @ rest) k =
      parse_content_length (''Content-Length'' @ '': '' @ show_nat n @ rest) (k - length pre)"
    using content_length_skip [of 0 pre k "'': '' @ show_nat n @ rest"] assms(1,4) by simp
  also have "\<dots> = strtol10 (show_nat n @ rest)"
    using k dw lower_content_length by (subst parse_content_length.simps) simp
  also have "\<dots> = int n"
    using atoi_show_nat_rest [OF assms(2,3)] by (simp add: atoi_def)
  finally show ?thesis by (simp only: s)
qed

definition response :: "string \<Rightarrow> string \<Rightarrow> string \<Rightarrow> string" where
  "response pre body post = length_head pre body post @ crlf2 @ body"

definition held :: "string \<Rightarrow> http_data" where
  "held a = \<lparr>memory = Some a, data_size = length a\<rparr>"

lemma head_no_nul: "head_ok pre body post \<Longrightarrow> nul \<notin> set (length_head pre body post @ crlf2)"
  by (auto simp: head_ok_def length_head_def crlf2_def nul_def is_digit_def dest: show_nat_digits)

lemma header_end_complete:
  assumes "head_ok pre body post"
  shows "header_end (length_head pre body post @ crlf2 @ b) = Some (length (length_head pre body post) + 4)"
proof -
  have "cstr (length_head pre body post @ crlf2 @ b) = length_head pre body post @ crlf2 @ cstr b"
    using cstr_append [OF head_no_nul [OF assms], of b] by simp
  moreover have "crlf2 \<noteq> []" by (simp add: crlf2_def)
  ultimately show ?thesis
    using strstr_sep [of crlf2 "length_head pre body post" "cstr b"] assms
    by (simp add: header_end_def head_ok_def)
qed

lemma header_end_partial:
  assumes "head_ok pre body post" and "n < length (length_head pre body post) + 4"
  shows "header_end (take n (response pre body post)) = None"
proof -
  let ?h = "length_head pre body post"
  have t: "take n (response pre body post) = take n (?h @ butlast crlf2)"
    using assms(2) by (simp add: response_def crlf2_def take_append take_Cons split: nat.split) auto
  have "nul \<notin> set (?h @ butlast crlf2)"
    using head_no_nul [OF assms(1)] by (auto dest: in_set_butlastD)
  then have "cstr (take n (?h @ butlast crlf2)) = take n (?h @ butlast crlf2)"
    by (intro cstr_id) (blast dest: in_set_takeD)
  then show ?thesis
    using assms(1) strstr_None_take [of crlf2 "?h @ butlast crlf2" n] strstr_None_take [of lf2 "?h @ butlast crlf2" n]
    by (simp add: header_end_def t head_ok_def crlf2_def lf2_def)
qed

lemma response_complete_iff:
  assumes "head_ok pre body post" and "n \<le> length (response pre body post)"
  shows "response_complete (held (take n (response pre body post))) \<longleftrightarrow> n = length (response pre body post)"
proof (cases "n < length (length_head pre body post) + 4")
  case True
  then show ?thesis
    using header_end_partial [OF assms(1) True]
    by (auto simp: response_complete_def held_def response_def crlf2_def)
next
  case False
  let ?h = "length_head pre body post" and ?b = "take (n - (length (length_head pre body post) + 4)) body"
  have t: "take n (response pre body post) = ?h @ crlf2 @ ?b"
    using False by (simp add: response_def crlf2_def take_append take_Cons' eval_nat_numeral)
  have c: "cstr (?h @ crlf2 @ ?b) = ?h @ crlf2 @ cstr ?b"
    using cstr_append [OF head_no_nul [OF assms(1)], of ?b] by simp
  have nd: "no_digit_head (post @ crlf2 @ cstr ?b)"
    using assms(1) by (auto simp: head_ok_def no_digit_head_def crlf2_def is_digit_def split: list.splits)
  have "parse_content_length (?h @ crlf2 @ cstr ?b) (length ?h + 4) = int (length body)"
    using content_length_found [OF _ nd, of pre "length body" "length ?h + 4"] assms(1)
    by (simp add: length_head_def head_ok_def)
  then have "response_complete (held (?h @ crlf2 @ ?b)) \<longleftrightarrow>
      int (length body) \<le> int (length (?h @ crlf2 @ ?b)) - int (length ?h + 4)"
    by (simp add: response_complete_def held_def header_end_complete [OF assms(1)] c)
  also have "\<dots> \<longleftrightarrow> n = length (response pre body post)"
    using False assms(2) by (auto simp: response_def crlf2_def)
  finally show ?thesis by (simp only: t)
qed

lemma append_held:
  "\<forall>k \<le> length (a @ c) + 1. fits k \<Longrightarrow> append_data fits (held a) c = Some (held (a @ c))"
  by (simp add: append_data_def held_def)

lemma append_first:
  "\<forall>k \<le> length c + 1. fits k \<Longrightarrow> append_data fits \<lparr>memory = None, data_size = 0\<rparr> c = Some (held c)"
  by (simp add: append_data_def held_def)

lemma read_loop_chunks:
  assumes "head_ok pre body post" and "\<forall>k \<le> length (response pre body post) + 1. fits k"
  shows "cs \<noteq> [] \<Longrightarrow> list_all (\<lambda>c. c \<noteq> [] \<and> length c \<le> 4096) cs \<Longrightarrow> a @ concat cs = response pre body post \<Longrightarrow>
     d = held a \<or> a = [] \<and> d = \<lparr>memory = None, data_size = 0\<rparr> \<Longrightarrow>
     read_loop fits (map Data cs @ rest) d = held (response pre body post)"
proof (induction cs arbitrary: a d)
  case Nil
  then show ?case by simp
next
  case (Cons c cs)
  let ?r = "response pre body post"
  have r: "?r = (a @ c) @ concat cs" using Cons.prems(3) by simp
  then have pre: "a @ c = take (length (a @ c)) ?r" and le: "length (a @ c) \<le> length ?r" by simp_all
  have app: "append_data fits d c = Some (held (a @ c))"
  proof -
    have "\<forall>k \<le> length (a @ c) + 1. fits k" using assms(2) le by auto
    with Cons.prems(4) append_held [of a c fits] append_first [of c fits] show ?thesis by auto
  qed
  have c: "c \<noteq> []" "take 4096 c = c" "drop 4096 c = []" using Cons.prems(2) by auto
  have done_iff: "response_complete (held (a @ c)) \<longleftrightarrow> cs = []"
  proof -
    have "response_complete (held (a @ c)) \<longleftrightarrow> length (a @ c) = length ?r"
      using response_complete_iff [OF assms(1) le] by (simp only: pre [symmetric])
    also have "\<dots> \<longleftrightarrow> cs = []" using Cons.prems(2) r by (cases cs) auto
    finally show ?thesis .
  qed
  show ?case
  proof (cases "cs = []")
    case True
    then show ?thesis using c app done_iff r by simp
  next
    case False
    then have "read_loop fits (map Data cs @ rest) (held (a @ c)) = held ?r"
      using Cons.prems(2,3) by (intro Cons.IH [of "a @ c"]) auto
    then show ?thesis using c app done_iff False by simp
  qed
qed

text \<open>C5. A response with a Content-Length is received exactly, in whatever pieces the network delivers it, and the client
  stops as soon as the last piece is in: what the connection does afterwards (\<open>rest\<close>) does not matter.
  The call fails only for an empty body.\<close>

theorem read_response_any_chunking:
  assumes "head_ok pre body post" and "concat cs = response pre body post"
    and "list_all (\<lambda>c. c \<noteq> [] \<and> length c \<le> 4096) cs"
    and "\<forall>k \<le> length (response pre body post) + 1. fits k"
  shows "read_response fits (map Data cs @ rest) = (if body = [] then -1 else 0, held body)"
proof -
  have "cs \<noteq> []" using assms(2) by (auto simp: response_def crlf2_def)
  then have l: "read_loop fits (map Data cs @ rest) \<lparr>memory = None, data_size = 0\<rparr> = held (response pre body post)"
    using read_loop_chunks [OF assms(1,4), of cs "[]"] assms(2,3) by simp
  have "strip_headers (held (response pre body post)) = held body"
    using header_end_complete [OF assms(1), of body]
    by (simp add: strip_headers_def held_def response_def crlf2_def)
  with l show ?thesis by (simp add: read_response_def held_def Let_def)
qed

definition example_pre :: string where "example_pre = ''HTTP/1.1 200 OK'' @ crlf"

theorem read_response_any_chunking_witness:
  "read_response (\<lambda>_. True)
     [Data ''HTTP/1.1 200 OK'', Data (crlf @ ''Content-Length: 2'' @ crlf), Data (crlf @ ''o''), Data ''k'', Broken] =
   (0, \<lparr>memory = Some ''ok'', data_size = 2\<rparr>)"
proof -
  let ?cs = "[''HTTP/1.1 200 OK'', crlf @ ''Content-Length: 2'' @ crlf, crlf @ ''o'', ''k'']"
  have "show_nat 2 = ''2''" by code_simp
  then have two: "show_nat (Suc (Suc 0)) = ''2''" by (simp add: numeral_2_eq_2)
  have h: "head_ok example_pre ''ok'' []"
    by (simp add: head_ok_def no_length_in_def example_pre_def length_head_def crlf_def crlf2_def lf2_def nul_def
        no_digit_head_def two is_c_int_def int_min_def int_max_def to_lower_def upt_rec)
  have c: "concat ?cs = response example_pre ''ok'' []"
    by (simp add: response_def example_pre_def length_head_def crlf_def crlf2_def two)
  have s: "list_all (\<lambda>c. c \<noteq> [] \<and> length c \<le> 4096) ?cs" by (simp add: crlf_def)
  show ?thesis
    using read_response_any_chunking [OF h c s, of "\<lambda>_. True" "[Broken]"] by (simp add: held_def)
qed

section \<open>URLs\<close>

definition url_of :: "bool \<Rightarrow> string \<Rightarrow> nat \<Rightarrow> string \<Rightarrow> string" where
  "url_of isHttps host port path =
     (if isHttps then ''https://'' else ''http://'') @ host @ '':'' @ show_nat port @ path"

text \<open>URLs of the client's shape are taken apart into what they were built from.\<close>

lemma parse_url_roundtrip:
  assumes "CHR ''/'' \<notin> set host" and "CHR '':'' \<notin> set host" and "length host < hostSize"
    and "path = CHR ''/'' # q" and "length path < pathSize" and "port < 65536"
  shows "parse_url (url_of isHttps host port path) hostSize pathSize = Some (isHttps, host, int port, path)"
proof -
  let ?p = "host @ '':'' @ show_nat port @ path"
  have d: "CHR ''/'' \<notin> set (show_nat port)" "CHR '':'' \<notin> set (show_nat port)"
    by (auto simp: is_digit_def dest: show_nat_digits)
  have slash: "strchr ?p (CHR ''/'') = Some (length host + 1 + length (show_nat port))"
    using strchr_append [of "CHR ''/''" "host @ '':'' @ show_nat port" q] assms(1,4) d(1) by simp
  have colon: "strchr ?p (CHR '':'') = Some (length host)"
    using strchr_append [of "CHR '':''" host "show_nat port @ path"] assms(2) by simp
  have "atoi (show_nat port @ path) = int port"
    using assms(4,6) by (intro atoi_show_nat_rest) (simp_all add: no_digit_head_def is_digit_def is_c_int_def
        int_min_def int_max_def)
  then show ?thesis
    using assms(3-5) slash colon
    by (cases isHttps) (simp_all add: parse_url_def url_of_def strncmp_eq_def Let_def)
qed

section \<open>The request arrays\<close>

lemma send_loop_defined: "requestLen \<le> cap \<Longrightarrow> send_loop cap request requestLen sent rs \<noteq> None"
proof (induction rs arbitrary: sent)
  case Nil
  then show ?case by (simp add: send_loop.simps)
next
  case (Cons r rs)
  then show ?case by (subst send_loop.simps) simp
qed

lemma send_loop_over: "cap < requestLen \<Longrightarrow> send_loop cap request requestLen 0 rs = None"
  by (subst send_loop.simps) simp

lemma parse_url_sizes:
  assumes "parse_url url hostSize pathSize = Some (isHttps, host, port, path)"
  shows "length host < hostSize \<and> length path < pathSize"
  using assms by (auto simp: parse_url_def Let_def split: if_splits option.splits prod.splits)

text \<open>C33. A plain request for any URL that parses fits its array of 8192 bytes, so no send reads past it. The TLS
  request has 4096 bytes only: as soon as path and host take more than 4052 of them the length that
  \<open>snprintf\<close> returns exceeds the array and the send loop reads behind it.\<close>

theorem request_in_bounds:
  assumes "parse_url url 256 4096 = Some (isHttps, host, port, path)"
  shows "send_request p host path \<noteq> None \<and>
    (tls_request fits p host path cert key d = None \<longleftrightarrow>
       p_tls_ready p cert key \<and> tls_handshake (p_handshake p) = 0 \<and> 4052 < length path + length host)"
proof -
  have s: "length host < 256" "length path < 4096" using parse_url_sizes [OF assms] by auto
  have "length (plain_request host path) \<le> 8192"
    using s by (simp add: plain_request_def crlf_def)
  then have 1: "send_request p host path \<noteq> None"
    unfolding send_request_def Let_def by (rule send_loop_defined)
  have len: "length (tls_request_text host path) = length path + length host + 44"
    by (simp add: tls_request_text_def crlf_def)
  have "send_loop 4096 r (length (tls_request_text host path)) 0 (p_sends p) = None \<longleftrightarrow>
      4052 < length path + length host" for r
    using send_loop_defined [of "length (tls_request_text host path)" 4096 r 0 "p_sends p"]
      send_loop_over [of 4096 "length (tls_request_text host path)" r "p_sends p"] len
    by (cases "4052 < length path + length host") simp_all
  then have "tls_request fits p host path cert key d = None \<longleftrightarrow>
      p_tls_ready p cert key \<and> tls_handshake (p_handshake p) = 0 \<and> 4052 < length path + length host"
    by (auto simp: tls_request_def Let_def split: option.splits prod.splits bool.splits)
  with 1 show ?thesis by blast
qed

definition example_peer :: peer where
  "example_peer = \<lparr>p_sends = [100000], p_tls_ready = (\<lambda>_ _. True), p_handshake = [0], p_answer = (\<lambda>_. [])\<rparr>"

theorem request_in_bounds_witness:
  "tls_request (\<lambda>_. True) example_peer ''h'' (CHR ''/'' # replicate 4060 (CHR ''a'')) [] [] http_data_alloc = None"
proof -
  let ?path = "CHR ''/'' # replicate 4060 (CHR ''a'')"
  have "parse_url (url_of True ''h'' 1 ?path) 256 4096 = Some (True, ''h'', int 1, ?path)"
    by (rule parse_url_roundtrip [of _ _ _ "replicate 4060 (CHR ''a'')"]) simp_all
  from request_in_bounds [OF this, of example_peer "\<lambda>_. True" "[]" "[]" http_data_alloc]
  moreover have "p_tls_ready example_peer [] []" "tls_handshake (p_handshake example_peer) = 0"
    by (simp_all add: example_peer_def MBEDTLS_ERR_SSL_WANT_READ_def MBEDTLS_ERR_SSL_WANT_WRITE_def)
  ultimately show ?thesis by simp
qed

end
