(* ===== verification/XmlFacts.thy ===== *)
theory XmlFacts
  imports Xml
begin

text \<open>
  What the XML readers promise: a search returns all the text inside the element, the application
  list is the document's, last application first, with names that stay valid, when every application ends with its
  number; and the name is freed when it comes last.
\<close>

section \<open>Search\<close>

text \<open>The text of a document inside the elements \<open>node\<close>, at nesting depth \<open>d\<close> to begin with.\<close>

fun text_inside :: "string \<Rightarrow> int \<Rightarrow> xml_event list \<Rightarrow> string list" where
  "text_inside node d [] = []"
| "text_inside node d (Start name atts # es) = text_inside node (if node = name then d + 1 else d) es"
| "text_inside node d (End name # es) = text_inside node (if node = name then d - 1 else d) es"
| "text_inside node d (Cdata s # es) = (if 0 < d then s # text_inside node d es else text_inside node d es)"

definition holds_text :: "xml_query \<Rightarrow> heap \<Rightarrow> string \<Rightarrow> bool" where
  "holds_text q h t \<longleftrightarrow>
     q_size q = length t \<and>
     (case q_memory q of None \<Rightarrow> t = [] | Some i \<Rightarrow> i < length h \<and> h ! i = Some (t @ [nul]))"

lemma length_heap_free [simp]: "length (heap_free p h) = length h"
  by (simp add: heap_free_def split: option.split)

lemma write_cdata_text:
  assumes "holds_text q h t" and "0 < q_start q" and "\<forall>n. fits n"
  shows "\<exists>q' h'. write_cdata fits s (q, h) = (q', h') \<and> holds_text q' h' (t @ s) \<and>
    q_start q' = q_start q \<and> q_memory q' \<noteq> None"
proof -
  have "(case q_memory q of None \<Rightarrow> [] | Some i \<Rightarrow> (case h ! i of None \<Rightarrow> [] | Some b \<Rightarrow> take (q_size q) b)) = t"
    using assms(1) by (auto simp: holds_text_def split: option.splits)
  then show ?thesis
    using assms by (simp add: write_cdata_def heap_alloc_def holds_text_def Let_def nth_append)
qed

lemma search_events_text:
  assumes "\<forall>n. fits n"
  shows "holds_text q h t \<Longrightarrow>
    \<exists>q' h'. fold (search_event fits node) es (q, h) = (q', h') \<and>
      holds_text q' h' (t @ concat (text_inside node (q_start q) es)) \<and>
      (q_memory q' = None \<longleftrightarrow> q_memory q = None \<and> text_inside node (q_start q) es = [])"
proof (induction es arbitrary: q h t)
  case Nil
  then show ?case by simp
next
  case (Cons ev es)
  show ?case
  proof (cases ev)
    case (Start name atts)
    have "holds_text (start_element node name q) h t"
      using Cons.prems by (simp add: holds_text_def start_element_def)
    from Cons.IH [OF this] Start show ?thesis
      by (auto simp: search_event_def start_element_def split: if_splits)
  next
    case (End name)
    have "holds_text (end_element node name q) h t"
      using Cons.prems by (simp add: holds_text_def end_element_def)
    from Cons.IH [OF this] End show ?thesis
      by (auto simp: search_event_def end_element_def split: if_splits)
  next
    case (Cdata s)
    show ?thesis
    proof (cases "0 < q_start q")
      case True
      obtain q1 h1 where w: "write_cdata fits s (q, h) = (q1, h1)" "holds_text q1 h1 (t @ s)"
        "q_start q1 = q_start q" "q_memory q1 \<noteq> None"
        using write_cdata_text [OF Cons.prems True assms] by blast
      from Cons.IH [OF w(2)] w Cdata True show ?thesis by (auto simp: search_event_def)
    next
      case False
      then have "search_event fits node ev (q, h) = (q, h)" by (simp add: search_event_def Cdata write_cdata_def)
      with Cons.IH [OF Cons.prems] Cdata False show ?thesis by simp
    qed
  qed
qed

lemma search_text:
  assumes "\<forall>n. fits n" and "xp doc = (es, None)" and "\<forall>s \<in> set (text_inside node 0 es). nul \<notin> set s"
  shows "xml_search_ex fits xp doc node required err =
     (if required \<and> text_inside node 0 es = []
      then ((GS_INVALID, None), snd (gs_set_error GS_INVALID (Some (''Cant find value for `'' @ node @ ''`'')) err))
      else ((GS_OK, Some (concat (text_inside node 0 es))), err))"
proof -
  define mh where "mh = (if required then (None, []) else if fits 1 then (Some 0, [Some [nul]]) else (None :: nat option, [] :: heap))"
  let ?q = "\<lparr>q_memory = fst mh, q_size = 0, q_start = 0\<rparr>"
  have mem: "fst mh = None \<longleftrightarrow> required" using assms(1) by (simp add: mh_def)
  have "holds_text ?q (snd mh) []" using assms(1) by (simp add: holds_text_def mh_def)
  from search_events_text [OF assms(1) this, of node es, unfolded append_Nil xml_query.simps] obtain q h
    where f: "fold (search_event fits node) es (?q, snd mh) = (q, h)"
      and t: "holds_text q h (concat (text_inside node 0 es))"
      and m: "q_memory q = None \<longleftrightarrow> fst mh = None \<and> text_inside node 0 es = []"
    by (elim exE conjE) (rule that)
  have n: "nul \<notin> set (concat (text_inside node 0 es))" using assms(3) by auto
  have s: "heap_string (q_memory q) h = Some (concat (text_inside node 0 es))" if "q_memory q \<noteq> None"
    using t n that by (auto simp: holds_text_def heap_string_def cstr_append)
  have "xml_search_ex fits xp doc node required err =
      (if q_memory q = None \<and> required then
         ((GS_INVALID, None), snd (gs_set_error GS_INVALID (Some (''Cant find value for `'' @ node @ ''`'')) err))
       else ((GS_OK, heap_string (q_memory q) h), err))"
    using f assms(2) by (simp add: xml_search_ex_def mh_def [symmetric] Let_def gs_set_error_def split_beta)
  with m mem s show ?thesis by auto
qed

text \<open>C13. A search in a well-formed document returns the concatenation of all the text inside the elements of that name, however
  expat cuts it; a required value is reported missing exactly when no text event lies inside, and otherwise
  the last error is left alone.\<close>

theorem xml_search_text:
  assumes "\<forall>n. fits n" and "xp doc = (es, None)" and "\<forall>s \<in> set (text_inside node 0 es). nul \<notin> set s"
  shows "xml_search_ex fits xp doc node required err =
     (if required \<and> text_inside node 0 es = []
      then ((GS_INVALID, None), snd (gs_set_error GS_INVALID (Some (''Cant find value for `'' @ node @ ''`'')) err))
      else ((GS_OK, Some (concat (text_inside node 0 es))), err))"
  using assms by (rule search_text)

definition example_doc_events :: "xml_event list" where
  "example_doc_events =
     [Start ''root'' [(''status_code'', ''200'')], Start ''paired'' [], Cdata ''1'', End ''paired'',
      Cdata ''junk'', Start ''uniqueid'' [], Cdata ''AB'', Cdata ''CD'', End ''uniqueid'', End ''root'']"

definition no_error :: gs_error where
  "no_error = \<lparr>gs_errno = 0, gs_errmsg = []\<rparr>"

theorem xml_search_text_witness:
  "xml_search_ex (\<lambda>_. True) (\<lambda>_. (example_doc_events, None)) ''doc'' ''uniqueid'' True no_error =
     ((GS_OK, Some ''ABCD''), no_error)"
proof -
  have t: "text_inside ''uniqueid'' 0 example_doc_events = [''AB'', ''CD'']"
    by (simp add: example_doc_events_def)
  have n: "\<forall>s \<in> set (text_inside ''uniqueid'' 0 example_doc_events). nul \<notin> set s"
    by (simp add: t nul_def)
  from xml_search_text [of "\<lambda>_. True" "\<lambda>_. (example_doc_events, None)" "''doc''", OF _ _ n, of True no_error]
  show ?thesis by (simp add: t)
qed

section \<open>The application list\<close>

text \<open>An application of a document: the pieces in which expat delivers its title, its number and its HDR flag.\<close>

record app_xml =
  ax_title :: "string list"
  ax_id :: "string list"
  ax_hdr :: "string list"

definition app_xml_ok :: "app_xml \<Rightarrow> bool" where
  "app_xml_ok a \<longleftrightarrow>
     ax_title a \<noteq> [] \<and> ax_id a \<noteq> [] \<and> ax_hdr a \<noteq> [] \<and>
     list_all (\<lambda>s. nul \<notin> set s) (ax_title a @ ax_id a @ ax_hdr a)"

definition field_events :: "string \<Rightarrow> string list \<Rightarrow> xml_event list" where
  "field_events name pieces = Start name [] # map Cdata pieces @ [End name]"

text \<open>The order in which hosts write the fields, and the order with the title last.\<close>

definition app_events :: "app_xml \<Rightarrow> xml_event list" where
  "app_events a =
     Start ''App'' [] # field_events ''IsHdrSupported'' (ax_hdr a) @ field_events ''AppTitle'' (ax_title a) @
     field_events ''ID'' (ax_id a) @ [End ''App'']"

definition app_events_title_last :: "app_xml \<Rightarrow> xml_event list" where
  "app_events_title_last a =
     Start ''App'' [] # field_events ''IsHdrSupported'' (ax_hdr a) @ field_events ''ID'' (ax_id a) @
     field_events ''AppTitle'' (ax_title a) @ [End ''App'']"

definition keeps :: "heap \<Rightarrow> heap \<Rightarrow> bool" where
  "keeps h h' \<longleftrightarrow> length h \<le> length h' \<and> (\<forall>i < length h. h' ! i = h ! i)"

lemma keeps_refl [simp]: "keeps h h" by (simp add: keeps_def)

lemma keeps_trans: "keeps h1 h2 \<Longrightarrow> keeps h2 h3 \<Longrightarrow> keeps h1 h3"
  by (auto simp: keeps_def)

lemma keeps_string: "keeps h h' \<Longrightarrow> heap_string p h = Some t \<Longrightarrow> heap_string p h' = Some t"
  by (auto simp: keeps_def heap_string_def split: option.splits if_splits)

text \<open>Reading a value's pieces, in a block above \<open>base\<close>.\<close>

lemma applist_pieces:
  assumes "\<forall>n. fits n"
  shows "q_start q = 1 \<Longrightarrow> q_memory q = Some p \<Longrightarrow> length base \<le> p \<Longrightarrow> p < length h \<Longrightarrow> keeps base h \<Longrightarrow>
    h ! p = Some b \<Longrightarrow> take (q_size q) b = t \<Longrightarrow> q_size q = length t \<Longrightarrow> cs \<noteq> [] \<Longrightarrow>
    \<exists>q' h' p'. applist_events fits (map Cdata cs @ es) (q, apps, h) = applist_events fits es (q', apps, h') \<and>
      q_start q' = 1 \<and> q_memory q' = Some p' \<and> length base \<le> p' \<and> p' < length h' \<and> keeps base h' \<and>
      h' ! p' = Some (t @ concat cs @ [nul])"
proof (induction cs arbitrary: q p h b t)
  case Nil
  then show ?case by simp
next
  case (Cons c cs)
  let ?h1 = "h[p := None] @ [Some (t @ c @ [nul])]"
  let ?q1 = "q\<lparr>q_memory := Some (length h), q_size := q_size q + length c\<rparr>"
  have w: "write_cdata fits c (q, h) = (?q1, ?h1)"
    using Cons.prems assms by (simp add: write_cdata_def heap_alloc_def heap_free_def Let_def)
  have k: "keeps base ?h1" using Cons.prems(3-5) by (auto simp: keeps_def nth_append)
  have at: "?h1 ! length h = Some (t @ c @ [nul])" by (simp add: nth_append)
  show ?case
  proof (cases "cs = []")
    case True
    have "applist_events fits (map Cdata (c # cs) @ es) (q, apps, h) = applist_events fits es (?q1, apps, ?h1)"
      using True by (simp add: w)
    moreover have "q_start ?q1 = 1" "q_memory ?q1 = Some (length h)" "length base \<le> length h" "length h < length ?h1"
      using Cons.prems by simp_all
    ultimately show ?thesis using k at True
      by (intro exI [of _ ?q1] exI [of _ ?h1] exI [of _ "length h"]) simp
  next
    case False
    have sz: "q_size ?q1 = length (t @ c)" and tk: "take (q_size ?q1) (t @ c @ [nul]) = t @ c"
      using Cons.prems(8) by simp_all
    have "applist_events fits (map Cdata (c # cs) @ es) (q, apps, h) =
        applist_events fits (map Cdata cs @ es) (?q1, apps, ?h1)"
      by (simp add: w)
    moreover have "q_start ?q1 = 1" "q_memory ?q1 = Some (length h)" "length base \<le> length h" "length h < length ?h1"
      using Cons.prems by simp_all
    ultimately show ?thesis
      using Cons.IH [of ?q1 "length h" ?h1 "t @ c @ [nul]" "t @ c", OF _ _ _ _ k at tk sz False] by simp
  qed
qed

lemma applist_field:
  assumes "\<forall>n. fits n" and "f \<in> {''ID'', ''AppTitle'', ''IsHdrSupported''}" and "cs \<noteq> []" and "nul \<notin> set (concat cs)"
  shows "\<exists>q' h' p. applist_events fits (field_events f cs @ es) (q, apps, h) =
      (case end_applist_element f (q', apps, h') of None \<Rightarrow> None | Some s \<Rightarrow> applist_events fits es s) \<and>
    q_start q' = 1 \<and> q_memory q' = Some p \<and> length h \<le> p \<and> p < length h' \<and> keeps h h' \<and>
    heap_string (Some p) h' = Some (concat cs)"
proof -
  let ?q = "q\<lparr>q_memory := Some (length h), q_size := 0, q_start := 1\<rparr>" and ?h = "h @ [Some []]"
  have f: "f \<noteq> ''App''" using assms(2) by auto
  have s: "start_applist_element fits f (q, apps, h) = (?q, apps, ?h)"
    using assms(1,2) f by (auto simp: start_applist_element_def begin_value_def heap_alloc_def)
  have k: "keeps h ?h" by (simp add: keeps_def nth_append)
  obtain q' h' p where e: "applist_events fits (map Cdata cs @ End f # es) (?q, apps, ?h) =
      applist_events fits (End f # es) (q', apps, h')"
    and p: "q_start q' = 1" "q_memory q' = Some p" "length h \<le> p" "p < length h'" "keeps h h'"
      "h' ! p = Some (concat cs @ [nul])"
    using applist_pieces [OF assms(1), of ?q "length h" h ?h "[]" "[]" cs "End f # es" apps] k assms(3)
    by (auto simp: nth_append)
  have "heap_string (Some p) h' = Some (concat cs)"
    using p(4,6) assms(4) by (simp add: heap_string_def cstr_append)
  with e p s show ?thesis
    by (intro exI [of _ q'] exI [of _ h'] exI [of _ p]) (simp add: field_events_def)
qed

lemma free_keeps: "keeps h h' \<Longrightarrow> length h \<le> p \<Longrightarrow> keeps h (heap_free (Some p) h')"
  by (auto simp: keeps_def heap_free_def)

lemma applist_number_field:
  assumes "\<forall>n. fits n" and "f = ''ID'' \<or> f = ''IsHdrSupported''" and "cs \<noteq> []" and "nul \<notin> set (concat cs)"
  shows "\<exists>q' h'. applist_events fits (field_events f cs @ es) (q, a # apps, h) =
      applist_events fits es (q', (if f = ''ID'' then a\<lparr>app_id := strtol10 (concat cs)\<rparr>
        else a\<lparr>app_hdr := strtol10 (concat cs)\<rparr>) # apps, h') \<and>
    q_start q' = 0 \<and> q_memory q' = None \<and> keeps h h'"
proof -
  obtain q' h' p where p: "applist_events fits (field_events f cs @ es) (q, a # apps, h) =
      (case end_applist_element f (q', a # apps, h') of None \<Rightarrow> None | Some s \<Rightarrow> applist_events fits es s)"
    "q_start q' = 1" "q_memory q' = Some p" "length h \<le> p" "keeps h h'" "heap_string (Some p) h' = Some (concat cs)"
    using applist_field [OF assms(1) _ assms(3,4), of f es q "a # apps" h] assms(2) by blast
  then show ?thesis
    using assms(2) free_keeps [OF p(5,4)]
    by (intro exI [of _ "q'\<lparr>q_memory := None, q_start := 0\<rparr>"] exI [of _ "heap_free (Some p) h'"])
      (auto simp: end_applist_element_def)
qed

lemma applist_title_field:
  assumes "\<forall>n. fits n" and "cs \<noteq> []" and "nul \<notin> set (concat cs)"
  shows "\<exists>q' h' p. applist_events fits (field_events ''AppTitle'' cs @ es) (q, a # apps, h) =
      applist_events fits es (q', a\<lparr>app_name := Some p\<rparr> # apps, h') \<and>
    q_start q' = 0 \<and> q_memory q' = Some p \<and> length h \<le> p \<and> p < length h' \<and> keeps h h' \<and>
    heap_string (Some p) h' = Some (concat cs)"
proof -
  obtain q' h' p where p: "applist_events fits (field_events ''AppTitle'' cs @ es) (q, a # apps, h) =
      (case end_applist_element ''AppTitle'' (q', a # apps, h') of None \<Rightarrow> None | Some s \<Rightarrow> applist_events fits es s)"
    "q_start q' = 1" "q_memory q' = Some p" "length h \<le> p" "p < length h'" "keeps h h'"
    "heap_string (Some p) h' = Some (concat cs)"
    using applist_field [OF assms(1) _ assms(2,3), of "''AppTitle''" es q "a # apps" h] by blast
  then show ?thesis
    by (intro exI [of _ "q'\<lparr>q_start := 0\<rparr>"] exI [of _ h'] exI [of _ p]) (auto simp: end_applist_element_def)
qed

lemma applist_app:
  assumes "\<forall>n. fits n" and "app_xml_ok a"
  shows "\<exists>q' h' p. applist_events fits (app_events a @ es) (q, apps, h) =
      applist_events fits es (q', \<lparr>app_name = Some p, app_id = strtol10 (concat (ax_id a)),
        app_hdr = strtol10 (concat (ax_hdr a))\<rparr> # apps, h') \<and>
    q_memory q' = None \<and> q_start q' = 0 \<and> keeps h h' \<and> heap_string (Some p) h' = Some (concat (ax_title a))"
proof -
  have ok: "ax_title a \<noteq> []" "ax_id a \<noteq> []" "ax_hdr a \<noteq> []" "nul \<notin> set (concat (ax_title a))"
    "nul \<notin> set (concat (ax_id a))" "nul \<notin> set (concat (ax_hdr a))"
    using assms(2) by (auto simp: app_xml_ok_def list_all_iff)
  let ?a0 = "\<lparr>app_name = None, app_id = 0, app_hdr = 0\<rparr> :: app_entry"
  let ?a1 = "?a0\<lparr>app_hdr := strtol10 (concat (ax_hdr a))\<rparr>"
  let ?es2 = "field_events ''ID'' (ax_id a) @ End ''App'' # es"
  let ?es1 = "field_events ''AppTitle'' (ax_title a) @ ?es2"
  obtain q1 h1 where 1: "applist_events fits (field_events ''IsHdrSupported'' (ax_hdr a) @ ?es1) (q, ?a0 # apps, h) =
      applist_events fits ?es1 (q1, ?a1 # apps, h1)" "keeps h h1"
    using applist_number_field [OF assms(1) _ ok(3,6), of "''IsHdrSupported''" ?es1 q ?a0 apps h] by auto
  obtain q2 h2 p where 2: "applist_events fits ?es1 (q1, ?a1 # apps, h1) =
      applist_events fits ?es2 (q2, ?a1\<lparr>app_name := Some p\<rparr> # apps, h2)" "keeps h1 h2"
      "heap_string (Some p) h2 = Some (concat (ax_title a))"
    using applist_title_field [OF assms(1) ok(1,4), of ?es2 q1 ?a1 apps h1] by blast
  obtain q3 h3 where 3: "applist_events fits ?es2 (q2, ?a1\<lparr>app_name := Some p\<rparr> # apps, h2) =
      applist_events fits (End ''App'' # es)
        (q3, ?a1\<lparr>app_name := Some p, app_id := strtol10 (concat (ax_id a))\<rparr> # apps, h3)"
      "q_start q3 = 0" "q_memory q3 = None" "keeps h2 h3"
    using applist_number_field [OF assms(1) _ ok(2,5), of "''ID''" "End ''App'' # es" q2 "?a1\<lparr>app_name := Some p\<rparr>" apps h2]
    by auto
  have 0: "applist_events fits (app_events a @ es) (q, apps, h) =
      applist_events fits (field_events ''IsHdrSupported'' (ax_hdr a) @ ?es1) (q, ?a0 # apps, h)"
    using assms(1) by (simp add: app_events_def start_applist_element_def)
  have 4: "applist_events fits (End ''App'' # es) (q3, as, h3) = applist_events fits es (q3, as, h3)" for as
    using 3(2) by (simp add: end_applist_element_def)
  have "heap_string (Some p) h3 = Some (concat (ax_title a))" "keeps h h3"
    using keeps_string [OF 3(4) 2(3)] keeps_trans [OF 1(2) keeps_trans [OF 2(2) 3(4)]] by simp_all
  with 0 1(1) 2(1) 3(1-3) 4 show ?thesis
    by (intro exI [of _ q3] exI [of _ h3] exI [of _ p]) simp
qed

definition read_app :: "heap \<Rightarrow> app_entry \<Rightarrow> string option \<times> int \<times> int" where
  "read_app h a = (heap_string (app_name a) h, app_id a, app_hdr a)"

definition meant_app :: "app_xml \<Rightarrow> string option \<times> int \<times> int" where
  "meant_app a = (Some (concat (ax_title a)), strtol10 (concat (ax_id a)), strtol10 (concat (ax_hdr a)))"

lemma applist_apps:
  assumes "\<forall>n. fits n"
  shows "list_all app_xml_ok as \<Longrightarrow> map (read_app h) apps = old \<Longrightarrow> list_all (\<lambda>r. fst r \<noteq> None) old \<Longrightarrow>
    q_memory q = None \<Longrightarrow>
    \<exists>q' apps' h'. applist_events fits (concat (map app_events as) @ es) (q, apps, h) =
      applist_events fits es (q', apps', h') \<and> q_memory q' = None \<and>
      map (read_app h') apps' = rev (map meant_app as) @ old"
proof (induction as arbitrary: q apps h old)
  case Nil
  then show ?case by auto
next
  case (Cons a as)
  obtain q1 h1 p where 1: "applist_events fits (app_events a @ concat (map app_events as) @ es) (q, apps, h) =
      applist_events fits (concat (map app_events as) @ es) (q1, \<lparr>app_name = Some p,
        app_id = strtol10 (concat (ax_id a)), app_hdr = strtol10 (concat (ax_hdr a))\<rparr> # apps, h1)"
    "q_memory q1 = None" "keeps h h1" "heap_string (Some p) h1 = Some (concat (ax_title a))"
    using applist_app [OF assms, of a "concat (map app_events as) @ es" q apps h] Cons.prems(1) by auto
  have "map (read_app h1) apps = map (read_app h) apps"
    using Cons.prems(2,3) keeps_string [OF 1(3)]
    by (fastforce simp: read_app_def list_all_iff)
  then have "map (read_app h1) (\<lparr>app_name = Some p, app_id = strtol10 (concat (ax_id a)),
      app_hdr = strtol10 (concat (ax_hdr a))\<rparr> # apps) = meant_app a # old"
    using 1(4) Cons.prems(2) by (simp add: read_app_def meant_app_def)
  from Cons.IH [OF _ this _ 1(2)] Cons.prems(1,3) 1(1) show ?case by (simp add: meant_app_def)
qed

text \<open>The document of a list of applications.\<close>

definition applist_document :: "app_xml list \<Rightarrow> xml_event list" where
  "applist_document as = Start ''root'' [(''status_code'', ''200'')] # concat (map app_events as) @ [End ''root'']"

lemma applist_document_read:
  assumes "\<forall>n. fits n" and "xp doc = (applist_document as, None)" and "list_all app_xml_ok as"
  shows "\<exists>apps h. xml_applist fits xp doc err = Some ((GS_OK, Some (apps, h)), err) \<and>
    map (read_app h) apps = rev (map meant_app as)"
proof -
  obtain q apps h where 1: "applist_events fits (concat (map app_events as) @ [End ''root'']) (empty_query, [], []) =
      applist_events fits [End ''root''] (q, apps, h)" "q_memory q = None"
      "map (read_app h) apps = rev (map meant_app as)"
    using applist_apps [OF assms(1,3), of "[]" "[]" "[]" empty_query "[End ''root'']"]
    by (auto simp: empty_query_def)
  have "end_applist_element ''root'' (q, apps, h) = Some (q, apps, h) \<or>
      end_applist_element ''root'' (q, apps, h) = Some (q\<lparr>q_start := 0\<rparr>, apps, h)"
    by (auto simp: end_applist_element_def split: list.split)
  then have "\<exists>q'. applist_events fits [End ''root''] (q, apps, h) = Some (q', apps, h) \<and> q_memory q' = None"
    using 1(2) by auto
  then obtain q' where "applist_events fits [End ''root''] (q, apps, h) = Some (q', apps, h)" "q_memory q' = None"
    by blast
  with 1 assms(2) show ?thesis
    by (intro exI [of _ apps] exI [of _ h])
      (simp add: xml_applist_def applist_document_def start_applist_element_def heap_free_def)
qed

text \<open>C14. The application list of a document, whatever the pieces of its text: the return value is
  success, every application is there, the last one first, with its number, its flag and its
  title, and the title is a live string of the heap the caller gets.\<close>

theorem xml_applist_roundtrip:
  assumes "\<forall>n. fits n" and "xp doc = (applist_document as, None)" and "list_all app_xml_ok as"
  shows "\<exists>apps h. xml_applist fits xp doc err = Some ((GS_OK, Some (apps, h)), err) \<and>
    map (read_app h) apps = rev (map meant_app as)"
  using assms by (rule applist_document_read)

definition example_app :: app_xml where
  "example_app = \<lparr>ax_title = [''Desk'', ''top''], ax_id = [''881448767''], ax_hdr = [''0'']\<rparr>"

theorem xml_applist_roundtrip_witness:
  "\<exists>apps h. xml_applist (\<lambda>_. True) (\<lambda>_. (applist_document [example_app], None)) ''doc'' no_error =
     Some ((GS_OK, Some (apps, h)), no_error) \<and> map (read_app h) apps = [(Some ''Desktop'', 881448767, 0)]"
proof -
  have ok: "list_all app_xml_ok [example_app]" by (simp add: app_xml_ok_def example_app_def nul_def)
  have m: "map meant_app [example_app] = [(Some ''Desktop'', 881448767, 0)]"
    by (simp add: meant_app_def example_app_def) code_simp
  from xml_applist_roundtrip [of "\<lambda>_. True" "\<lambda>_. (applist_document [example_app], None)" "''doc''"
      "[example_app]" no_error] ok m
  show ?thesis by simp
qed

text \<open>When the title is the last field of the last application, the pointer that the list keeps is also the one
  that the parser frees at the end: the caller gets a name that points to freed memory.\<close>

theorem xml_applist_title_last_dangles:
  assumes "\<forall>n. fits n" and "app_xml_ok a"
    and "xp doc = (Start ''root'' [] # app_events_title_last a @ [End ''root''], None)"
  shows "\<exists>e h. xml_applist fits xp doc err = Some ((GS_OK, Some ([e], h)), err) \<and>
    app_id e = strtol10 (concat (ax_id a)) \<and> app_name e \<noteq> None \<and> heap_string (app_name e) h = None"
proof -
  have ok: "ax_title a \<noteq> []" "ax_id a \<noteq> []" "ax_hdr a \<noteq> []" "nul \<notin> set (concat (ax_title a))"
    "nul \<notin> set (concat (ax_id a))" "nul \<notin> set (concat (ax_hdr a))"
    using assms(2) by (auto simp: app_xml_ok_def list_all_iff)
  let ?a0 = "\<lparr>app_name = None, app_id = 0, app_hdr = 0\<rparr> :: app_entry"
  let ?a1 = "?a0\<lparr>app_hdr := strtol10 (concat (ax_hdr a))\<rparr>"
  let ?a2 = "?a1\<lparr>app_id := strtol10 (concat (ax_id a))\<rparr>"
  let ?tail = "[End ''App'', End ''root'']"
  let ?es2 = "field_events ''AppTitle'' (ax_title a) @ ?tail"
  let ?es1 = "field_events ''ID'' (ax_id a) @ ?es2"
  obtain q1 h1 where 1: "applist_events fits (field_events ''IsHdrSupported'' (ax_hdr a) @ ?es1) (empty_query, [?a0], []) =
      applist_events fits ?es1 (q1, [?a1], h1)"
    using applist_number_field [OF assms(1) _ ok(3,6), of "''IsHdrSupported''" ?es1 empty_query ?a0 "[]" "[]"] by auto
  obtain q2 h2 where 2: "applist_events fits ?es1 (q1, [?a1], h1) = applist_events fits ?es2 (q2, [?a2], h2)"
    using applist_number_field [OF assms(1) _ ok(2,5), of "''ID''" ?es2 q1 ?a1 "[]" h1] by auto
  obtain q3 h3 p where 3: "applist_events fits ?es2 (q2, [?a2], h2) =
      applist_events fits ?tail (q3, [?a2\<lparr>app_name := Some p\<rparr>], h3)"
    "q_start q3 = 0" "q_memory q3 = Some p" "p < length h3"
    using applist_title_field [OF assms(1) ok(1,4), of ?tail q2 ?a2 "[]" h2] by blast
  have "applist_events fits ?tail (q3, [?a2\<lparr>app_name := Some p\<rparr>], h3) = Some (q3, [?a2\<lparr>app_name := Some p\<rparr>], h3)"
    using 3(2) by (simp add: end_applist_element_def)
  moreover have "heap_string (Some p) (heap_free (Some p) h3) = None"
    using 3(4) by (simp add: heap_string_def heap_free_def)
  ultimately show ?thesis
    using assms(1,3) 1 2 3
    by (simp add: xml_applist_def app_events_title_last_def start_applist_element_def)
qed

theorem xml_applist_title_last_dangles_witness:
  "\<exists>e h. xml_applist (\<lambda>_. True) (\<lambda>_. (Start ''root'' [] # app_events_title_last example_app @ [End ''root''], None))
      ''doc'' no_error = Some ((GS_OK, Some ([e], h)), no_error) \<and> heap_string (app_name e) h = None"
proof -
  have "app_xml_ok example_app" by (simp add: app_xml_ok_def example_app_def nul_def)
  from xml_applist_title_last_dangles [of "\<lambda>_. True", OF _ this, of "\<lambda>_. (Start ''root'' [] #
      app_events_title_last example_app @ [End ''root''], None)" "''doc''" no_error]
  show ?thesis by auto
qed

end
