(* ===== verification/HostExample.thy ===== *)
theory HostExample
  imports Pairing HttpFacts XmlFacts
begin

text \<open>
  The URLs \<open>construct_url\<close> builds, and an example host with stub cryptography that answers every request
  with one document: on it whole runs of the client can be followed call by call.
\<close>

section \<open>Constructed URLs\<close>

definition port_of :: "bool \<Rightarrow> nat" where
  "port_of secure = (if secure then 47984 else 47989)"

definition client_path :: "string \<Rightarrow> string \<Rightarrow> string \<Rightarrow> string option \<Rightarrow> string" where
  "client_path uid uuid act params =
     CHR ''/'' # act @ ''?uniqueid='' @ uid @ ''&uuid='' @ take 36 uuid @
     (case params of None \<Rightarrow> [] | Some p \<Rightarrow> ''&'' @ p)"

definition plain_host :: "string \<Rightarrow> bool" where
  "plain_host h \<longleftrightarrow> CHR ''/'' \<notin> set h \<and> CHR '':'' \<notin> set h \<and> length h < 256"

lemma length_port_of: "length (show_nat (port_of secure)) \<le> 5"
  using length_show_nat [of "port_of secure" 5] by (simp add: port_of_def)

lemma construct_url_text:
  assumes "e_uuid env (gs_uuids s) = Some uuid"
    and "addr = si_address (sv_serverInfo (gs_server s))"
    and "path = client_path (unique_id (gs_hnd s)) uuid act params"
    and "length addr + length path + 14 < ulen" and "length path < 4096"
  shows "construct_url env old ulen secure act params s =
    (Inr (Some (url_of secure addr (port_of secure) path)), s\<lparr>gs_uuids := gs_uuids s + 1\<rparr>)"
proof -
  have p: "(case params of None \<Rightarrow> [] | Some p \<Rightarrow> ''&'' @ snprintf_to 4096 p) = (case params of None \<Rightarrow> [] | Some p \<Rightarrow> ''&'' @ p)"
    using assms(3,5) by (cases params) (simp_all add: client_path_def snprintf_to_fits)
  have i: "show_int 47984 = show_nat (port_of True)" "show_int 47989 = show_nat (port_of False)"
    by (simp_all add: show_int_def port_of_def)
  have "(if secure then ''https'' else ''http'') @ ''://'' @ addr @ '':'' @
      show_int (if secure then 47984 else 47989) @ ''/'' @ act @ ''?uniqueid='' @ unique_id (gs_hnd s) @
      ''&uuid='' @ take 36 uuid @ (case params of None \<Rightarrow> [] | Some p \<Rightarrow> ''&'' @ snprintf_to 4096 p) =
      url_of secure addr (port_of secure) path"
    unfolding p by (cases secure) (simp_all add: i url_of_def client_path_def assms(3))
  moreover have "length (url_of secure addr (port_of secure) path) < ulen"
    using assms(4) length_port_of [of secure] by (cases secure) (simp_all add: url_of_def)
  ultimately show ?thesis
    using assms(1) unfolding construct_url_def Let_def assms(2) [symmetric]
    by (simp only: option.case snprintf_to_fits)
qed

lemma url_of_parses:
  assumes "plain_host addr" and "path = CHR ''/'' # q" and "length path < 4096"
  shows "parse_url (url_of secure addr (port_of secure) path) 256 4096 = Some (secure, addr, int (port_of secure), path)"
  using assms by (intro parse_url_roundtrip) (auto simp: plain_host_def port_of_def)

lemma client_path_slash: "client_path uid uuid act params = CHR ''/'' # tl (client_path uid uuid act params)"
  by (simp add: client_path_def)

section \<open>An example host\<close>

definition field :: "string \<Rightarrow> string \<Rightarrow> xml_event list" where
  "field name text = [Start name [], Cdata text, End name]"

definition example_answer :: "xml_event list" where
  "example_answer =
     [Start ''root'' [(''status_code'', ''200'')]] @ field ''paired'' ''1'' @ field ''plaincert'' ''30'' @
     field ''challengeresponse'' ''00'' @ field ''pairingsecret'' ''00'' @ field ''cancel'' ''1'' @
     field ''gamesession'' ''1'' @ field ''uniqueid'' ''A'' @ field ''mac'' ''B'' @ field ''hostname'' ''C'' @
     field ''currentgame'' ''5'' @ field ''PairStatus'' ''1'' @ field ''appversion'' ''7.1'' @
     field ''state'' ''SUNSHINE_SERVER_BUSY'' @ field ''ServerCodecModeSupport'' ''3'' @
     field ''gputype'' ''D'' @ field ''GsVersion'' ''3'' @ field ''GfeVersion'' ''3'' @ [End ''root'']"

definition example_net :: internet where
  "example_net =
     \<lparr>in_socket = (\<lambda>_. True), in_aton = (\<lambda>_. Some 1), in_dns = (\<lambda>_ _. None),
      in_peer = (\<lambda>_ _ _. Some \<lparr>p_sends = [100000], p_tls_ready = (\<lambda>_ _. True), p_handshake = [0],
                              p_answer = (\<lambda>_. [Data ''x'', Closed])\<rparr>)\<rparr>"

definition example_env :: "xml_event list \<Rightarrow> client_env" where
  "example_env events =
     \<lparr>e_fits = (\<lambda>_. True), e_net = example_net, e_expat = (\<lambda>_. (events, None)), e_uuid = (\<lambda>_. Some ''u''),
      e_seed = (\<lambda>_. 0), e_random = (\<lambda>_ n. replicate n 0), e_junk = (\<lambda>_. 0),
      e_sha1 = (\<lambda>_. replicate 20 0), e_sha256 = (\<lambda>_. replicate 32 0), e_aes_enc = (\<lambda>_. Some),
      e_aes_dec = (\<lambda>_. Some), e_x509_parse = (\<lambda>_. 0), e_x509_sig = (\<lambda>_. replicate 256 0),
      e_pk_verify = (\<lambda>_ _ _. True), e_pk_sign = (\<lambda>_ _. Some (replicate 256 0)),
      e_launch_params = [], e_can_write = (\<lambda>_. True)\<rparr>"

definition example_server :: server_data where
  "example_server =
     \<lparr>sv_uuid = None, sv_mac = None, sv_hostname = None, sv_gpuType = None, sv_paired = False,
      sv_supports4K = False, sv_supportsHdr = False, sv_unsupported = False, sv_isGfe = False,
      sv_currentGame = 0, sv_serverMajorVersion = 7, sv_gsVersion = None, sv_modes = [],
      sv_serverInfo = \<lparr>si_address = ''h'', serverInfoAppVersion = None, serverInfoGfeVersion = None,
                       rtspSessionUrl = None, serverCodecModeSupport = 0\<rparr>\<rparr>"

definition example_handle :: gs_client where
  "example_handle =
     \<lparr>unique_id = ''id'', cl_cert = ''c'', cl_key = ''k'', cert_hex = ''00'', cl_http = http_create ''d''\<rparr>"

definition example_client_state :: gs_state where
  "example_client_state =
     \<lparr>gs_hnd = example_handle, gs_server = example_server, gs_err = no_error, gs_log = [], gs_uuids = 0,
      gs_seeds = 0, gs_randoms = 0, gs_files = (\<lambda>_. None)\<rparr>"

text \<open>\<open>yields sv m a sv'\<close>: from a state with that handle and server record \<open>m\<close> goes on with \<open>a\<close>.\<close>

definition with_server :: "server_data \<Rightarrow> gs_state \<Rightarrow> bool" where
  "with_server sv s \<longleftrightarrow> unique_id (gs_hnd s) = ''id'' \<and> cert_hex (gs_hnd s) = ''00'' \<and> gs_server s = sv"

definition yields :: "server_data \<Rightarrow> 'a gs \<Rightarrow> 'a \<Rightarrow> server_data \<Rightarrow> bool" where
  "yields sv m a sv' \<longleftrightarrow> (\<forall>s. with_server sv s \<longrightarrow> (\<exists>t. m s = (Inr a, t) \<and> with_server sv' t))"

lemma yields_bindE: "yields sv m a sv1 \<Longrightarrow> yields sv1 (f a) b sv2 \<Longrightarrow> yields sv (bindE m f) b sv2"
  by (fastforce simp: yields_def bindE_def)

lemma yields_retE: "yields sv (retE a) a sv"
  by (simp add: yields_def retE_def)

lemma yields_on_server: "yields sv (on_server f) () (f sv)"
  by (simp add: yields_def on_server_def with_server_def)

lemma yields_cleanup: "yields sv m a sv' \<Longrightarrow> yields sv (at_cleanup m) a sv'"
  by (fastforce simp: yields_def at_cleanup_def)

lemma yields_random: "yields sv (random_bytes (example_env ev) n) (replicate n 0) sv"
  by (simp add: yields_def random_bytes_def with_server_def example_env_def)

lemma yields_url:
  assumes "si_address (sv_serverInfo sv) = ''h''" and "length (client_path ''id'' ''u'' act ps) < 4000" "4095 < ulen"
  shows "yields sv (construct_url (example_env ev) old ulen secure act ps)
    (Some (url_of secure ''h'' (port_of secure) (client_path ''id'' ''u'' act ps))) sv"
  using assms construct_url_text [of "example_env ev" _ "''u''" _ _ act ps ulen old secure]
  by (auto simp: yields_def with_server_def example_env_def)

definition answered :: http_data where
  "answered = \<lparr>memory = Some ''x'', data_size = 1\<rparr>"

lemma answer_x: "read_response (\<lambda>_. True) [Data ''x'', Closed] = (0, answered)"
  "tls_read_loop (\<lambda>_. True) [Data ''x'', Closed] \<lparr>memory = None, data_size = 0\<rparr> = (True, answered)"
  "strip_headers answered = answered"
  by code_simp+

lemma example_send:
  "n \<le> cap \<Longrightarrow> n \<le> 100000 \<Longrightarrow> send_loop cap r n 0 [100000] = Some (Some (take n r))"
  by (subst send_loop.simps) (simp add: send_loop.simps)

lemma example_handshake: "tls_handshake [0] = 0"
  by (simp add: MBEDTLS_ERR_SSL_WANT_READ_def MBEDTLS_ERR_SSL_WANT_WRITE_def)

definition example_answering :: peer where
  "example_answering = \<lparr>p_sends = [100000], p_tls_ready = (\<lambda>_ _. True), p_handshake = [0],
     p_answer = (\<lambda>_. [Data ''x'', Closed])\<rparr>"

lemma example_tls:
  assumes "length path < 4000"
  shows "\<exists>req. tls_request (\<lambda>_. True) example_answering ''h'' path c k d = Some (0, answered, Some req)"
proof -
  have "length (tls_request_text ''h'' path) \<le> 4096" "length (tls_request_text ''h'' path) \<le> 100000"
    using assms by (simp_all add: tls_request_text_def crlf_def)
  note send = example_send [OF this]
  have "p_tls_ready example_answering c k" "p_handshake example_answering = [0]" "p_sends example_answering = [100000]"
      "p_answer example_answering r = [Data ''x'', Closed]" for r
    by (simp_all add: example_answering_def)
  then show ?thesis
    by (simp add: tls_request_def example_handshake Let_def send answer_x del: take_append tls_read_loop.simps tls_handshake.simps)
qed

lemma example_plain:
  assumes "length path < 4000"
  shows "\<exists>req. send_request example_answering ''h'' path = Some (Some req)"
proof -
  have "length (plain_request ''h'' path) \<le> 8192" "length (plain_request ''h'' path) \<le> 100000"
    using assms by (simp_all add: plain_request_def crlf_def)
  note send = example_send [OF this]
  have "p_sends example_answering = [100000]" by (simp add: example_answering_def)
  then show ?thesis by (simp add: send_request_def Let_def send del: take_append)
qed

lemma yields_request:
  assumes "length path < 4000" and "path = CHR ''/'' # q"
  shows "yields sv (request (example_env ev) (Some (url_of secure ''h'' (port_of secure) path)) d) (GS_OK, answered) sv"
proof -
  have p: "parse_url (url_of secure ''h'' (port_of secure) path) 256 4096 = Some (secure, ''h'', int (port_of secure), path)"
    using assms url_of_parses [of "''h''" path q secure] by (simp add: plain_host_def)
  have c: "connect_host example_net lg ''h'' n = Some (1, word_of_int n, example_answering)" for lg n
    by (simp add: connect_host_def example_net_def example_answering_def)
  have a: "p_answer example_answering r = [Data ''x'', Closed]" for r by (simp add: example_answering_def)
  have "\<exists>lg'. http_request (\<lambda>_. True) example_net h (url_of secure ''h'' (port_of secure) path) d lg =
      Some (0, answered, lg')" for h lg
    using example_tls [OF assms(1), of "certPath h" "keyPath h" d] example_plain [OF assms(1)]
    unfolding http_request_def p by (cases secure) (auto simp: c answer_x a del: read_loop.simps)
  moreover have "e_fits (example_env ev) = (\<lambda>_. True)" "e_net (example_env ev) = example_net"
    by (simp_all add: example_env_def)
  ultimately show ?thesis
    unfolding yields_def request_def
    apply (intro allI impI)
    subgoal premises prems for s
      using prems(1) [of "cl_http (gs_hnd s)" "gs_log s"] prems(2-4) by (auto simp: with_server_def GS_OK_def)
    done
qed

lemma status_attributes_code: "fst (status_attributes atts (st, err)) = fst (status_attributes atts (st, no_error))"
proof (induction atts arbitrary: st err)
  case Nil
  then show ?case by simp
next
  case (Cons a atts)
  obtain name v where a: "a = (name, v)" by (cases a)
  show ?case
    unfolding a using Cons.IH by (simp split: if_split) metis
qed

lemma status_code:
  "fst (fold status_event ev (st, err)) = fst (fold status_event ev (st, no_error))"
proof (induction ev arbitrary: st err)
  case Nil
  then show ?case by simp
next
  case (Cons e ev)
  obtain st1 e1 st2 e2 where x: "status_event e (st, err) = (st1, e1)" "status_event e (st, no_error) = (st2, e2)"
    by (cases "status_event e (st, err)"; cases "status_event e (st, no_error)") auto
  have "st1 = st2"
    using x status_attributes_code [of _ st err] by (auto simp: status_event_def split: xml_event.splits if_splits) (metis fst_conv)+
  then show ?case using Cons.IH [of st1 e1] Cons.IH [of st1 e2] x by simp
qed

lemma yields_status:
  assumes "fst (fold status_event ev (0, no_error)) = STATUS_OK"
  shows "yields sv (status_of (example_env ev) answered) GS_OK sv"
proof -
  have "fst (fold status_event ev (0, err)) = STATUS_OK" for err
    using assms status_code [of ev 0 err] by simp
  then have "fst (xml_status (\<lambda>_. (ev, None)) t err) = GS_OK" for t err
    by (simp add: xml_status_def Let_def split_beta)
  then show ?thesis
    by (simp add: yields_def status_of_def example_env_def with_server_def split_beta)
qed

lemma yields_search:
  assumes "\<forall>s \<in> set (text_inside node 0 ev). nul \<notin> set s" "text_inside node 0 ev \<noteq> []"
  shows "yields sv (search_in (example_env ev) answered req node) (GS_OK, Some (concat (text_inside node 0 ev))) sv"
  using assms search_text [of "\<lambda>_. True" "\<lambda>_. (ev, None)" "doc answered" ev node req]
  by (simp add: yields_def search_in_def example_env_def with_server_def)

lemma yields_asks:
  "(\<And>s. with_server sv s \<Longrightarrow> f s = a) \<Longrightarrow> yields sv (asks f) a sv"
  by (simp add: yields_def asks_def)

lemma yieldsD: "yields sv m a sv' \<Longrightarrow> with_server sv s \<Longrightarrow> \<exists>t. m s = (Inr a, t) \<and> with_server sv' t"
  by (simp add: yields_def)

lemma example_with_server: "with_server example_server example_client_state"
  by (simp add: with_server_def example_client_state_def example_handle_def)

lemma example_status: "fst (fold status_event example_answer (0, no_error)) = STATUS_OK"
  by code_simp

lemma example_texts:
  "text_inside ''paired'' 0 example_answer = [''1'']"
  "text_inside ''plaincert'' 0 example_answer = [''30'']"
  "text_inside ''challengeresponse'' 0 example_answer = [''00'']"
  "text_inside ''pairingsecret'' 0 example_answer = [''00'']"
  "text_inside ''cancel'' 0 example_answer = [''1'']"
  "text_inside ''gamesession'' 0 example_answer = [''1'']"
  by (simp_all add: example_answer_def field_def)

section \<open>Pairing with the example host\<close>

lemma nul_not_digit [simp]: "nul \<notin> set ''1''" "nul \<notin> set ''00''" "nul \<notin> set ''30''"
  by (simp_all add: nul_def)

lemma yields_the_string: "yields sv (the_string (Some t)) t sv"
  by (simp add: yields_def the_string_def retE_def)

abbreviation env0 :: client_env where "env0 \<equiv> example_env example_answer"

lemma example_search:
  "text_inside node 0 example_answer = [t] \<Longrightarrow> nul \<notin> set t \<Longrightarrow>
     yields sv (search_in env0 answered req node) (GS_OK, Some t) sv"
  using yields_search [of node example_answer sv req] by simp

lemmas example_found = example_search [OF example_texts(1) nul_not_digit(1)]
  example_search [OF example_texts(2) nul_not_digit(3)] example_search [OF example_texts(3) nul_not_digit(2)]
  example_search [OF example_texts(4) nul_not_digit(2)] example_search [OF example_texts(5) nul_not_digit(1)]
  example_search [OF example_texts(6) nul_not_digit(1)]

lemmas run = prod.case option.case simp_thms if_True if_False

lemma one_is_one: "(''1'' \<noteq> ''1'') = False" by simp

lemma yields_handle:
  "(\<And>hnd. unique_id hnd = ''id'' \<Longrightarrow> cert_hex hnd = ''00'' \<Longrightarrow> yields sv (f hnd) b sv') \<Longrightarrow>
     yields sv (bindE (asks gs_hnd) f) b sv'"
  by (simp add: yields_def with_server_def)


lemma yields_if: "(b \<Longrightarrow> yields sv m a sv') \<Longrightarrow> (\<not> b \<Longrightarrow> yields sv n a sv') \<Longrightarrow> yields sv (if b then m else n) a sv'"
  by simp

lemma example_pair_request:
  assumes "length (client_path ''id'' ''u'' act ps) < 4000"
  shows "yields sv (pair_request env0 (Some (url_of sec ''h'' (port_of sec) (client_path ''id'' ''u'' act ps))) d stage)
    answered sv"
  unfolding pair_request_def status_or_leave_def
  apply (rule yields_bindE [OF yields_request [OF assms client_path_slash]], simp only: run)
  apply (rule yields_bindE [OF yields_bindE [OF yields_status [OF example_status]]])
   apply (simp only: run, rule yields_retE)
  apply (rule yields_bindE [OF example_found(1)], simp only: run)
  apply (rule yields_bindE [OF yields_the_string], simp only: run one_is_one)
  apply (rule yields_retE)
  done

lemma example_address: "si_address (sv_serverInfo example_server) = ''h''"
  by (simp add: example_server_def)

lemma example_room: "4095 < (5120::nat)" by simp

text \<open>The decrypted answer of the host is all zero.\<close>

lemma example_getcert:
  "\<exists>url cert. yields example_server (pair_getcert env0 (replicate 16 0)) (Some url, answered, cert) example_server"
proof -
  let ?ps = "Some (pair_params @ ''phrase=getservercert&salt='' @ bytes_to_hex (replicate 16 0) @ ''&clientcert='' @ ''00'')"
  let ?path = "client_path ''id'' ''u'' ''pair'' ?ps"
  have l: "length ?path < 4000" by (simp add: client_path_def pair_params_def)
  have alloc: "alloc_data env0 = Some http_data_alloc" by (simp add: alloc_data_def example_env_def)
  have small: "(8191 < length ''30'' div 2) = False" by simp
  have parse_ok: "e_x509_parse env0 c = 0" for c by (simp add: example_env_def)
  obtain str n where h: "hex_to_bytes ''30'' (junk_array env0 8192) 8191 = (str, n)" by fastforce
  let ?cert = "take (case n of None \<Rightarrow> 0 | Some k \<Rightarrow> k) str @ [0]"
  have "yields example_server (pair_getcert env0 (replicate 16 0))
      (Some (url_of False ''h'' (port_of False) ?path), answered, ?cert) example_server"
    unfolding pair_getcert_def
    apply (rule yields_handle, simp only:)
    apply (rule yields_bindE, rule yields_url [OF example_address l example_room], simp only: alloc run)
    apply (rule yields_bindE [OF yields_request [OF l client_path_slash]], simp only: run)
    apply (rule yields_bindE [OF yields_status [OF example_status]], simp only: run)
    apply (rule yields_bindE [OF example_found(1)], simp only: run)
    apply (rule yields_bindE [OF yields_the_string], simp only: run one_is_one)
    apply (rule yields_bindE [OF example_found(2)], simp only: run)
    apply (rule yields_bindE [OF yields_the_string])
    apply (simp only: h Let_def run small parse_ok, rule yields_retE)
    done
  then show ?thesis by blast
qed

lemma yields_crypt_split:
  "crypt_data f a b n = (True, c) \<Longrightarrow> yields sv (g c) r sv' \<Longrightarrow>
     yields sv (case crypt_data f a b n of (False, x) \<Rightarrow> h | (True, c) \<Rightarrow> g c) r sv'"
  by simp

lemma example_encrypt: "crypt_data (e_aes_enc env0 key) (replicate 16 0) (junk_array env0 16) 16 = (True, replicate 16 0)"
  by (simp add: crypt_data_def crypt_blocks.simps example_env_def junk_array_def blit_def)

lemma example_decrypt:
  "\<exists>enc n. hex_to_bytes ''00'' (junk_array env0 128) 128 = (enc, Some n) \<and>
     take 32 (snd (crypt_data (e_aes_dec env0 key) enc (junk_array env0 128) n)) = replicate 32 0"
proof -
  have j: "junk_array env0 128 = replicate 128 0"
    by (simp add: junk_array_def example_env_def map_replicate_const)
  have "hex_to_bytes ''00'' (replicate 128 0) 128 = (replicate 128 0, Some 1)"
    by code_simp
  moreover have "take 32 (snd (crypt_data Some (replicate 128 0) (replicate 128 0) 1)) = replicate 32 (0::u8)"
    by code_simp
  ultimately show ?thesis by (simp add: j) (simp add: example_env_def)
qed

lemma example_challenge:
  "\<exists>url dec. take 32 dec = replicate 32 0 \<and>
     yields example_server (pair_challenge env0 key (replicate 16 0) u answered) (Some url, answered, dec) example_server"
proof -
  define ps where "ps = Some (pair_params @ ''clientchallenge='' @ bytes_to_hex (replicate 16 0))"
  let ?path = "client_path ''id'' ''u'' ''pair'' ps"
  have l: "length ?path < 4000" by (simp add: client_path_def pair_params_def ps_def)
  obtain enc n where h: "hex_to_bytes ''00'' (junk_array env0 128) 128 = (enc, Some n)"
    and z: "take 32 (snd (crypt_data (e_aes_dec env0 key) enc (junk_array env0 128) n)) = replicate 32 0"
    using example_decrypt by blast
  have "yields example_server (pair_challenge env0 key (replicate 16 0) u answered)
      (Some (url_of False ''h'' (port_of False) ?path), answered,
       snd (crypt_data (e_aes_dec env0 key) enc (junk_array env0 128) n)) example_server"
    unfolding pair_challenge_def
    apply (rule yields_crypt_split [OF example_encrypt], simp only: ps_def [symmetric])
    apply (rule yields_bindE, rule yields_url [OF example_address l example_room])
    apply (rule yields_bindE [OF example_pair_request [OF l]])
    apply (rule yields_bindE [OF example_found(3)], simp only: run)
    apply (rule yields_bindE [OF yields_the_string], simp only: h run, rule yields_retE)
    done
  with z show ?thesis by blast
qed

lemma example_hash: "hash_with env0 True r = replicate 32 0"
  by (simp add: hash_with_def example_env_def)

lemma example_response:
  "\<exists>url ps. yields example_server (pair_response env0 True key dec secret u answered) (Some url, answered, ps) example_server"
proof -
  let ?enc = "snd (crypt_data (e_aes_enc env0 key) (blit (replicate 32 0) 0 (replicate 32 0)) (junk_array env0 32) 32)"
  define ps where "ps = Some (pair_params @ ''serverchallengeresp='' @ bytes_to_hex ?enc)"
  let ?path = "client_path ''id'' ''u'' ''pair'' ps"
  have "length ?enc = 32"
    by (simp add: crypt_data_def crypt_blocks.simps example_env_def junk_array_def blit_def)
  then have l: "length ?path < 4000" by (simp add: client_path_def pair_params_def ps_def)
  have "yields example_server (pair_response env0 True key dec secret u answered)
      (Some (url_of False ''h'' (port_of False) ?path), answered, fst (hex_to_bytes ''00'' (junk_array env0 272) 272))
      example_server"
    unfolding pair_response_def Let_def
    apply (rule yields_handle, simp only: example_hash ps_def [symmetric])
    apply (rule yields_bindE, rule yields_url [OF example_address l example_room])
    apply (rule yields_bindE [OF example_pair_request [OF l]])
    apply (rule yields_bindE [OF example_found(4)], simp only: run)
    apply (rule yields_bindE [OF yields_the_string], rule yields_retE)
    done
  then show ?thesis by blast
qed

lemma example_secret:
  assumes "take 32 dec = replicate 32 0"
  shows "\<exists>url. yields example_server (pair_secret env0 True ch cert dec (replicate 16 0) ps u answered) (Some url, answered) example_server"
proof -
  define qs where "qs = Some (pair_params @ ''clientpairingsecret='' @
     bytes_to_hex (replicate 16 0 @ blit (junk_array env0 256) 0 (take 256 (replicate 256 0))))"
  let ?path = "client_path ''id'' ''u'' ''pair'' qs"
  have l: "length ?path < 4000" by (simp add: client_path_def pair_params_def qs_def blit_def junk_array_def)
  have h: "host_is_authentic env0 cert ps" by (simp add: host_is_authentic_def example_env_def)
  have p: "pin_is_correct env0 True ch cert ps dec"
    using assms by (simp add: pin_is_correct_def example_hash hash_length_def blit_def junk_array_def)
  have g: "e_pk_sign env0 k x = Some (replicate 256 0)" for k x by (simp add: example_env_def)
  have "yields example_server (pair_secret env0 True ch cert dec (replicate 16 0) ps u answered)
      (Some (url_of False ''h'' (port_of False) ?path), answered) example_server"
    unfolding pair_secret_def
    apply (simp only: h p run)
    apply (rule yields_handle, simp only: g run qs_def [symmetric])
    apply (rule yields_bindE, rule yields_url [OF example_address l example_room])
    apply (rule yields_bindE [OF example_pair_request [OF l]], rule yields_retE)
    done
  then show ?thesis by blast
qed

lemma example_final:
  "yields example_server (pair_final env0 u answered) GS_OK (example_server\<lparr>sv_paired := True\<rparr>)"
proof -
  define ps where "ps = Some (pair_params @ ''phrase=pairchallenge'')"
  have l: "length (client_path ''id'' ''u'' ''pair'' ps) < 4000"
    by (simp add: client_path_def pair_params_def ps_def)
  show ?thesis
    unfolding pair_final_def ps_def [symmetric]
    apply (rule yields_bindE, rule yields_url [OF example_address l example_room])
    apply (rule yields_bindE [OF example_pair_request [OF l]])
    apply (rule yields_bindE, rule yields_on_server, rule yields_retE)
    done
qed

lemma example_pairing:
  "\<exists>t. gs_pair env0 p example_client_state = (Inr GS_OK, t) \<and> sv_paired (gs_server t)"
proof -
  let ?key = "take 16 (hash_with env0 True (replicate 16 0 @ map byte_of (take 4 p)))"
  obtain u1 cert where 1: "yields example_server (pair_getcert env0 (replicate 16 0)) (Some u1, answered, cert) example_server"
    using example_getcert by blast
  obtain u2 dec where 2: "take 32 dec = replicate 32 0"
      "yields example_server (pair_challenge env0 ?key (replicate 16 0) (Some u1) answered) (Some u2, answered, dec) example_server"
    using example_challenge by blast
  obtain u3 ps where 3: "yields example_server (pair_response env0 True ?key dec (replicate 16 0) (Some u2) answered)
      (Some u3, answered, ps) example_server"
    using example_response by blast
  obtain u4 where 4: "yields example_server (pair_secret env0 True (replicate 16 0) cert dec (replicate 16 0) ps (Some u3) answered)
      (Some u4, answered) example_server"
    using example_secret [OF 2(1)] by blast
  have "yields example_server (pair_stages env0 True p) GS_OK (example_server\<lparr>sv_paired := True\<rparr>)"
    unfolding pair_stages_def
    apply (rule yields_bindE [OF yields_random], rule yields_bindE [OF yields_retE])
    apply (rule yields_bindE [OF 1], simp only: run)
    apply (rule yields_bindE [OF yields_random], rule yields_bindE [OF 2(2)], simp only: run)
    apply (rule yields_bindE [OF yields_random], rule yields_bindE [OF 3], simp only: run)
    apply (rule yields_bindE [OF 4], simp only: run, rule example_final)
    done
  moreover have "pair_body env0 p example_client_state = pair_stages env0 True p (example_client_state\<lparr>gs_seeds := 1\<rparr>)"
    by (simp add: pair_body_def bindE_def ctr_drbg_seed_def example_env_def asks_def example_client_state_def
        example_server_def)
  moreover have "with_server example_server (example_client_state\<lparr>gs_seeds := 1\<rparr>)"
    using example_with_server by (simp add: with_server_def)
  ultimately obtain t where "pair_body env0 p example_client_state = (Inr GS_OK, t)"
      "with_server (example_server\<lparr>sv_paired := True\<rparr>) t"
    by (auto dest: yieldsD)
  then show ?thesis
    by (auto simp: gs_pair_def bindE_def at_cleanup_def pair_cleanup_def retE_def with_server_def)
qed

section \<open>The status of the example host\<close>

lemma example_status_texts:
  "text_inside ''uniqueid'' 0 example_answer = [''A'']" "text_inside ''mac'' 0 example_answer = [''B'']"
  "text_inside ''hostname'' 0 example_answer = [''C'']" "text_inside ''currentgame'' 0 example_answer = [''5'']"
  "text_inside ''PairStatus'' 0 example_answer = [''1'']" "text_inside ''appversion'' 0 example_answer = [''7.1'']"
  "text_inside ''state'' 0 example_answer = [''SUNSHINE_SERVER_BUSY'']"
  "text_inside ''ServerCodecModeSupport'' 0 example_answer = [''3'']"
  "text_inside ''gputype'' 0 example_answer = [''D'']" "text_inside ''GsVersion'' 0 example_answer = [''3'']"
  "text_inside ''GfeVersion'' 0 example_answer = [''3'']"
  by (simp_all add: example_answer_def field_def)

lemma yields_need: "text_inside node 0 example_answer = [t] \<Longrightarrow> nul \<notin> set t \<Longrightarrow> yields sv (need env0 answered node) (Some t) sv"
  unfolding need_def by (rule yields_bindE, rule example_search, assumption+) (simp add: yields_retE)

lemma example_modes: "yields sv (mode_list env0 answered) () (sv\<lparr>sv_modes := []\<rparr>)"
proof -
  have "xml_modelist (\<lambda>_. True) (\<lambda>_. (example_answer, None)) t err = Some ((GS_OK, Some []), err)" for t err
    by (simp add: xml_modelist_def example_answer_def field_def empty_query_def start_mode_element_def
        end_mode_element_def write_cdata_def)
  then show ?thesis
    by (simp add: yields_def mode_list_def example_env_def on_server_def with_server_def)
qed

lemma example_fields:
  "\<exists>tx sv'. yields sv (status_fields env0 answered) tx sv' \<and> tx_currentGame tx = Some ''5'' \<and>
     tx_paired tx = Some ''1'' \<and> tx_state tx = Some ''SUNSHINE_SERVER_BUSY'' \<and> tx_codecs tx = Some ''3'' \<and>
     serverInfoAppVersion (sv_serverInfo sv') = Some ''7.1'' \<and> sv_unsupported sv' = sv_unsupported sv"
proof -
  have n: "nul \<notin> set ''A''" "nul \<notin> set ''B''" "nul \<notin> set ''C''" "nul \<notin> set ''5''" "nul \<notin> set ''7.1''"
      "nul \<notin> set ''SUNSHINE_SERVER_BUSY''" "nul \<notin> set ''3''" "nul \<notin> set ''D''"
    by (simp_all add: nul_def)
  have "\<exists>sv'. yields sv (status_fields env0 answered) \<lparr>tx_currentGame = Some ''5'', tx_paired = Some ''1'',
      tx_state = Some ''SUNSHINE_SERVER_BUSY'', tx_codecs = Some ''3''\<rparr> sv' \<and>
      serverInfoAppVersion (sv_serverInfo sv') = Some ''7.1'' \<and> sv_unsupported sv' = sv_unsupported sv"
    unfolding status_fields_def set_info_def
    apply (intro exI conjI)
      apply (rule yields_bindE [OF yields_need [OF example_status_texts(1) n(1)]], rule yields_bindE [OF yields_on_server])
      apply (rule yields_bindE [OF yields_need [OF example_status_texts(2) n(2)]], rule yields_bindE [OF yields_on_server])
      apply (rule yields_bindE [OF example_search [OF example_status_texts(3) n(3)]], simp only: run)
      apply (rule yields_bindE [OF yields_on_server])
      apply (rule yields_bindE [OF yields_need [OF example_status_texts(4) n(4)]])
      apply (rule yields_bindE [OF yields_need [OF example_status_texts(5) nul_not_digit(1)]])
      apply (rule yields_bindE [OF yields_need [OF example_status_texts(6) n(5)]], rule yields_bindE [OF yields_on_server])
      apply (rule yields_bindE [OF yields_need [OF example_status_texts(7) n(6)]])
      apply (rule yields_bindE [OF yields_need [OF example_status_texts(8) n(7)]])
      apply (rule yields_bindE [OF yields_need [OF example_status_texts(9) n(8)]], rule yields_bindE [OF yields_on_server])
      apply (rule yields_bindE [OF yields_need [OF example_status_texts(10) n(7)]], rule yields_bindE [OF yields_on_server])
      apply (rule yields_bindE [OF yields_need [OF example_status_texts(11) n(7)]], rule yields_bindE [OF yields_on_server])
      apply (rule yields_retE)
     apply simp_all
    done
  then show ?thesis by fastforce
qed

lemma yields_nonempty: "t \<noteq> [] \<Longrightarrow> yields sv (nonempty (Some t)) t sv"
  by (simp add: yields_def nonempty_def the_string_def)  (simp add: retE_def)

lemma yields_version: "serverInfoAppVersion (sv_serverInfo sv) = Some t \<Longrightarrow> yields sv server_version (Some t) sv"
  by (simp add: yields_def server_version_def with_server_def)

lemma example_status_run:
  "\<exists>t. gs_get_status env0 ''h'' False example_client_state = (Inr GS_OK, t)"
proof -
  let ?sv = "example_server\<lparr>sv_serverInfo := \<lparr>si_address = ''h'', serverInfoAppVersion = None,
              serverInfoGfeVersion = None, rtspSessionUrl = None, serverCodecModeSupport = 0\<rparr>, sv_unsupported := False\<rparr>"
  obtain tx sv1 where f: "yields ?sv (status_fields env0 answered) tx sv1" "tx_currentGame tx = Some ''5''"
      "tx_paired tx = Some ''1''" "tx_state tx = Some ''SUNSHINE_SERVER_BUSY''" "tx_codecs tx = Some ''3''"
      "serverInfoAppVersion (sv_serverInfo sv1) = Some ''7.1''"
    using example_fields by blast
  let ?sv2 = "apply_status ''5'' ''1'' ''7.1'' ''SUNSHINE_SERVER_BUSY'' (Some ''3'') (sv1\<lparr>sv_modes := []\<rparr>)"
  have l: "length (client_path ''id'' ''u'' ''serverinfo'' None) < 4000" by (simp add: client_path_def)
  have c: "yields (sv1\<lparr>sv_modes := []\<rparr>) (check_status tx) GS_OK ?sv2"
    unfolding check_status_def f
    apply (rule yields_bindE, rule yields_nonempty, simp)
    apply (rule yields_bindE, rule yields_nonempty, simp)
    apply (rule yields_bindE, rule yields_bindE, rule yields_version, simp add: f, rule yields_nonempty, simp)
    apply (rule yields_bindE, rule yields_nonempty, simp)
    apply (rule yields_bindE, rule yields_on_server, rule yields_retE)
    done
  have ne: "(GS_OK = GS_ERROR) = False" by (simp add: gs_codes)
  have alloc: "alloc_data env0 = Some http_data_alloc" by (simp add: alloc_data_def example_env_def)
  have "yields ?sv (status_attempt env0 True) GS_OK ?sv2"
    unfolding status_attempt_def
    apply (rule yields_cleanup, rule yields_bindE, rule yields_url [OF _ l])
      apply simp
     apply simp
    apply (simp only: alloc run)
    apply (rule yields_bindE [OF yields_request [OF l client_path_slash]], simp only: run)
    apply (rule yields_bindE [OF yields_status [OF example_status]], simp only: run ne)
    apply (rule yields_bindE [OF f(1)], rule yields_bindE [OF example_modes], rule c)
    done
  moreover have "with_server ?sv (example_client_state\<lparr>gs_server := ?sv\<rparr>)"
    by (simp add: with_server_def example_client_state_def example_handle_def)
  ultimately obtain t where "status_attempt env0 True (example_client_state\<lparr>gs_server := ?sv\<rparr>) = (Inr GS_OK, t)"
      "with_server ?sv2 t"
    by (auto dest!: yieldsD)
  moreover have "atoi ''7.1'' = 7" by code_simp
  ultimately show ?thesis
    by (simp add: gs_get_status_def load_server_status_def bindE_def on_server_def example_client_state_def
        version_check_def with_server_def apply_status_def Let_def MAX_SUPPORTED_GFE_VERSION_def
        MIN_SUPPORTED_GFE_VERSION_def retE_def)
qed

end
