(* ===== verification/ClientFacts.thy ===== *)
theory ClientFacts
  imports HostExample
begin

text \<open>
  What the operations of \<open>client.c\<close> guarantee: which part of the state each of them may change, when
  a host counts as paired, what a successful status, start or quit implies, and the URLs.
\<close>

section \<open>What a request may change\<close>

text \<open>Everything but the last error, the log and the count of used uuids.\<close>

definition core :: "gs_state \<Rightarrow> gs_client \<times> server_data \<times> nat \<times> nat \<times> (string \<Rightarrow> string option)" where
  "core s = (gs_hnd s, gs_server s, gs_seeds s, gs_randoms s, gs_files s)"

text \<open>
  The contract of the four calls the client makes of the modules below it: none of them touches the
  part \<open>view\<close> of the client's state. Every exchange built from them inherits it.
\<close>

locale host_calls =
  fixes view :: "'s \<Rightarrow> 'k"
    and build :: "'u \<Rightarrow> 's \<Rightarrow> ('e + 'url) \<times> 's"
    and send :: "'url \<Rightarrow> 'd \<Rightarrow> 's \<Rightarrow> ('e + int \<times> 'd) \<times> 's"
    and status :: "'d \<Rightarrow> 's \<Rightarrow> ('e + int) \<times> 's"
    and search :: "'d \<Rightarrow> bool \<Rightarrow> 'n \<Rightarrow> 's \<Rightarrow> ('e + int \<times> 'v) \<times> 's"
  assumes build_frames: "frames view (build u)"
    and send_frames: "frames view (send url d)"
    and status_frames: "frames view (status d)"
    and search_frames: "frames view (search d req n)"
begin

lemma exchange_frames:
  assumes "\<And>ret d. frames view (k ret d)"
  shows "frames view (bindE (send url d0) (\<lambda>(ret, d). k ret d))"
  by (intro frame_rules send_frames assms)

lemma answer_frames:
  assumes "\<And>x. frames view (bad x)" and "\<And>d v. frames view (good d v)"
  shows "frames view (bindE (send url d0) (\<lambda>(ret, d). if ret \<noteq> 0 then bad ret
           else bindE (status d) (\<lambda>st. if st \<noteq> 0 then bad st
             else bindE (search d req n) (\<lambda>(r, v). if r \<noteq> 0 then bad r else good d v))))"
  by (intro frame_rules send_frames status_frames search_frames assms)

lemma lookup_frames:
  assumes "\<And>v. frames view (f v)" and "\<And>r. frames view (g r)"
  shows "frames view (bindE (search d req n) (\<lambda>(r, v). if r \<noteq> 0 then g r else f v))"
  by (intro frame_rules search_frames assms)

end

lemma error_gs_frames [frame_rules]: "frames core (error_gs code msg)"
  by (simp add: frames_def error_gs_def core_def split: prod.split)

lemma fail_gs_frames [frame_rules]: "frames core (fail_gs code msg)"
  unfolding fail_gs_def by (intro frame_rules)

lemma fail_keeping_frames [frame_rules]: "frames core (fail_keeping r code msg)"
  unfolding fail_keeping_def by (intro frame_rules)

lemma the_string_frames [frame_rules]: "frames v (the_string x)"
  unfolding the_string_def by (intro frame_rules)

lemma construct_url_frames [frame_rules]: "frames core (construct_url env old n sec act ps)"
  by (auto simp: frames_def construct_url_def core_def Let_def split: option.split)

lemma request_frames [frame_rules]: "frames core (request env url d)"
  by (auto simp: frames_def request_def core_def split: option.split)

lemma status_of_frames [frame_rules]: "frames core (status_of env d)"
  by (simp add: frames_def status_of_def core_def split: prod.split)

lemma search_in_frames [frame_rules]: "frames core (search_in env d req n)"
  by (simp add: frames_def search_in_def core_def split: prod.split)

interpretation hc: host_calls core "\<lambda>(sec, act, ps). construct_url env None 4096 sec act ps"
    "request env" "status_of env" "search_in env" for env
  by unfold_locales (auto intro: frame_rules split: prod.split)

lemma status_or_leave_frames [frame_rules]: "frames core (status_or_leave env d)"
  unfolding status_or_leave_def by (intro frame_rules)

lemma pair_request_frames [frame_rules]: "frames core (pair_request env url d stage)"
  unfolding pair_request_def by (intro frame_rules)

lemma at_cleanup_frames [frame_rules]: "frames v m \<Longrightarrow> frames v (at_cleanup m)"
  by (auto simp: frames_def at_cleanup_def split: prod.split sum.split leave.split) (metis snd_conv)+

section \<open>Pairing\<close>

text \<open>\<open>on_exit x m\<close>: when \<open>m\<close> leaves early, the server record and the cryptography are as before.\<close>

definition server_is :: "server_data \<Rightarrow> gs_state \<Rightarrow> bool" where
  "server_is sv s \<longleftrightarrow> gs_server s = sv"

lemma core_server: "core t = core s \<Longrightarrow> gs_server t = gs_server s \<and> gs_randoms t = gs_randoms s"
  by (simp add: core_def)

lemma frames_server: "frames core m \<Longrightarrow> frames gs_server m"
  by (simp add: frames_def core_def)

lemma server_triple [triple_rules]:
  "frames gs_server m \<Longrightarrow> triple (server_is sv) m (\<lambda>_. server_is sv) (\<lambda>_. server_is sv)"
  unfolding server_is_def by (rule triple_frames)

lemma random_bytes_server [frame_rules]: "frames gs_server (random_bytes env n)"
  by (simp add: frames_def random_bytes_def)

lemma ctr_drbg_seed_server [frame_rules]: "frames gs_server (ctr_drbg_seed env)"
  by (simp add: frames_def ctr_drbg_seed_def)

lemma pair_getcert_frames [frame_rules]: "frames core (pair_getcert env salt)"
  unfolding pair_getcert_def Let_def by (intro frame_rules)

lemma pair_challenge_frames [frame_rules]: "frames core (pair_challenge env key ch url d)"
  unfolding pair_challenge_def by (intro frame_rules) (auto intro!: frame_rules split: bool.split)

lemma pair_response_frames [frame_rules]: "frames core (pair_response env g key dec sec url d)"
  unfolding pair_response_def Let_def by (intro frame_rules)

lemma pair_secret_frames [frame_rules]: "frames core (pair_secret env g ch cert dec sec ps url d)"
  unfolding pair_secret_def by (intro frame_rules)

text \<open>\<open>exit_keeps m\<close>: whenever \<open>m\<close> leaves early, the server record is what it was.\<close>

definition exit_keeps :: "'a gs \<Rightarrow> bool" where
  "exit_keeps m \<longleftrightarrow> (\<forall>sv. triple (server_is sv) m (\<lambda>_ _. True) (\<lambda>_. server_is sv))"

lemma exit_keeps_frames: "frames gs_server m \<Longrightarrow> exit_keeps m"
  unfolding exit_keeps_def by (blast intro: triple_conseq server_triple)

lemma exit_keeps_bindE: "frames gs_server m \<Longrightarrow> (\<And>a. exit_keeps (f a)) \<Longrightarrow> exit_keeps (bindE m f)"
  unfolding exit_keeps_def
  apply (intro allI)
  subgoal for sv
    by (rule triple_bindE [where R = "\<lambda>_. server_is sv"])
      (auto intro: triple_conseq [OF server_triple])
  done

lemma exit_keeps_finish: "exit_keeps (bindE (on_server f) (\<lambda>_. retE a))"
  by (simp add: exit_keeps_def triple_def on_server_def bindE_def retE_def)

lemmas exit_rules = exit_keeps_bindE frames_server frame_rules exit_keeps_frames

lemma exit_keepsD: "exit_keeps m \<Longrightarrow> m s = (Inl e, t) \<Longrightarrow> gs_server t = gs_server s"
  using tripleD [of "server_is (gs_server s)" m "\<lambda>_ _. True" "\<lambda>_. server_is (gs_server s)" s "Inl e" t]
  by (simp add: exit_keeps_def server_is_def)

lemma pair_final_exit: "exit_keeps (pair_final env url d)"
  unfolding pair_final_def
  by (intro exit_keeps_bindE frames_server construct_url_frames pair_request_frames exit_keeps_finish)

lemma pair_stages_exit: "exit_keeps (pair_stages env g p)"
  unfolding pair_stages_def
  apply (intro exit_keeps_bindE random_bytes_server frames_retE)
  apply (rule frames_server [OF pair_getcert_frames])
  apply (clarsimp)
  apply (intro exit_keeps_bindE random_bytes_server)
  apply (rule frames_server [OF pair_challenge_frames])
  apply (clarsimp)
  apply (intro exit_keeps_bindE random_bytes_server)
  apply (rule frames_server [OF pair_response_frames])
  apply (clarsimp)
  apply (intro exit_keeps_bindE)
  apply (rule frames_server [OF pair_secret_frames])
  apply (clarsimp simp: pair_final_exit)
  done

lemma pair_body_exit: "exit_keeps (pair_body env p)"
  unfolding pair_body_def
  apply (rule exit_keeps_bindE [OF ctr_drbg_seed_server])
  apply (simp add: exit_keeps_frames frames_server frame_rules)
  apply (intro impI exit_keeps_bindE frames_asks)
  apply (simp add: exit_keeps_frames frames_server frame_rules pair_stages_exit)
  done

text \<open>What a successful stage has established.\<close>

lemma fail_not_Inr [simp]: "fail_gs code msg s \<noteq> (Inr a, t)" "fail_keeping r code msg s \<noteq> (Inr a, t)"
  by (auto simp: fail_gs_def fail_keeping_def bindE_def leaveE_def split: prod.split sum.split)

lemma leave_not_Inr [simp]: "leaveE e s \<noteq> (Inr a, t)"
  by (simp add: leaveE_def)

lemma pair_getcert_result:
  assumes "pair_getcert env salt s = (Inr (url, d, cert), t)"
  shows "e_x509_parse env cert = 0"
  using assms unfolding pair_getcert_def Let_def
  by (auto elim!: bindE_InrE simp: retE_def split: if_splits option.splits prod.splits)

lemma pair_challenge_result:
  assumes "pair_challenge env key ch url d s = (Inr (url', d', dec), t)"
  shows "\<exists>enc n. dec = snd (crypt_data (e_aes_dec env key) enc (junk_array env 128) n)"
  using assms unfolding pair_challenge_def
  by (auto elim!: bindE_InrE simp: retE_def split: if_splits option.splits prod.splits bool.splits) blast+

lemma pair_secret_result:
  assumes "pair_secret env g ch cert dec sec ps url d s = (Inr r, t)"
  shows "host_is_authentic env cert ps \<and> pin_is_correct env g ch cert ps dec"
  using assms by (auto simp: pair_secret_def split: if_splits)

definition unpaired :: "gs_state \<Rightarrow> bool" where
  "unpaired s \<longleftrightarrow> \<not> sv_paired (gs_server s)"

text \<open>\<open>stays P m\<close>: \<open>P\<close> is kept on every path of \<open>m\<close>.\<close>

definition stays :: "(gs_state \<Rightarrow> bool) \<Rightarrow> 'a gs \<Rightarrow> bool" where
  "stays P m \<longleftrightarrow> triple P m (\<lambda>_. P) (\<lambda>_. P)"

lemma stays_bindE: "stays P m \<Longrightarrow> (\<And>a. stays P (f a)) \<Longrightarrow> stays P (bindE m f)"
  unfolding stays_def by (rule triple_bindE)

lemma stays_frames: "frames gs_server m \<Longrightarrow> stays unpaired m"
  using triple_frames [of gs_server m "\<lambda>sv. \<not> sv_paired sv"] by (simp add: stays_def unpaired_def [abs_def])

lemma stays_cleanup: "stays P m \<Longrightarrow> stays P (at_cleanup m)"
  by (fastforce simp: stays_def triple_def at_cleanup_def split: prod.splits sum.splits leave.splits)

lemma stays_if: "(b \<Longrightarrow> stays P m) \<Longrightarrow> (\<not> b \<Longrightarrow> stays P n) \<Longrightarrow> stays P (if b then m else n)"
  by simp

lemma staysD: "stays P m \<Longrightarrow> P s \<Longrightarrow> m s = (r, t) \<Longrightarrow> P t"
  by (auto simp: stays_def dest: tripleD split: sum.splits)

lemma clear_paired_stays: "stays unpaired (on_server (\<lambda>x. x\<lparr>sv_paired := False\<rparr>))"
  by (simp add: stays_def triple_def on_server_def unpaired_def)

lemma gs_unpair_stays: "stays unpaired (gs_unpair env)"
proof -
  have "stays unpaired (bindE (status_of env d) (\<lambda>st.
      if st = GS_ERROR then leaveE (Leave GS_ERROR)
      else bindE (on_server (\<lambda>x. x\<lparr>sv_paired := False\<rparr>)) (\<lambda>_. retE GS_OK)))" for d
    by (intro stays_bindE stays_if clear_paired_stays stays_frames frames_server frame_rules)
  moreover have "stays unpaired (leaveE (Leave r) :: int gs)" "stays unpaired (retE r :: int gs)" for r
    by (intro stays_frames frames_server frame_rules)+
  moreover have "stays unpaired (request env url d)" "stays unpaired (construct_url env None n sec act ps)"
    for url d n sec act ps
    by (intro stays_frames frames_server frame_rules)+
  ultimately show ?thesis
    unfolding gs_unpair_def
    by (auto intro!: stays_bindE stays_cleanup split: option.split)
qed

lemma pair_cleanup_stays: "stays unpaired (pair_cleanup env r)"
  unfolding pair_cleanup_def
  by (intro stays_if stays_bindE gs_unpair_stays stays_frames frames_server frame_rules)

text \<open>What the stages check of the host, when the random data already used is \<open>k\<close>.\<close>

definition host_verified :: "client_env \<Rightarrow> bool \<Rightarrow> nat \<Rightarrow> string \<Rightarrow> bool" where
  "host_verified env g k p \<longleftrightarrow>
     (\<exists>cert ps enc n. e_x509_parse env cert = 0 \<and> host_is_authentic env cert ps \<and>
        pin_is_correct env g (e_random env (k + 1) 16) cert ps
          (snd (crypt_data (e_aes_dec env (take 16 (hash_with env g
             (e_random env k 16 @ map byte_of (take 4 p))))) enc (junk_array env 128) n)))"

lemma pair_final_result: "pair_final env url d s = (Inr r, t) \<Longrightarrow> r = GS_OK"
  unfolding pair_final_def by (auto simp: bindE_Inr_iff retE_def)

lemma random_bytes_result:
  "random_bytes env n s = (Inr bs, t) \<Longrightarrow> bs = e_random env (gs_randoms s) n \<and> gs_randoms t = gs_randoms s + 1"
  by (auto simp: random_bytes_def)

lemma getcert_randoms: "pair_getcert env salt s = (Inr x, t) \<Longrightarrow> gs_randoms t = gs_randoms s"
  using framesD [OF pair_getcert_frames] core_server by blast

lemma pair_stages_result:
  assumes "pair_stages env g p s = (Inr r, t)"
  shows "r = GS_OK \<and> host_verified env g (gs_randoms s) p"
  using assms unfolding pair_stages_def
proof (elim bindE_InrE, clarsimp simp: bindE_Inr_iff retE_def, goal_cases)
  case (1 salt s1 url d cert s2 challenge s3 url2 d2 dec s4)
  let ?key = "take 16 (hash_with env g (e_random env (gs_randoms s) 16 @ map byte_of (take 4 p)))"
  note salt = random_bytes_result [OF 1(1)]
  note challenge = random_bytes_result [OF 1(3), unfolded getcert_randoms [OF 1(2)]]
  obtain enc n where "dec = snd (crypt_data (e_aes_dec env ?key) enc (junk_array env 128) n)"
    using pair_challenge_result [OF 1(4)] salt by blast
  then show ?case
    using salt challenge pair_getcert_result [OF 1(2)] pair_secret_result [OF 1(7)] pair_final_result [OF 1(8)]
    unfolding host_verified_def by (simp only:) blast
qed



section \<open>Status, start, quit\<close>

text \<open>\<open>safe P m\<close>: \<open>m\<close> keeps \<open>P\<close> and never leaves early with \<open>GS_OK\<close>.\<close>

named_theorems safe_rules

definition safe :: "(gs_state \<Rightarrow> bool) \<Rightarrow> 'a gs \<Rightarrow> bool" where
  "safe P m \<longleftrightarrow> triple P m (\<lambda>_. P) (\<lambda>e s. P s \<and> e \<noteq> Leave GS_OK)"

lemma safe_bindE [safe_rules]: "safe P m \<Longrightarrow> (\<And>a. safe P (f a)) \<Longrightarrow> safe P (bindE m f)"
  unfolding safe_def by (rule triple_bindE)

lemma safe_if [safe_rules]: "(b \<Longrightarrow> safe P m) \<Longrightarrow> (\<not> b \<Longrightarrow> safe P n) \<Longrightarrow> safe P (if b then m else n)"
  by simp

lemma safe_option [safe_rules]:
  "(x = None \<Longrightarrow> safe P m) \<Longrightarrow> (\<And>a. x = Some a \<Longrightarrow> safe P (f a)) \<Longrightarrow>
     safe P (case x of None \<Rightarrow> m | Some a \<Rightarrow> f a)"
  by (cases x) auto

lemma safe_pair [safe_rules]: "(\<And>a b. x = (a, b) \<Longrightarrow> safe P (f a b)) \<Longrightarrow> safe P (case x of (a, b) \<Rightarrow> f a b)"
  by (cases x) auto

lemma safe_retE [safe_rules]: "safe P (retE a)"
  by (simp add: safe_def triple_retE)

lemma safe_asks [safe_rules]: "safe P (asks f)"
  by (simp add: safe_def triple_def asks_def)

lemma safe_leaveE: "e \<noteq> Leave GS_OK \<Longrightarrow> safe P (leaveE e)"
  by (simp add: safe_def triple_leaveE)

lemma safe_leave_codes [safe_rules]:
  "r \<noteq> GS_OK \<Longrightarrow> safe P (leaveE (Leave r))" "safe P (leaveE Undefined)" "safe P (leaveE (Leave 1))"
  "safe P (leaveE (Leave GS_INVALID))" "safe P (leaveE (Leave GS_IO_ERROR))" "safe P (leaveE (Leave GS_ERROR))"
  "safe P (leaveE (Leave GS_OUT_OF_MEMORY))" "safe P (leaveE (Leave GS_FAILED))"
  by (simp_all add: safe_leaveE gs_codes)

text \<open>A predicate of the server record alone.\<close>

definition about_server :: "(server_data \<Rightarrow> bool) \<Rightarrow> gs_state \<Rightarrow> bool" where
  "about_server p s \<longleftrightarrow> p (gs_server s)"

lemma safe_calls [safe_rules]:
  "safe (about_server p) (construct_url env old n sec act ps)"
  "safe (about_server p) (request env url d)"
  "safe (about_server p) (status_of env d)"
  "safe (about_server p) (search_in env d req node)"
  "safe (about_server p) (the_string x)"
  "safe (about_server p) (error_gs code msg)"
  by (auto simp: safe_def triple_def about_server_def construct_url_def request_def status_of_def search_in_def
      the_string_def retE_def leaveE_def error_gs_def Let_def split: option.split prod.split)

lemma safe_fail [safe_rules]: "code \<noteq> GS_OK \<Longrightarrow> safe (about_server p) (fail_gs code msg)"
  by (simp add: safe_def triple_def about_server_def fail_gs_def bindE_def error_gs_def leaveE_def gs_set_error_def)

lemma safe_status_or_leave [safe_rules]: "safe (about_server p) (status_or_leave env d)"
  unfolding status_or_leave_def by (intro safe_rules)

lemma safe_on_server: "(\<And>sv. p sv \<Longrightarrow> p (f sv)) \<Longrightarrow> safe (about_server p) (on_server f)"
  by (simp add: safe_def triple_def about_server_def on_server_def)

lemma safe_Leave: "safe P m \<Longrightarrow> P s \<Longrightarrow> m s \<noteq> (Inl (Leave GS_OK), t)"
  by (auto simp: safe_def triple_def)

lemma safe_keeps: "safe P m \<Longrightarrow> P s \<Longrightarrow> m s = (r, t) \<Longrightarrow> P t"
  unfolding safe_def by (drule (2) tripleD) (auto split: sum.splits)

lemma cleanup_ok:
  assumes "at_cleanup m s = (Inr GS_OK, t)" and "safe P m" and "P s"
  shows "m s = (Inr GS_OK, t)"
  using assms safe_Leave [of P m s] by (auto simp: at_cleanup_def split: prod.splits sum.splits leave.splits)

subsection \<open>Status\<close>

definition asked :: "string \<Rightarrow> bool \<Rightarrow> server_data \<Rightarrow> bool" where
  "asked addr unsupp sv \<longleftrightarrow> si_address (sv_serverInfo sv) = addr \<and> sv_unsupported sv = unsupp"

lemma safe_need [safe_rules]: "safe (about_server p) (need env d node)"
  unfolding need_def by (intro safe_rules)

lemma safe_record [safe_rules]:
  "safe (about_server (asked a u)) (on_server (\<lambda>x. x\<lparr>sv_uuid := v\<rparr>))"
  "safe (about_server (asked a u)) (on_server (\<lambda>x. x\<lparr>sv_mac := v\<rparr>))"
  "safe (about_server (asked a u)) (on_server (\<lambda>x. x\<lparr>sv_hostname := h x\<rparr>))"
  "safe (about_server (asked a u)) (on_server (\<lambda>x. x\<lparr>sv_gpuType := v\<rparr>))"
  "safe (about_server (asked a u)) (on_server (\<lambda>x. x\<lparr>sv_gsVersion := v\<rparr>))"
  "safe (about_server (asked a u)) (on_server (\<lambda>x. x\<lparr>sv_modes := modes\<rparr>))"
  "safe (about_server (asked a u)) (set_info (\<lambda>x. x\<lparr>serverInfoAppVersion := v\<rparr>))"
  "safe (about_server (asked a u)) (set_info (\<lambda>x. x\<lparr>serverInfoGfeVersion := v\<rparr>))"
  "safe (about_server (asked a u)) (on_server (apply_status game paired version state codecs))"
  by (auto intro!: safe_on_server simp: asked_def set_info_def apply_status_def Let_def)

lemma safe_status_fields [safe_rules]: "safe (about_server (asked a u)) (status_fields env d)"
  unfolding status_fields_def by (intro safe_rules)

lemma safe_mode_list [safe_rules]: "safe (about_server (asked a u)) (mode_list env d)"
  using safe_record(6)
  by (auto simp: mode_list_def safe_def triple_def about_server_def on_server_def asked_def gs_codes
      split: option.split prod.split)

lemma safe_nonempty [safe_rules]: "safe (about_server p) (nonempty v)"
  unfolding nonempty_def by (intro safe_rules)

lemma safe_server_version [safe_rules]: "safe P server_version"
  by (simp add: safe_def triple_def server_version_def)

lemma safe_check_status [safe_rules]: "safe (about_server (asked a u)) (check_status tx)"
  unfolding check_status_def by (intro safe_rules)

text \<open>What a round that succeeds leaves in the record.\<close>

definition status_read :: "server_data \<Rightarrow> bool" where
  "status_read sv \<longleftrightarrow>
     (\<exists>v. serverInfoAppVersion (sv_serverInfo sv) = Some v \<and> v \<noteq> [] \<and> sv_serverMajorVersion sv = atoi v) \<and>
     (sv_supports4K sv \<longleftrightarrow> serverCodecModeSupport (sv_serverInfo sv) \<noteq> 0) \<and>
     (sv_supportsHdr sv \<longleftrightarrow> serverCodecModeSupport (sv_serverInfo sv) AND 0x200 \<noteq> 0)"

lemma nonempty_result: "nonempty v s = (Inr t, s') \<Longrightarrow> v = Some t \<and> t \<noteq> [] \<and> s' = s"
  by (auto simp: nonempty_def the_string_def bindE_def retE_def leaveE_def split: option.splits if_splits)

lemma check_status_result:
  assumes "check_status tx s = (Inr r, t)"
  shows "status_read (gs_server t)"
proof -
  obtain game paired version state s1 s2 s3 s4 where
      "nonempty (tx_currentGame tx) s = (Inr game, s1)" "nonempty (tx_paired tx) s1 = (Inr paired, s2)"
      "bindE server_version nonempty s2 = (Inr version, s3)" "nonempty (tx_state tx) s3 = (Inr state, s4)"
    and t: "gs_server t = apply_status game paired version state (tx_codecs tx) (gs_server s4)"
    using assms unfolding check_status_def by (auto simp: bindE_Inr_iff on_server_def retE_def)
  then have "serverInfoAppVersion (sv_serverInfo (gs_server s4)) = Some version" "version \<noteq> []"
    by (auto dest!: nonempty_result simp: bindE_Inr_iff server_version_def)
  with t show ?thesis by (simp add: status_read_def apply_status_def Let_def)
qed

definition attempt_body :: "client_env \<Rightarrow> bool \<Rightarrow> int gs" where
  "attempt_body env secure =
     bindE (construct_url env None 4096 secure ''serverinfo'' None) (\<lambda>url.
     case alloc_data env of
       None \<Rightarrow> leaveE (Leave GS_OUT_OF_MEMORY)
     | Some d0 \<Rightarrow>
         bindE (request env url d0) (\<lambda>(r, d).
           if r \<noteq> GS_OK then leaveE (Leave GS_IO_ERROR)
           else bindE (status_of env d) (\<lambda>st.
             if st = GS_ERROR then leaveE (Leave GS_ERROR)
             else bindE (status_fields env d) (\<lambda>tx. bindE (mode_list env d) (\<lambda>_. check_status tx)))))"

lemma safe_attempt: "safe (about_server (asked a u)) (attempt_body env secure)"
  unfolding attempt_body_def by (intro safe_rules)

lemma attempt_result: "attempt_body env secure s = (Inr r, t) \<Longrightarrow> status_read (gs_server t)"
  unfolding attempt_body_def
  by (auto simp: bindE_Inr_iff dest!: check_status_result split: option.splits if_splits)

lemma status_attempt_result:
  assumes "status_attempt env sec s = (Inr r, t)" and "asked a u (gs_server s)"
  shows "asked a u (gs_server t) \<and> (r = GS_OK \<longrightarrow> status_read (gs_server t))"
proof -
  have e: "status_attempt env sec = at_cleanup (attempt_body env sec)"
    by (simp add: status_attempt_def attempt_body_def)
  have p: "about_server (asked a u) s" using assms(2) by (simp add: about_server_def)
  obtain x where x: "attempt_body env sec s = (x, t)"
    using assms(1) by (auto simp: e at_cleanup_def split: prod.splits sum.splits leave.splits)
  have "about_server (asked a u) t" by (rule safe_keeps [OF safe_attempt p x])
  moreover have "status_read (gs_server t)" if "r = GS_OK"
    using cleanup_ok [OF _ safe_attempt p] assms(1) that attempt_result by (fastforce simp: e)
  ultimately show ?thesis by (simp add: about_server_def)
qed



subsection \<open>Starting and quitting\<close>

lemma GS_OK_codes: "GS_FAILED \<noteq> GS_OK" "GS_OUT_OF_MEMORY \<noteq> GS_OK" "GS_NOT_SUPPORTED_MODE \<noteq> GS_OK"
  "GS_NOT_SUPPORTED_4K \<noteq> GS_OK" "GS_ERROR \<noteq> GS_OK" "GS_WRONG_STATE \<noteq> GS_OK"
  by (simp_all add: gs_codes)

definition plays :: "int \<Rightarrow> server_data \<Rightarrow> bool" where
  "plays n sv \<longleftrightarrow> sv_currentGame sv = n"

lemma safe_set_info [safe_rules]: "safe (about_server (plays a)) (set_info f)"
  unfolding set_info_def by (rule safe_on_server) (simp add: plays_def)

lemma safe_true_game [safe_rules]: "safe (about_server (\<lambda>_. True)) (on_server f)"
  by (rule safe_on_server) simp

lemma safe_true_info [safe_rules]: "safe (about_server (\<lambda>_. True)) (set_info f)"
  unfolding set_info_def by (rule safe_on_server) simp

lemma safe_true_timeout [safe_rules]: "safe (about_server (\<lambda>_. True)) (set_timeout_gs t)"
  by (simp add: safe_def triple_def set_timeout_gs_def about_server_def)

lemma safe_start_session [safe_rules]: "safe (about_server (\<lambda>_. True)) (start_session env url d appId)"
  unfolding start_session_def
  by (intro safe_rules) (simp_all add: GS_OK_codes)

lemma safe_start_launch: "safe (about_server (\<lambda>_. True)) (start_launch env config appId g so lo pads)"
  unfolding start_launch_def Let_def
  by (intro safe_rules) (simp_all add: GS_OK_codes)

text \<open>What follows the assignment of \<open>currentGame\<close>.\<close>

definition session_tail :: "client_env \<Rightarrow> http_data \<Rightarrow> int gs" where
  "session_tail env d =
     bindE (status_or_leave env d) (\<lambda>_.
       bindE (search_in env d True ''gamesession'') (\<lambda>(r1, v1).
         bindE (if r1 \<noteq> GS_OK then search_in env d True ''resume'' else retE (r1, v1)) (\<lambda>(ret, v).
           if ret \<noteq> GS_OK then leaveE (Leave ret)
           else bindE (the_string v) (\<lambda>t.
             if t = ''0'' then fail_gs GS_FAILED ''App start request failed''
             else bindE (search_in env d True ''sessionUrl0'') (\<lambda>(r2, v2).
               if r2 = GS_OK then
                 bindE (set_info (\<lambda>x. x\<lparr>rtspSessionUrl := v2\<rparr>)) (\<lambda>_. retE ret)
               else retE ret)))))"

lemma safe_session_tail: "safe (about_server (plays a)) (session_tail env d)"
  unfolding session_tail_def by (intro safe_rules) (simp_all add: GS_OK_codes)

lemma start_session_result:
  assumes "start_session env url d0 appId s = (Inr r, t)"
  shows "sv_currentGame (gs_server t) = appId"
proof -
  obtain d s1 s2 where 2: "on_server (\<lambda>x. x\<lparr>sv_currentGame := appId\<rparr>) s1 = (Inr (), s2)"
    and t: "session_tail env d s2 = (Inr r, t)"
    using assms unfolding start_session_def session_tail_def [symmetric]
    by (elim bindE_InrE) (auto split: if_splits elim!: bindE_InrE)
  have "about_server (plays appId) s2" using 2 by (auto simp: on_server_def about_server_def plays_def)
  then have "about_server (plays appId) t" using t safe_keeps [OF safe_session_tail] by blast
  then show ?thesis by (simp add: about_server_def plays_def)
qed

lemma start_launch_result:
  assumes "start_launch env config appId g so lo pads s = (Inr r, t)"
  shows "sv_currentGame (gs_server t) = appId"
  using assms unfolding start_launch_def Let_def
  by (auto elim!: bindE_InrE dest: start_session_result split: option.splits)

lemma start_keys_result:
  "start_keys env config s = (Inr c, t) \<Longrightarrow> gs_server t = gs_server s \<and> gs_randoms t = gs_randoms s + 2 \<and>
     c = config\<lparr>st_remoteInputAesKey := e_random env (gs_randoms s) 16,
                st_remoteInputAesIv := e_random env (gs_randoms s + 1) 4 @ replicate 12 0\<rparr>"
  by (auto simp: start_keys_def bindE_Inr_iff random_bytes_def retE_def)


section \<open>URLs\<close>

text \<open>C27. Every URL that \<open>construct_url\<close> makes room for is taken apart by \<open>parse_url\<close> into the scheme that was asked for, the
  address of the host, the GameStream port of that scheme and the path with action, ids and parameters.\<close>

theorem constructed_url_parses:
  assumes "e_uuid env (gs_uuids s) = Some uuid"
    and "plain_host (si_address (sv_serverInfo (gs_server s)))"
    and "path = client_path (unique_id (gs_hnd s)) uuid act params" and "length path < 4096"
    and "length (si_address (sv_serverInfo (gs_server s))) + length path + 14 < ulen"
    and "construct_url env old ulen secure act params s = (Inr (Some url), s')"
  shows "parse_url url 256 4096 =
    Some (secure, si_address (sv_serverInfo (gs_server s)), if secure then 47984 else 47989, path)"
proof -
  have "url = url_of secure (si_address (sv_serverInfo (gs_server s))) (port_of secure) path"
    using construct_url_text [OF assms(1) refl assms(3,5,4), of old secure] assms(6) by simp
  moreover have "path = CHR ''/'' # tl path" using assms(3) client_path_slash by simp
  ultimately show ?thesis
    using url_of_parses [OF assms(2) _ assms(4), of "tl path" secure] by (simp add: port_of_def)
qed

theorem constructed_url_parses_witness:
  "\<exists>url t. construct_url env0 None 4096 True ''applist'' None example_client_state = (Inr (Some url), t) \<and>
     parse_url url 256 4096 = Some (True, ''h'', 47984, client_path ''id'' ''u'' ''applist'' None)"
proof -
  let ?path = "client_path ''id'' ''u'' ''applist'' None"
  have h: "e_uuid env0 (gs_uuids example_client_state) = Some ''u''"
      "si_address (sv_serverInfo (gs_server example_client_state)) = ''h''" "unique_id (gs_hnd example_client_state) = ''id''"
    by (simp_all add: example_env_def example_client_state_def example_server_def example_handle_def)
  have l: "length ?path < 4000" by (simp add: client_path_def)
  obtain url t where c: "construct_url env0 None 4096 True ''applist'' None example_client_state = (Inr (Some url), t)"
    using construct_url_text [OF h(1) refl refl, of "''applist''" None 4096 None True] l h by simp
  have "parse_url url 256 4096 = Some (True, ''h'', 47984, ?path)"
    using constructed_url_parses [OF h(1) _ refl _ _ c] l h by (simp add: plain_host_def)
  with c show ?thesis by blast
qed

lemma append_param_extends:
  "length u < n \<Longrightarrow> \<exists>e. append_param u n p v = u @ e \<and> length (u @ e) < n \<and> length e \<le> length p + 257"
  by (auto simp: append_param_def Let_def snprintf_to_def)

lemma append_params_extends:
  "length u < n \<Longrightarrow> \<exists>e. append_params n ps u = u @ e \<and> length (u @ e) < n \<and>
     length e \<le> sum_list (map (\<lambda>(p, v). length p + 257) ps)"
proof (induction ps arbitrary: u)
  case Nil
  then show ?case by (simp add: append_params_def)
next
  case (Cons pv ps)
  obtain p v where pv: "pv = (p, v)" by (cases pv)
  obtain e where e: "append_param u n p v = u @ e" "length (u @ e) < n" "length e \<le> length p + 257"
    using append_param_extends [OF Cons.prems] by blast
  obtain e' where "append_params n ps (u @ e) = (u @ e) @ e'" "length ((u @ e) @ e') < n"
      "length e' \<le> sum_list (map (\<lambda>(p, v). length p + 257) ps)"
    using Cons.IH [OF e(2)] by blast
  with e show ?case by (intro exI [of _ "e @ e'"]) (simp add: append_params_def pv)
qed

text \<open>However many parameters are appended and whatever they hold, the URL of a start request keeps its beginning and stays
  inside its array of \<open>ulen\<close> bytes, terminator included.\<close>

theorem launch_url_in_bounds:
  assumes "length u < ulen"
  shows "length (strlcat (append_params ulen ps u) extra ulen) < ulen \<and>
    take (length u) (strlcat (append_params ulen ps u) extra ulen) = u"
proof -
  obtain e where "append_params ulen ps u = u @ e" "length (u @ e) < ulen"
    using append_params_extends [OF assms] by blast
  then show ?thesis by (auto simp: strlcat_def)
qed

theorem launch_url_in_bounds_witness:
  "length (strlcat (append_params 40 [(''mode'', ''640x480x60''), (''additionalStates'', ''1'')] ''https://h/launch?a=1'') ''&x=1'' 40) < 40"
  using launch_url_in_bounds [of "''https://h/launch?a=1''" 40 "[(''mode'', ''640x480x60''), (''additionalStates'', ''1'')]" "''&x=1''"]
  by simp

definition example_config :: stream_configuration where
  "example_config = LiInitializeStreamConfiguration\<lparr>st_width := 640, st_height := 480, st_fps := 60\<rparr>"

lemma yields_server: "yields sv (f sv) b sv' \<Longrightarrow> yields sv (bindE (asks gs_server) f) b sv'"
  by (simp add: yields_def with_server_def)

lemma yields_timeout: "yields sv (set_timeout_gs t) () sv"
  by (simp add: yields_def set_timeout_gs_def with_server_def)

lemma example_launch:
  "\<exists>t. start_launch env0 c 42 True False False 0 (example_client_state\<lparr>gs_randoms := k, gs_seeds := 1, gs_server := example_server\<lparr>sv_unsupported := True\<rparr>\<rparr>) = (Inr GS_OK, t)"
proof -
  let ?sv = "example_server\<lparr>sv_unsupported := True\<rparr>"
  let ?path = "client_path ''id'' ''u'' ''launch'' (Some (''appid='' @ show_int 42))"
  have i: "length (show_int 42) \<le> 11" by (rule length_show_int) (simp add: is_c_int_def int_min_def int_max_def)
  then have l: "length ?path < 1000" by (simp add: client_path_def)
  let ?u = "url_of True ''h'' (port_of True) ?path"
  have lu: "length ?u < 1100" using l length_port_of [of True] by (simp add: url_of_def)
  then have "length ?u < 4096" by simp
  from append_params_extends [OF this] obtain e where
    e: "append_params 4096 (start_params c True True False False 0) ?u = ?u @ e"
      "length e \<le> sum_list (map (\<lambda>(p, v). length p + 257) (start_params c True True False False 0))"
    by blast
  have le: "length e \<le> 2000" using e(2) by (simp add: start_params_def Let_def)
  have ue: "?u @ e = url_of True ''h'' (port_of True) (?path @ e)" by (simp add: url_of_def)
  have len: "length (?path @ e) < 4000" using l le by simp
  have sl: "?path @ e = CHR ''/'' # tl (?path @ e)" by (simp add: client_path_def)
  have env: "e_launch_params env0 = []" "alloc_data env0 = Some http_data_alloc"
    by (simp_all add: example_env_def alloc_data_def)
  have cat: "strlcat x [] n = x" for x n by (simp add: strlcat_def)
  have ok: "(''1'' = ''0'') = False" by simp
  have "text_inside ''sessionUrl0'' 0 example_answer = []" by (simp add: example_answer_def field_def)
  then have su: "\<exists>err. xml_search_ex (\<lambda>_. True) (\<lambda>_. (example_answer, None)) t ''sessionUrl0'' True e0 = ((GS_INVALID, None), err)" for t e0
    using search_text [of "\<lambda>_. True" "\<lambda>_. (example_answer, None)" t example_answer "''sessionUrl0''" True e0] by simp
  have session: "yields sv (search_in env0 answered True ''sessionUrl0'') (GS_INVALID, None) sv" for sv
    unfolding yields_def
  proof (intro allI impI)
    fix s assume s: "with_server sv s"
    obtain err where "xml_search_ex (\<lambda>_. True) (\<lambda>_. (example_answer, None)) (doc answered) ''sessionUrl0'' True (gs_err s) = ((GS_INVALID, None), err)"
      using su by blast
    with s show "\<exists>t. search_in env0 answered True ''sessionUrl0'' s = (Inr (GS_INVALID, None), t) \<and> with_server sv t"
      by (simp add: search_in_def example_env_def with_server_def)
  qed
  have launch: "(sv_currentGame ?sv = 0) = True" by (simp add: example_server_def)
  have inv: "(GS_INVALID = GS_OK) = False" by (simp add: gs_codes)
  have "yields ?sv (start_session env0 (Some (?u @ e)) http_data_alloc 42) GS_OK (?sv\<lparr>sv_currentGame := 42\<rparr>)"
    unfolding start_session_def status_or_leave_def ue
    apply (rule yields_bindE [OF yields_request [OF len sl]], simp only: run)
    apply (rule yields_bindE [OF yields_on_server])
    apply (rule yields_bindE [OF yields_bindE [OF yields_status [OF example_status]]], simp only: run, rule yields_retE)
    apply (rule yields_bindE [OF example_found(6)], simp only: run)
    apply (rule yields_bindE [OF yields_retE], simp only: run)
    apply (rule yields_bindE [OF yields_the_string], simp only: run ok)
    apply (rule yields_bindE [OF session], simp only: run inv, rule yields_retE)
    done
  then have "yields ?sv (start_launch env0 c 42 True False False 0) GS_OK (?sv\<lparr>sv_currentGame := 42\<rparr>)"
    unfolding start_launch_def Let_def
    apply (simp only: env run)
    apply (rule yields_server, simp only: launch run if_True)
    apply (rule yields_bindE [OF yields_timeout])
    apply (rule yields_bindE, rule yields_url)
       apply (simp add: example_server_def)
    using l apply simp
     apply simp
    apply (simp only: run env cat e(1))
    done
  moreover have "with_server ?sv (example_client_state\<lparr>gs_randoms := k, gs_seeds := 1, gs_server := ?sv\<rparr>)"
    by (simp add: with_server_def example_client_state_def example_handle_def)
  ultimately show ?thesis by (blast dest: yieldsD)
qed


section \<open>Quitting\<close>

definition quit_body :: "client_env \<Rightarrow> http_data \<Rightarrow> int gs" where
  "quit_body env d0 =
     bindE (construct_url env None 4096 True ''cancel'' None) (\<lambda>url.
     bindE (request env url d0) (\<lambda>(ret, d).
       if ret \<noteq> GS_OK then leaveE (Leave ret)
       else bindE (status_or_leave env d) (\<lambda>_.
         bindE (search_in env d False ''cancel'') (\<lambda>(ret, v).
           if ret \<noteq> GS_OK then leaveE (Leave ret)
           else bindE (the_string v) (\<lambda>t.
             if t = ''0'' then fail_gs GS_FAILED ''App quit request failed''
             else bindE (on_server (\<lambda>x. x\<lparr>sv_currentGame := 0\<rparr>)) (\<lambda>_. retE GS_OK))))))"

lemma quit_exit: "exit_keeps (quit_body env d0)"
proof -
  have f: "exit_keeps (fail_gs c m :: int gs)" "exit_keeps (leaveE e :: int gs)" for c m e
    by (intro exit_keeps_frames frames_server frame_rules)+
  have i: "(b \<Longrightarrow> exit_keeps m) \<Longrightarrow> (\<not> b \<Longrightarrow> exit_keeps n) \<Longrightarrow> exit_keeps (if b then m else n)" for b and m n :: "int gs"
    by simp
  show ?thesis
    unfolding quit_body_def
    by (intro exit_keeps_bindE i f exit_keeps_finish frames_server frame_rules)
      (auto intro!: exit_keeps_bindE i f exit_keeps_finish frames_server frame_rules split: prod.split)
qed

lemma quit_safe: "safe (about_server (\<lambda>_. True)) (quit_body env d0)"
  unfolding quit_body_def by (intro safe_rules) (simp_all add: GS_OK_codes)

lemma quit_result:
  assumes "quit_body env d0 s = (Inr r, t)"
  shows "r = GS_OK \<and> gs_server t = (gs_server s)\<lparr>sv_currentGame := 0\<rparr>"
proof -
  obtain url s1 d s2 s3 v s4 w s5 where
      1: "construct_url env None 4096 True ''cancel'' None s = (Inr url, s1)"
    and 2: "request env url d0 s1 = (Inr (GS_OK, d), s2)" and 3: "status_or_leave env d s2 = (Inr (), s3)"
    and 4: "search_in env d False ''cancel'' s3 = (Inr (GS_OK, v), s4)" and 5: "the_string v s4 = (Inr w, s5)"
    and 6: "r = GS_OK" "gs_server t = (gs_server s5)\<lparr>sv_currentGame := 0\<rparr>"
    using assms unfolding quit_body_def
    by (auto elim!: bindE_InrE simp: on_server_def retE_def split: if_splits)
  have "gs_server s5 = gs_server s"
    using framesD [OF construct_url_frames 1] framesD [OF request_frames 2] framesD [OF status_or_leave_frames 3]
      framesD [OF search_in_frames 4] framesD [OF the_string_frames [of core] 5] by (simp add: core_def)
  with 6 show ?thesis by simp
qed

text \<open>Quitting: only when \<open>gs_quit_app\<close> returns \<open>GS_OK\<close> is the running application forgotten; on every other outcome the
  record of the server is unchanged.\<close>

theorem gs_quit_app_outcomes:
  "case gs_quit_app env s of
     (Inr r, t) \<Rightarrow> gs_server t = (if r = GS_OK then (gs_server s)\<lparr>sv_currentGame := 0\<rparr> else gs_server s)
   | (Inl e, t) \<Rightarrow> gs_server t = gs_server s"
proof (cases "alloc_data env")
  case None
  then show ?thesis by (simp add: gs_quit_app_def error_gs_def gs_set_error_def GS_OK_codes)
next
  case (Some d0)
  then have q: "gs_quit_app env = at_cleanup (quit_body env d0)"
    by (simp add: gs_quit_app_def quit_body_def)
  obtain x t where x: "quit_body env d0 s = (x, t)" by fastforce
  show ?thesis
  proof (cases x)
    case (Inr r)
    with x quit_result show ?thesis by (simp add: q at_cleanup_def)
  next
    case (Inl e)
    then have "gs_server t = gs_server s" using exit_keepsD [OF quit_exit] x by blast
    moreover have "e \<noteq> Leave GS_OK"
      using safe_Leave [OF quit_safe, of s env d0 t] x Inl by (auto simp: about_server_def)
    ultimately show ?thesis using x Inl by (cases e) (auto simp: q at_cleanup_def)
  qed
qed

section \<open>A declined pairing\<close>

text \<open>The parameters of the first request of a pairing with the client in state \<open>s\<close>.\<close>

definition getcert_params :: "client_env \<Rightarrow> gs_state \<Rightarrow> string" where
  "getcert_params env s =
     pair_params @ ''phrase=getservercert&salt='' @ bytes_to_hex (e_random env (gs_randoms s) 16) @
     ''&clientcert='' @ cert_hex (gs_hnd s)"

text \<open>C34. A host that answers the first request of the pairing with \<open>paired\<close> other than \<open>1\<close> has declined, and the code stores that
  message, but \<open>gs_pair\<close> still returns \<open>GS_OK\<close>: the caller takes a pairing that did not happen for a success,
  and the host is not told to unpair.\<close>

theorem gs_pair_declined_returns_ok:
  assumes "e_seed env (gs_seeds s) = 0" and "\<not> sv_paired (gs_server s)" and "alloc_data env = Some d0"
    and "construct_url env None 5120 False ''pair'' (Some (getcert_params env s))
           (s\<lparr>gs_seeds := gs_seeds s + 1, gs_randoms := gs_randoms s + 1\<rparr>) = (Inr (Some url), s1)"
    and "request env (Some url) d0 s1 = (Inr (GS_OK, d), s2)"
    and "status_of env d s2 = (Inr GS_OK, s3)"
    and "search_in env d False ''paired'' s3 = (Inr (GS_OK, Some t), s4)" and "t \<noteq> ''1''"
  shows "\<exists>s'. gs_pair env p s = (Inr GS_OK, s') \<and> \<not> sv_paired (gs_server s') \<and>
    gs_errmsg (gs_err s') = ''Pairing was declined.'' \<and> gs_log s' = gs_log s4"
proof -
  let ?s0 = "s\<lparr>gs_seeds := gs_seeds s + 1\<rparr>" and ?salt = "e_random env (gs_randoms s) 16"
  let ?s0' = "s\<lparr>gs_seeds := gs_seeds s + 1, gs_randoms := gs_randoms s + 1\<rparr>"
  let ?s5 = "s4\<lparr>gs_err := snd (gs_set_error GS_FAILED (Some ''Pairing was declined.'') (gs_err s4))\<rparr>"
  have "pair_getcert env ?salt ?s0' = (Inl (Leave GS_OK), ?s5)"
    using assms by (simp add: pair_getcert_def bindE_def asks_def getcert_params_def the_string_def retE_def
        fail_keeping_def error_gs_def gs_set_error_def leaveE_def)
  moreover have "random_bytes env 16 ?s0 = (Inr ?salt, ?s0')"
    by (simp add: random_bytes_def)
  ultimately have "pair_stages env g p ?s0 = (Inl (Leave GS_OK), ?s5)" for g
    by (simp add: pair_stages_def bindE_def retE_def)
  then have "pair_body env p s = (Inl (Leave GS_OK), ?s5)"
    using assms(1,2) by (simp add: pair_body_def bindE_def ctr_drbg_seed_def asks_def)
  then have r: "gs_pair env p s = (Inr GS_OK, ?s5)"
    by (simp add: gs_pair_def bindE_def at_cleanup_def pair_cleanup_def retE_def)
  have "gs_server s4 = gs_server s"
    using framesD [OF construct_url_frames assms(4)] framesD [OF request_frames assms(5)]
      framesD [OF status_of_frames assms(6)] framesD [OF search_in_frames assms(7)] by (simp add: core_def)
  with r assms(2) show ?thesis by (simp add: gs_set_error_def snprintf_to_def)
qed

definition declined_answer :: "xml_event list" where
  "declined_answer = [Start ''root'' [(''status_code'', ''200'')]] @ field ''paired'' ''0'' @ [End ''root'']"

theorem gs_pair_declined_returns_ok_witness:
  "\<exists>s'. gs_pair (example_env declined_answer) ''1234'' example_client_state = (Inr GS_OK, s') \<and> \<not> sv_paired (gs_server s')"
proof -
  let ?env = "example_env declined_answer" and ?s = example_client_state
  let ?path = "client_path ''id'' ''u'' ''pair'' (Some (getcert_params ?env ?s))"
  let ?start = "?s\<lparr>gs_seeds := gs_seeds ?s + 1, gs_randoms := gs_randoms ?s + 1\<rparr>"
  have l: "length ?path < 4000"
    by (simp add: client_path_def getcert_params_def pair_params_def example_env_def example_client_state_def example_handle_def)
  have w: "with_server example_server ?start"
    using example_with_server by (simp add: with_server_def)
  obtain s1 where 1: "construct_url ?env None 5120 False ''pair'' (Some (getcert_params ?env ?s)) ?start =
      (Inr (Some (url_of False ''h'' (port_of False) ?path)), s1)" "with_server example_server s1"
    using yieldsD [OF yields_url [OF example_address l example_room] w] by blast
  obtain s2 where 2: "request ?env (Some (url_of False ''h'' (port_of False) ?path)) http_data_alloc s1 = (Inr (GS_OK, answered), s2)"
      "with_server example_server s2"
    using yieldsD [OF yields_request [OF l client_path_slash] 1(2)] by blast
  have "fst (fold status_event declined_answer (0, no_error)) = STATUS_OK" by code_simp
  then obtain s3 where 3: "status_of ?env answered s2 = (Inr GS_OK, s3)" "with_server example_server s3"
    using yieldsD [OF yields_status 2(2)] by blast
  have "text_inside ''paired'' 0 declined_answer = [''0'']" by (simp add: declined_answer_def field_def)
  then obtain s4 where 4: "search_in ?env answered False ''paired'' s3 = (Inr (GS_OK, Some ''0''), s4)"
    using yieldsD [OF yields_search [of "''paired''" declined_answer] 3(2)] by (auto simp: nul_def)
  have "e_seed ?env (gs_seeds ?s) = 0" "\<not> sv_paired (gs_server ?s)" "alloc_data ?env = Some http_data_alloc"
    by (simp_all add: example_env_def example_client_state_def example_server_def alloc_data_def)
  from gs_pair_declined_returns_ok [OF this 1(1) 2(1) 3(1) 4, of "''1234''"] show ?thesis by auto
qed

end
