(* ===== verification/Netcompat.thy ===== *)
theory Netcompat
  imports Prelude
begin

text \<open>
  \<open>src/wii/netcompat.c\<close>: the calls of the C library on sockets that libogc lacks or gets wrong, on top of its \<open>net_*\<close>
  functions. A program holds \<^emph>\<open>public\<close> descriptors, the \<open>net_*\<close> functions know only the \<^emph>\<open>internal\<close> index in the
  handle behind one; every call here translates. libogc and the time base are parameters. What the library
  answers may depend on the calls it got before; these calls are part of the state. A set of descriptors (\<open>fd_set\<close>) is a set
  of numbers; error numbers that come from the system are kept as \<open>IosError\<close>.
\<close>

unbundle bit_operations_syntax

section \<open>The time base\<close>

text \<open>The counter as the successive reads see it; its halves can only be read one after the other.\<close>

definition hi_word :: "u64 \<Rightarrow> u32" where "hi_word t = ucast (drop_bit 32 t)"
definition lo_word :: "u64 \<Rightarrow> u32" where "lo_word t = ucast t"

definition join_words :: "u32 \<Rightarrow> u32 \<Rightarrow> u64" where
  "join_words hi lo = push_bit 32 (ucast hi) OR ucast lo"

text \<open>The value and the number of the next read; the loop starts over when the upper half has changed in between.\<close>

partial_function (option) gettime :: "(nat \<Rightarrow> u64) \<Rightarrow> nat \<Rightarrow> (u64 \<times> nat) option" where
  "gettime tb i =
     (let hi = hi_word (tb i); lo = lo_word (tb (i + 1)); hi2 = hi_word (tb (i + 2))
      in if hi = hi2 then Some (join_words hi lo, i + 3) else gettime tb (i + 3))"

section \<open>The library\<close>

datatype errno_val = ENOTSOCK | EINVAL | ENOSYS | IosError int

type_synonym fd_sets = "int set \<times> int set \<times> int set"

datatype net_call =
    Net_send int "u8 list" int
  | Net_sendto int "u8 list" int "u8 list"
  | Net_select int fd_sets "(int \<times> int) option"
  | Net_nonblock int int

text \<open>
  \<open>nl_handle\<close> is what stands behind a public descriptor: the name of the device and the number in its \<open>fileStruct\<close>.
  \<open>nl_aton\<close> and \<open>nl_gethost\<close> are \<open>inet_aton\<close> and the first address \<open>gethostbyname\<close> finds.
\<close>

record net_layer =
  nl_handle :: "int \<Rightarrow> (string \<times> int) option"
  nl_send :: "net_call list \<Rightarrow> int \<Rightarrow> u8 list \<Rightarrow> int \<Rightarrow> int"
  nl_sendto :: "net_call list \<Rightarrow> int \<Rightarrow> u8 list \<Rightarrow> int \<Rightarrow> u8 list \<Rightarrow> int"
  nl_select :: "net_call list \<Rightarrow> int \<Rightarrow> fd_sets \<Rightarrow> (int \<times> int) option \<Rightarrow> int \<times> fd_sets"
  nl_nonblock :: "net_call list \<Rightarrow> int \<Rightarrow> int \<Rightarrow> int"
  nl_aton :: "string \<Rightarrow> u32 option"
  nl_gethost :: "string \<Rightarrow> u32 option"
  nl_O_NONBLOCK :: u32

record compat_state =
  net_calls :: "net_call list"
  errno :: "errno_val option"
  slept :: "u32 list"
  errCount :: u32

definition calls_net :: "net_call \<Rightarrow> compat_state \<Rightarrow> compat_state" where
  "calls_net c s = s\<lparr>net_calls := net_calls s @ [c]\<rparr>"

section \<open>Descriptors\<close>

definition to_net_fd :: "net_layer \<Rightarrow> int \<Rightarrow> int" where
  "to_net_fd nl fd =
     (case nl_handle nl fd of
        None \<Rightarrow> -1
      | Some (device, n) \<Rightarrow> if device \<noteq> ''soc'' then -1 else n)"

definition netcompat_netfd :: "net_layer \<Rightarrow> int \<Rightarrow> int" where
  "netcompat_netfd nl fd = to_net_fd nl fd"

section \<open>Sending\<close>

definition AF_INET :: nat where "AF_INET = 2"
definition AF_UNSPEC :: nat where "AF_UNSPEC = 0"
definition SOCK_STREAM :: nat where "SOCK_STREAM = 1"

text \<open>\<open>dest\<close> are the bytes of the address, \<open>None\<close> for \<open>NULL\<close>; \<open>addrlen\<close> is at most their number.\<close>

definition netcompat_sendto ::
  "net_layer \<Rightarrow> int \<Rightarrow> u8 list \<Rightarrow> int \<Rightarrow> u8 list option \<Rightarrow> int \<Rightarrow> compat_state \<Rightarrow> int \<times> compat_state" where
  "netcompat_sendto nl sockfd buf flags dest addrlen s =
     (let nfd = to_net_fd nl sockfd
      in if nfd < 0 then (-1, s\<lparr>errno := Some ENOTSOCK\<rparr>)
         else
           (case dest of
              None \<Rightarrow> (nl_send nl (net_calls s) nfd buf flags, calls_net (Net_send nfd buf flags) s)
            | Some d \<Rightarrow>
                if addrlen < 8 then (-1, s\<lparr>errno := Some EINVAL\<rparr>)
                else
                  (let waddr = (take 8 d)[0 := 8, 1 := of_nat AF_INET];
                       ret = nl_sendto nl (net_calls s) nfd buf flags waddr;
                       s1 = calls_net (Net_sendto nfd buf flags waddr) s
                   in if ret < 0 then (-1, s1\<lparr>errno := Some (IosError (- ret))\<rparr>) else (ret, s1))))"

section \<open>Waiting\<close>

definition mark :: "bool \<Rightarrow> int \<Rightarrow> int set \<Rightarrow> int set" where
  "mark b n S = (if b then insert n S else S)"

definition with_default :: "int set option \<Rightarrow> int set" where
  "with_default S = (case S of None \<Rightarrow> {} | Some T \<Rightarrow> T)"

text \<open>One descriptor of the first loop of \<open>select\<close>: the highest internal one and the three sets of internal ones.\<close>

definition watch_fd :: "net_layer \<Rightarrow> fd_sets \<Rightarrow> int \<Rightarrow> int \<times> fd_sets \<Rightarrow> int \<times> fd_sets" where
  "watch_fd nl asked fd acc =
     (case (asked, acc) of
        ((r0, w0, e0), (maxfd, r, w, e)) \<Rightarrow>
          (let nfd = to_net_fd nl fd
           in if nfd < 0 then acc
              else (max maxfd nfd, mark (fd \<in> r0) nfd r, mark (fd \<in> w0) nfd w, mark (fd \<in> e0) nfd e)))"

text \<open>The last loops: the bits below \<open>nfds\<close> are set or cleared.\<close>

definition answer_fd :: "net_layer \<Rightarrow> int set \<Rightarrow> int \<Rightarrow> int set \<Rightarrow> int set" where
  "answer_fd nl ready fd S =
     (let nfd = to_net_fd nl fd in if 0 \<le> nfd \<and> nfd \<in> ready then insert fd S else S - {fd})"

definition answer_fds :: "net_layer \<Rightarrow> int \<Rightarrow> int set \<Rightarrow> int set option \<Rightarrow> int set option" where
  "answer_fds nl nfds ready asked = map_option (fold (answer_fd nl ready) [0..nfds - 1]) asked"

text \<open>An error of \<open>net_select\<close> counts as a timeout, after the time that was asked for.\<close>

definition select ::
  "net_layer \<Rightarrow> int \<Rightarrow> int set option \<Rightarrow> int set option \<Rightarrow> int set option \<Rightarrow> (int \<times> int) option \<Rightarrow> compat_state \<Rightarrow>
     int \<times> (int set option \<times> int set option \<times> int set option) \<times> compat_state" where
  "select nl nfds rd wr ex timeout s =
     (let asked = (with_default rd, with_default wr, with_default ex);
          (maxfd, sets) = fold (watch_fd nl asked) [0..nfds - 1] (0, {}, {}, {});
          (ret, (r, w, e)) = nl_select nl (net_calls s) (maxfd + 1) sets timeout;
          s1 = calls_net (Net_select (maxfd + 1) sets timeout) s
      in if ret < 0 then
           (let s2 = (case timeout of
                        None \<Rightarrow> s1
                      | Some (sec, usec) \<Rightarrow>
                          (let ms = sec * 1000 + c_div usec 1000
                           in if 0 < ms then s1\<lparr>slept := slept s1 @ [word_of_int (ms * 1000)]\<rparr> else s1))
            in (0, (answer_fds nl nfds {} rd, answer_fds nl nfds {} wr, answer_fds nl nfds {} ex), s2))
         else (ret, (answer_fds nl nfds r rd, answer_fds nl nfds w wr, answer_fds nl nfds e ex), s1))"

datatype poll_flag = POLLIN | POLLOUT | POLLERR | POLLHUP

record pollfd =
  pfd_fd :: int
  pfd_events :: "poll_flag set"
  pfd_revents :: "poll_flag set"

definition poll_net_fd :: "net_layer \<Rightarrow> pollfd \<Rightarrow> int" where
  "poll_net_fd nl p = (if pfd_fd p < 0 then -1 else to_net_fd nl (pfd_fd p))"

definition watch_poll :: "net_layer \<Rightarrow> pollfd \<Rightarrow> int \<times> fd_sets \<Rightarrow> int \<times> fd_sets" where
  "watch_poll nl p acc =
     (case acc of (maxfd, r, w, e) \<Rightarrow>
        (let nfd = poll_net_fd nl p
         in if nfd < 0 then acc
            else (max maxfd nfd, mark (POLLIN \<in> pfd_events p) nfd r, mark (POLLOUT \<in> pfd_events p) nfd w,
                  mark (POLLERR \<in> pfd_events p \<or> POLLHUP \<in> pfd_events p) nfd e)))"

definition answer_poll :: "net_layer \<Rightarrow> fd_sets \<Rightarrow> pollfd \<Rightarrow> pollfd" where
  "answer_poll nl ready p =
     (case ready of (r, w, e) \<Rightarrow>
        (let nfd = poll_net_fd nl p
         in p\<lparr>pfd_revents :=
               (if nfd < 0 then {}
                else (if nfd \<in> r then {POLLIN} else {}) \<union> (if nfd \<in> w then {POLLOUT} else {}) \<union> (if nfd \<in> e then {POLLERR} else {}))\<rparr>))"

definition poll :: "net_layer \<Rightarrow> pollfd list \<Rightarrow> int \<Rightarrow> compat_state \<Rightarrow> int \<times> pollfd list \<times> compat_state" where
  "poll nl fds timeout s =
     (let tvp = (if 0 \<le> timeout then Some (timeout div 1000, timeout mod 1000 * 1000) else None);
          (maxfd, sets) = fold (watch_poll nl) fds (0, {}, {}, {});
          (ret, ready) = nl_select nl (net_calls s) (maxfd + 1) sets tvp;
          s1 = calls_net (Net_select (maxfd + 1) sets tvp) s
      in if ret < 0 then
           (let s2 = s1\<lparr>errCount := errCount s1 + 1\<rparr>;
                s3 = (if 0 \<le> timeout then s2\<lparr>slept := slept s2 @ [word_of_int (timeout * 1000)]\<rparr> else s2)
            in (0, map (answer_poll nl ({}, {}, {})) fds, s3))
         else (ret, map (answer_poll nl ready) fds, s1))"

section \<open>Blocking or not\<close>

definition set_nonblock :: "net_layer \<Rightarrow> int \<Rightarrow> int \<Rightarrow> compat_state \<Rightarrow> int \<times> compat_state" where
  "set_nonblock nl fd on s =
     (let nfd = to_net_fd nl fd
      in if nfd < 0 then (-1, s\<lparr>errno := Some ENOTSOCK\<rparr>)
         else (nl_nonblock nl (net_calls s) nfd on, calls_net (Net_nonblock nfd on) s))"

datatype ioctl_request = FIONBIO | Other_request int

definition ioctl :: "net_layer \<Rightarrow> int \<Rightarrow> ioctl_request \<Rightarrow> int \<Rightarrow> compat_state \<Rightarrow> int \<times> compat_state" where
  "ioctl nl fd request arg s =
     (case request of FIONBIO \<Rightarrow> set_nonblock nl fd arg s | Other_request r \<Rightarrow> (-1, s\<lparr>errno := Some ENOSYS\<rparr>))"

datatype fcntl_cmd = F_SETFL | F_GETFL | Other_cmd int

definition fcntl :: "net_layer \<Rightarrow> int \<Rightarrow> fcntl_cmd \<Rightarrow> u32 \<Rightarrow> compat_state \<Rightarrow> int \<times> compat_state" where
  "fcntl nl fd cmd arg s =
     (case cmd of
        F_SETFL \<Rightarrow> set_nonblock nl fd (if arg AND nl_O_NONBLOCK nl \<noteq> 0 then 1 else 0) s
      | F_GETFL \<Rightarrow> (0, s)
      | Other_cmd c \<Rightarrow> (-1, s\<lparr>errno := Some ENOSYS\<rparr>))"

section \<open>Addresses\<close>

datatype eai = EAI_OK | EAI_NONAME | EAI_ADDRFAMILY | EAI_MEMORY

text \<open>The one entry of the answer; the port is in network order, which is the order of the console.\<close>

record addrinfo =
  ai_family :: nat
  ai_socktype :: nat
  ai_addr :: u32
  ai_port :: u16

text \<open>\<open>hints\<close> is the family and the type that are asked for, \<open>room\<close> whether both allocations succeed.\<close>

definition getaddrinfo ::
  "net_layer \<Rightarrow> bool \<Rightarrow> string option \<Rightarrow> string option \<Rightarrow> (nat \<times> nat) option \<Rightarrow> eai \<times> addrinfo option" where
  "getaddrinfo nl room node service hints =
     (case node of
        None \<Rightarrow> (EAI_NONAME, None)
      | Some n \<Rightarrow>
          if (case hints of None \<Rightarrow> False | Some (fam, _) \<Rightarrow> fam \<noteq> AF_UNSPEC \<and> fam \<noteq> AF_INET) then (EAI_ADDRFAMILY, None)
          else
            (case (case nl_aton nl n of Some a \<Rightarrow> Some a | None \<Rightarrow> nl_gethost nl n) of
               None \<Rightarrow> (EAI_NONAME, None)
             | Some a \<Rightarrow>
                 if \<not> room then (EAI_MEMORY, None)
                 else
                   (EAI_OK, Some \<lparr>ai_family = AF_INET,
                      ai_socktype = (case hints of Some (_, t) \<Rightarrow> if t \<noteq> 0 then t else SOCK_STREAM | None \<Rightarrow> SOCK_STREAM),
                      ai_addr = a, ai_port = (case service of None \<Rightarrow> 0 | Some p \<Rightarrow> word_of_int (atoi p))\<rparr>)))"

section \<open>Reading the time\<close>

lemma hi_word_mono: "x \<le> y \<Longrightarrow> hi_word x \<le> hi_word y"
proof -
  have h: "unat (hi_word t) = unat t div 2 ^ 32" for t :: u64
  proof -
    have "unat t < 2 ^ 64" by (rule order_less_le_trans [OF unsigned_less]) simp
    then have "unat t div 2 ^ 32 < 2 ^ 32" by (simp add: less_mult_imp_div_less)
    then show ?thesis by (simp add: hi_word_def drop_bit_eq_div unsigned_ucast_eq unat_div take_bit_nat_eq_self)
  qed
  assume "x \<le> y"
  then show ?thesis by (simp add: word_le_nat_alt h div_le_mono)
qed

lemma join_halves: "join_words (hi_word t) (lo_word t) = t"
  by (rule bit_word_eqI)
    (auto simp: join_words_def hi_word_def lo_word_def bit_or_iff bit_push_bit_iff bit_ucast_iff bit_drop_bit_eq dest: bit_imp_le_length)

text \<open>C39. \<open>gettime\<close> returns, although its loop has no bound of its own, and what it returns is a value the counter had between
  its reads: when the counter does not run backwards, a carry between the two halves is never seen half done.\<close>

theorem gettime_returns:
  assumes "\<And>i j. i \<le> j \<Longrightarrow> tb i \<le> tb j"
  shows "\<exists>k \<ge> i. gettime tb i = Some (tb (k + 1), k + 3)"
proof (induction "2 ^ 32 - unat (hi_word (tb i))" arbitrary: i rule: less_induct)
  case less
  have up: "hi_word (tb i) \<le> hi_word (tb (i + 1))" "hi_word (tb (i + 1)) \<le> hi_word (tb (i + 2))"
      "hi_word (tb (i + 2)) \<le> hi_word (tb (i + 3))"
    by (intro hi_word_mono assms; simp)+
  show ?case
  proof (cases "hi_word (tb i) = hi_word (tb (i + 2))")
    case True
    then have "hi_word (tb (i + 1)) = hi_word (tb i)" using up by simp
    then have "gettime tb i = Some (tb (i + 1), i + 3)"
      using True join_halves [of "tb (i + 1)"] by (simp add: gettime.simps [of tb i] Let_def)
    then show ?thesis by blast
  next
    case False
    then have "hi_word (tb i) < hi_word (tb (i + 3))" using up by simp
    then have "unat (hi_word (tb i)) < unat (hi_word (tb (i + 3)))" by (simp add: word_less_nat_alt)
    moreover have "unat (hi_word (tb (i + 3))) < 2 ^ 32" using unsigned_less [of "hi_word (tb (i + 3))"] by simp
    ultimately have "2 ^ 32 - unat (hi_word (tb (i + 3))) < 2 ^ 32 - unat (hi_word (tb i))" by linarith
    from less [OF this] obtain k where "i + 3 \<le> k" "gettime tb (i + 3) = Some (tb (k + 1), k + 3)" by blast
    moreover have "gettime tb i = gettime tb (i + 3)" using False by (simp add: gettime.simps [of tb i] Let_def)
    ultimately show ?thesis by (intro exI [of _ k]) simp
  qed
qed

text \<open>A counter whose upper half changes between the first reads.\<close>

definition example_counter :: "nat \<Rightarrow> u64" where
  "example_counter i = (if i = 0 then 0xffffffff else 0x100000000)"

theorem gettime_returns_witness: "gettime example_counter 0 = Some (0x100000000, 6)"
proof -
  have "\<And>i j. i \<le> j \<Longrightarrow> example_counter i \<le> example_counter j" by (auto simp: example_counter_def)
  from gettime_returns [where tb = example_counter and i = 0, OF this] obtain k where k: "gettime example_counter 0 = Some (example_counter (k + 1), k + 3)" by blast
  moreover have "gettime example_counter 0 = gettime example_counter 3"
    by (simp add: gettime.simps [of example_counter 0] example_counter_def hi_word_def)
  moreover have "gettime example_counter 3 = Some (0x100000000, 6)"
    by (simp add: gettime.simps [of example_counter 3] example_counter_def hi_word_def lo_word_def join_words_def)
  ultimately show ?thesis by simp
qed

end
