(* ===== verification/NetcompatFacts.thy ===== *)
theory NetcompatFacts
  imports Netcompat
begin

text \<open>
  The translation between public and internal descriptors is exact: on top of a \<open>net_select\<close> that watches internal sockets,
  \<open>select\<close> and \<open>poll\<close> answer for the public ones. The result of \<open>poll\<close> counts events, not descriptors.
\<close>

unbundle bit_operations_syntax

section \<open>The library's select\<close>

type_synonym readiness = "(int \<Rightarrow> bool) \<times> (int \<Rightarrow> bool) \<times> (int \<Rightarrow> bool)"

definition only_ready :: "(int \<Rightarrow> bool) \<Rightarrow> int \<Rightarrow> int set \<Rightarrow> int set" where
  "only_ready ready n S = {f \<in> S. f < n \<and> ready f}"

text \<open>\<open>net_select\<close> looks at the internal sockets below its first argument and keeps those that are ready; it counts them.\<close>

definition selects_internally :: "net_layer \<Rightarrow> readiness \<Rightarrow> bool" where
  "selects_internally nl ready \<longleftrightarrow>
     (case ready of (rd, wr, ex) \<Rightarrow>
        \<forall>cs n r w e tv. nl_select nl cs n (r, w, e) tv =
          (let r' = only_ready rd n r; w' = only_ready wr n w; e' = only_ready ex n e
           in (int (card r' + card w' + card e'), (r', w', e'))))"

section \<open>select\<close>

definition net_image :: "net_layer \<Rightarrow> int list \<Rightarrow> int set \<Rightarrow> int set" where
  "net_image nl xs S = to_net_fd nl ` {fd \<in> set xs. fd \<in> S \<and> 0 \<le> to_net_fd nl fd}"

lemma net_image_Cons:
  "net_image nl (x # xs) S = mark (x \<in> S \<and> 0 \<le> to_net_fd nl x) (to_net_fd nl x) (net_image nl xs S)"
  by (auto simp: net_image_def mark_def)

lemma mark_Un: "mark b n S \<union> T = S \<union> mark b n T"
  by (simp add: mark_def)

lemma watch_fds:
  "\<exists>m'. fold (watch_fd nl (r0, w0, e0)) xs (m, r, w, e) =
     (m', r \<union> net_image nl xs r0, w \<union> net_image nl xs w0, e \<union> net_image nl xs e0) \<and> m \<le> m' \<and>
     (\<forall>fd \<in> set xs. to_net_fd nl fd \<le> m' \<or> to_net_fd nl fd < 0)"
proof (induction xs arbitrary: m r w e)
  case Nil
  then show ?case by (simp add: net_image_def)
next
  case (Cons x xs)
  define n where "n = to_net_fd nl x"
  show ?case
  proof (cases "n < 0")
    case True
    with Cons.IH [of m r w e] show ?thesis by (auto simp: watch_fd_def net_image_Cons mark_def n_def [symmetric])
  next
    case False
    with Cons.IH [of "max m n" "mark (x \<in> r0) n r" "mark (x \<in> w0) n w" "mark (x \<in> e0) n e"]
    show ?thesis by (auto simp: watch_fd_def net_image_Cons mark_Un n_def [symmetric])
  qed
qed

lemma answer_all:
  "fold (answer_fd nl ready) xs S =
     {fd. if fd \<in> set xs then 0 \<le> to_net_fd nl fd \<and> to_net_fd nl fd \<in> ready else fd \<in> S}"
proof (induction xs arbitrary: S)
  case (Cons x xs)
  have "fd \<in> answer_fd nl ready x S \<longleftrightarrow> (if fd = x then 0 \<le> to_net_fd nl x \<and> to_net_fd nl x \<in> ready else fd \<in> S)" for fd
    by (auto simp: answer_fd_def Let_def)
  with Cons.IH show ?case by auto
qed simp

text \<open>The public descriptors of a set that are sockets and ready.\<close>

definition ready_fds :: "net_layer \<Rightarrow> (int \<Rightarrow> bool) \<Rightarrow> int set \<Rightarrow> int set" where
  "ready_fds nl ready S = {fd \<in> S. 0 \<le> to_net_fd nl fd \<and> ready (to_net_fd nl fd)}"

text \<open>Different sockets stand for different internal ones.\<close>

definition distinct_sockets :: "net_layer \<Rightarrow> int \<Rightarrow> bool" where
  "distinct_sockets nl nfds \<longleftrightarrow> inj_on (to_net_fd nl) {fd \<in> set [0..nfds - 1]. 0 \<le> to_net_fd nl fd}"

lemma ready_image:
  fixes ready :: "int \<Rightarrow> bool"
  assumes "distinct_sockets nl nfds" and "S \<subseteq> {0..<nfds}"
    and "\<forall>fd \<in> set [0..nfds - 1]. to_net_fd nl fd \<le> m \<or> to_net_fd nl fd < 0"
  defines "A \<equiv> only_ready ready (m + 1) (net_image nl [0..nfds - 1] S)"
  shows "card A = card (ready_fds nl ready S)" "fold (answer_fd nl A) [0..nfds - 1] S = ready_fds nl ready S"
proof -
  have range: "S \<subseteq> set [0..nfds - 1]" using assms(2) by auto
  then have A: "A = to_net_fd nl ` ready_fds nl ready S"
    using assms(3) by (fastforce simp: A_def only_ready_def net_image_def ready_fds_def)
  have inj: "inj_on (to_net_fd nl) (ready_fds nl ready S)"
    using assms(1) unfolding distinct_sockets_def by (rule inj_on_subset) (use range in \<open>auto simp: ready_fds_def\<close>)
  show "card A = card (ready_fds nl ready S)" unfolding A by (rule card_image [OF inj])
  have "to_net_fd nl fd \<in> A \<and> 0 \<le> to_net_fd nl fd \<longleftrightarrow> fd \<in> ready_fds nl ready S" if fd: "fd \<in> set [0..nfds - 1]" for fd
  proof
    assume a: "to_net_fd nl fd \<in> A \<and> 0 \<le> to_net_fd nl fd"
    then obtain g where g: "g \<in> ready_fds nl ready S" "to_net_fd nl fd = to_net_fd nl g" unfolding A by blast
    then have "g \<in> {fd \<in> set [0..nfds - 1]. 0 \<le> to_net_fd nl fd}" using range by (auto simp: ready_fds_def)
    then have "fd = g" using assms(1) a fd g(2) unfolding distinct_sockets_def by (auto dest: inj_onD)
    with g(1) show "fd \<in> ready_fds nl ready S" by simp
  qed (auto simp: A ready_fds_def)
  moreover have "fd \<in> S \<Longrightarrow> fd \<in> set [0..nfds - 1]" for fd using range by blast
  ultimately show "fold (answer_fd nl A) [0..nfds - 1] S = ready_fds nl ready S"
    unfolding answer_all by (auto simp: ready_fds_def)
qed

text \<open>C15. \<open>select\<close> on public descriptors is the \<open>select\<close> that the sockets behind them deserve: when different descriptors are different
  sockets and the library's \<open>net_select\<close> answers for internal sockets, the three sets keep exactly the descriptors
  whose socket is ready, the result is their number, and one call was made that watched all of them.\<close>

theorem select_answers:
  assumes "selects_internally nl (rd, wr, ex)" and "distinct_sockets nl nfds"
    and "R \<subseteq> {0..<nfds}" "W \<subseteq> {0..<nfds}" "E \<subseteq> {0..<nfds}"
  shows "\<exists>t. select nl nfds (Some R) (Some W) (Some E) tv s =
    (int (card (ready_fds nl rd R) + card (ready_fds nl wr W) + card (ready_fds nl ex E)),
     (Some (ready_fds nl rd R), Some (ready_fds nl wr W), Some (ready_fds nl ex E)), t) \<and>
    length (net_calls t) = length (net_calls s) + 1 \<and> slept t = slept s \<and> errno t = errno s"
proof -
  let ?i = "net_image nl [0..nfds - 1]"
  obtain m where m: "fold (watch_fd nl (R, W, E)) [0..nfds - 1] (0, {}, {}, {}) = (m, ?i R, ?i W, ?i E)"
      "\<forall>fd \<in> set [0..nfds - 1]. to_net_fd nl fd \<le> m \<or> to_net_fd nl fd < 0"
    using watch_fds [of nl R W E "[0..nfds - 1]" 0 "{}" "{}" "{}"] by auto
  note r = ready_image [OF assms(2) _ m(2)]
  have "nl_select nl cs (m + 1) (?i R, ?i W, ?i E) tv =
      (int (card (ready_fds nl rd R) + card (ready_fds nl wr W) + card (ready_fds nl ex E)),
       (only_ready rd (m + 1) (?i R), only_ready wr (m + 1) (?i W), only_ready ex (m + 1) (?i E)))" for cs
    using assms(1) r(1) [OF assms(3)] r(1) [OF assms(4)] r(1) [OF assms(5)] by (simp add: selects_internally_def Let_def)
  then show ?thesis
    using m(1) r(2) [OF assms(3)] r(2) [OF assms(4)] r(2) [OF assms(5)]
    by (simp add: select_def with_default_def answer_fds_def calls_net_def)
qed

text \<open>Descriptors 3 and 4 are the internal sockets 0 and 1; 4 is readable.\<close>

definition example_net :: net_layer where
  "example_net =
     \<lparr>nl_handle = (\<lambda>fd. if fd = 3 then Some (''soc'', 0) else if fd = 4 then Some (''soc'', 1) else if fd = 1 then Some (''stdout'', 7) else None),
      nl_send = (\<lambda>cs fd bs fl. int (length bs)), nl_sendto = (\<lambda>cs fd bs fl a. int (length bs)),
      nl_select = (\<lambda>cs n (r, w, e) tv.
        let r' = only_ready (\<lambda>f. f = 1) n r; w' = only_ready (\<lambda>f. True) n w; e' = only_ready (\<lambda>f. False) n e
        in (int (card r' + card w' + card e'), (r', w', e'))),
      nl_nonblock = (\<lambda>cs fd on. 0), nl_aton = (\<lambda>n. None), nl_gethost = (\<lambda>n. None), nl_O_NONBLOCK = 0x4000\<rparr>"

definition example_compat :: compat_state where
  "example_compat = \<lparr>net_calls = [], errno = None, slept = [], errCount = 0\<rparr>"

lemma example_selects: "selects_internally example_net (\<lambda>f. f = 1, \<lambda>f. True, \<lambda>f. False)"
  by (simp add: selects_internally_def example_net_def)

lemma example_net_fd:
  "to_net_fd example_net fd = (if fd = 3 then 0 else if fd = 4 then 1 else -1)"
  by (simp add: to_net_fd_def example_net_def)

theorem select_answers_witness:
  "\<exists>t. select example_net 5 (Some {1, 3, 4}) (Some {}) (Some {3}) None example_compat = (1, (Some {4}, Some {}, Some {}), t)"
proof -
  have d: "distinct_sockets example_net 5" by (auto simp: distinct_sockets_def inj_on_def example_net_fd)
  have "ready_fds example_net (\<lambda>f. f = 1) {1, 3, 4} = {4}" by (auto simp: ready_fds_def example_net_fd)
  with select_answers [OF example_selects d, of "{1, 3, 4}" "{}" "{3}" None example_compat] show ?thesis
    by (auto simp: ready_fds_def)
qed

section \<open>poll\<close>

definition poll_image :: "net_layer \<Rightarrow> pollfd list \<Rightarrow> (pollfd \<Rightarrow> bool) \<Rightarrow> int set" where
  "poll_image nl fds P = poll_net_fd nl ` {p \<in> set fds. 0 \<le> poll_net_fd nl p \<and> P p}"

lemma poll_image_Cons:
  "poll_image nl (p # fds) P = mark (0 \<le> poll_net_fd nl p \<and> P p) (poll_net_fd nl p) (poll_image nl fds P)"
  by (auto simp: poll_image_def mark_def)

definition wants_error :: "pollfd \<Rightarrow> bool" where
  "wants_error p \<longleftrightarrow> POLLERR \<in> pfd_events p \<or> POLLHUP \<in> pfd_events p"

lemma watch_polls:
  "\<exists>m'. fold (watch_poll nl) fds (m, r, w, e) =
     (m', r \<union> poll_image nl fds (\<lambda>p. POLLIN \<in> pfd_events p), w \<union> poll_image nl fds (\<lambda>p. POLLOUT \<in> pfd_events p),
      e \<union> poll_image nl fds wants_error) \<and> m \<le> m' \<and> (\<forall>p \<in> set fds. poll_net_fd nl p \<le> m' \<or> poll_net_fd nl p < 0)"
proof (induction fds arbitrary: m r w e)
  case Nil
  then show ?case by (simp add: poll_image_def)
next
  case (Cons p fds)
  define n where "n = poll_net_fd nl p"
  show ?case
  proof (cases "n < 0")
    case True
    with Cons.IH [of m r w e] show ?thesis by (auto simp: watch_poll_def poll_image_Cons mark_def n_def [symmetric])
  next
    case False
    with Cons.IH [of "max m n" "mark (POLLIN \<in> pfd_events p) n r" "mark (POLLOUT \<in> pfd_events p) n w" "mark (wants_error p) n e"]
    show ?thesis by (auto simp: watch_poll_def poll_image_Cons mark_Un wants_error_def n_def [symmetric])
  qed
qed

definition distinct_polls :: "net_layer \<Rightarrow> pollfd list \<Rightarrow> bool" where
  "distinct_polls nl fds \<longleftrightarrow> distinct (map (poll_net_fd nl) (filter (\<lambda>p. 0 \<le> poll_net_fd nl p) fds))"

lemma poll_only_ready:
  assumes "distinct_polls nl fds" and "\<forall>p \<in> set fds. poll_net_fd nl p \<le> m \<or> poll_net_fd nl p < 0"
  shows "card (only_ready ready (m + 1) (poll_image nl fds P)) =
      length (filter (\<lambda>p. 0 \<le> poll_net_fd nl p \<and> P p \<and> ready (poll_net_fd nl p)) fds)"
    and "p \<in> set fds \<Longrightarrow> 0 \<le> poll_net_fd nl p \<Longrightarrow>
      poll_net_fd nl p \<in> only_ready ready (m + 1) (poll_image nl fds P) \<longleftrightarrow> P p \<and> ready (poll_net_fd nl p)"
proof -
  let ?n = "poll_net_fd nl"
  let ?Q = "\<lambda>p. 0 \<le> ?n p \<and> P p \<and> ready (?n p)"
  have eq: "only_ready ready (m + 1) (poll_image nl fds P) = set (map ?n (filter ?Q fds))"
    using assms(2) by (fastforce simp: only_ready_def poll_image_def)
  have "filter ?Q fds = filter ?Q (filter (\<lambda>p. 0 \<le> ?n p) fds)" by (simp cong: conj_cong)
  then have "distinct (map ?n (filter ?Q fds))"
    using assms(1) distinct_map_filter [of ?n "filter (\<lambda>p. 0 \<le> ?n p) fds" ?Q] unfolding distinct_polls_def by simp
  from distinct_card [OF this] show "card (only_ready ready (m + 1) (poll_image nl fds P)) = length (filter ?Q fds)"
    unfolding eq by simp
  have inj: "inj_on ?n {p \<in> set fds. 0 \<le> ?n p}" using assms(1) unfolding distinct_polls_def by (simp add: distinct_map)
  show "?n p \<in> only_ready ready (m + 1) (poll_image nl fds P) \<longleftrightarrow> P p \<and> ready (?n p)" if p: "p \<in> set fds" "0 \<le> ?n p"
  proof
    assume "?n p \<in> only_ready ready (m + 1) (poll_image nl fds P)"
    then obtain q where q: "q \<in> set fds" "?Q q" "?n p = ?n q" unfolding eq by auto
    then have "p = q" using inj p by (auto dest: inj_onD)
    with q show "P p \<and> ready (?n p)" by simp
  qed (use p in \<open>auto simp: eq\<close>)
qed

text \<open>The events of an entry that have occurred.\<close>

definition occurred :: "net_layer \<Rightarrow> readiness \<Rightarrow> pollfd \<Rightarrow> poll_flag set" where
  "occurred nl ready p =
     (case ready of (rd, wr, ex) \<Rightarrow>
        (let n = poll_net_fd nl p
         in if n < 0 then {}
            else (if POLLIN \<in> pfd_events p \<and> rd n then {POLLIN} else {}) \<union> (if POLLOUT \<in> pfd_events p \<and> wr n then {POLLOUT} else {}) \<union>
                 (if wants_error p \<and> ex n then {POLLERR} else {})))"

lemma count_occurred:
  "length (filter (\<lambda>p. 0 \<le> poll_net_fd nl p \<and> POLLIN \<in> pfd_events p \<and> rd (poll_net_fd nl p)) fds) +
   length (filter (\<lambda>p. 0 \<le> poll_net_fd nl p \<and> POLLOUT \<in> pfd_events p \<and> wr (poll_net_fd nl p)) fds) +
   length (filter (\<lambda>p. 0 \<le> poll_net_fd nl p \<and> wants_error p \<and> ex (poll_net_fd nl p)) fds) =
   sum_list (map (\<lambda>p. card (occurred nl (rd, wr, ex) p)) fds)"
proof (induction fds)
  case (Cons p fds)
  show ?case
  proof (cases "poll_net_fd nl p < 0")
    case True
    with Cons.IH show ?thesis by (simp add: occurred_def)
  next
    case False
    then have "card (occurred nl (rd, wr, ex) p) =
        (if POLLIN \<in> pfd_events p \<and> rd (poll_net_fd nl p) then 1 else 0) + (if POLLOUT \<in> pfd_events p \<and> wr (poll_net_fd nl p) then 1 else 0) +
        (if wants_error p \<and> ex (poll_net_fd nl p) then 1 else 0)"
      by (simp add: occurred_def Let_def)
    with Cons.IH False show ?thesis by simp
  qed
qed simp

text \<open>C16. \<open>poll\<close> reports for each entry exactly the events that were asked for and have occurred on the socket behind it, and nothing for an entry that
  is no socket. Its result is the number of these events over all entries, not the number of entries that have some,
  as a caller of \<open>poll\<close> may expect: one descriptor that can be read and written counts twice.\<close>

theorem poll_answers:
  assumes "selects_internally nl (rd, wr, ex)" and "distinct_polls nl fds"
  shows "\<exists>t. poll nl fds timeout s =
    (int (sum_list (map (\<lambda>p. card (occurred nl (rd, wr, ex) p)) fds)),
     map (\<lambda>p. p\<lparr>pfd_revents := occurred nl (rd, wr, ex) p\<rparr>) fds, t)"
proof -
  define r w e where "r = poll_image nl fds (\<lambda>p. POLLIN \<in> pfd_events p)" and "w = poll_image nl fds (\<lambda>p. POLLOUT \<in> pfd_events p)"
    and "e = poll_image nl fds wants_error"
  obtain m where m: "fold (watch_poll nl) fds (0, {}, {}, {}) = (m, r, w, e)"
      "\<forall>p \<in> set fds. poll_net_fd nl p \<le> m \<or> poll_net_fd nl p < 0"
    using watch_polls [of nl fds 0 "{}" "{}" "{}"] by (auto simp: r_def w_def e_def)
  define R W E where "R = only_ready rd (m + 1) r" and "W = only_ready wr (m + 1) w" and "E = only_ready ex (m + 1) e"
  have "nl_select nl cs (m + 1) (r, w, e) tv = (int (sum_list (map (\<lambda>p. card (occurred nl (rd, wr, ex) p)) fds)), (R, W, E))" for cs tv
    using assms(1) poll_only_ready(1) [OF assms(2) m(2)] count_occurred [of nl rd fds wr ex]
    by (simp add: selects_internally_def Let_def R_def W_def E_def r_def w_def e_def)
  moreover have "answer_poll nl (R, W, E) p = p\<lparr>pfd_revents := occurred nl (rd, wr, ex) p\<rparr>" if "p \<in> set fds" for p
    using poll_only_ready(2) [OF assms(2) m(2) that]
    by (auto simp: answer_poll_def occurred_def Let_def R_def W_def E_def r_def w_def e_def)
  ultimately show ?thesis using m(1) by (simp add: poll_def Let_def)
qed

theorem poll_answers_witness:
  "\<exists>t. poll example_net [\<lparr>pfd_fd = 4, pfd_events = {POLLIN, POLLOUT}, pfd_revents = {}\<rparr>, \<lparr>pfd_fd = 1, pfd_events = {POLLIN}, pfd_revents = {}\<rparr>]
       0 example_compat =
     (2, [\<lparr>pfd_fd = 4, pfd_events = {POLLIN, POLLOUT}, pfd_revents = {POLLIN, POLLOUT}\<rparr>,
          \<lparr>pfd_fd = 1, pfd_events = {POLLIN}, pfd_revents = {}\<rparr>], t)"
proof -
  let ?fds = "[\<lparr>pfd_fd = 4, pfd_events = {POLLIN, POLLOUT}, pfd_revents = {}\<rparr>, \<lparr>pfd_fd = 1, pfd_events = {POLLIN}, pfd_revents = {}\<rparr>]"
  have d: "distinct_polls example_net ?fds" by (simp add: distinct_polls_def poll_net_fd_def example_net_fd)
  have "occurred example_net (\<lambda>f. f = 1, \<lambda>f. True, \<lambda>f. False) (?fds ! 0) = {POLLIN, POLLOUT}"
      "occurred example_net (\<lambda>f. f = 1, \<lambda>f. True, \<lambda>f. False) (?fds ! 1) = {}"
    by (auto simp: occurred_def poll_net_fd_def example_net_fd Let_def)
  with poll_answers [OF example_selects d, of 0 example_compat] show ?thesis by simp
qed

section \<open>The other calls\<close>

text \<open>An address is handed on in the eight bytes the system accepts; errors become error numbers.\<close>

lemma sendto_eight_bytes:
  assumes "0 \<le> to_net_fd nl fd" and "8 \<le> addrlen" "addrlen \<le> int (length d)"
  shows "\<exists>a. netcompat_sendto nl fd buf flags (Some d) addrlen s =
      (let ret = nl_sendto nl (net_calls s) (to_net_fd nl fd) buf flags a; t = calls_net (Net_sendto (to_net_fd nl fd) buf flags a) s
       in if ret < 0 then (-1, t\<lparr>errno := Some (IosError (- ret))\<rparr>) else (ret, t)) \<and>
    length a = 8 \<and> a ! 0 = 8 \<and> a ! 1 = 2 \<and> drop 2 a = take 6 (drop 2 d)"
  using assms
  by (intro exI [of _ "(take 8 d)[0 := 8, 1 := of_nat AF_INET]"])
    (auto simp: netcompat_sendto_def Let_def AF_INET_def drop_take)

text \<open>\<open>fcntl\<close> and \<open>ioctl\<close> make the same call.\<close>

lemma fcntl_is_ioctl:
  "fcntl nl fd F_SETFL arg s = ioctl nl fd FIONBIO (if arg AND nl_O_NONBLOCK nl \<noteq> 0 then 1 else 0) s"
  by (simp add: fcntl_def ioctl_def)

lemma no_socket_no_call:
  assumes "to_net_fd nl fd < 0"
  shows "netcompat_sendto nl fd buf flags d l s = (-1, s\<lparr>errno := Some ENOTSOCK\<rparr>)"
    "ioctl nl fd FIONBIO arg s = (-1, s\<lparr>errno := Some ENOTSOCK\<rparr>)"
    "fcntl nl fd F_SETFL fl s = (-1, s\<lparr>errno := Some ENOTSOCK\<rparr>)"
  using assms by (simp_all add: netcompat_sendto_def ioctl_def fcntl_def set_nonblock_def)

lemma getaddrinfo_literal:
  "nl_aton nl n = Some a \<Longrightarrow>
     getaddrinfo nl True (Some n) None None =
       (EAI_OK, Some \<lparr>ai_family = AF_INET, ai_socktype = SOCK_STREAM, ai_addr = a, ai_port = 0\<rparr>)"
  by (simp add: getaddrinfo_def)

end
