(* ===== verification/TlsTest.thy ===== *)
theory TlsTest
  imports Http Menu NetcompatFacts
begin

text \<open>
  \<open>src/wii/tlstest.c\<close>: the self test of the TLS connection at start-up. It connects twice to a test server, without and with
  the client's certificate, and shows which attempt worked. What the socket layer and mbedTLS answer in one attempt is a
  parameter (\<open>tls_probe_env\<close>); what the code asks of them is recorded as a list of events. The handshake is repeated
  until the library no longer wants to read or write, which may be never. The log and its times are left out.
\<close>

section \<open>The library\<close>

record tls_probe_env =
  tp_socket :: int
  tp_connect :: "u32 \<Rightarrow> u16 \<Rightarrow> int"
  tp_seed :: int
  tp_parse_cert :: "string \<Rightarrow> int"
  tp_parse_key :: "string \<Rightarrow> int"
  tp_setup :: int
  tp_handshake :: "nat \<Rightarrow> int"
  tp_select :: int
  tp_read :: int

datatype tls_event =
    Tls_socket int | Tls_connect int u32 u16 | Tls_defaults | Tls_verify_none | Tls_own_cert | Tls_max_version int
  | Tls_ciphersuites "string list" | Tls_bio int | Tls_write string | Tls_close_notify | Tls_close int | Tls_free

section \<open>Sending and receiving\<close>

text \<open>The callbacks mbedTLS is given; \<open>net_write\<close> and \<open>net_recv\<close> answer for an internal descriptor. The number behind the
  answer is the counter of the log.\<close>

definition t_send :: "net_layer \<Rightarrow> (int \<Rightarrow> u8 list \<Rightarrow> int) \<Rightarrow> int \<Rightarrow> u8 list \<Rightarrow> nat \<Rightarrow> int \<times> nat" where
  "t_send nl net_write fd buf tsend_seq =
     (let nfd = to_net_fd nl fd
      in if nfd < 0 then (-1, tsend_seq) else (net_write nfd buf, tsend_seq + 1))"

definition t_recv :: "net_layer \<Rightarrow> (int \<Rightarrow> nat \<Rightarrow> int) \<Rightarrow> int \<Rightarrow> nat \<Rightarrow> nat \<Rightarrow> int \<times> nat" where
  "t_recv nl net_recv fd len trecv_seq =
     (let nfd = to_net_fd nl fd
      in if nfd < 0 then (-1, trecv_seq)
         else (let n = net_recv nfd len in (if n = 0 then -1 else n, if 0 < n then trecv_seq + 1 else trecv_seq)))"

section \<open>One attempt\<close>

text \<open>The descriptor, negative when there is none.\<close>

definition connect_tcp :: "net_layer \<Rightarrow> tls_probe_env \<Rightarrow> string \<Rightarrow> int \<Rightarrow> int \<times> tls_event list" where
  "connect_tcp nl pe host port =
     (let fd = tp_socket pe
      in if fd < 0 then (-1, [])
         else
           (case (case nl_aton nl host of Some a \<Rightarrow> Some a | None \<Rightarrow> nl_gethost nl host) of
              None \<Rightarrow> (-1, [Tls_socket fd, Tls_close fd])
            | Some addr \<Rightarrow>
                (let ev = [Tls_socket fd, Tls_connect fd addr (of_int port)]
                 in if tp_connect pe addr (of_int port) < 0 then (-1, ev @ [Tls_close fd]) else (fd, ev))))"

partial_function (option) handshake :: "(nat \<Rightarrow> int) \<Rightarrow> nat \<Rightarrow> int option" where
  "handshake hs i =
     (if hs i = MBEDTLS_ERR_SSL_WANT_READ \<or> hs i = MBEDTLS_ERR_SSL_WANT_WRITE then handshake hs (i + 1) else Some (hs i))"

definition tls_ciphersuites :: "string list" where
  "tls_ciphersuites =
     [''MBEDTLS_TLS_ECDHE_ECDSA_WITH_AES_128_GCM_SHA256'', ''MBEDTLS_TLS_ECDHE_RSA_WITH_AES_128_GCM_SHA256'',
      ''MBEDTLS_TLS_ECDHE_ECDSA_WITH_AES_256_GCM_SHA384'', ''MBEDTLS_TLS_ECDHE_RSA_WITH_AES_256_GCM_SHA384'',
      ''MBEDTLS_TLS_ECDHE_ECDSA_WITH_CHACHA20_POLY1305_SHA256'', ''MBEDTLS_TLS_ECDHE_RSA_WITH_CHACHA20_POLY1305_SHA256'',
      ''MBEDTLS_TLS_DHE_RSA_WITH_AES_128_GCM_SHA256'', ''MBEDTLS_TLS_DHE_RSA_WITH_AES_256_GCM_SHA384'']"

definition tls_probe_request :: string where
  "tls_probe_request = ''GET /tlstest HTTP/1.1'' @ [CHR 0x0D, CHR 0x0A] @ ''Host: moonlight-test'' @ [CHR 0x0D, CHR 0x0A] @
     ''Connection: close'' @ [CHR 0x0D, CHR 0x0A, CHR 0x0D, CHR 0x0A]"

text \<open>From the handshake on: the result and the events; \<open>None\<close> when the handshake never ends.\<close>

definition probe_session :: "tls_probe_env \<Rightarrow> (int \<times> tls_event list) option" where
  "probe_session pe =
     (case handshake (tp_handshake pe) 0 of
        None \<Rightarrow> None
      | Some hs \<Rightarrow>
          Some (if hs \<noteq> 0 then (-1, [])
                else if tp_select pe \<le> 0 then (-1, [Tls_write tls_probe_request])
                else (if 0 < tp_read pe then 0 else -1, [Tls_write tls_probe_request, Tls_close_notify])))"

definition probe :: "net_layer \<Rightarrow> tls_probe_env \<Rightarrow> string \<Rightarrow> int \<Rightarrow> bool \<Rightarrow> string \<Rightarrow> (int \<times> tls_event list) option" where
  "probe nl pe host port with_cert keydir =
     (case connect_tcp nl pe host port of
        (fd, ev) \<Rightarrow>
          if fd < 0 then Some (-1, ev)
          else
            (let finish = [Tls_close fd, Tls_free];
                 config = ev @ [Tls_defaults, Tls_verify_none] @ (if with_cert then [Tls_own_cert] else []) @
                   [Tls_max_version 3, Tls_ciphersuites tls_ciphersuites]
             in if tp_seed pe \<noteq> 0 then Some (-1, ev @ finish)
                else if with_cert \<and> tp_parse_cert pe (snprintf_to 4096 (keydir @ ''/client.pem'')) \<noteq> 0 then Some (-1, ev @ finish)
                else if with_cert \<and> tp_parse_key pe (snprintf_to 4096 (keydir @ ''/key.pem'')) \<noteq> 0 then Some (-1, ev @ finish)
                else if tp_setup pe \<noteq> 0 then Some (-1, config @ finish)
                else map_option (\<lambda>(r, session). (r, config @ [Tls_bio fd] @ session @ finish)) (probe_session pe)))"

section \<open>The test\<close>

definition target_host :: "string \<Rightarrow> string" where
  "target_host target =
     (let hlen = (case strchr target (CHR '':'') of Some colon \<Rightarrow> colon | None \<Rightarrow> length target)
      in take (if 64 \<le> hlen then 63 else hlen) target)"

definition target_port :: "string \<Rightarrow> int" where
  "target_port target =
     (let port = (case strchr target (CHR '':'') of Some colon \<Rightarrow> atoi (drop (colon + 1) target) | None \<Rightarrow> 47984)
      in if port \<le> 0 then 47984 else port)"

definition tls_message :: "string \<Rightarrow> int \<Rightarrow> int \<Rightarrow> int \<Rightarrow> string" where
  "tls_message host port r1 r2 =
     ''TLS test vs '' @ host @ '':'' @ show_int port @ ''\<newline>no-cert:   '' @ (if r1 = 0 then ''OK'' else ''FAIL'') @
     ''\<newline>with-cert: '' @ (if r2 = 0 then ''OK'' else ''FAIL'')"

definition tls_progress :: "face \<Rightarrow> string \<Rightarrow> font_state \<Rightarrow> font_state" where
  "tls_progress fc msg f =
     Font_Draw_TVDRC (Font_Print fc 8 20 msg (Font_SetSize 24 (Font_SetColor 255 255 255 255 (Font_Clear f))))"

definition tls_result :: "face \<Rightarrow> bool \<Rightarrow> string \<Rightarrow> font_state \<Rightarrow> font_state" where
  "tls_result fc ok msg f =
     Font_Draw_TVDRC (Font_Print fc 8 140 ''A: continue'' (Font_SetSize 18 (Font_SetColor 150 150 150 255
       (Font_Print fc 8 20 msg (Font_SetSize 24
         ((if ok then Font_SetColor 120 255 120 255 else Font_SetColor 255 120 120 255) (Font_Clear f)))))))"

function tls_wait :: "ui \<Rightarrow> (unit \<times> ui) option" where
  "tls_wait u =
     (if \<not> running (input u) then Some ((), u)
      else
        (case poll_buttons u of
           None \<Rightarrow> None
         | Some (btns, v) \<Rightarrow>
             if btns AND (WPAD_BUTTON_A OR WPAD_BUTTON_B) \<noteq> 0 then Some ((), v)
             else if want_main_menu (input v) then Some ((), v)
             else tls_wait v))"
  by pat_completeness auto
termination by (relation "measure (\<lambda>u. length (polls u))") (auto dest: poll_buttons_less)

declare tls_wait.simps [simp del]

text \<open>The answers to both attempts are \<open>pe False\<close> and \<open>pe True\<close>; \<open>None\<close> when a handshake never ends or the input does not
  come.\<close>

definition wii_tls_test ::
  "face \<Rightarrow> net_layer \<Rightarrow> (bool \<Rightarrow> tls_probe_env) \<Rightarrow> string \<Rightarrow> string \<Rightarrow> ui \<Rightarrow> (tls_event list \<times> ui) option" where
  "wii_tls_test fc nl pe target keydir u =
     (let host = target_host target; port = target_port target;
          u1 = on_font (tls_progress fc ''TLS test (no client cert)...'') u;
          u2 = on_font (tls_progress fc ''TLS test (with client cert)...'') u1
      in case probe nl (pe False) host port False keydir of
           None \<Rightarrow> None
         | Some (r1, ev1) \<Rightarrow>
             (case probe nl (pe True) host port True keydir of
                None \<Rightarrow> None
              | Some (r2, ev2) \<Rightarrow>
                  map_option (\<lambda>(_, v). (ev1 @ ev2, v))
                    (tls_wait (on_font (tls_result fc (r1 = 0 \<and> r2 = 0) (snprintf_to 256 (tls_message host port r1 r2))) u2))))"

section \<open>The handshake\<close>

definition wants :: "int \<Rightarrow> bool" where
  "wants r \<longleftrightarrow> r = MBEDTLS_ERR_SSL_WANT_READ \<or> r = MBEDTLS_ERR_SSL_WANT_WRITE"

lemma handshake_first:
  assumes "\<not> wants (hs (i + n))" and "\<forall>k < n. wants (hs (i + k))"
  shows "handshake hs i = Some (hs (i + n))"
  using assms
proof (induction n arbitrary: i)
  case 0
  then show ?case by (subst handshake.simps) (simp add: wants_def)
next
  case (Suc n)
  have "wants (hs i)" using Suc.prems(2) by force
  moreover have "wants (hs (Suc i + k))" if "k < n" for k
    using Suc.prems(2) that by (auto dest: spec [of _ "Suc k"])
  then have "handshake hs (Suc i) = Some (hs (Suc i + n))"
    using Suc.prems(1) by (intro Suc.IH) simp_all
  ultimately show ?case by (subst handshake.simps) (simp add: wants_def)
qed

text \<open>A library that wants to read for ever: no attempt ends.\<close>

lemma handshake_result:
  assumes "handshake hs i = Some r"
  shows "\<exists>n. r = hs (i + n) \<and> \<not> wants r \<and> (\<forall>k < n. wants (hs (i + k)))"
  using assms
proof (induction hs i r rule: handshake.raw_induct [rotated, consumes 1, case_names 1])
  case (1 f hs i r)
  show ?case
  proof (cases "wants (hs i)")
    case True
    with 1(2) have "f hs (i + 1) = Some r" by (simp add: wants_def)
    from 1(1) [OF this] obtain n where n: "r = hs (i + 1 + n)" "\<not> wants r" "\<forall>k < n. wants (hs (i + 1 + k))" by blast
    have "wants (hs (i + k))" if "k < Suc n" for k
      using that n(3) True by (cases k) auto
    with n(1,2) show ?thesis by (intro exI [of _ "Suc n"]) simp
  next
    case False
    with 1(2) have "r = hs i" by (simp add: wants_def split: if_splits)
    with False show ?thesis by (intro exI [of _ 0]) simp
  qed
qed

section \<open>An attempt\<close>

text \<open>The conditions of a successful attempt, in the order the code meets them; \<open>n\<close> rounds of the handshake want more.\<close>

definition server_address :: "net_layer \<Rightarrow> string \<Rightarrow> u32 option" where
  "server_address nl host = (case nl_aton nl host of Some a \<Rightarrow> Some a | None \<Rightarrow> nl_gethost nl host)"

definition attempt_works :: "net_layer \<Rightarrow> tls_probe_env \<Rightarrow> string \<Rightarrow> int \<Rightarrow> bool \<Rightarrow> string \<Rightarrow> int \<Rightarrow> bool" where
  "attempt_works nl pe host port with_cert keydir hs \<longleftrightarrow>
     0 \<le> tp_socket pe \<and> (\<exists>a. server_address nl host = Some a \<and> 0 \<le> tp_connect pe a (of_int port)) \<and> tp_seed pe = 0 \<and>
     (with_cert \<longrightarrow> tp_parse_cert pe (snprintf_to 4096 (keydir @ ''/client.pem'')) = 0 \<and>
                   tp_parse_key pe (snprintf_to 4096 (keydir @ ''/key.pem'')) = 0) \<and>
     tp_setup pe = 0 \<and> hs = 0 \<and> 0 < tp_select pe \<and> 0 < tp_read pe"

definition closings :: "tls_event list \<Rightarrow> tls_event list" where
  "closings ev = filter (\<lambda>e. case e of Tls_socket _ \<Rightarrow> True | Tls_close _ \<Rightarrow> True | _ \<Rightarrow> False) ev"

lemma closings_append [simp]: "closings (xs @ ys) = closings xs @ closings ys"
  by (simp add: closings_def)

lemma closings_session: "probe_session pe = Some (r, ev) \<Longrightarrow> closings ev = []"
  by (auto simp: probe_session_def closings_def split: option.splits if_splits)

lemma session_result:
  assumes "handshake (tp_handshake pe) 0 = Some hs"
  shows "\<exists>r ev. probe_session pe = Some (r, ev) \<and> (r = 0 \<or> r = -1) \<and> (r = 0 \<longleftrightarrow> hs = 0 \<and> 0 < tp_select pe \<and> 0 < tp_read pe) \<and>
    closings ev = [] \<and> Tls_own_cert \<notin> set ev"
  using assms by (auto simp: probe_session_def closings_def)

lemma connect_result:
  "connect_tcp nl pe host port = (fd, ev) \<Longrightarrow>
     (0 \<le> fd \<longleftrightarrow> 0 \<le> tp_socket pe \<and> (\<exists>a. server_address nl host = Some a \<and> 0 \<le> tp_connect pe a (of_int port))) \<and>
     (0 \<le> fd \<longrightarrow> fd = tp_socket pe \<and> closings ev = [Tls_socket fd]) \<and>
     (fd < 0 \<longrightarrow> closings ev = (if 0 \<le> tp_socket pe then [Tls_socket (tp_socket pe), Tls_close (tp_socket pe)] else [])) \<and>
     Tls_own_cert \<notin> set ev"
  unfolding connect_tcp_def server_address_def [symmetric] Let_def
  by (cases "server_address nl host") (auto simp: closings_def not_le split: if_splits)

text \<open>C21. One attempt. When the handshake ends with \<open>hs\<close>, the attempt returns 0 exactly when every step worked and -1 otherwise; a
  socket it opened it closes, once; the certificate is given to the library only in the attempt with the
  certificate, and in it before success.\<close>

theorem tls_probe_result:
  assumes "handshake (tp_handshake pe) 0 = Some hs"
  shows "\<exists>r ev. probe nl pe host port with_cert keydir = Some (r, ev) \<and> (r = 0 \<or> r = -1) \<and>
    (r = 0 \<longleftrightarrow> attempt_works nl pe host port with_cert keydir hs) \<and>
    closings ev = (if 0 \<le> tp_socket pe then [Tls_socket (tp_socket pe), Tls_close (tp_socket pe)] else []) \<and>
    (Tls_own_cert \<in> set ev \<longrightarrow> with_cert) \<and> (r = 0 \<and> with_cert \<longrightarrow> Tls_own_cert \<in> set ev)"
proof -
  obtain fd ev where c: "connect_tcp nl pe host port = (fd, ev)" by fastforce
  note cr = connect_result [OF c]
  obtain r0 ev0 where p: "probe_session pe = Some (r0, ev0)" "r0 = 0 \<or> r0 = -1"
    "r0 = 0 \<longleftrightarrow> hs = 0 \<and> 0 < tp_select pe \<and> 0 < tp_read pe" "closings ev0 = []" "Tls_own_cert \<notin> set ev0"
    using session_result [OF assms] by blast
  show ?thesis
  proof (cases "fd < 0")
    case True
    then have "probe nl pe host port with_cert keydir = Some (-1, ev)" by (simp add: probe_def c)
    moreover have "\<not> attempt_works nl pe host port with_cert keydir hs" using cr True by (auto simp: attempt_works_def)
    ultimately show ?thesis using cr True by simp
  next
    case False
    then have fd: "fd = tp_socket pe" "0 \<le> tp_socket pe" "closings ev = [Tls_socket fd]" "Tls_own_cert \<notin> set ev"
      "\<exists>a. server_address nl host = Some a \<and> 0 \<le> tp_connect pe a (of_int port)" using cr by auto
    define good where "good \<longleftrightarrow> tp_seed pe = 0 \<and>
      (with_cert \<longrightarrow> tp_parse_cert pe (snprintf_to 4096 (keydir @ ''/client.pem'')) = 0 \<and>
        tp_parse_key pe (snprintf_to 4096 (keydir @ ''/key.pem'')) = 0) \<and> tp_setup pe = 0"
    have w: "attempt_works nl pe host port with_cert keydir hs \<longleftrightarrow> good \<and> r0 = 0"
      using fd(2,5) p(3) by (auto simp: attempt_works_def good_def)
    show ?thesis
    proof (cases good)
      case True
      with False show ?thesis
        unfolding w using p fd by (cases with_cert) (simp_all add: probe_def c good_def closings_def Let_def)
    next
      case nogood: False
      define mid where "mid = (if tp_seed pe = 0 \<and>
        (with_cert \<longrightarrow> tp_parse_cert pe (snprintf_to 4096 (keydir @ ''/client.pem'')) = 0 \<and>
          tp_parse_key pe (snprintf_to 4096 (keydir @ ''/key.pem'')) = 0)
        then [Tls_defaults, Tls_verify_none] @ (if with_cert then [Tls_own_cert] else []) @
          [Tls_max_version 3, Tls_ciphersuites tls_ciphersuites] else [])"
      have "probe nl pe host port with_cert keydir = Some (-1, ev @ mid @ [Tls_close fd, Tls_free])"
        using False nogood unfolding probe_def c Let_def good_def mid_def by (cases with_cert) simp_all
      moreover have "closings mid = []" "Tls_own_cert \<in> set mid \<longrightarrow> with_cert"
        by (simp_all add: mid_def closings_def)
      ultimately
      show ?thesis using fd nogood unfolding w by (auto simp: closings_def)
    qed
  qed
qed

definition example_probe :: tls_probe_env where
  "example_probe = \<lparr>tp_socket = 3, tp_connect = (\<lambda>a p. 0), tp_seed = 0, tp_parse_cert = (\<lambda>p. 0), tp_parse_key = (\<lambda>p. 0),
     tp_setup = 0, tp_handshake = (\<lambda>n. if n < 2 then MBEDTLS_ERR_SSL_WANT_READ else 0), tp_select = 1, tp_read = 40\<rparr>"

lemma example_probe_handshake: "handshake (tp_handshake example_probe) 0 = Some 0"
proof -
  have "\<not> wants (tp_handshake example_probe (0 + 2))" "\<forall>k < 2. wants (tp_handshake example_probe (0 + k))"
    by (simp_all add: example_probe_def wants_def MBEDTLS_ERR_SSL_WANT_READ_def MBEDTLS_ERR_SSL_WANT_WRITE_def)
  from handshake_first [OF this] show ?thesis by (simp add: example_probe_def)
qed

text \<open>A server that is found by its number: the attempt with the certificate works.\<close>

theorem tls_probe_result_witness:
  "\<exists>ev. probe (example_net\<lparr>nl_aton := (\<lambda>n. Some 0xC0A80164)\<rparr>) example_probe ''192.168.1.100'' 47984 True ''/k'' = Some (0, ev) \<and>
     closings ev = [Tls_socket 3, Tls_close 3]"
  using tls_probe_result [OF example_probe_handshake, of "example_net\<lparr>nl_aton := (\<lambda>n. Some 0xC0A80164)\<rparr>" "''192.168.1.100''" 47984 True "''/k''"]
  by (auto simp: attempt_works_def server_address_def example_probe_def)

section \<open>The message and the target\<close>

lemma target_host_fits: "length (target_host target) \<le> 63"
  by (auto simp: target_host_def Let_def min_def split: option.split)

lemma target_port_range: "0 < target_port target \<and> target_port target \<le> int_max"
  using atoi_range [of "drop (Suc i) target" for i]
  by (auto simp: target_port_def Let_def is_c_int_def int_max_def split: option.split)

text \<open>The result always fits the buffer of 256 bytes, so nothing of it is cut off.\<close>

lemma tls_message_fits: "snprintf_to 256 (tls_message (target_host t) (target_port t) r1 r2) = tls_message (target_host t) (target_port t) r1 r2"
proof -
  have "length (show_int (target_port t)) \<le> 11"
    using target_port_range [of t] by (intro length_show_int) (simp add: is_c_int_def int_min_def)
  then show ?thesis using target_host_fits [of t] by (intro snprintf_to_fits) (simp add: tls_message_def)
qed

text \<open>An address with its port, and one without: the port of the host's secure service.\<close>

lemma target_parsed:
  assumes "CHR '':'' \<notin> set host" and "length host < 64" and "is_c_int port" and "0 < port"
  shows "target_host (host @ '':'' @ show_int port) = host \<and> target_port (host @ '':'' @ show_int port) = port \<and>
    target_host host = host \<and> target_port host = 47984"
proof -
  have "strchr host (CHR '':'') = None" using assms(1) by (simp add: strchr_None)
  moreover have "strchr (host @ '':'' @ show_int port) (CHR '':'') = Some (length host)"
    using strchr_append [OF assms(1), of "show_int port"] by simp
  ultimately show ?thesis
    using assms(2,4) atoi_show_int [OF assms(3)] by (simp add: target_host_def target_port_def Let_def)
qed

lemma tls_wait_polls: "tls_wait u = Some (r, v) \<Longrightarrow> length (polls v) \<le> length (polls u)"
proof (induction u rule: tls_wait.induct)
  case (1 u)
  show ?case
    using "1.prems" "1.IH"
    by (subst (asm) tls_wait.simps) (fastforce dest: poll_buttons_less split: if_splits option.splits prod.splits)
qed

lemma wii_tls_test_polls:
  "wii_tls_test fc nl pe target keydir u = Some (ev, v) \<Longrightarrow> length (polls v) \<le> length (polls u)"
  by (auto simp: wii_tls_test_def Let_def dest: tls_wait_polls split: option.splits prod.splits)

end
