(* ===== verification/Connection.thy ===== *)
theory Connection
  imports FrameQueue Input
begin

text \<open>
  \<open>src/_connection.c\<close>, the callbacks of a connection, and the loop of \<open>do_stream\<close> in \<open>src/main.c\<close> that draws
  until the connection ends. While it runs, three other threads work on the same state: the input
  thread, the decoder and the library that reports the end of the connection. Each of their
  steps is one event of a script; the thread that draws takes its turn with \<open>Draw_pass\<close>.
\<close>

unbundle bit_operations_syntax

section \<open>The callbacks\<close>

definition ML_ERROR_GRACEFUL_TERMINATION :: int where "ML_ERROR_GRACEFUL_TERMINATION = 0"
definition ML_ERROR_NO_VIDEO_TRAFFIC :: int where "ML_ERROR_NO_VIDEO_TRAFFIC = -100"
definition ML_ERROR_NO_VIDEO_FRAME :: int where "ML_ERROR_NO_VIDEO_FRAME = -101"
definition ML_ERROR_UNEXPECTED_EARLY_TERMINATION :: int where "ML_ERROR_UNEXPECTED_EARLY_TERMINATION = -102"
definition ML_ERROR_PROTECTED_CONTENT :: int where "ML_ERROR_PROTECTED_CONTENT = -103"

lemmas ml_error_defs = ML_ERROR_GRACEFUL_TERMINATION_def ML_ERROR_NO_VIDEO_TRAFFIC_def
  ML_ERROR_NO_VIDEO_FRAME_def ML_ERROR_UNEXPECTED_EARLY_TERMINATION_def ML_ERROR_PROTECTED_CONTENT_def

text \<open>The message and the error flag that \<open>connection_terminated\<close> leaves.\<close>

definition termination_message :: "int \<Rightarrow> string \<times> bool" where
  "termination_message errorCode =
     (if errorCode = ML_ERROR_GRACEFUL_TERMINATION then
        (''Connection has been terminated gracefully.\<newline>'', False)
      else if errorCode = ML_ERROR_NO_VIDEO_TRAFFIC then
        (''No video received from host.\<newline> Check the host PC's firewall and port forwarding rules.\<newline>'', True)
      else if errorCode = ML_ERROR_NO_VIDEO_FRAME then
        (''Your network connection isn't performing well.\<newline> '' @
         ''Reduce your video bitrate setting or try a faster connection.\<newline>'', True)
      else if errorCode = ML_ERROR_UNEXPECTED_EARLY_TERMINATION then
        (''The connection was unexpectedly terminated by the host due to a video capture error.\<newline> '' @
         ''Make sure no DRM-protected content is playing on the host.\<newline>'', True)
      else if errorCode = ML_ERROR_PROTECTED_CONTENT then
        (''The connection was terminated by the host due to DRM-protected content.\<newline> '' @
         ''Close any DRM-protected content on the host and try again.\<newline>'', True)
      else (''Connection terminated with error: '' @ show_int errorCode @ ''\<newline>'', True))"

text \<open>
  What the threads of a stream share: the flags of the process with the HOME button and the client
  state, the frames, the message. \<open>sent\<close> are the controller events sent to the host and \<open>drawn\<close>
  the frames handed to \<open>gx_video_draw_yuv\<close>.
\<close>

record session =
  ss_input :: input_state
  ss_video :: wii_video
  ss_message :: string
  ss_is_error :: bool
  sent :: "controller_event list"
  drawn :: "frame_t list"

definition connection_terminated :: "int \<Rightarrow> session \<Rightarrow> session" where
  "connection_terminated errorCode s =
     (let (msg, err) = termination_message errorCode
      in s\<lparr>ss_message := msg, ss_is_error := err, ss_input := (ss_input s)\<lparr>client := STATE_STOP_STREAM\<rparr>\<rparr>)"

text \<open>The other callbacks pass their arguments to a handler, when one is set, or log a line.\<close>

definition rumble :: "(u16 \<Rightarrow> u16 \<Rightarrow> u16 \<Rightarrow> 'w \<Rightarrow> 'w) option \<Rightarrow> u16 \<Rightarrow> u16 \<Rightarrow> u16 \<Rightarrow> 'w \<Rightarrow> 'w" where
  "rumble rumble_handler pad low high w =
     (case rumble_handler of None \<Rightarrow> w | Some h \<Rightarrow> h pad low high w)"

definition rumble_triggers :: "(u16 \<Rightarrow> u16 \<Rightarrow> u16 \<Rightarrow> 'w \<Rightarrow> 'w) option \<Rightarrow> u16 \<Rightarrow> u16 \<Rightarrow> u16 \<Rightarrow> 'w \<Rightarrow> 'w" where
  "rumble_triggers rumble_triggers_handler pad l r w =
     (case rumble_triggers_handler of None \<Rightarrow> w | Some h \<Rightarrow> h pad l r w)"

definition set_motion_event_state :: "(u16 \<Rightarrow> u8 \<Rightarrow> u16 \<Rightarrow> 'w \<Rightarrow> 'w) option \<Rightarrow> u16 \<Rightarrow> u8 \<Rightarrow> u16 \<Rightarrow> 'w \<Rightarrow> 'w" where
  "set_motion_event_state handler pad motionType rate w =
     (case handler of None \<Rightarrow> w | Some h \<Rightarrow> h pad motionType rate w)"

definition set_controller_led :: "(u16 \<Rightarrow> u8 \<Rightarrow> u8 \<Rightarrow> u8 \<Rightarrow> 'w \<Rightarrow> 'w) option \<Rightarrow> u16 \<Rightarrow> u8 \<Rightarrow> u8 \<Rightarrow> u8 \<Rightarrow> 'w \<Rightarrow> 'w" where
  "set_controller_led handler pad r g b w =
     (case handler of None \<Rightarrow> w | Some h \<Rightarrow> h pad r g b w)"

definition connection_status_update :: "int \<Rightarrow> string" where
  "connection_status_update status =
     (if status = 0 then ''Connection is okay\<newline>'' else if status = 1 then ''Connection is poor\<newline>'' else [])"

definition connection_started :: "u32 \<Rightarrow> bool \<Rightarrow> string" where
  "connection_started EncryptionFeaturesEnabled AudioEncryptionEnabled =
     (let yes = (\<lambda>b. if b then ''yes'' else ''no'')
      in ''Encryption: video='' @ yes (EncryptionFeaturesEnabled AND 0x02 \<noteq> 0) @
         '' audio='' @ yes (AudioEncryptionEnabled \<or> EncryptionFeaturesEnabled AND 0x04 \<noteq> 0) @
         '' control='' @ yes (EncryptionFeaturesEnabled AND 0x01 \<noteq> 0) @ '' remote-input=always\<newline>'')"

section \<open>The stream\<close>

datatype stream_event = Draw_pass | Input_tick wpad u64 | Frame_decoded nat | Terminated int

definition session_event :: "stream_event \<Rightarrow> session \<Rightarrow> session" where
  "session_event e s =
     (case e of
        Draw_pass \<Rightarrow>
          (let (v, d) = wii_stream_draw (\<lambda>f ds. ds @ [f]) (ss_video s, drawn s)
           in s\<lparr>ss_video := v, drawn := d\<rparr>)
      | Input_tick w now \<Rightarrow>
          (let (ev, inp) = wii_input_update w now (ss_input s)
           in s\<lparr>ss_input := inp, sent := sent s @ (case ev of None \<Rightarrow> [] | Some x \<Rightarrow> [x])\<rparr>)
      | Frame_decoded i \<Rightarrow> s\<lparr>ss_video := add_frame i (ss_video s)\<rparr>
      | Terminated errorCode \<Rightarrow> connection_terminated errorCode s)"

definition streaming :: "session \<Rightarrow> bool" where
  "streaming s \<longleftrightarrow> running (ss_input s) \<and> client (ss_input s) = STATE_STREAMING"

text \<open>The loop of \<open>do_stream\<close>; a script that ends before the loop does is \<open>None\<close>.\<close>

fun stream_loop :: "stream_event list \<Rightarrow> session \<Rightarrow> session option" where
  "stream_loop [] s = None"
| "stream_loop (e # es) s =
     (if e = Draw_pass \<and> \<not> streaming s then Some s else stream_loop es (session_event e s))"

section \<open>How a stream ends\<close>

text \<open>The steps of the threads as a relation, and what any interleaving of them can reach.\<close>

inductive session_step :: "session \<Rightarrow> session \<Rightarrow> bool" where
  step_draw: "streaming s \<Longrightarrow> session_step s (session_event Draw_pass s)"
| step_tick: "session_step s (session_event (Input_tick w now) s)"
| step_frame: "session_step s (session_event (Frame_decoded i) s)"
| step_end: "session_step s (session_event (Terminated c) s)"

inductive session_steps :: "session \<Rightarrow> session \<Rightarrow> bool" where
  steps_refl: "session_steps s s"
| steps_step: "session_steps s t \<Longrightarrow> session_step t u \<Longrightarrow> session_steps s u"

inductive_cases session_stepE: "session_step s t"

lemma home_poll_flags:
  "running (snd (home_poll b now s)) = running s \<and> client (snd (home_poll b now s)) = client s"
  by (simp add: home_poll_def)

lemma wii_input_update_flags:
  assumes "wii_input_update w now s = (ev, t)"
  shows "(running t \<longrightarrow> running s) \<and> (client t = client s \<or> client t = STATE_STOP_STREAM)"
proof -
  obtain act s' where h: "home_poll (btns_l w OR btns_h w) now s = (act, s')" by fastforce
  have "running s' = running s" "client s' = client s"
    using home_poll_flags [of "btns_l w OR btns_h w" now s] h by simp_all
  with assms h show ?thesis
    by (auto simp: wii_input_update_def wii_proc_stop_running_def split: if_splits)
qed

lemma session_step_flags:
  assumes "session_step s t"
  shows "(running (ss_input t) \<longrightarrow> running (ss_input s)) \<and>
    (client (ss_input t) = client (ss_input s) \<or> client (ss_input t) = STATE_STOP_STREAM)"
  using assms
  by (cases rule: session_stepE)
    (auto simp: session_event_def connection_terminated_def Let_def split: prod.splits
      dest: wii_input_update_flags)

lemma step_event: "e \<noteq> Draw_pass \<or> streaming s \<Longrightarrow> session_step s (session_event e s)"
  by (cases e) (auto intro: session_step.intros)

lemma stopped_step: "session_step s t \<Longrightarrow> \<not> streaming s \<Longrightarrow> \<not> streaming t"
  using session_step_flags [of s t] by (auto simp: streaming_def)

lemma stopped_steps: "session_steps s t \<Longrightarrow> \<not> streaming s \<Longrightarrow> \<not> streaming t"
  by (induction rule: session_steps.induct) (auto dest: stopped_step)

lemma steps_front: "session_steps t u \<Longrightarrow> session_step s t \<Longrightarrow> session_steps s u"
  by (induction rule: session_steps.induct) (auto intro: session_steps.intros)

lemma stream_loop_steps: "stream_loop es s = Some t \<Longrightarrow> session_steps s t \<and> \<not> streaming t"
proof (induction es arbitrary: s)
  case Nil
  then show ?case by simp
next
  case (Cons e es)
  show ?case
  proof (cases "e = Draw_pass \<and> \<not> streaming s")
    case True
    with Cons.prems show ?thesis by (auto intro: steps_refl)
  next
    case False
    with Cons.prems have "session_steps (session_event e s) t \<and> \<not> streaming t" by (intro Cons.IH) simp
    moreover have "session_step s (session_event e s)" using False step_event by blast
    ultimately show ?thesis by (blast intro: steps_front)
  qed
qed

lemma stream_loop_stopped: "\<not> streaming s \<Longrightarrow> Draw_pass \<in> set es \<Longrightarrow> \<exists>t. stream_loop es s = Some t"
proof (induction es arbitrary: s)
  case Nil
  then show ?case by simp
next
  case (Cons e es)
  show ?case
  proof (cases "e = Draw_pass")
    case False
    then have "\<not> streaming (session_event e s)" using stopped_step step_event Cons.prems(1) by blast
    then show ?thesis using Cons False by simp
  qed (use Cons.prems in simp)
qed

lemma stream_loop_append:
  "stream_loop (xs @ es) s = (case stream_loop xs s of Some t \<Rightarrow> Some t | None \<Rightarrow> stream_loop es (fold session_event xs s))"
  by (induction xs arbitrary: s) (auto split: option.split)

lemma terminated_stops: "\<not> streaming (session_event (Terminated c) s)"
  by (simp add: session_event_def connection_terminated_def streaming_def split: prod.split)

text \<open>C11. However the drawing, input, decoder and network threads interleave, the loop of a stream ends at the first draw pass that
  finds the connection terminated, at the latest; and once the stream has stopped no step of any thread starts it
  again.\<close>

theorem stream_ends_when_terminated:
  assumes "Draw_pass \<in> set after"
  shows "\<exists>t. stream_loop (before @ Terminated code # after) s = Some t \<and> session_steps s t \<and>
    (\<forall>u. \<not> session_steps t u \<or> \<not> streaming u)"
proof -
  obtain t where t: "stream_loop (before @ Terminated code # after) s = Some t"
    using stream_loop_stopped [OF terminated_stops assms]
    by (cases "stream_loop before s") (auto simp: stream_loop_append)
  with stream_loop_steps stopped_steps show ?thesis by blast
qed

definition example_session :: session where
  "example_session =
     \<lparr>ss_input = example_input\<lparr>client := STATE_STREAMING\<rparr>, ss_video = example_video, ss_message = [], ss_is_error = False,
      sent = [], drawn = []\<rparr>"

theorem stream_ends_when_terminated_witness:
  "\<exists>t. stream_loop [Draw_pass, Frame_decoded 0, Terminated 0, Frame_decoded 1, Draw_pass] example_session = Some t"
  using stream_ends_when_terminated [of "[Frame_decoded 1, Draw_pass]" "[Draw_pass, Frame_decoded 0]" 0 example_session]
  by auto

end
