(* ===== verification/App.thy ===== *)
theory App
  imports Connection Menu Pairing
begin

text \<open>
  \<open>src/main.c\<close>: the menus that drive the client. A procedure is a step on the whole application state that
  goes on with a value or stops: \<open>Waiting\<close> when the script of Wiimote samples (or of stream events) ends
  while the program still waits for input, \<open>Crashed\<close> for undefined behaviour, \<open>Exited\<close> when \<open>exit\<close> is called.
  FreeType, the environment of the client, \<open>LiStartConnection\<close>, \<open>random\<close> and the platform calls are the
  parameters in \<open>app_env\<close>.
\<close>

section \<open>State\<close>

datatype stop = Waiting | Crashed | Exited int

record app_env =
  ae_face :: face
  ae_client :: client_env
  ae_start :: "nat \<Rightarrow> server_information \<Rightarrow> stream_configuration \<Rightarrow> int"
  ae_random :: "nat \<Rightarrow> nat"
  ae_platform :: platform_calls
  ae_crypto :: crypto_lib
  ae_malloc :: allocator

record app_state =
  ap_ui :: ui
  ap_cfg :: configuration
  ap_gs :: gs_state
  ap_fs :: filesystem
  ap_made :: "string list"
  ap_is_error :: bool
  ap_message :: string
  ap_video :: wii_video
  ap_sessions :: "stream_event list list"
  ap_starts :: nat
  ap_randoms :: nat
  ap_sent :: "controller_event list"

type_synonym 'a ap = "app_state \<Rightarrow> (stop + 'a) \<times> app_state"

definition modify :: "('s \<Rightarrow> 's) \<Rightarrow> 's \<Rightarrow> ('e + unit) \<times> 's" where
  "modify f s = (Inr (), f s)"

text \<open>A drawing step, an interaction of \<open>Menu\<close>, an operation of the client.\<close>

definition draw :: "(font_state \<Rightarrow> font_state) \<Rightarrow> unit ap" where
  "draw f = modify (\<lambda>s. s\<lparr>ap_ui := on_font f (ap_ui s)\<rparr>)"

definition interact :: "(ui \<Rightarrow> ('a \<times> ui) option) \<Rightarrow> 'a ap" where
  "interact m s =
     (case m (ap_ui s) of None \<Rightarrow> (Inl Waiting, s) | Some (r, u) \<Rightarrow> (Inr r, s\<lparr>ap_ui := u\<rparr>))"

definition run_gs :: "'a gs \<Rightarrow> 'a ap" where
  "run_gs m s =
     (case m (ap_gs s) of
        (Inl e, g) \<Rightarrow> (Inl Crashed, s\<lparr>ap_gs := g\<rparr>)
      | (Inr a, g) \<Rightarrow> (Inr a, s\<lparr>ap_gs := g\<rparr>))"

definition on_cfg :: "(configuration \<Rightarrow> configuration) \<Rightarrow> unit ap" where
  "on_cfg f = modify (\<lambda>s. s\<lparr>ap_cfg := f (ap_cfg s)\<rparr>)"

definition on_proc :: "(input_state \<Rightarrow> input_state) \<Rightarrow> unit ap" where
  "on_proc f = modify (\<lambda>s. s\<lparr>ap_ui := (ap_ui s)\<lparr>input := f (input (ap_ui s))\<rparr>\<rparr>)"

abbreviation now_running :: "app_state \<Rightarrow> bool" where
  "now_running s \<equiv> running (input (ap_ui s))"

section \<open>Messages\<close>

definition show_error :: "string \<Rightarrow> unit ap" where
  "show_error msg = modify (\<lambda>s. s\<lparr>ap_message := snprintf_to 1024 msg, ap_is_error := True\<rparr>)"

definition draw_status :: "app_env \<Rightarrow> string \<Rightarrow> unit ap" where
  "draw_status env header s =
     draw (\<lambda>f. Font_Draw_TVDRC (Font_Print (ae_face env) 8 200 (ap_message s)
       (Font_SetSize 24 (Font_SetColor (if ap_is_error s then 255 else 0) (if ap_is_error s then 0 else 255) 0 255
         (Font_Print (ae_face env) 8 20 header
           (Font_SetSize 24 (Font_SetColor 255 255 255 255 (Font_Clear f)))))))) s"

function wait_loop :: "ui \<Rightarrow> (unit \<times> ui) option" where
  "wait_loop u =
     (if \<not> running (input u) then Some ((), u)
      else
        (case poll_buttons u of
           None \<Rightarrow> None
         | Some (btns, v) \<Rightarrow>
             if btns AND WPAD_BUTTON_A \<noteq> 0 then Some ((), v)
             else if want_main_menu (input v) then Some ((), v)
             else wait_loop v))"
  by pat_completeness auto
termination by (relation "measure (\<lambda>u. length (polls u))") (auto dest: poll_buttons_less)

declare wait_loop.simps [simp del]

definition wait_for_button :: "app_env \<Rightarrow> unit ap" where
  "wait_for_button env =
     bindE (draw (\<lambda>f. Font_Draw_TVDRC (Font_Print (ae_face env) 8 452 ''Press A to continue''
              (Font_SetSize 18 (Font_SetColor 150 150 150 255 f)))))
       (\<lambda>_. interact wait_loop)"

text \<open>\<open>show_error (msg); draw_status (header); wait_for_button ()\<close>.\<close>

definition title_screen :: "app_env \<Rightarrow> string \<Rightarrow> unit ap" where
  "title_screen env text =
     draw (\<lambda>f. Font_Draw_TVDRC (Font_Print (ae_face env) 8 20 text
       (Font_SetSize 24 (Font_SetColor 255 255 255 255 (Font_Clear f)))))"

definition error_message :: "gs_error ap" where
  "error_message = asks (\<lambda>s. gs_err (ap_gs s))"

section \<open>The client\<close>

definition with_conf :: "(conf_state \<Rightarrow> 'a \<times> conf_state) \<Rightarrow> 'a ap" where
  "with_conf f s =
     (let (r, c) = f \<lparr>cs_fs = ap_fs s, cs_err = gs_err (ap_gs s), cs_made = ap_made s\<rparr>
      in (Inr r, s\<lparr>ap_fs := cs_fs c, ap_gs := (ap_gs s)\<lparr>gs_err := cs_err c\<rparr>, ap_made := cs_made c\<rparr>))"

definition new_client :: "app_env \<Rightarrow> bool ap" where
  "new_client env =
     bindE (asks ap_cfg) (\<lambda>cfg.
     bindE (with_conf (gs_new (ae_platform env) (ae_crypto env) (e_fits (ae_client env)) (key_dir cfg))) (\<lambda>r.
       case r of
         None \<Rightarrow> retE False
       | Some hnd \<Rightarrow> bindE (modify (\<lambda>s. s\<lparr>ap_gs := (ap_gs s)\<lparr>gs_hnd := hnd\<rparr>\<rparr>)) (\<lambda>_. retE True)))"

definition client_failed :: "app_env \<Rightarrow> string \<Rightarrow> bool ap" where
  "client_failed env what =
     bindE error_message (\<lambda>e.
       let msg = snprintf_to 512 (what @ gs_get_error_message e @ ''.'')
       in bindE (show_error msg) (\<lambda>_. bindE (draw_status env msg) (\<lambda>_. retE False)))"

definition create_client :: "app_env \<Rightarrow> bool ap" where
  "create_client env =
     bindE (title_screen env ''Setting up client...'') (\<lambda>_.
     bindE (new_client env) (\<lambda>ok.
       if ok then retE True
       else
         bindE (asks ap_cfg) (\<lambda>cfg.
         bindE (with_conf (gs_conf_init (ae_platform env) (ae_crypto env) (key_dir cfg))) (\<lambda>ret.
           if ret \<noteq> GS_OK then client_failed env ''Failed to create client info:\<newline>''
           else
             bindE (new_client env) (\<lambda>ok.
               if ok then retE True else client_failed env ''Failed to create GameStream client:\<newline>'')))))"

section \<open>Settings\<close>

definition save_config :: "app_env \<Rightarrow> unit ap" where
  "save_config env s =
     (case config_save (ap_fs s) (snprintf_to 256 (MOONLIGHT_WII_PATH @ ''/moonlight.conf'')) (ap_cfg s) of
        Done fs \<Rightarrow> (Inr (), s\<lparr>ap_fs := fs\<rparr>)
      | Exit n \<Rightarrow> (Inl (Exited n), s)
      | _ \<Rightarrow> (Inl Crashed, s))"

text \<open>The loop that cuts dots and blanks off the end.\<close>

definition trim_address :: "string \<Rightarrow> string" where
  "trim_address t = rev (dropWhile (\<lambda>c. c = CHR ''.'' \<or> c = CHR '' '') (rev t))"

definition enter_address :: "app_env \<Rightarrow> bool ap" where
  "enter_address env =
     bindE (asks ap_cfg) (\<lambda>cfg.
     bindE (interact (menu_input_string (ae_face env) ''Enter IP address'' ''0123456789.'' 15
              (Some (case address cfg of None \<Rightarrow> [] | Some a \<Rightarrow> a)))) (\<lambda>r.
       case r of
         None \<Rightarrow> retE False
       | Some text \<Rightarrow>
           (let t = trim_address text
            in if t = [] then retE False
               else
                 bindE (on_cfg (\<lambda>c. c\<lparr>address := Some t\<rparr>)) (\<lambda>_.
                 bindE (save_config env) (\<lambda>_. retE True)))))"

definition on_stream :: "(stream_configuration \<Rightarrow> stream_configuration) \<Rightarrow> unit ap" where
  "on_stream f = on_cfg (\<lambda>c. c\<lparr>stream := f (stream c)\<rparr>)"

definition settings_resolution :: "app_env \<Rightarrow> unit ap" where
  "settings_resolution env =
     bindE (asks ap_cfg) (\<lambda>cfg.
       let w = st_width (stream cfg);
           cur = (if w = 854 then 1 else if w = 1280 then 2 else if w = 1920 then 3 else 0)
       in bindE (interact (menu_select (ae_face env) ''Resolution''
                   [''640x480'', ''854x480'', ''1280x720'', ''1920x1080''] cur)) (\<lambda>r.
            if 0 \<le> r then
              on_stream (\<lambda>s. s\<lparr>st_width := [640, 854, 1280, 1920] ! nat r, st_height := [480, 480, 720, 1080] ! nat r\<rparr>)
            else retE ()))"

definition settings_number ::
  "app_env \<Rightarrow> string \<Rightarrow> (configuration \<Rightarrow> int) \<Rightarrow> int \<Rightarrow> (int \<Rightarrow> unit ap) \<Rightarrow> unit ap" where
  "settings_number env title get least assign =
     bindE (asks ap_cfg) (\<lambda>cfg.
     bindE (interact (menu_input_int (ae_face env) title (get cfg))) (\<lambda>v.
       if least \<le> v then assign v else retE ()))"

definition settings_flag ::
  "app_env \<Rightarrow> string \<Rightarrow> (configuration \<Rightarrow> bool) \<Rightarrow> (bool \<Rightarrow> configuration \<Rightarrow> configuration) \<Rightarrow> unit ap" where
  "settings_flag env title get assign =
     bindE (asks ap_cfg) (\<lambda>cfg.
     bindE (interact (menu_select_bool (ae_face env) title (get cfg))) (\<lambda>v.
       if 0 \<le> v then on_cfg (assign (v \<noteq> 0)) else retE ()))"

definition encryption_index :: "int \<Rightarrow> int" where
  "encryption_index f =
     (if f AND ENCFLG_VIDEO \<noteq> 0 \<and> f AND ENCFLG_AUDIO \<noteq> 0 then 3
      else if f AND ENCFLG_VIDEO \<noteq> 0 then 2
      else if f AND ENCFLG_AUDIO \<noteq> 0 then 1 else 0)"

definition encryption_values :: "int list" where
  "encryption_values = [ENCFLG_NONE, ENCFLG_AUDIO, ENCFLG_VIDEO, ENCFLG_AUDIO OR ENCFLG_VIDEO]"

definition settings_encryption :: "app_env \<Rightarrow> unit ap" where
  "settings_encryption env =
     bindE (asks ap_cfg) (\<lambda>cfg.
     bindE (interact (menu_select (ae_face env) ''Encrypt stream'' [''None'', ''Audio'', ''Video'', ''All'']
              (encryption_index (st_encryptionFlags (stream cfg))))) (\<lambda>r.
       if 0 \<le> r then on_stream (\<lambda>s. s\<lparr>st_encryptionFlags := encryption_values ! nat r\<rparr>) else retE ()))"

definition settings_choice :: "app_env \<Rightarrow> int \<Rightarrow> unit ap" where
  "settings_choice env sel =
     (if sel = 0 then settings_resolution env
      else if sel = 1 then
        settings_number env ''FPS'' (\<lambda>c. st_fps (stream c)) 1 (\<lambda>v. on_stream (\<lambda>s. s\<lparr>st_fps := v\<rparr>))
      else if sel = 2 then
        settings_number env ''Bitrate (kbps)'' (\<lambda>c. st_bitrate (stream c)) 1
          (\<lambda>v. on_stream (\<lambda>s. s\<lparr>st_bitrate := v\<rparr>))
      else if sel = 3 then
        settings_flag env ''Disable controller input'' viewonly (\<lambda>b c. c\<lparr>viewonly := b\<rparr>)
      else if sel = 4 then settings_flag env ''Enable local audio'' localaudio (\<lambda>b c. c\<lparr>localaudio := b\<rparr>)
      else if sel = 5 then
        settings_flag env ''Quit app after streaming'' quitappafter (\<lambda>b c. c\<lparr>quitappafter := b\<rparr>)
      else if sel = 6 then
        settings_number env ''OSD overscan (px)'' osd_overscan 0
          (\<lambda>v. bindE (on_cfg (\<lambda>c. c\<lparr>osd_overscan := v\<rparr>)) (\<lambda>_. draw (Font_SetOverscan (of_int v))))
      else if sel = 7 then settings_encryption env
      else retE ())"

definition settings_options :: "string list" where
  "settings_options =
     [''Resolution'', ''FPS'', ''Bitrate (kbps)'', ''View only (no input)'', ''Local audio'',
      ''Quit app after stream'', ''OSD overscan (px)'', ''Encrypt stream'']"

section \<open>How much of the script is left\<close>

text \<open>
  Every menu consumes samples, so the number left decreases: this is why the loops below end. \<open>thrifty\<close>
  procedures never put a sample back.
\<close>

definition polls_left :: "app_state \<Rightarrow> nat" where
  "polls_left s = length (polls (ap_ui s))"

definition thrifty :: "'a ap \<Rightarrow> bool" where
  "thrifty m \<longleftrightarrow> (\<forall>s. polls_left (snd (m s)) \<le> polls_left s)"

named_theorems thrifty_rules

lemma thriftyD: "thrifty m \<Longrightarrow> m s = (r, t) \<Longrightarrow> polls_left t \<le> polls_left s"
  by (auto simp: thrifty_def dest: spec [of _ s])

lemma thrifty_bindE [thrifty_rules]:
  assumes "thrifty m" and "\<And>a. thrifty (f a)"
  shows "thrifty (bindE m f)"
proof -
  have "polls_left (snd (bindE m f s)) \<le> polls_left s" for s
  proof -
    obtain x t where x: "m s = (x, t)" by fastforce
    have t: "polls_left t \<le> polls_left s" using thriftyD [OF assms(1) x] .
    show ?thesis
    proof (cases x)
      case (Inr a)
      obtain y u where "f a t = (y, u)" by fastforce
      with thriftyD [OF assms(2) this] t x Inr show ?thesis by (simp add: bindE_def)
    qed (use t x in \<open>simp add: bindE_def\<close>)
  qed
  then show ?thesis by (simp add: thrifty_def)
qed

lemma thrifty_simple [thrifty_rules]:
  "thrifty (retE a)" "thrifty (leaveE e)" "thrifty (asks f)" "thrifty (on_cfg g)" "thrifty (on_stream h)"
  "thrifty (draw d)" "thrifty (show_error msg)" "thrifty (draw_status env t)" "thrifty (run_gs m)"
  "thrifty (with_conf c)" "thrifty (on_proc p)" "thrifty (title_screen env t)" "thrifty error_message"
  by (simp_all add: thrifty_def retE_def leaveE_def asks_def on_cfg_def on_stream_def modify_def draw_def
      polls_left_def show_error_def draw_status_def run_gs_def with_conf_def Let_def on_proc_def title_screen_def
      error_message_def split: prod.split sum.split)

lemma thrifty_if [thrifty_rules]: "(b \<Longrightarrow> thrifty m) \<Longrightarrow> (\<not> b \<Longrightarrow> thrifty n) \<Longrightarrow> thrifty (if b then m else n)"
  by simp

lemma thrifty_option [thrifty_rules]:
  "(x = None \<Longrightarrow> thrifty m) \<Longrightarrow> (\<And>a. x = Some a \<Longrightarrow> thrifty (f a)) \<Longrightarrow>
     thrifty (case x of None \<Rightarrow> m | Some a \<Rightarrow> f a)"
  by (cases x) auto

lemma thrifty_pair [thrifty_rules]: "(\<And>a b. x = (a, b) \<Longrightarrow> thrifty (f a b)) \<Longrightarrow> thrifty (case x of (a, b) \<Rightarrow> f a b)"
  by (cases x) auto

text \<open>An interaction that does not lengthen the script.\<close>

definition consuming :: "(ui \<Rightarrow> ('a \<times> ui) option) \<Rightarrow> bool" where
  "consuming m \<longleftrightarrow> (\<forall>u r v. m u = Some (r, v) \<longrightarrow> length (polls v) \<le> length (polls u))"

lemma thrifty_interact [thrifty_rules]: "consuming m \<Longrightarrow> thrifty (interact m)"
  by (auto simp: thrifty_def interact_def polls_left_def consuming_def split: option.split)

lemma wait_loop_polls: "wait_loop u = Some (r, v) \<Longrightarrow> length (polls v) \<le> length (polls u)"
proof (induction u rule: wait_loop.induct)
  case (1 u)
  show ?case
    using "1.prems" "1.IH"
    by (subst (asm) wait_loop.simps) (fastforce dest: poll_buttons_less split: if_splits option.splits prod.splits)
qed

lemma menu_select_loop_polls:
  "menu_select_loop fc base options sel prev u = Some (r, v) \<Longrightarrow>
     length (polls v) \<le> length (polls u) \<and>
     (running (input u) \<and> \<not> want_main_menu (input u) \<longrightarrow> length (polls v) < length (polls u))"
proof (induction fc base options sel prev u rule: menu_select_loop.induct)
  case (1 fc base options sel prev u)
  show ?case
  proof (cases "running (input u) \<and> \<not> want_main_menu (input u)")
    case False
    with "1.prems" show ?thesis by (subst (asm) menu_select_loop.simps) (auto split: if_splits)
  next
    case True
    let ?sel = "clamp_index sel (length options)"
    let ?u1 = "if ?sel \<noteq> prev then on_font (highlight_option fc base options (nat ?sel)) u else u"
    have len: "length (polls ?u1) = length (polls u)" by simp
    obtain btns u2 where p: "poll_buttons ?u1 = Some (btns, u2)"
      using "1.prems" True by (subst (asm) menu_select_loop.simps) (auto simp: Let_def split: option.splits)
    have less: "length (polls u2) < length (polls u)" using poll_buttons_less [OF p] len by simp
    have "v = u2 \<or> (\<exists>s. menu_select_loop fc base options s ?sel u2 = Some (r, v) \<and> length (polls v) \<le> length (polls u2))"
      using "1.prems" True p "1.IH"
      by (subst (asm) menu_select_loop.simps) (auto simp: Let_def split: if_splits)
    with less show ?thesis by auto
  qed
qed

lemma menu_select_polls:
  assumes "menu_select fc title options sel u = Some (r, v)"
  shows "length (polls v) \<le> length (polls u) \<and>
    (options \<noteq> [] \<and> running (input u) \<and> \<not> want_main_menu (input u) \<longrightarrow> length (polls v) < length (polls u))"
  using assms menu_select_loop_polls [of fc _ options _ "-1" "on_font (menu_render_base fc title options) u" r v]
  by (auto simp: menu_select_def Let_def split: if_splits)

lemma menu_input_loop_polls:
  "menu_input_loop fc title charset maxlen prev e u = Some (r, v) \<Longrightarrow> length (polls v) \<le> length (polls u)"
proof (induction fc title charset maxlen prev e u rule: menu_input_loop.induct)
  case (1 fc title charset maxlen prev e u)
  show ?case
  proof (cases "running (input u) \<and> \<not> want_main_menu (input u)")
    case False
    with "1.prems" show ?thesis by (subst (asm) menu_input_loop.simps) (auto split: if_splits)
  next
    case True
    let ?e = "edit_clamp charset maxlen e"
    let ?now = "(ed_pos ?e, ed_sel ?e, int (ed_len ?e))"
    let ?u1 = "if ?now \<noteq> prev then on_font (draw_entry fc title charset (ed_buf ?e) (ed_pos ?e) (ed_sel ?e) (ed_len ?e) maxlen) u else u"
    have len: "length (polls ?u1) = length (polls u)" by simp
    obtain btns u2 where p: "poll_buttons ?u1 = Some (btns, u2)"
      using "1.prems" True by (subst (asm) menu_input_loop.simps) (auto simp: Let_def split: option.splits)
    have "length (polls u2) < length (polls u)" using poll_buttons_less [OF p] len by simp
    moreover have "v = u2 \<or> length (polls v) \<le> length (polls u2)"
      using "1.prems" True p "1.IH"
      by (subst (asm) menu_input_loop.simps) (auto simp: Let_def split: if_splits)
    ultimately show ?thesis by auto
  qed
qed

lemma menu_input_string_polls:
  "menu_input_string fc title charset maxlen initial u = Some (r, v) \<Longrightarrow> length (polls v) \<le> length (polls u)"
  by (auto simp: menu_input_string_def dest: menu_input_loop_polls split: if_splits)

lemma consuming_menus [thrifty_rules]:
  "consuming wait_loop" "consuming (menu_select fc title options sel)"
  "consuming (menu_input_string fc title charset maxlen initial)"
  "consuming (menu_input_int fc title n)" "consuming (menu_select_bool fc title b)"
  by (auto simp: consuming_def menu_input_int_def menu_select_bool_def Let_def
      dest: wait_loop_polls menu_select_polls menu_input_string_polls split: option.splits prod.splits)

lemma thrifty_save_config [thrifty_rules]: "thrifty (save_config env)"
  by (auto simp: thrifty_def save_config_def polls_left_def split: outcome.split)

lemma thrifty_wait_for_button [thrifty_rules]: "thrifty (wait_for_button env)"
  unfolding wait_for_button_def by (intro thrifty_rules)

lemma thrifty_enter_address [thrifty_rules]: "thrifty (enter_address env)"
  unfolding enter_address_def Let_def by (intro thrifty_rules)

lemma thrifty_settings_number:
  "(\<And>v. thrifty (assign v)) \<Longrightarrow> thrifty (settings_number env title get least assign)"
  unfolding settings_number_def by (intro thrifty_rules)

lemma thrifty_settings_flag [thrifty_rules]: "thrifty (settings_flag env title get assign)"
  unfolding settings_flag_def by (intro thrifty_rules)

lemma thrifty_settings_choice [thrifty_rules]: "thrifty (settings_choice env sel)"
  unfolding settings_choice_def settings_resolution_def settings_encryption_def Let_def
  by (intro thrifty_rules thrifty_settings_number)

section \<open>The settings menu\<close>

text \<open>With the menu's request for the main menu set, \<open>menu_select\<close> answers \<open>-1\<close> and the loop ends.\<close>

lemma menu_select_wanted: "want_main_menu (input u) \<Longrightarrow> menu_select fc title options sel u = Some (r, v) \<Longrightarrow> r = -1"
  by (subst (asm) menu_select_def) (auto simp: Let_def menu_select_loop.simps split: if_splits)

lemma settings_consumes:
  assumes "now_running s" and "menu_select fc title options sel (ap_ui s) = Some (r, u)" and "\<not> r < 0" and "options \<noteq> []"
  shows "length (polls u) < polls_left s"
  using assms menu_select_polls [OF assms(2)] menu_select_wanted [OF _ assms(2)] by (auto simp: polls_left_def)

function settings_loop :: "app_env \<Rightarrow> unit ap" where
  "settings_loop env s =
     (if \<not> now_running s then (Inr (), s)
      else
        (case menu_select (ae_face env) ''Stream settings'' settings_options 0 (ap_ui s) of
           None \<Rightarrow> (Inl Waiting, s)
         | Some (sel, u) \<Rightarrow>
             if sel < 0 then (Inr (), s\<lparr>ap_ui := u\<rparr>)
             else
               (case settings_choice env sel (s\<lparr>ap_ui := u\<rparr>) of
                  (Inl e, t) \<Rightarrow> (Inl e, t)
                | (Inr _, t) \<Rightarrow> settings_loop env t)))"
  by pat_completeness auto

termination
proof (relation "measure (\<lambda>(env, s). polls_left s)", goal_cases)
  case 1
  then show ?case by simp
next
  case (2 env s p sel u x t y)
  have "polls_left t \<le> polls_left (s\<lparr>ap_ui := u\<rparr>)"
    using 2 thriftyD [OF thrifty_settings_choice, of env sel "s\<lparr>ap_ui := u\<rparr>" "Inr ()" t] by auto
  moreover have "length (polls u) < polls_left s"
    using 2 by (intro settings_consumes [of s _ _ settings_options]) (auto simp: settings_options_def)
  ultimately show ?case by (simp add: polls_left_def)
qed

declare settings_loop.simps [simp del]

lemma thrifty_settings_loop [thrifty_rules]: "thrifty (settings_loop env)"
proof -
  have "polls_left (snd (settings_loop env s)) \<le> polls_left s" for s
  proof (induction env s rule: settings_loop.induct)
    case (1 env s)
    show ?case
    proof (cases "now_running s")
      case False
      then show ?thesis by (simp add: settings_loop.simps)
    next
      case True
      show ?thesis
      proof (cases "menu_select (ae_face env) ''Stream settings'' settings_options 0 (ap_ui s)")
        case None
        with True show ?thesis by (subst settings_loop.simps) simp
      next
        case (Some p)
        obtain sel u where p: "p = (sel, u)" by fastforce
        have u: "length (polls u) \<le> polls_left s"
          using menu_select_polls Some p by (fastforce simp: polls_left_def)
        obtain x t where x: "settings_choice env sel (s\<lparr>ap_ui := u\<rparr>) = (x, t)" by fastforce
        have t: "polls_left t \<le> length (polls u)"
          using thriftyD [OF thrifty_settings_choice x] by (simp add: polls_left_def)
        show ?thesis
          using True Some p u t x "1.IH" [OF _ Some p [symmetric] _ x [symmetric]]
          by (subst settings_loop.simps) (fastforce simp: polls_left_def split: sum.split)
      qed
    qed
  qed
  then show ?thesis by (simp add: thrifty_def)
qed

definition settings_menu :: "app_env \<Rightarrow> unit ap" where
  "settings_menu env = bindE (settings_loop env) (\<lambda>_. save_config env)"

section \<open>Connecting and pairing\<close>

definition connection_error :: "int \<Rightarrow> gs_error \<Rightarrow> string" where
  "connection_error ret e =
     (if ret = GS_OUT_OF_MEMORY then ''Not enough memory''
      else if ret = GS_ERROR then snprintf_to 512 (''Gamestream error:\<newline>'' @ gs_get_error_message e)
      else if ret = GS_INVALID then snprintf_to 512 (''Invalid data from server:\<newline>'' @ gs_get_error_message e)
      else if ret = GS_UNSUPPORTED_VERSION then snprintf_to 512 (''Unsupported version:\<newline>'' @ gs_get_error_message e)
      else ''Can't connect to server'')"

text \<open>\<open>True\<close> is the return value 0. A null address is undefined behaviour.\<close>

definition connect_server :: "app_env \<Rightarrow> bool ap" where
  "connect_server env =
     bindE (asks ap_cfg) (\<lambda>cfg.
       case address cfg of
         None \<Rightarrow> leaveE Crashed
       | Some addr \<Rightarrow>
           bindE (draw_status env (snprintf_to 128 (''Connecting to '' @ addr @ ''...''))) (\<lambda>_.
           bindE (run_gs (gs_get_status (ae_client env) addr (unsupported cfg))) (\<lambda>ret.
             if ret = GS_OK then bindE (modify (\<lambda>s. s\<lparr>ap_is_error := False\<rparr>)) (\<lambda>_. retE True)
             else
               bindE error_message (\<lambda>e.
               bindE (show_error (connection_error ret e)) (\<lambda>_.
               bindE (draw_status env ''Connection failed'') (\<lambda>_.
               bindE (wait_for_button env) (\<lambda>_. retE False)))))))"

definition draw_digit :: "app_env \<Rightarrow> string ap" where
  "draw_digit env s =
     (Inr (show_nat ((ae_random env (ap_randoms s)) mod 10)), s\<lparr>ap_randoms := ap_randoms s + 1\<rparr>)"

definition set_message :: "string \<Rightarrow> unit ap" where
  "set_message t = modify (\<lambda>s. s\<lparr>ap_message := t, ap_is_error := False\<rparr>)"

definition report_pairing :: "app_env \<Rightarrow> bool \<Rightarrow> string \<Rightarrow> string \<Rightarrow> string \<Rightarrow> unit ap" where
  "report_pairing env ok good bad title =
     bindE (if ok then set_message good else show_error bad) (\<lambda>_.
     bindE (draw_status env (if ok then title else title @ '' failed'')) (\<lambda>_. wait_for_button env))"

definition do_pair :: "app_env \<Rightarrow> unit ap" where
  "do_pair env =
     bindE (draw_digit env) (\<lambda>d1. bindE (draw_digit env) (\<lambda>d2.
     bindE (draw_digit env) (\<lambda>d3. bindE (draw_digit env) (\<lambda>d4.
       let pinText = d1 @ d2 @ d3 @ d4
       in bindE (title_screen env (''Enter this PIN on the target PC:\<newline>\<newline>    '' @ pinText @ ''\<newline>'')) (\<lambda>_.
          bindE (run_gs (set_timeout_gs 60)) (\<lambda>_.
          bindE (run_gs (gs_pair (ae_client env) pinText)) (\<lambda>ret.
          bindE (run_gs (set_timeout_gs 5)) (\<lambda>_.
            report_pairing env (ret = GS_OK) ''Succesfully paired\<newline>'' ''Failed to pair to server'' ''Pairing''))))))))"

definition do_unpair :: "app_env \<Rightarrow> unit ap" where
  "do_unpair env =
     bindE (run_gs (gs_unpair (ae_client env))) (\<lambda>ret.
       report_pairing env (ret = GS_OK) ''Succesfully unpaired\<newline>'' ''Failed to unpair from server'' ''Unpairing'')"

lemma thrifty_settings_menu [thrifty_rules]: "thrifty (settings_menu env)"
  unfolding settings_menu_def by (intro thrifty_rules)

lemma thrifty_modify_app: "(\<And>s. polls (ap_ui (f s)) = polls (ap_ui s)) \<Longrightarrow> thrifty (modify f)"
  by (simp add: thrifty_def modify_def polls_left_def)

lemma thrifty_connect_server [thrifty_rules]: "thrifty (connect_server env)"
  unfolding connect_server_def by (intro thrifty_rules thrifty_modify_app) simp

lemma thrifty_draw_digit [thrifty_rules]: "thrifty (draw_digit env)"
  by (simp add: thrifty_def draw_digit_def polls_left_def)

lemma thrifty_report_pairing [thrifty_rules]: "thrifty (report_pairing env ok good bad title)"
  unfolding report_pairing_def set_message_def by (intro thrifty_rules thrifty_modify_app) simp

lemma thrifty_do_pair [thrifty_rules]: "thrifty (do_pair env)" "thrifty (do_unpair env)"
  unfolding do_pair_def do_unpair_def Let_def by (intro thrifty_rules)+

section \<open>Streaming\<close>

text \<open>A name of the list as a C string; a freed one is undefined behaviour, \<open>NULL\<close> is \<open>Some None\<close>.\<close>

definition app_title :: "heap \<Rightarrow> app_entry \<Rightarrow> string option option" where
  "app_title h a =
     (case app_name a of None \<Rightarrow> Some None
      | Some p \<Rightarrow> (case heap_string (Some p) h of None \<Rightarrow> None | Some t \<Rightarrow> Some (Some t)))"

fun find_app_id :: "heap \<Rightarrow> app_entry list \<Rightarrow> string \<Rightarrow> int option" where
  "find_app_id h [] name = Some (-1)"
| "find_app_id h (a # as) name =
     (case app_title h a of
        None \<Rightarrow> None
      | Some t \<Rightarrow> if t = Some name then Some (app_id a) else find_app_id h as name)"

text \<open>\<open>free_app_list\<close> gives the names back with their entries: none of them can be read any more, and every other block is as before.\<close>

fun free_app_list :: "app_entry list \<Rightarrow> heap \<Rightarrow> heap" where
  "free_app_list [] h = h"
| "free_app_list (a # as) h = free_app_list as (heap_free (app_name a) h)"

lemma free_app_list_block:
  "length (free_app_list as h) = length h \<and>
   (i < length h \<longrightarrow> free_app_list as h ! i = (if Some i \<in> app_name ` set as then None else h ! i))"
  by (induction as arbitrary: h) (auto simp: heap_free_def nth_list_update split: option.split)

lemma freed_names:
  "a \<in> set as \<Longrightarrow> app_name a = Some p \<Longrightarrow> app_title (free_app_list as h) a = None"
  "Some p \<notin> app_name ` set as \<Longrightarrow> heap_string (Some p) (free_app_list as h) = heap_string (Some p) h"
  using free_app_list_block [of as h p]
  by (force simp: app_title_def heap_string_def split: option.split, auto simp: heap_string_def split: option.split)

text \<open>The loop that should walk to the selected entry: its counter stays zero, so a positive selection walks to the end.\<close>

fun walk_to :: "int \<Rightarrow> app_entry list \<Rightarrow> app_entry list" where
  "walk_to sel [] = []"
| "walk_to sel (a # as) = (if 0 < sel then walk_to sel as else a # as)"

text \<open>The titles given to the menu; it prints all of them, so each has to be a string.\<close>

fun menu_titles :: "heap \<Rightarrow> app_entry list \<Rightarrow> string list option" where
  "menu_titles h [] = Some []"
| "menu_titles h (a # as) =
     (case app_title h a of
        Some (Some t) \<Rightarrow> map_option (\<lambda>ts. t # ts) (menu_titles h as)
      | _ \<Rightarrow> None)"

definition the_value :: "'a option \<Rightarrow> 'a ap" where
  "the_value x = (case x of None \<Rightarrow> leaveE Crashed | Some a \<Rightarrow> retE a)"

text \<open>\<open>appId\<close> and \<open>haveList\<close> after the selection.\<close>

definition select_app :: "app_env \<Rightarrow> (int \<times> bool) ap" where
  "select_app env =
     bindE (run_gs (gs_applist (ae_client env))) (\<lambda>(ret, result).
     bindE (asks ap_cfg) (\<lambda>cfg.
       case result of
         None \<Rightarrow> retE (-1, False)
       | Some (apps, h) \<Rightarrow>
           if ret \<noteq> GS_OK \<or> apps = [] then retE (-1, False)
           else
             bindE (the_value (menu_titles h (take 128 apps))) (\<lambda>names.
             bindE (interact (menu_select (ae_face env) ''Select app'' names 0)) (\<lambda>sel.
               if 0 \<le> sel then
                 retE (case walk_to sel apps of [] \<Rightarrow> -1 | a # _ \<Rightarrow> app_id a, True)
               else bindE (the_value (find_app_id h apps (app cfg))) (\<lambda>i. retE (i, True))))))"

definition get_app_id :: "app_env \<Rightarrow> string \<Rightarrow> int ap" where
  "get_app_id env name =
     bindE (run_gs (gs_applist (ae_client env))) (\<lambda>(ret, result).
       if ret \<noteq> GS_OK then retE (-1)
       else (case result of None \<Rightarrow> retE (-1) | Some (apps, h) \<Rightarrow> the_value (find_app_id h apps name)))"

definition num_controllers :: "ui \<Rightarrow> (nat \<times> ui) option" where
  "num_controllers u =
     (case polls u of [] \<Rightarrow> None | (w, now) # ps \<Rightarrow> Some (wii_input_num_controllers w, u\<lparr>polls := ps\<rparr>))"

fun gamepad_mask_of :: "nat \<Rightarrow> int" where
  "gamepad_mask_of 0 = 0"
| "gamepad_mask_of (Suc n) = gamepad_mask_of n * 2 + 1"

definition start_error :: "int \<Rightarrow> stream_configuration \<Rightarrow> gs_error \<Rightarrow> string" where
  "start_error ret st e =
     (if ret = GS_NOT_SUPPORTED_4K then ''Server doesn't support 4K''
      else if ret = GS_NOT_SUPPORTED_MODE then
        snprintf_to 256 (''Server doesn't support '' @ show_int (st_width st) @ ''x'' @ show_int (st_height st) @
          '' ('' @ show_int (st_fps st) @ '' fps)'')
      else if ret = GS_NOT_SUPPORTED_SOPS_RESOLUTION then
        ''Optimal Playable Settings isn't supported for this resolution''
      else if ret = GS_ERROR then snprintf_to 512 (''Gamestream error:\<newline>'' @ gs_get_error_message e)
      else snprintf_to 256 (''Errorcode starting app: '' @ show_int ret))"

definition stream_failed :: "app_env \<Rightarrow> string \<Rightarrow> unit ap" where
  "stream_failed env msg =
     bindE (show_error msg) (\<lambda>_. bindE (draw_status env ''Stream failed'') (\<lambda>_. wait_for_button env))"

text \<open>From \<open>state = STATE_STREAMING\<close> to the end of the loop: the threads share the state of \<open>Connection\<close>.\<close>

definition run_stream :: "unit ap" where
  "run_stream s =
     (case ap_sessions s of
        [] \<Rightarrow> (Inl Waiting, s)
      | script # rest \<Rightarrow>
          (case stream_loop script \<lparr>ss_input = (input (ap_ui s))\<lparr>client := STATE_STREAMING\<rparr>,
                  ss_video = ap_video s, ss_message = ap_message s, ss_is_error = ap_is_error s, sent = [], drawn = []\<rparr> of
             None \<Rightarrow> (Inl Waiting, s)
           | Some t \<Rightarrow>
               (Inr (), s\<lparr>ap_sessions := rest, ap_ui := (ap_ui s)\<lparr>input := ss_input t\<rparr>, ap_video := ss_video t,
                         ap_message := ss_message t, ap_is_error := ss_is_error t, ap_sent := ap_sent s @ sent t\<rparr>)))"

definition start_connection :: "app_env \<Rightarrow> int ap" where
  "start_connection env s =
     (Inr (ae_start env (ap_starts s) (sv_serverInfo (gs_server (ap_gs s))) (stream (ap_cfg s))),
      s\<lparr>ap_starts := ap_starts s + 1\<rparr>)"

definition stream_app :: "app_env \<Rightarrow> int \<Rightarrow> unit ap" where
  "stream_app env appId =
     bindE (interact num_controllers) (\<lambda>gamepads.
     bindE (title_screen env ''Starting stream...'') (\<lambda>_.
     bindE (asks ap_cfg) (\<lambda>cfg.
     bindE (asks (\<lambda>s. sv_isGfe (gs_server (ap_gs s)))) (\<lambda>gfe.
     bindE (run_gs (gs_start_app (ae_client env) (stream cfg) appId gfe (sops cfg) (localaudio cfg)
              (gamepad_mask_of gamepads))) (\<lambda>(ret, st).
     bindE (on_stream (\<lambda>_. st)) (\<lambda>_.
       if ret < 0 then bindE error_message (\<lambda>e. stream_failed env (start_error ret st e))
       else
         bindE (start_connection env) (\<lambda>r.
           if r \<noteq> 0 then stream_failed env ''Failed to start connection''
           else
             bindE (on_proc (wii_proc_set_home_enabled True)) (\<lambda>_.
             bindE run_stream (\<lambda>_.
             bindE (if quitappafter cfg then run_gs (gs_quit_app (ae_client env)) else retE 0) (\<lambda>_.
               on_proc (\<lambda>p. p\<lparr>client := STATE_INVALID\<rparr>)))))))))))"

definition do_stream :: "app_env \<Rightarrow> unit ap" where
  "do_stream env =
     bindE (select_app env) (\<lambda>(appId, haveList).
     bindE (asks (\<lambda>s. want_main_menu (input (ap_ui s)))) (\<lambda>wanted.
       if wanted then retE ()
       else
         bindE (asks ap_cfg) (\<lambda>cfg.
         bindE (if appId < 0 \<and> \<not> haveList then get_app_id env (app cfg) else retE appId) (\<lambda>appId.
           if appId < 0 then stream_failed env (snprintf_to 256 (''Can't find app '' @ app cfg))
           else stream_app env appId))))"

lemma thrifty_the_value [thrifty_rules]: "thrifty (the_value x)"
  unfolding the_value_def by (intro thrifty_rules)

lemma thrifty_app_id [thrifty_rules]: "thrifty (get_app_id env name)" "thrifty (select_app env)"
  unfolding get_app_id_def select_app_def by (intro thrifty_rules)+

lemma thrifty_run_stream [thrifty_rules]: "thrifty run_stream" "thrifty (start_connection env)"
  by (auto simp: thrifty_def run_stream_def polls_left_def start_connection_def split: list.split option.split)

lemma consuming_controllers [thrifty_rules]: "consuming num_controllers"
  by (auto simp: consuming_def num_controllers_def split: list.splits)

lemma thrifty_stream_failed [thrifty_rules]: "thrifty (stream_failed env msg)"
  unfolding stream_failed_def by (intro thrifty_rules)

lemma thrifty_do_stream [thrifty_rules]: "thrifty (stream_app env n)" "thrifty (do_stream env)"
  unfolding do_stream_def stream_app_def by (intro thrifty_rules)+

section \<open>The main menu\<close>

definition connected_title :: "configuration \<Rightarrow> string" where
  "connected_title cfg =
     snprintf_to 128 (''Connected to '' @ (case address cfg of None \<Rightarrow> ''?'' | Some a \<Rightarrow> a))"

definition connected_options :: "bool \<Rightarrow> string list" where
  "connected_options paired =
     [''Stream'', if paired then ''Unpair'' else ''Pair'', ''Stream settings'', ''Change IP address'',
      ''Disconnect'', ''Quit'']"

definition disconnected_options :: "string list" where
  "disconnected_options = [''Connect'', ''Enter IP address'', ''Stream settings'', ''Quit'']"

text \<open>The reaction to a choice; the result is the new value of \<open>connected\<close>.\<close>

definition connected_choice :: "app_env \<Rightarrow> int \<Rightarrow> bool ap" where
  "connected_choice env sel =
     (if sel = 0 then bindE (do_stream env) (\<lambda>_. retE True)
      else if sel = 1 then
        bindE (asks (\<lambda>s. sv_paired (gs_server (ap_gs s)))) (\<lambda>paired.
        bindE (if paired then do_unpair env else do_pair env) (\<lambda>_. retE True))
      else if sel = 2 then bindE (settings_menu env) (\<lambda>_. retE True)
      else if sel = 3 then bindE (enter_address env) (\<lambda>_. retE True)
      else if sel = 4 then retE False
      else if sel = 5 then bindE (on_proc wii_proc_stop_running) (\<lambda>_. retE True)
      else retE True)"

definition disconnected_choice :: "app_env \<Rightarrow> int \<Rightarrow> bool ap" where
  "disconnected_choice env sel =
     (if sel = 0 then
        bindE (asks ap_cfg) (\<lambda>cfg.
        bindE (if address cfg = None then enter_address env else retE True) (\<lambda>known.
          if \<not> known then retE False
          else
            bindE (connect_server env) (\<lambda>ok.
              if ok then bindE (if autostream cfg then do_stream env else retE ()) (\<lambda>_. retE True)
              else retE False)))
      else if sel = 1 then bindE (enter_address env) (\<lambda>_. retE False)
      else if sel = 2 then bindE (settings_menu env) (\<lambda>_. retE False)
      else if sel = 3 then bindE (on_proc wii_proc_stop_running) (\<lambda>_. retE False)
      else retE False)"

definition menu_choice :: "app_env \<Rightarrow> bool \<Rightarrow> int \<Rightarrow> bool ap" where
  "menu_choice env conn sel =
     (if conn then connected_choice env sel else disconnected_choice env sel)"

definition main_title :: "bool \<Rightarrow> app_state \<Rightarrow> string" where
  "main_title conn s = (if conn then connected_title (ap_cfg s) else ''Moonlight Wii (disconnected)'')"

definition main_options :: "bool \<Rightarrow> app_state \<Rightarrow> string list" where
  "main_options conn s =
     (if conn then connected_options (sv_paired (gs_server (ap_gs s))) else disconnected_options)"

definition clear_wanted :: "app_state \<Rightarrow> app_state" where
  "clear_wanted s = s\<lparr>ap_ui := (ap_ui s)\<lparr>input := wii_proc_set_want_main_menu False (input (ap_ui s))\<rparr>\<rparr>"

lemma thrifty_menu_choice: "thrifty (menu_choice env conn sel)"
  unfolding menu_choice_def connected_choice_def disconnected_choice_def by (intro thrifty_rules)

lemma main_consumes:
  assumes "now_running s" and "menu_select fc title (main_options c t) sel (ap_ui (clear_wanted s)) = Some (r, u)"
  shows "length (polls u) < polls_left s"
  using assms menu_select_polls [OF assms(2)]
  by (auto simp: polls_left_def clear_wanted_def wii_proc_set_want_main_menu_def main_options_def
      connected_options_def disconnected_options_def split: if_splits)

function main_menu :: "app_env \<Rightarrow> bool \<Rightarrow> unit ap" where
  "main_menu env conn s =
     (if \<not> now_running s then (Inr (), s)
      else
        (let s1 = clear_wanted s
         in case menu_select (ae_face env) (main_title conn s1) (main_options conn s1) 0 (ap_ui s1) of
              None \<Rightarrow> (Inl Waiting, s1)
            | Some (sel, u) \<Rightarrow>
                if sel < 0 then main_menu env conn (s1\<lparr>ap_ui := u\<rparr>)
                else
                  (case menu_choice env conn sel (s1\<lparr>ap_ui := u\<rparr>) of
                     (Inl e, t) \<Rightarrow> (Inl e, t)
                   | (Inr conn', t) \<Rightarrow> main_menu env conn' t)))"
  by pat_completeness auto

termination
proof (relation "measure (\<lambda>(env, c, s). polls_left s)", goal_cases)
  case 1
  then show ?case by simp
next
  case (2 env c s s1 p sel u)
  then show ?case using main_consumes [of s] by (auto simp: polls_left_def)
next
  case (3 env c s s1 p sel u x t c')
  have "polls_left t \<le> polls_left (s1\<lparr>ap_ui := u\<rparr>)"
    using 3 thriftyD [OF thrifty_menu_choice, of env c sel "s1\<lparr>ap_ui := u\<rparr>" x t] by auto
  moreover have "length (polls u) < polls_left s"
    using 3 main_consumes [of s] by auto
  ultimately show ?case by (simp add: polls_left_def)
qed

declare main_menu.simps [simp del]

section \<open>The program\<close>

text \<open>\<open>handle_config_pair\<close>: the IOS to load, when the argument names one.\<close>

definition pair_separator :: "char \<Rightarrow> bool" where
  "pair_separator c \<longleftrightarrow> c = CHR '' '' \<or> c = CHR 0x09 \<or> c = CHR '':'' \<or> c = CHR ''=''"

definition handle_config_pair :: "string \<Rightarrow> int option \<Rightarrow> int option" where
  "handle_config_pair kv ios =
     (let key = take 63 (takeWhile (\<lambda>c. \<not> pair_separator c) kv);
          vs = dropWhile pair_separator (drop (length key) kv)
      in if key = ''ios'' then Some (atoi vs) else ios)"

text \<open>
  The configuration at the start of \<open>main\<close>; \<open>fuel\<close> bounds the nesting of configuration files.
\<close>

definition read_config :: "app_env \<Rightarrow> nat \<Rightarrow> unit ap" where
  "read_config env fuel s =
     (let (made, fs) = config_ensure_wii (path_max (ae_platform env)) (mkdir_ok (ae_platform env)) (ap_fs s);
          s1 = s\<lparr>ap_fs := fs, ap_made := made\<rparr>
      in case config_parse fuel (ae_malloc env) fs (inputAdded (ap_cfg s)) (autostream (ap_cfg s)) of
           Done cfg \<Rightarrow> (Inr (), s1\<lparr>ap_cfg := cfg\<rparr>)
         | Exit n \<Rightarrow> (Inl (Exited n), s1)
         | _ \<Rightarrow> (Inl Crashed, s1))"

end
