(* ===== verification/AppFacts.thy ===== *)
theory AppFacts
  imports App ConfigFacts MenuFacts ClientFacts
begin

text \<open>
  What the menus of \<open>main.c\<close> guarantee: what the settings may become, the address that is stored, which
  application a selection starts, what is needed before the stream runs, and how the main menu ends.
\<close>

section \<open>Answers of a menu\<close>

lemma menu_select_loop_range:
  "options \<noteq> [] \<Longrightarrow> menu_select_loop fc base options sel prev u = Some (r, v) \<Longrightarrow> -1 \<le> r \<and> r < int (length options)"
proof (induction fc base options sel prev u rule: menu_select_loop.induct)
  case (1 fc base options sel prev u)
  show ?case
  proof (cases "running (input u) \<and> \<not> want_main_menu (input u)")
    case False
    with "1.prems" show ?thesis by (subst (asm) menu_select_loop.simps) (auto split: if_splits)
  next
    case True
    let ?sel = "clamp_index sel (length options)"
    let ?u1 = "if ?sel \<noteq> prev then on_font (highlight_option fc base options (nat ?sel)) u else u"
    have range: "0 \<le> ?sel" "?sel < int (length options)"
      using clamp_index_range [of "length options" sel] "1.prems"(1) by auto
    obtain btns u2 where p: "poll_buttons ?u1 = Some (btns, u2)"
      using "1.prems"(2) True by (subst (asm) menu_select_loop.simps) (auto simp: Let_def split: option.splits)
    have "r = ?sel \<or> r = -1 \<or> -1 \<le> r \<and> r < int (length options)"
      using "1.prems" True p "1.IH"
      by (subst (asm) menu_select_loop.simps) (auto simp: Let_def split: if_splits)
    with range show ?thesis by auto
  qed
qed

lemma menu_select_range:
  "menu_select fc title options sel u = Some (r, v) \<Longrightarrow> options \<noteq> [] \<Longrightarrow> -1 \<le> r \<and> r < int (length options)"
  using menu_select_loop_range by (fastforce simp: menu_select_def Let_def split: if_splits)

text \<open>One sample decides: A takes the entry under the cursor, B leaves.\<close>

lemma menu_select_decided:
  assumes "running (input u)" and "\<not> want_main_menu (input u)" and "polls u = (w, now) # ps" and "options \<noteq> []"
    and "wii_input_buttons_triggered w now (input u) = (b, inp)" and "0 \<le> sel"
    and "b AND WPAD_BUTTON_A \<noteq> 0 \<and> r = clamp_index sel (length options) \<or>
         b AND WPAD_BUTTON_A = 0 \<and> b AND WPAD_BUTTON_B \<noteq> 0 \<and> r = -1"
  shows "\<exists>v. menu_select fc title options sel u = Some (r, v) \<and> polls v = ps \<and> input v = inp"
proof -
  let ?u = "on_font (menu_render_base fc title options) u"
  have u: "running (input ?u)" "\<not> want_main_menu (input ?u)" "polls ?u = (w, now) # ps"
    "wii_input_buttons_triggered w now (input ?u) = (b, inp)" using assms by simp_all
  from menu_select_loop_step [OF u, of fc "take (unat (Font_BufferSize (font ?u))) (font_buffer (font ?u))" options sel "-1"]
    assms(4,6,7) show ?thesis by (auto simp: menu_select_def Let_def)
qed

section \<open>The settings\<close>

text \<open>\<open>settled P m\<close>: \<open>m\<close> keeps a predicate of the configuration on every path.\<close>

definition cfg_holds :: "(configuration \<Rightarrow> bool) \<Rightarrow> app_state \<Rightarrow> bool" where
  "cfg_holds P s \<longleftrightarrow> P (ap_cfg s)"

definition settled :: "(configuration \<Rightarrow> bool) \<Rightarrow> 'a ap \<Rightarrow> bool" where
  "settled P m \<longleftrightarrow> triple (cfg_holds P) m (\<lambda>_. cfg_holds P) (\<lambda>_. cfg_holds P)"

lemma settled_bindE: "settled P m \<Longrightarrow> (\<And>a. settled P (f a)) \<Longrightarrow> settled P (bindE m f)"
  unfolding settled_def by (rule triple_bindE)

lemma settled_if: "(b \<Longrightarrow> settled P m) \<Longrightarrow> (\<not> b \<Longrightarrow> settled P n) \<Longrightarrow> settled P (if b then m else n)"
  by simp

lemma settled_retE: "settled P (retE a)" "settled P (asks f)" "settled P (draw d)"
  by (simp_all add: settled_def triple_def retE_def asks_def draw_def modify_def cfg_holds_def)

lemma settled_on_cfg: "(\<And>c. P c \<Longrightarrow> P (f c)) \<Longrightarrow> settled P (on_cfg f)"
  by (simp add: settled_def triple_def on_cfg_def modify_def cfg_holds_def)

lemma settled_interact:
  assumes "\<And>u r v. m u = Some (r, v) \<Longrightarrow> Q r" and "\<And>r. Q r \<Longrightarrow> settled P (f r)"
  shows "settled P (bindE (interact m) f)"
proof -
  have "triple (cfg_holds P) (interact m) (\<lambda>r s. cfg_holds P s \<and> Q r) (\<lambda>_. cfg_holds P)"
    using assms(1) by (auto simp: triple_def interact_def cfg_holds_def split: option.split)
  moreover have "triple (\<lambda>s. cfg_holds P s \<and> Q r) (f r) (\<lambda>_. cfg_holds P) (\<lambda>_. cfg_holds P)" for r
    using assms(2) by (auto simp: settled_def triple_def)
  ultimately show ?thesis unfolding settled_def by (rule triple_bindE)
qed

text \<open>What every configuration the menu can reach satisfies.\<close>

definition streamable :: "configuration \<Rightarrow> bool" where
  "streamable c \<longleftrightarrow>
     (st_width (stream c), st_height (stream c)) \<in> {(640, 480), (854, 480), (1280, 720), (1920, 1080)} \<and>
     0 < st_fps (stream c) \<and> 0 < st_bitrate (stream c) \<and> 0 \<le> osd_overscan c \<and>
     st_encryptionFlags (stream c) \<in> {0, 1, 2, 3}"

lemma below_four: "0 \<le> r \<Longrightarrow> r < 4 \<Longrightarrow> r = 0 \<or> r = 1 \<or> r = 2 \<or> r = (3::int)"
  by auto

lemma settled_resolution: "settled streamable (settings_resolution env)"
  unfolding settings_resolution_def Let_def
  apply (rule settled_bindE [OF settled_retE(2)])
  apply (rule settled_interact [where Q = "\<lambda>r. r < 4"])
   apply (drule menu_select_range, simp, simp)
  apply (intro settled_if settled_retE)
  apply (simp add: on_stream_def, rule settled_on_cfg)
  subgoal for r cfg
    by (rule disjE [OF below_four [of r]]) (auto simp: streamable_def)
  done

lemma settled_encryption: "settled streamable (settings_encryption env)"
  unfolding settings_encryption_def
  apply (rule settled_bindE [OF settled_retE(2)])
  apply (rule settled_interact [where Q = "\<lambda>r. r < 4"])
   apply (drule menu_select_range, simp, simp)
  apply (intro settled_if settled_retE)
  apply (simp add: on_stream_def, rule settled_on_cfg)
  subgoal for r cfg
    by (rule disjE [OF below_four [of r]]) (auto simp: streamable_def encryption_values_def ENCFLG_NONE_def ENCFLG_AUDIO_def ENCFLG_VIDEO_def)
  done

lemma settled_number:
  "(\<And>v. least \<le> v \<Longrightarrow> settled P (assign v)) \<Longrightarrow> settled P (settings_number env title get least assign)"
  unfolding settings_number_def
  by (rule settled_bindE [OF settled_retE(2)], rule settled_interact [where Q = "\<lambda>_. True"])
    (auto intro: settled_if settled_retE)

lemma settled_flag:
  "(\<And>b c. P c \<Longrightarrow> P (assign b c)) \<Longrightarrow> settled P (settings_flag env title get assign)"
  unfolding settings_flag_def
  by (rule settled_bindE [OF settled_retE(2)], rule settled_interact [where Q = "\<lambda>_. True"])
    (auto intro: settled_if settled_retE settled_on_cfg)

lemma settled_choice: "settled streamable (settings_choice env sel)"
  unfolding settings_choice_def
  by (intro settled_if settled_resolution settled_encryption settled_number settled_flag settled_bindE settled_retE)
    (auto simp: on_stream_def streamable_def intro!: settled_on_cfg)

lemma settings_loop_settled: "streamable (ap_cfg s) \<Longrightarrow> settings_loop env s = (r, t) \<Longrightarrow> streamable (ap_cfg t)"
proof (induction env s arbitrary: r rule: settings_loop.induct)
  case (1 env s)
  show ?case
  proof (cases "now_running s")
    case False
    with "1.prems" show ?thesis by (simp add: settings_loop.simps)
  next
    case True
    show ?thesis
    proof (cases "menu_select (ae_face env) ''Stream settings'' settings_options 0 (ap_ui s)")
      case None
      with True "1.prems" show ?thesis by (subst (asm) settings_loop.simps) simp
    next
      case (Some p)
      obtain sel u where p: "p = (sel, u)" by fastforce
      obtain x t1 where x: "settings_choice env sel (s\<lparr>ap_ui := u\<rparr>) = (x, t1)" by fastforce
      have "streamable (ap_cfg t1)"
        using settled_choice [of env sel] x "1.prems"(1)
        by (auto simp: settled_def triple_def cfg_holds_def dest!: spec [of _ "s\<lparr>ap_ui := u\<rparr>"] split: sum.splits)
      moreover have "settings_loop env s =
          (if sel < 0 then (Inr (), s\<lparr>ap_ui := u\<rparr>)
           else (case x of Inl e \<Rightarrow> (Inl e, t1) | Inr _ \<Rightarrow> settings_loop env t1))"
        using True Some p x by (subst settings_loop.simps) simp
      ultimately have run: "(if sel < 0 then (Inr (), s\<lparr>ap_ui := u\<rparr>)
          else (case x of Inl e \<Rightarrow> (Inl e, t1) | Inr _ \<Rightarrow> settings_loop env t1)) = (r, t)"
        and t1: "streamable (ap_cfg t1)"
        using "1.prems"(2) by simp_all
      consider "sel < 0" | e where "\<not> sel < 0" "x = Inl e" | v where "\<not> sel < 0" "x = Inr v" by (cases x) auto
      then show ?thesis
      proof cases
        case 3
        then show ?thesis using run t1 "1.IH" [OF _ Some p [symmetric] _ x [symmetric]] True by simp
      qed (use run t1 "1.prems"(1) in auto)
    qed
  qed
qed




definition example_app_env :: "client_env \<Rightarrow> app_env" where
  "example_app_env ce =
     \<lparr>ae_face = blank_face, ae_client = ce, ae_start = (\<lambda>_ _ _. 0), ae_random = (\<lambda>_. 7), ae_platform = example_platform,
      ae_crypto = example_crypto, ae_malloc = example_malloc\<rparr>"

definition idle_input :: input_state where
  "idle_input = example_input\<lparr>client := STATE_INVALID\<rparr>"

definition example_state :: "(wpad \<times> u64) list \<Rightarrow> app_state" where
  "example_state ps =
     \<lparr>ap_ui = \<lparr>input = idle_input, font = example_canvas, polls = ps\<rparr>, ap_cfg = ConfigFacts.example_config, ap_gs = example_client_state, ap_fs = example_fs, ap_made = [],
      ap_is_error = False, ap_message = [], ap_video = example_video, ap_sessions = [], ap_starts = 0,
      ap_randoms = 0, ap_sent = []\<rparr>"

lemma example_buttons:
  "wii_input_buttons_triggered (press WPAD_BUTTON_A) 0 idle_input = (WPAD_BUTTON_A, idle_input)"
  "wii_input_buttons_triggered (press WPAD_BUTTON_B) 0 idle_input = (WPAD_BUTTON_B, idle_input)"
  "wii_input_buttons_triggered (press WPAD_BUTTON_DOWN) 0 idle_input = (WPAD_BUTTON_DOWN, idle_input)"
  "running idle_input" "\<not> want_main_menu idle_input"
  by code_simp+

lemma example_press:
  assumes "input u = idle_input" and "options \<noteq> []" and "0 \<le> sel" and "sel < int (length options)"
  shows "polls u = (press WPAD_BUTTON_A, 0) # ps \<Longrightarrow>
      \<exists>v. menu_select fc title options sel u = Some (sel, v) \<and> polls v = ps \<and> input v = idle_input"
    and "polls u = (press WPAD_BUTTON_B, 0) # ps \<Longrightarrow>
      \<exists>v. menu_select fc title options sel u = Some (-1, v) \<and> polls v = ps \<and> input v = idle_input"
proof -
  have i: "running (input u)" "\<not> want_main_menu (input u)" using assms(1) example_buttons(4,5) by simp_all
  have c: "clamp_index sel (length options) = sel" using assms(3,4) by (simp add: clamp_index_def Let_def)
  show "\<exists>v. menu_select fc title options sel u = Some (sel, v) \<and> polls v = ps \<and> input v = idle_input"
    if "polls u = (press WPAD_BUTTON_A, 0) # ps"
    using menu_select_decided [OF i that assms(2) example_buttons(1) [folded assms(1)] assms(3), of sel] assms(1) c
    by (simp add: WPAD_BUTTON_A_def)
  show "\<exists>v. menu_select fc title options sel u = Some (-1, v) \<and> polls v = ps \<and> input v = idle_input"
    if "polls u = (press WPAD_BUTTON_B, 0) # ps"
    using menu_select_decided [OF i that assms(2) example_buttons(2) [folded assms(1)] assms(3), of "-1"] assms(1)
    by (simp add: WPAD_BUTTON_A_def WPAD_BUTTON_B_def)
qed


section \<open>Starting an application\<close>

lemma walk_to_later: "0 < sel \<Longrightarrow> walk_to sel apps = []"
  by (induction apps) auto

lemma menu_titles_length: "menu_titles h apps = Some names \<Longrightarrow> length names = length apps"
  by (induction apps arbitrary: names) (auto split: option.splits)

lemma frames_draw [frame_rules]:
  "Prelude.frames ap_gs (draw d)" "Prelude.frames ap_starts (draw d)" "Prelude.frames ap_message (draw d)" "Prelude.frames ap_is_error (draw d)"
  "Prelude.frames ap_gs (interact m)" "Prelude.frames ap_starts (interact m)" "Prelude.frames ap_message (interact m)" "Prelude.frames ap_is_error (interact m)"
  by (simp_all add: Prelude.frames_def draw_def modify_def interact_def split: option.split)

lemma frames_draw_status [frame_rules]: "(\<And>d. Prelude.frames v (draw d)) \<Longrightarrow> Prelude.frames v (draw_status env t)"
  by (simp add: Prelude.frames_def draw_status_def)

lemma frames_wait [frame_rules]:
  "(\<And>d. Prelude.frames v (draw d)) \<Longrightarrow> Prelude.frames v (interact wait_loop) \<Longrightarrow> Prelude.frames v (wait_for_button env)"
  unfolding wait_for_button_def by (intro frame_rules)

lemma stream_failed_effect:
  assumes "stream_failed env msg s = (r, t)"
  shows "ap_gs t = ap_gs s" "ap_starts t = ap_starts s" "ap_message t = snprintf_to 1024 msg" "ap_is_error t"
proof -
  let ?s = "s\<lparr>ap_message := snprintf_to 1024 msg, ap_is_error := True\<rparr>"
  let ?m = "bindE (draw_status env ''Stream failed'') (\<lambda>_. wait_for_button env)"
  have m: "?m ?s = (r, t)" using assms by (simp add: stream_failed_def show_error_def modify_def bindE_def)
  have "Prelude.frames ap_gs ?m" "Prelude.frames ap_starts ?m" "Prelude.frames ap_message ?m" "Prelude.frames ap_is_error ?m"
    by (intro frame_rules)+
  from this [THEN framesD, OF m] show "ap_gs t = ap_gs s" "ap_starts t = ap_starts s"
      "ap_message t = snprintf_to 1024 msg" "ap_is_error t"
    by simp_all
qed

text \<open>C36. Streaming from the menu of applications: the first entry is started with its number, but for every later entry
  the client reports that it cannot find the configured application, sends nothing more to the host and starts no connection:
  the loop that walks to the selected entry never counts.\<close>

theorem only_first_app_starts:
  assumes "gs_applist (ae_client env) (ap_gs s) = (Inr (GS_OK, Some (apps, h)), g)"
    and "apps \<noteq> []" and "menu_titles h (take 128 apps) = Some names"
    and "menu_select (ae_face env) ''Select app'' names 0 (ap_ui s) = Some (sel, u)" and "0 \<le> sel"
    and "\<not> want_main_menu (input u)" and "0 \<le> app_id (hd apps)" and "do_stream env s = (r, t)"
  shows "(sel = 0 \<longrightarrow> stream_app env (app_id (hd apps)) (s\<lparr>ap_gs := g, ap_ui := u\<rparr>) = (r, t)) \<and>
    (0 < sel \<longrightarrow> ap_gs t = g \<and> ap_starts t = ap_starts s \<and> ap_is_error t \<and>
       ap_message t = snprintf_to 1024 (snprintf_to 256 (''Can't find app '' @ app (ap_cfg s))))"
proof -
  let ?s = "s\<lparr>ap_gs := g, ap_ui := u\<rparr>"
  let ?id = "case walk_to sel apps of [] \<Rightarrow> -1 | a # _ \<Rightarrow> app_id a"
  have sel: "select_app env s = (Inr (?id, True), ?s)"
    using assms(1-5) by (simp add: select_app_def bindE_def run_gs_def asks_def retE_def interact_def the_value_def)
  have run: "(if ?id < 0 then stream_failed env (snprintf_to 256 (''Can't find app '' @ app (ap_cfg s))) ?s
      else stream_app env ?id ?s) = (r, t)"
    using assms(6,8) sel by (simp add: do_stream_def bindE_def asks_def retE_def if_distrib [of "\<lambda>m. m _"] split: if_splits)
  have "?id = (if sel = 0 then app_id (hd apps) else -1)"
    using assms(2,5) walk_to_later [of sel apps] by (cases apps) auto
  with run assms(5,7) stream_failed_effect [of env _ ?s r t] show ?thesis
    by (auto split: if_splits)
qed

definition example_app2 :: app_xml where
  "example_app2 = \<lparr>ax_title = [''Steam''], ax_id = [''7''], ax_hdr = [''0'']\<rparr>"

abbreviation list_env :: client_env where
  "list_env \<equiv> example_env (applist_document [example_app, example_app2])"

lemma example_applist:
  "\<exists>apps h g. gs_applist list_env example_client_state = (Inr (GS_OK, Some (apps, h)), g) \<and> with_server example_server g \<and>
     map (read_app h) apps = [(Some ''Steam'', 7, 0), (Some ''Desktop'', 881448767, 0)]"
proof -
  let ?path = "client_path ''id'' ''u'' ''applist'' None"
  let ?ev = "applist_document [example_app, example_app2]"
  have l: "length ?path < 4000" by (simp add: client_path_def)
  have ok: "list_all app_xml_ok [example_app, example_app2]"
    by (simp add: app_xml_ok_def example_app_def example_app2_def nul_def)
  have m: "rev (map meant_app [example_app, example_app2]) = [(Some ''Steam'', 7, 0), (Some ''Desktop'', 881448767, 0)]"
    by (simp add: meant_app_def example_app_def example_app2_def) code_simp
  have st: "fst (fold status_event ?ev (0, no_error)) = STATUS_OK" by code_simp
  have "yields example_server
      (bindE (construct_url list_env None 4096 True ''applist'' None) (\<lambda>url.
       bindE (request list_env url http_data_alloc) (\<lambda>(r, d). bindE (status_of list_env d) (\<lambda>st. retE (r, d, st)))))
      (GS_OK, answered, GS_OK) example_server"
    apply (rule yields_bindE, rule yields_url [OF example_address l], simp)
    apply (rule yields_bindE [OF yields_request [OF l client_path_slash]], simp only: run)
    apply (rule yields_bindE [OF yields_status [OF st]], rule yields_retE)
    done
  from yieldsD [OF this example_with_server] obtain g where g:
    "bindE (construct_url list_env None 4096 True ''applist'' None) (\<lambda>url.
       bindE (request list_env url http_data_alloc) (\<lambda>(r, d). bindE (status_of list_env d) (\<lambda>st. retE (r, d, st))))
       example_client_state = (Inr (GS_OK, answered, GS_OK), g)" "with_server example_server g"
    by blast
  obtain apps h where a: "xml_applist (\<lambda>_. True) (\<lambda>_. (?ev, None)) (doc answered) (gs_err g) =
      Some ((GS_OK, Some (apps, h)), gs_err g)" "map (read_app h) apps = rev (map meant_app [example_app, example_app2])"
    using applist_document_read [OF _ _ ok, of "\<lambda>_. True" "\<lambda>_. (?ev, None)" "doc answered" "gs_err g"] by blast
  have env: "alloc_data list_env = Some http_data_alloc" "e_fits list_env = (\<lambda>_. True)" "e_expat list_env = (\<lambda>_. (?ev, None))"
    by (simp_all add: alloc_data_def example_env_def)
  have "(GS_OK = GS_ERROR) = False" by (simp add: gs_codes)
  then have "gs_applist list_env example_client_state = (Inr (GS_OK, Some (apps, h)), g)"
    using g(1) a(1) unfolding gs_applist_def env
    by (auto simp: bindE_def retE_def split: prod.splits sum.splits if_splits)
  with g(2) a(2) m show ?thesis by auto
qed

text \<open>One press on DOWN, then A.\<close>

lemma example_down_A:
  assumes "input u = idle_input" and "options = [a, b]" and "polls u = (press WPAD_BUTTON_DOWN, 0) # (press WPAD_BUTTON_A, 0) # ps"
  shows "\<exists>v. menu_select fc title options 0 u = Some (1, v) \<and> polls v = ps \<and> input v = idle_input"
proof -
  let ?u = "on_font (menu_render_base fc title options) u"
  let ?base = "take (unat (Font_BufferSize (font ?u))) (font_buffer (font ?u))"
  have u: "running (input ?u)" "\<not> want_main_menu (input ?u)"
    "polls ?u = (press WPAD_BUTTON_DOWN, 0) # (press WPAD_BUTTON_A, 0) # ps"
    "wii_input_buttons_triggered (press WPAD_BUTTON_DOWN) 0 (input ?u) = (WPAD_BUTTON_DOWN, idle_input)"
    using assms example_buttons by simp_all
  obtain u2 where 2: "polls u2 = (press WPAD_BUTTON_A, 0) # ps" "input u2 = idle_input"
      "menu_select_loop fc ?base options 0 (-1) ?u = menu_select_loop fc ?base options 1 0 u2"
    using menu_select_loop_step [OF u, of fc ?base options 0 "-1"] assms(2)
    by (auto simp: clamp_index_def nav_move_def WPAD_BUTTON_A_def WPAD_BUTTON_B_def WPAD_BUTTON_DOWN_def)
  have v: "running (input u2)" "\<not> want_main_menu (input u2)"
    "wii_input_buttons_triggered (press WPAD_BUTTON_A) 0 (input u2) = (WPAD_BUTTON_A, idle_input)"
    using 2(2) example_buttons by simp_all
  obtain u3 where 3: "polls u3 = ps" "input u3 = idle_input" "menu_select_loop fc ?base options 1 0 u2 = Some (1, u3)"
    using menu_select_loop_step [OF v(1,2) 2(1) v(3), of fc ?base options 1 0] assms(2)
    by (auto simp: clamp_index_def WPAD_BUTTON_A_def)
  have "menu_select fc title options 0 u = Some (1, u3)"
    using assms(2) 2(3) 3(3) by (simp add: menu_select_def Let_def)
  with 3 show ?thesis by blast
qed

theorem only_first_app_starts_witness:
  "\<exists>r t. do_stream (example_app_env list_env)
      (example_state [(press WPAD_BUTTON_DOWN, 0), (press WPAD_BUTTON_A, 0), (press WPAD_BUTTON_A, 0)]) = (r, t) \<and>
     ap_starts t = 0 \<and> ap_message t = ''Can'' @ [CHR 0x27] @ ''t find app Desktop''"
proof -
  let ?env = "example_app_env list_env"
  let ?s = "example_state [(press WPAD_BUTTON_DOWN, 0), (press WPAD_BUTTON_A, 0), (press WPAD_BUTTON_A, 0)]"
  obtain apps h g where a: "gs_applist (ae_client ?env) (ap_gs ?s) = (Inr (GS_OK, Some (apps, h)), g)"
      "map (read_app h) apps = [(Some ''Steam'', 7, 0), (Some ''Desktop'', 881448767, 0)]"
    using example_applist by (auto simp: example_app_env_def example_state_def)
  obtain a1 a2 where l: "apps = [a1, a2]" "heap_string (app_name a1) h = Some ''Steam''" "app_id a1 = 7"
      "heap_string (app_name a2) h = Some ''Desktop''"
    using a(2) by (auto simp: read_app_def)
  have "app_name a1 \<noteq> None" "app_name a2 \<noteq> None" using l by (auto simp: heap_string_def split: option.splits)
  then have n: "menu_titles h (take 128 apps) = Some [''Steam'', ''Desktop'']"
    using l by (auto simp: app_title_def)
  have s: "input (ap_ui ?s) = idle_input" "polls (ap_ui ?s) =
      [(press WPAD_BUTTON_DOWN, 0), (press WPAD_BUTTON_A, 0), (press WPAD_BUTTON_A, 0)]"
      "app (ap_cfg ?s) = ''Desktop''" "ap_starts ?s = 0"
    by (simp_all add: example_state_def ConfigFacts.example_config_def)
  obtain u where u: "menu_select (ae_face ?env) ''Select app'' [''Steam'', ''Desktop''] 0 (ap_ui ?s) = Some (1, u)"
      "input u = idle_input"
    using example_down_A [OF s(1) refl s(2)] by blast
  obtain r t where r: "do_stream ?env ?s = (r, t)" by fastforce
  have "apps \<noteq> []" "\<not> want_main_menu (input u)" "0 \<le> app_id (hd apps)" using l u example_buttons by simp_all
  from only_first_app_starts [OF a(1) this(1) n u(1) _ this(2,3) r] r s show ?thesis
    by (auto simp: snprintf_to_def)
qed

section \<open>The address\<close>

definition address_text :: "string \<Rightarrow> bool" where
  "address_text a \<longleftrightarrow> a \<noteq> [] \<and> length a \<le> 15 \<and> last a \<noteq> CHR ''.'' \<and> last a \<noteq> CHR '' ''"

definition plain_text :: "string \<Rightarrow> bool" where
  "plain_text a \<longleftrightarrow> nul \<notin> set a \<and> (\<forall>c \<in> set a. \<not> is_space c)"

lemma trim_address_text:
  "trim_address t \<noteq> [] \<Longrightarrow> length t \<le> 15 \<Longrightarrow> address_text (trim_address t)"
  "set (trim_address t) \<subseteq> set t"
proof -
  let ?r = "dropWhile (\<lambda>c. c = CHR ''.'' \<or> c = CHR '' '') (rev t)"
  show "address_text (trim_address t)" if "trim_address t \<noteq> []" "length t \<le> 15"
  proof -
    have "?r \<noteq> []" using that(1) by (simp add: trim_address_def)
    then have "hd ?r \<noteq> CHR ''.''" "hd ?r \<noteq> CHR '' ''"
      using hd_dropWhile [of "\<lambda>c. c = CHR ''.'' \<or> c = CHR '' ''" "rev t"] by simp_all
    moreover have "length ?r \<le> 15" using that(2) length_dropWhile_le [of _ "rev t"] by (metis le_trans length_rev)
    ultimately show ?thesis using \<open>?r \<noteq> []\<close> by (simp add: trim_address_def address_text_def last_rev)
  qed
  show "set (trim_address t) \<subseteq> set t" by (auto simp: trim_address_def dest: set_dropWhileD)
qed



section \<open>The way out of the main menu\<close>

text \<open>A stream is never running while a menu is open: no menu starts one.\<close>

definition idle :: "input_state \<Rightarrow> bool" where
  "idle p \<longleftrightarrow> client p \<noteq> STATE_STREAMING"

definition still :: "(ui \<Rightarrow> ('a \<times> ui) option) \<Rightarrow> bool" where
  "still m \<longleftrightarrow> (\<forall>u r v. m u = Some (r, v) \<longrightarrow> idle (input u) \<longrightarrow> idle (input v))"

lemma buttons_idle: "idle s \<Longrightarrow> idle (snd (wii_input_buttons_triggered w now s))"
  using home_poll_flags [of "btns_l w OR btns_h w" now s]
  by (simp add: idle_def wii_input_buttons_triggered_def Let_def wii_proc_stop_running_def wii_proc_set_want_main_menu_def
      split_beta split: option.split)

lemma poll_buttons_idle: "poll_buttons u = Some (b, v) \<Longrightarrow> idle (input u) \<Longrightarrow> idle (input v)"
  by (auto simp: poll_buttons_def Let_def split: list.splits prod.splits dest: buttons_idle) (metis buttons_idle snd_conv)

lemma still_menu_select_loop:
  "menu_select_loop fc base options sel prev u = Some (r, v) \<Longrightarrow> idle (input u) \<Longrightarrow> idle (input v)"
proof (induction fc base options sel prev u rule: menu_select_loop.induct)
  case (1 fc base options sel prev u)
  show ?case
  proof (cases "running (input u) \<and> \<not> want_main_menu (input u)")
    case False
    with "1.prems" show ?thesis by (subst (asm) menu_select_loop.simps) (auto split: if_splits)
  next
    case True
    let ?sel = "clamp_index sel (length options)"
    let ?u1 = "if ?sel \<noteq> prev then on_font (highlight_option fc base options (nat ?sel)) u else u"
    obtain btns u2 where p: "poll_buttons ?u1 = Some (btns, u2)"
      using "1.prems" True by (subst (asm) menu_select_loop.simps) (auto simp: Let_def split: option.splits)
    have u2: "idle (input u2)" using poll_buttons_idle [OF p] "1.prems"(2) by simp
    have "v = u2 \<or> idle (input v)"
      using "1.prems" True p "1.IH" u2
      by (subst (asm) menu_select_loop.simps) (auto simp: Let_def split: if_splits)
    with u2 show ?thesis by auto
  qed
qed

lemma still_menu_input_loop:
  "menu_input_loop fc title charset maxlen prev e u = Some (r, v) \<Longrightarrow> idle (input u) \<Longrightarrow> idle (input v)"
proof (induction fc title charset maxlen prev e u rule: menu_input_loop.induct)
  case (1 fc title charset maxlen prev e u)
  show ?case
  proof (cases "running (input u) \<and> \<not> want_main_menu (input u)")
    case False
    with "1.prems" show ?thesis by (subst (asm) menu_input_loop.simps) (auto split: if_splits)
  next
    case True
    let ?e = "edit_clamp charset maxlen e"
    let ?now = "(ed_pos ?e, ed_sel ?e, int (ed_len ?e))"
    let ?u1 = "if ?now \<noteq> prev then on_font (draw_entry fc title charset (ed_buf ?e) (ed_pos ?e) (ed_sel ?e) (ed_len ?e) maxlen) u else u"
    obtain btns u2 where p: "poll_buttons ?u1 = Some (btns, u2)"
      using "1.prems" True by (subst (asm) menu_input_loop.simps) (auto simp: Let_def split: option.splits)
    have u2: "idle (input u2)" using poll_buttons_idle [OF p] "1.prems"(2) by simp
    have "v = u2 \<or> idle (input v)"
      using "1.prems" True p "1.IH" u2
      by (subst (asm) menu_input_loop.simps) (auto simp: Let_def split: if_splits)
    with u2 show ?thesis by auto
  qed
qed

lemma still_wait_loop: "wait_loop u = Some (r, v) \<Longrightarrow> idle (input u) \<Longrightarrow> idle (input v)"
proof (induction u rule: wait_loop.induct)
  case (1 u)
  show ?case
    using "1.prems" "1.IH"
    by (subst (asm) wait_loop.simps) (fastforce dest: poll_buttons_idle split: if_splits option.splits prod.splits)
qed

named_theorems idle_rules

lemma still_menus [idle_rules]:
  "still wait_loop" "still (menu_select fc title options sel)" "still num_controllers"
  "still (menu_input_string fc title charset maxlen initial)"
  "still (menu_input_int fc title n)" "still (menu_select_bool fc title b)"
  by (auto simp: still_def menu_input_int_def menu_select_bool_def menu_select_def menu_input_string_def num_controllers_def
      Let_def dest: still_wait_loop still_menu_select_loop still_menu_input_loop split: option.splits prod.splits if_splits list.splits)

text \<open>A procedure that returns leaves no stream running.\<close>

definition calm :: "'a ap \<Rightarrow> bool" where
  "calm m \<longleftrightarrow> (\<forall>s r t. m s = (Inr r, t) \<longrightarrow> idle (input (ap_ui s)) \<longrightarrow> idle (input (ap_ui t)))"

lemma calmD: "calm m \<Longrightarrow> m s = (Inr r, t) \<Longrightarrow> idle (input (ap_ui s)) \<Longrightarrow> idle (input (ap_ui t))"
  by (simp add: calm_def)

lemma calm_bindE [idle_rules]: "calm m \<Longrightarrow> (\<And>a. calm (f a)) \<Longrightarrow> calm (bindE m f)"
  by (auto simp: calm_def elim!: bindE_InrE)

lemma calm_interact [idle_rules]: "still m \<Longrightarrow> calm (interact m)"
  by (auto simp: calm_def still_def interact_def split: option.splits)

lemma calm_simple [idle_rules]:
  "calm (retE a)" "calm (leaveE e)" "calm (asks f)" "calm (on_cfg g)" "calm (on_stream h)"
  "calm (draw d)" "calm (show_error msg)" "calm (draw_status env t)" "calm (run_gs m)"
  "calm (with_conf c)" "calm (title_screen env t)" "calm error_message" "calm (set_message t)"
  by (auto simp: calm_def retE_def leaveE_def asks_def on_cfg_def on_stream_def modify_def draw_def set_message_def
      show_error_def draw_status_def run_gs_def with_conf_def Let_def title_screen_def error_message_def
      split: prod.splits sum.splits)

lemma calm_modify: "(\<And>s. input (ap_ui (f s)) = input (ap_ui s)) \<Longrightarrow> calm (modify f)"
  by (auto simp: calm_def modify_def)

lemma calm_proc [idle_rules]:
  "calm (on_proc wii_proc_stop_running)" "calm (on_proc (wii_proc_set_home_enabled b))" "calm (on_proc (\<lambda>p. p\<lparr>client := STATE_INVALID\<rparr>))"
  by (auto simp: calm_def on_proc_def modify_def idle_def wii_proc_stop_running_def wii_proc_set_home_enabled_def)

lemma calm_cases [idle_rules]:
  "(b \<Longrightarrow> calm m) \<Longrightarrow> (\<not> b \<Longrightarrow> calm n) \<Longrightarrow> calm (if b then m else n)"
  "(x = None \<Longrightarrow> calm m) \<Longrightarrow> (\<And>a. x = Some a \<Longrightarrow> calm (f a)) \<Longrightarrow> calm (case x of None \<Rightarrow> m | Some a \<Rightarrow> f a)"
  "(\<And>a c. y = (a, c) \<Longrightarrow> calm (g a c)) \<Longrightarrow> calm (case y of (a, c) \<Rightarrow> g a c)"
  by (simp_all split: option.split prod.split)

lemma calm_save [idle_rules]: "calm (save_config env)" "calm (the_value v)" "calm (start_connection env)" "calm (draw_digit env)"
  by (auto simp: calm_def save_config_def the_value_def leaveE_def retE_def start_connection_def draw_digit_def
      split: outcome.splits option.splits)

lemma calm_parts [idle_rules]:
  "calm (wait_for_button env)" "calm (enter_address env)" "calm (settings_flag env title get assign)"
  "(\<And>v. calm (put v)) \<Longrightarrow> calm (settings_number env title read least put)"
  unfolding wait_for_button_def enter_address_def settings_flag_def settings_number_def Let_def
  by (intro idle_rules | assumption)+

lemma calm_settings_choice [idle_rules]: "calm (settings_choice env sel)"
  unfolding settings_choice_def settings_resolution_def settings_encryption_def Let_def by (intro idle_rules)

lemma settings_loop_idle: "settings_loop env s = (Inr r, t) \<Longrightarrow> idle (input (ap_ui s)) \<Longrightarrow> idle (input (ap_ui t))"
proof (induction env s rule: settings_loop.induct)
  case (1 env s)
  show ?case
  proof (cases "now_running s")
    case False
    with "1.prems" show ?thesis by (simp add: settings_loop.simps)
  next
    case True
    obtain sel u where m: "menu_select (ae_face env) ''Stream settings'' settings_options 0 (ap_ui s) = Some (sel, u)"
      using "1.prems"(1) True by (subst (asm) settings_loop.simps) (auto split: option.splits)
    have u: "idle (input u)" using still_menus(2) m "1.prems"(2) unfolding still_def by blast
    obtain x t1 where x: "settings_choice env sel (s\<lparr>ap_ui := u\<rparr>) = (x, t1)" by fastforce
    have run: "(if sel < 0 then (Inr (), s\<lparr>ap_ui := u\<rparr>)
        else (case x of Inl e \<Rightarrow> (Inl e, t1) | Inr _ \<Rightarrow> settings_loop env t1)) = (Inr r, t)"
      using "1.prems"(1) True m x by (subst (asm) settings_loop.simps) (simp split: if_splits)
    show ?thesis
    proof (cases "sel < 0")
      case False
      then obtain a where a: "x = Inr a" using run by (cases x) auto
      have "idle (input (ap_ui t1))" using calmD [OF calm_settings_choice] x a u by fastforce
      then show ?thesis using run False a "1.IH" [OF _ m refl _ x [symmetric] a] True by simp
    qed (use run u in auto)
  qed
qed

lemma calm_settings_menu [idle_rules]: "calm (settings_menu env)"
proof -
  have "calm (settings_loop env)" unfolding calm_def using settings_loop_idle by blast
  then show ?thesis unfolding settings_menu_def by (intro idle_rules)
qed

lemma calm_connect [idle_rules]: "calm (connect_server env)" "calm (report_pairing env ok good bad title)"
  unfolding connect_server_def report_pairing_def by (intro idle_rules calm_modify | simp)+

lemma calm_pairing [idle_rules]: "calm (do_pair env)" "calm (do_unpair env)"
  unfolding do_pair_def do_unpair_def Let_def by (intro idle_rules)+

lemma calm_failed [idle_rules]: "calm (stream_failed env msg)"
  unfolding stream_failed_def by (intro idle_rules)

lemma calm_end: "calm (bindE m (\<lambda>_. bindE n (\<lambda>_. on_proc (\<lambda>p. p\<lparr>client := STATE_INVALID\<rparr>))))"
  by (auto simp: calm_def on_proc_def modify_def idle_def elim!: bindE_InrE)

lemma calm_stream_app [idle_rules]: "calm (stream_app env n)"
  unfolding stream_app_def by (intro idle_rules calm_end)

lemma calm_do_stream [idle_rules]: "calm (select_app env)" "calm (get_app_id env name)" "calm (do_stream env)"
  unfolding do_stream_def select_app_def get_app_id_def by (intro idle_rules)+

lemma calm_menu_choice: "calm (menu_choice env conn sel)"
  unfolding menu_choice_def connected_choice_def disconnected_choice_def by (intro idle_rules)


text \<open>B does nothing in the main menu; then HOME is held for nine seconds.\<close>

definition hold :: wpad where
  "hold = (press 0)\<lparr>btns_h := WPAD_BUTTON_HOME\<rparr>"

definition held_input :: input_state where
  "held_input = idle_input\<lparr>homeHeld := True, homeDownMicros := 1\<rparr>"

lemma example_hold:
  "wii_input_buttons_triggered hold 1 idle_input = (0, held_input)"
  "wii_input_buttons_triggered hold 9000000 held_input = (0, held_input\<lparr>homeLongFired := True, running := False\<rparr>)"
  "running held_input" "\<not> want_main_menu held_input"
  by code_simp+

lemma example_hold_menu:
  assumes "input u = idle_input" and "options \<noteq> []" and "polls u = [(hold, 1), (hold, 9000000)]"
  shows "\<exists>v. menu_select fc title options 0 u = Some (-1, v) \<and> \<not> running (input v)"
proof -
  let ?u = "on_font (menu_render_base fc title options) u"
  let ?base = "take (unat (Font_BufferSize (font ?u))) (font_buffer (font ?u))"
  have u: "running (input ?u)" "\<not> want_main_menu (input ?u)" "polls ?u = [(hold, 1), (hold, 9000000)]"
    "wii_input_buttons_triggered hold 1 (input ?u) = (0, held_input)"
    using assms example_hold example_buttons by simp_all
  obtain u2 k where 2: "polls u2 = [(hold, 9000000)]" "input u2 = held_input"
      "menu_select_loop fc ?base options 0 (-1) ?u = menu_select_loop fc ?base options k k u2"
    using menu_select_loop_step [OF u, of fc ?base options 0 "-1"] by (auto simp: nav_move_def Let_def)
  have v: "running (input u2)" "\<not> want_main_menu (input u2)"
    "wii_input_buttons_triggered hold 9000000 (input u2) = (0, held_input\<lparr>homeLongFired := True, running := False\<rparr>)"
    using 2(2) example_hold by simp_all
  obtain u3 where 3: "input u3 = held_input\<lparr>homeLongFired := True, running := False\<rparr>" "menu_select_loop fc ?base options k k u2 = Some (-1, u3)"
    using menu_select_loop_step [OF v(1,2) 2(1) v(3), of fc ?base options k k]
    by (auto simp: nav_move_def Let_def menu_select_loop_closed)
  then have "menu_select fc title options 0 u = Some (-1, u3)" using assms(2) 2(3) by (simp add: menu_select_def Let_def)
  with 3(1) show ?thesis by (intro exI [of _ u3]) simp
qed


end
