(* ===== verification/Program.thy ===== *)
theory Program
  imports AppFacts TlsTest
begin

text \<open>
  \<open>main\<close> of \<open>src/main.c\<close> as a whole: the start of the services in their order, the IOS the arguments ask for, the
  configuration, the client, the TLS self test when it is asked for, the main menu, and the end of the services.
\<close>

section \<open>Start\<close>

datatype boot_step =
    Boot_proc_init | Boot_debug_init | Boot_stream_init int int | Boot_setup_renderstate | Boot_ios_reload int
  | Boot_net_init | Boot_log_clocks | Boot_fs_init | Boot_input_init | Boot_gx_init2 | Boot_font_init
  | Boot_gs_destroy | Boot_font_deinit | Boot_stream_fini | Boot_net_shutdown | Boot_proc_shutdown

text \<open>The IOS of the last argument that names one; nothing is reloaded when none does.\<close>

definition wanted_ios :: "string list \<Rightarrow> int option" where
  "wanted_ios argv = fold handle_config_pair (tl argv) None"

definition handle_ios_reload :: "int option \<Rightarrow> boot_step list" where
  "handle_ios_reload ios = (case ios of None \<Rightarrow> [] | Some v \<Rightarrow> [Boot_ios_reload v])"

definition boot_steps :: "bool \<Rightarrow> string list \<Rightarrow> boot_step list" where
  "boot_steps debug argv =
     [Boot_proc_init] @ (if debug then [Boot_debug_init] else []) @ [Boot_stream_init 640 480, Boot_setup_renderstate] @
     handle_ios_reload (wanted_ios argv) @
     [Boot_net_init, Boot_log_clocks, Boot_fs_init, Boot_input_init, Boot_gx_init2, Boot_font_init]"

section \<open>The way through the program\<close>

text \<open>The network and the answers to both attempts of the self test.\<close>

record tls_env =
  te_net :: net_layer
  te_probe :: "bool \<Rightarrow> tls_probe_env"

definition startup_tls_test :: "app_env \<Rightarrow> tls_env \<Rightarrow> configuration \<Rightarrow> unit ap" where
  "startup_tls_test env te cfg =
     (case tls_test cfg of
        None \<Rightarrow> retE ()
      | Some target \<Rightarrow>
          interact (\<lambda>u. map_option (\<lambda>(_, v). ((), v)) (wii_tls_test (ae_face env) (te_net te) (te_probe te) target (key_dir cfg) u)))"

text \<open>From the configuration on: the return value.\<close>

definition main_run :: "app_env \<Rightarrow> tls_env \<Rightarrow> nat \<Rightarrow> int ap" where
  "main_run env te fuel =
     bindE (draw (\<lambda>f. Font_Draw_TVDRC (Font_Print (ae_face env) 8 20 ''Reading configuration...''
              (Font_SetColor 255 255 255 255 (Font_SetSize 24 f))))) (\<lambda>_.
     bindE (read_config env fuel) (\<lambda>_.
     bindE (asks ap_cfg) (\<lambda>cfg.
     bindE (draw (Font_SetOverscan (of_int (osd_overscan cfg)))) (\<lambda>_.
     bindE (on_cfg (\<lambda>c. c\<lparr>unsupported := True, sops := False\<rparr>)) (\<lambda>_.
     bindE (create_client env) (\<lambda>ok.
       if \<not> ok then bindE (wait_for_button env) (\<lambda>_. retE 1)
       else bindE (asks ap_cfg) (\<lambda>cfg.
            bindE (startup_tls_test env te cfg) (\<lambda>_.
            bindE (main_menu env False) (\<lambda>_. retE 0)))))))))"

definition shutdown_steps :: "int \<Rightarrow> boot_step list" where
  "shutdown_steps ret =
     (if ret = 0 then [Boot_gs_destroy] else []) @ [Boot_font_deinit, Boot_stream_fini, Boot_net_shutdown, Boot_proc_shutdown]"

text \<open>The steps before and behind; behind only when the program returns.\<close>

definition main_program ::
  "app_env \<Rightarrow> tls_env \<Rightarrow> bool \<Rightarrow> string list \<Rightarrow> nat \<Rightarrow> app_state \<Rightarrow> (stop + int) \<times> app_state \<times> boot_step list" where
  "main_program env te debug argv fuel s =
     (case main_run env te fuel s of
        (Inl e, t) \<Rightarrow> (Inl e, t, boot_steps debug argv)
      | (Inr ret, t) \<Rightarrow> (Inr ret, t, boot_steps debug argv @ shutdown_steps ret))"

section \<open>The order of the services\<close>

text \<open>The position of a step in the list.\<close>

definition comes_before :: "boot_step \<Rightarrow> boot_step \<Rightarrow> boot_step list \<Rightarrow> bool" where
  "comes_before a b xs \<longleftrightarrow> (\<exists>us vs. xs = us @ vs \<and> a \<in> set us \<and> b \<in> set vs \<and> b \<notin> set us)"

lemma startup_tls_test_thrifty [thrifty_rules]: "thrifty (startup_tls_test env te cfg)"
proof (cases "tls_test cfg")
  case (Some target)
  have "consuming (\<lambda>u. map_option (\<lambda>(_, v). ((), v)) (wii_tls_test (ae_face env) (te_net te) (te_probe te) target (key_dir cfg) u))"
    by (auto simp: consuming_def dest: wii_tls_test_polls)
  then show ?thesis by (simp add: startup_tls_test_def Some thrifty_interact)
qed (simp add: startup_tls_test_def thrifty_rules)

lemma reload_before_network:
  assumes "wanted_ios argv = Some v"
  shows "comes_before (Boot_ios_reload v) Boot_net_init (boot_steps debug argv)"
  unfolding comes_before_def boot_steps_def handle_ios_reload_def assms
  by (intro exI [of _ "[Boot_proc_init] @ (if debug then [Boot_debug_init] else []) @
        [Boot_stream_init 640 480, Boot_setup_renderstate, Boot_ios_reload v]"]
      exI [of _ "[Boot_net_init, Boot_log_clocks, Boot_fs_init, Boot_input_init, Boot_gx_init2, Boot_font_init]"]) simp

lemma no_reload: "wanted_ios argv = None \<Longrightarrow> Boot_ios_reload v \<notin> set (boot_steps debug argv)"
  by (simp add: boot_steps_def handle_ios_reload_def)

lemma main_run_returns:
  assumes "main_run env te fuel s = (Inr ret, t)"
  shows "ret = 0 \<or> ret = 1"
  using assms unfolding main_run_def
  by (auto simp: bindE_Inr_iff retE_def split: if_splits)

text \<open>A run that returns: every service it started it ends, in the opposite order of their use; the client is destroyed exactly
  when there is one; the network only starts after the IOS it will run on is loaded.\<close>

lemma comes_beforeI: "a \<in> set us \<Longrightarrow> b \<in> set vs \<Longrightarrow> b \<notin> set us \<Longrightarrow> comes_before a b (us @ vs)"
  by (auto simp: comes_before_def)

lemma comes_before_append: "comes_before a b xs \<Longrightarrow> comes_before a b (xs @ ys)"
  unfolding comes_before_def by (metis append.assoc UnI1 set_append)

lemma program_order:
  assumes "main_program env te debug argv fuel s = (Inr ret, t, steps)"
  shows "(ret = 0 \<or> ret = 1) \<and> (Boot_gs_destroy \<in> set steps \<longleftrightarrow> ret = 0) \<and>
    comes_before Boot_proc_init Boot_proc_shutdown steps \<and> comes_before (Boot_stream_init 640 480) Boot_stream_fini steps \<and>
    comes_before Boot_net_init Boot_net_shutdown steps \<and> comes_before Boot_font_init Boot_font_deinit steps \<and>
    (\<forall>v. wanted_ios argv = Some v \<longrightarrow> comes_before (Boot_ios_reload v) Boot_net_init steps)"
proof -
  have st: "steps = boot_steps debug argv @ shutdown_steps ret" and m: "main_run env te fuel s = (Inr ret, t)"
    using assms by (auto simp: main_program_def split: prod.splits sum.splits)
  have "Boot_gs_destroy \<in> set steps \<longleftrightarrow> ret = 0"
    by (simp add: st boot_steps_def shutdown_steps_def handle_ios_reload_def split: option.split)
  moreover have "comes_before Boot_proc_init Boot_proc_shutdown steps" "comes_before (Boot_stream_init 640 480) Boot_stream_fini steps"
    "comes_before Boot_net_init Boot_net_shutdown steps" "comes_before Boot_font_init Boot_font_deinit steps"
    unfolding st
    by (rule comes_beforeI; simp add: boot_steps_def shutdown_steps_def handle_ios_reload_def split: option.split)+
  moreover have "comes_before (Boot_ios_reload v) Boot_net_init steps" if "wanted_ios argv = Some v" for v
    unfolding st using reload_before_network [OF that] by (rule comes_before_append)
  ultimately show ?thesis using main_run_returns [OF m] by blast
qed

end
