(* ===== verification/Audio.thy ===== *)
theory Audio
  imports Prelude
begin

text \<open>
  \<open>src/wii/audio.c\<close>: decoded sound on its way to the DSP. The decoder thread packs the samples into a ring of 32 buffers of
  4096 bytes, through a carry buffer for what does not fill a whole one; the interrupt of the DMA engine takes the next
  buffer of the ring whenever the previous one has been played. The Opus decoder and \<open>memalign\<close> are parameters.

  A call of \<open>AUDIO_InitDMA\<close> is an entry of \<open>dma\<close>: where it comes from and the bytes it hands over. The interrupt may come
  between any two statements of the decoder thread except where interrupts are disabled: \<open>advance\<close> is that thread, one
  uninterruptible step at a time, and \<open>audio_run\<close> its interleavings with the interrupt.
\<close>

type_synonym s16 = "16 word"

definition BUFFER_SIZE :: nat where "BUFFER_SIZE = 4096"
definition BUFFER_COUNT :: nat where "BUFFER_COUNT = 32"
definition MAX_FRAMES :: nat where "MAX_FRAMES = 5760"

section \<open>State\<close>

datatype dma_event = Kicked "u8 list" | Next_buffer "u8 list" | Silence

record audio_state =
  has_decoder :: bool
  decodeBuf :: "s16 list"
  carry :: "u8 list"
  carryFill :: nat
  ring :: "u8 list"
  channelCount :: nat
  frameSize :: int
  bufferFill :: nat
  bufferPlay :: nat
  buffered :: int
  playing :: bool
  audioInited :: bool
  dma_callback_set :: bool
  dma_running :: bool
  dma :: "dma_event list"

definition get_space :: "audio_state \<Rightarrow> int" where
  "get_space s = int (BUFFER_SIZE * (BUFFER_COUNT - 2)) - buffered s"

definition ring_block :: "nat \<Rightarrow> u8 list \<Rightarrow> u8 list" where
  "ring_block i r = take BUFFER_SIZE (drop (i * BUFFER_SIZE) r)"

section \<open>Samples\<close>

definition clamp_s16 :: "int \<Rightarrow> s16" where
  "clamp_s16 v = (if 32767 < v then 32767 else if v < -32768 then -32768 else word_of_int v)"

definition downmix_frame :: "s16 list \<Rightarrow> s16 list" where
  "downmix_frame s =
     (let fold = c_div (sum_list (map sint (drop 2 s))) (int (length s) - 2)
      in [clamp_s16 (sint (s ! 0) + fold), clamp_s16 (sint (s ! 1) + fold)])"

text \<open>The first \<open>n\<close> frames of \<open>src\<close>, each of \<open>channels\<close> samples, as stereo.\<close>

fun downmix :: "s16 list \<Rightarrow> nat \<Rightarrow> nat \<Rightarrow> s16 list" where
  "downmix src 0 channels = []"
| "downmix src (Suc n) channels =
     (if channels = 2 then take (2 * Suc n) src
      else downmix_frame (take channels src) @ downmix (drop channels src) n channels)"

text \<open>Samples in memory, most significant byte first.\<close>

definition sample_bytes :: "s16 list \<Rightarrow> u8 list" where
  "sample_bytes xs = concat (map (\<lambda>x. [ucast (drop_bit 8 x), ucast x]) xs)"

section \<open>The interrupt\<close>

definition dma_callback :: "audio_state \<Rightarrow> audio_state" where
  "dma_callback s =
     (if playing s \<and> 0 < buffered s then
        s\<lparr>dma := dma s @ [Next_buffer (ring_block (bufferPlay s) (ring s))],
          bufferPlay := (bufferPlay s + 1) mod BUFFER_COUNT,
          buffered := buffered s - int BUFFER_SIZE\<rparr>
      else s\<lparr>dma := dma s @ [Silence]\<rparr>)"

text \<open>The interrupt of a running DMA engine.\<close>

definition dma_irq :: "audio_state \<Rightarrow> audio_state" where
  "dma_irq s = (if dma_callback_set s \<and> dma_running s then dma_callback s else s)"

section \<open>The decoder thread\<close>

text \<open>\<open>memcpy (ring + bufferFill * BUFFER_SIZE, ...)\<close>, and the section with interrupts disabled.\<close>

definition store_block :: "u8 list \<Rightarrow> audio_state \<Rightarrow> audio_state" where
  "store_block bs s = s\<lparr>ring := blit (ring s) (bufferFill s * BUFFER_SIZE) bs\<rparr>"

definition publish_block :: "audio_state \<Rightarrow> audio_state" where
  "publish_block s =
     s\<lparr>bufferFill := (bufferFill s + 1) mod BUFFER_COUNT, buffered := buffered s + int BUFFER_SIZE\<rparr>"

definition commit_carry :: "audio_state \<Rightarrow> audio_state" where
  "commit_carry s = (publish_block (store_block (take BUFFER_SIZE (carry s)) s))\<lparr>carryFill := 0\<rparr>"

text \<open>The first part of \<open>append_to_ring\<close>, up to the call of \<open>commit_carry\<close>; the result is what is left of the chunk.\<close>

definition fill_carry :: "u8 list \<Rightarrow> audio_state \<Rightarrow> u8 list \<times> audio_state" where
  "fill_carry src s =
     (if 0 < carryFill s then
        (let n = min (length src) (BUFFER_SIZE - carryFill s)
         in (drop n src, s\<lparr>carry := blit (carry s) (carryFill s) (take n src), carryFill := carryFill s + n\<rparr>))
      else (src, s))"

function ring_loop :: "u8 list \<Rightarrow> audio_state \<Rightarrow> u8 list \<times> audio_state" where
  "ring_loop src s =
     (if BUFFER_SIZE \<le> length src \<and> int BUFFER_SIZE \<le> get_space s then
        ring_loop (drop BUFFER_SIZE src) (publish_block (store_block (take BUFFER_SIZE src) s))
      else (src, s))"
  by pat_completeness auto
termination by (relation "measure (\<lambda>(src, s). length src)") (auto simp: BUFFER_SIZE_def)

declare ring_loop.simps [simp del]

definition keep_tail :: "u8 list \<Rightarrow> audio_state \<Rightarrow> audio_state" where
  "keep_tail src s =
     (if 0 < length src \<and> length src < BUFFER_SIZE then
        s\<lparr>carry := blit (carry s) 0 src, carryFill := length src\<rparr>
      else s)"

definition append_to_ring :: "u8 list \<Rightarrow> audio_state \<Rightarrow> audio_state" where
  "append_to_ring src s =
     (let (src1, s1) = fill_carry src s;
          s2 = (if 0 < carryFill s \<and> carryFill s1 = BUFFER_SIZE then commit_carry s1 else s1);
          (src2, s3) = ring_loop src1 s2
      in keep_tail src2 s3)"

definition kick :: "audio_state \<Rightarrow> audio_state" where
  "kick s =
     (if \<not> playing s \<and> 0 < buffered s then
        s\<lparr>playing := True, dma := dma s @ [Kicked (ring_block (bufferPlay s) (ring s))], dma_running := True\<rparr>
      else s)"

text \<open>
  \<open>opus_multistream_decode\<close>: the number of frames, or an error, and the samples it writes to the front of the
  buffer. A packet is \<open>None\<close> for a lost one.
\<close>

type_synonym opus = "u8 list option \<Rightarrow> int \<Rightarrow> int \<times> s16 list"

text \<open>\<open>None\<close> is undefined behaviour: with one channel the chunk would end behind the decoded samples.\<close>

definition ar_decode_and_play_sample :: "opus \<Rightarrow> u8 list option \<Rightarrow> audio_state \<Rightarrow> audio_state option" where
  "ar_decode_and_play_sample opus data s =
     (if \<not> has_decoder s then Some s
      else
        (let maxFrames = (if data = None then frameSize s else int MAX_FRAMES);
             (n, out) = opus data maxFrames;
             s1 = s\<lparr>decodeBuf := blit (decodeBuf s) 0 out\<rparr>
         in if n \<le> 0 then Some s1
            else
              (let src = (if 2 < channelCount s then downmix (decodeBuf s1) (nat n) (channelCount s) else decodeBuf s1)
               in if length src < nat n * 2 then None
                  else Some (kick (append_to_ring (sample_bytes (take (nat n * 2) src)) s1)))))"

section \<open>One step at a time\<close>

text \<open>
  Where the decoder thread is inside \<open>append_to_ring\<close>, with what is left of its chunk: before \<open>commit_carry\<close>, before
  its section without interrupts, before the test of the loop, before the section inside the loop, before the test that
  starts the DMA engine.
\<close>

datatype phase =
  Idle | Store_carry "u8 list" | Publish_carry "u8 list" | Ring_loop "u8 list" | Publish_ring "u8 list" | Kick

definition begin_append :: "u8 list \<Rightarrow> audio_state \<Rightarrow> phase \<times> audio_state" where
  "begin_append src s =
     (let (rest, s1) = fill_carry src s
      in (if 0 < carryFill s \<and> carryFill s1 = BUFFER_SIZE then Store_carry rest else Ring_loop rest, s1))"

fun advance :: "phase \<Rightarrow> audio_state \<Rightarrow> phase \<times> audio_state" where
  "advance Idle s = (Idle, s)"
| "advance (Store_carry r) s = (Publish_carry r, store_block (take BUFFER_SIZE (carry s)) s)"
| "advance (Publish_carry r) s = (Ring_loop r, (publish_block s)\<lparr>carryFill := 0\<rparr>)"
| "advance (Ring_loop r) s =
     (if BUFFER_SIZE \<le> length r \<and> int BUFFER_SIZE \<le> get_space s then
        (Publish_ring r, store_block (take BUFFER_SIZE r) s)
      else (Kick, keep_tail r s))"
| "advance (Publish_ring r) s = (Ring_loop (drop BUFFER_SIZE r), publish_block s)"
| "advance Kick s = (Idle, kick s)"

text \<open>
  The steps that lose sound: a full carry buffer goes to a ring that has no room for it, or what is left of the chunk is
  given up because \<open>get_space\<close> found none.
\<close>

fun loses :: "phase \<Rightarrow> audio_state \<Rightarrow> bool" where
  "loses (Store_carry r) s = (get_space s < 0)"
| "loses (Ring_loop r) s = (BUFFER_SIZE \<le> length r \<and> get_space s < int BUFFER_SIZE)"
| "loses _ s = False"

text \<open>Any interleaving of the thread with the interrupt: the bytes sent, and whether a step lost some.\<close>

inductive audio_run :: "phase \<times> audio_state \<Rightarrow> u8 list \<Rightarrow> bool \<Rightarrow> phase \<times> audio_state \<Rightarrow> bool" for c where
  run_start: "audio_run c [] False c"
| run_irq: "audio_run c sent lost (p, s) \<Longrightarrow> audio_run c sent lost (p, dma_irq s)"
| run_packet: "audio_run c sent lost (Idle, s) \<Longrightarrow> audio_run c (sent @ chunk) lost (begin_append chunk s)"
| run_work: "audio_run c sent lost (p, s) \<Longrightarrow> audio_run c sent (lost \<or> loses p s) (advance p s)"

section \<open>Start and stop\<close>

record opus_config =
  oc_channels :: nat
  oc_samplesPerFrame :: int

text \<open>
  \<open>created\<close>: the decoder could be created; \<open>enough n\<close>: \<open>memalign\<close> has room for \<open>n\<close> bytes. The result is the return value.
  After a failure the buffers that were allocated stay in place.
\<close>

definition ar_init :: "bool \<Rightarrow> (nat \<Rightarrow> bool) \<Rightarrow> opus_config \<Rightarrow> audio_state \<Rightarrow> int \<times> audio_state" where
  "ar_init created enough conf s =
     (if \<not> created then (-1, s\<lparr>has_decoder := False\<rparr>)
      else
        (let s1 = s\<lparr>has_decoder := True, channelCount := oc_channels conf,
                    frameSize := (if oc_samplesPerFrame conf \<le> 0 then 960 else oc_samplesPerFrame conf)\<rparr>
         in if \<not> (enough (MAX_FRAMES * oc_channels conf * 2) \<and> enough (MAX_FRAMES * 2 * 2) \<and> enough BUFFER_SIZE \<and>
                  enough (BUFFER_COUNT * BUFFER_SIZE) \<and> enough BUFFER_SIZE) then (-1, s1)
            else
              (0, s1\<lparr>decodeBuf := replicate (MAX_FRAMES * oc_channels conf) 0, carry := replicate BUFFER_SIZE 0,
                     ring := replicate (BUFFER_COUNT * BUFFER_SIZE) 0, audioInited := True,
                     bufferFill := 0, bufferPlay := 0, buffered := 0, carryFill := 0, playing := False,
                     dma_callback_set := True\<rparr>)))"

definition ar_start :: "audio_state \<Rightarrow> audio_state" where
  "ar_start s =
     s\<lparr>bufferFill := 0, bufferPlay := 0, buffered := 0, carryFill := 0, playing := False, dma_callback_set := True\<rparr>"

definition ar_stop :: "audio_state \<Rightarrow> audio_state" where
  "ar_stop s =
     s\<lparr>dma_callback_set := False, playing := False, buffered := 0, carryFill := 0, dma_running := False\<rparr>"

definition ar_cleanup :: "audio_state \<Rightarrow> audio_state" where
  "ar_cleanup s =
     s\<lparr>dma_callback_set := False, dma_running := False, has_decoder := False, decodeBuf := [], carry := [], ring := [],
       audioInited := False\<rparr>"

end
