(* ===== verification/AudioFacts.thy ===== *)
theory AudioFacts
  imports Audio
begin

text \<open>
  What the ring of \<open>audio.c\<close> keeps: while there is room, the buffers the interrupt takes, the buffers that wait, the carry
  buffer and the chunk at hand are, in this order, exactly the bytes that were decoded, whatever the interleaving; and
  how the room runs out.
\<close>

section \<open>The ring as a list of buffers\<close>

lemmas audio_sizes = BUFFER_SIZE_def BUFFER_COUNT_def

definition level :: "audio_state \<Rightarrow> nat" where
  "level s = nat (buffered s div 4096)"

lemma level_eq: "buffered s = 4096 * int n \<Longrightarrow> level s = n"
  by (simp add: level_def)

definition pending :: "audio_state \<Rightarrow> u8 list list" where
  "pending s = map (\<lambda>i. ring_block ((bufferPlay s + i) mod 32) (ring s)) [0..<level s]"

definition ring_ok :: "audio_state \<Rightarrow> bool" where
  "ring_ok s \<longleftrightarrow> length (ring s) = 131072 \<and> length (carry s) = 4096 \<and> carryFill s \<le> 4096 \<and> bufferPlay s < 32 \<and>
     buffered s = 4096 * int (level s) \<and> level s \<le> 31 \<and> bufferFill s = (bufferPlay s + level s) mod 32"

lemma ring_block_blit:
  assumes "length r = 131072" and "length bs = 4096" and "i < 32" and "j < 32"
  shows "ring_block i (blit r (j * BUFFER_SIZE) bs) = (if i = j then bs else ring_block i r)"
proof (rule nth_equalityI)
  have b: "length (blit r (j * BUFFER_SIZE) bs) = 131072" using assms by (simp add: BUFFER_SIZE_def)
  show "length (ring_block i (blit r (j * BUFFER_SIZE) bs)) = length (if i = j then bs else ring_block i r)"
    using assms b by (simp add: ring_block_def BUFFER_SIZE_def)
  fix k assume "k < length (ring_block i (blit r (j * BUFFER_SIZE) bs))"
  then have "k < 4096" using b by (simp add: ring_block_def BUFFER_SIZE_def)
  with assms(3) have k: "k < 4096" "i * 4096 + k < 131072" by simp_all
  have "ring_block i (blit r (j * BUFFER_SIZE) bs) ! k =
      (if j * 4096 \<le> i * 4096 + k \<and> i * 4096 + k < j * 4096 + 4096 then bs ! (i * 4096 + k - j * 4096) else r ! (i * 4096 + k))"
    using nth_blit [of "j * 4096" bs r "i * 4096 + k"] assms k b by (simp add: ring_block_def BUFFER_SIZE_def)
  moreover have "j * 4096 \<le> i * 4096 + k \<and> i * 4096 + k < j * 4096 + 4096 \<longleftrightarrow> i = j" using k by auto
  ultimately show "ring_block i (blit r (j * BUFFER_SIZE) bs) ! k = (if i = j then bs else ring_block i r) ! k"
    using assms k by (auto simp: ring_block_def BUFFER_SIZE_def)
qed

lemma mod_32_inj: "k < 32 \<Longrightarrow> l < 32 \<Longrightarrow> (a + k) mod 32 = (a + l) mod 32 \<Longrightarrow> k = (l::nat)"
proof (induction k l rule: linorder_wlog)
  case (le k l)
  then have "32 dvd l - k" using mod_eq_dvd_iff_nat [of "a + k" "a + l" 32] by simp
  with le show ?case by (auto dest: dvd_imp_le)
qed simp

text \<open>Storing behind the waiting buffers does not touch them.\<close>

lemma store_ok:
  assumes "ring_ok s" and "length bs = 4096"
  shows "ring_ok (store_block bs s)" "pending (store_block bs s) = pending s" "level (store_block bs s) = level s"
    "ring_block (bufferFill s) (ring (store_block bs s)) = bs"
proof -
  let ?t = "store_block bs s"
  show l: "level ?t = level s" by (simp add: store_block_def level_def)
  have f: "bufferFill s < 32" using assms(1) by (simp add: ring_ok_def)
  then show "ring_ok ?t" using assms l
    by (auto simp: ring_ok_def store_block_def BUFFER_SIZE_def)
  have block: "ring_block i (ring ?t) = (if i = bufferFill s then bs else ring_block i (ring s))" if "i < 32" for i
    using ring_block_blit [of "ring s" bs i "bufferFill s"] assms that f by (simp add: ring_ok_def store_block_def)
  then show "ring_block (bufferFill s) (ring ?t) = bs" using f by simp
  have "(bufferPlay s + i) mod 32 \<noteq> bufferFill s" if "i < level s" for i
    using mod_32_inj [of i "level s" "bufferPlay s"] that assms(1) by (auto simp: ring_ok_def)
  with block l show "pending ?t = pending s" by (simp add: pending_def store_block_def)
qed

lemma publish_ok:
  assumes "ring_ok s" and "level s \<le> 30"
  shows "ring_ok (publish_block s)" "level (publish_block s) = Suc (level s)"
    "pending (publish_block s) = pending s @ [ring_block (bufferFill s) (ring s)]"
proof -
  have b: "buffered s = 4096 * int (level s)" using assms(1) by (simp add: ring_ok_def)
  have "buffered (publish_block s) = 4096 * int (Suc (level s))"
    using b by (simp add: publish_block_def BUFFER_SIZE_def)
  then show l: "level (publish_block s) = Suc (level s)" by (rule level_eq)
  show "ring_ok (publish_block s)"
    using assms l b by (auto simp: ring_ok_def publish_block_def audio_sizes mod_simps)
  show "pending (publish_block s) = pending s @ [ring_block (bufferFill s) (ring s)]"
    using assms(1) l by (simp add: pending_def ring_ok_def) (simp add: publish_block_def)
qed

lemma callback_ok:
  assumes "ring_ok s" and "dma_callback s = t"
  shows "ring_ok t" "level t \<le> level s" "bufferFill t = bufferFill s" "ring t = ring s" "carry t = carry s"
    "carryFill t = carryFill s"
    "dma t = dma s @ [Silence] \<and> pending t = pending s \<or>
     (\<exists>b. dma t = dma s @ [Next_buffer b] \<and> pending s = b # pending t)"
proof -
  have b: "buffered s = 4096 * int (level s)" using assms(1) by (simp add: ring_ok_def)
  consider "t = s\<lparr>dma := dma s @ [Silence]\<rparr>"
    | k where "level s = Suc k" "t = s\<lparr>dma := dma s @ [Next_buffer (ring_block (bufferPlay s) (ring s))],
        bufferPlay := (bufferPlay s + 1) mod 32, buffered := 4096 * int k\<rparr>"
  proof (cases "playing s \<and> 0 < buffered s")
    case True
    then obtain k where k: "level s = Suc k" using b by (cases "level s") auto
    have "t = s\<lparr>dma := dma s @ [Next_buffer (ring_block (bufferPlay s) (ring s))],
        bufferPlay := (bufferPlay s + 1) mod 32, buffered := 4096 * int k\<rparr>"
      using True assms(2) b k by (auto simp: dma_callback_def audio_sizes)
    with k that(2) show ?thesis by blast
  next
    case False
    then have "t = s\<lparr>dma := dma s @ [Silence]\<rparr>" unfolding assms(2) [symmetric] dma_callback_def by (rule if_not_P)
    then show ?thesis by (rule that(1))
  qed
  note cs = this
  have tail: "pending s = ring_block (bufferPlay s) (ring s) # map (\<lambda>i. ring_block ((bufferPlay s + 1 + i) mod 32) (ring s)) [0..<k]"
    if "level s = Suc k" for k
    using that assms(1) by (simp add: pending_def ring_ok_def upt_conv_Cons map_Suc_upt [symmetric] del: upt_Suc)
  from cs show "ring_ok t" "level t \<le> level s" "bufferFill t = bufferFill s" "ring t = ring s" "carry t = carry s"
      "carryFill t = carryFill s"
    using assms(1) by (cases; auto simp: ring_ok_def level_def mod_simps)+
  from cs show "dma t = dma s @ [Silence] \<and> pending t = pending s \<or>
     (\<exists>b. dma t = dma s @ [Next_buffer b] \<and> pending s = b # pending t)"
  proof cases
    case (2 k)
    then have "level t = k" by (simp add: level_def)
    then have "pending t = map (\<lambda>i. ring_block ((bufferPlay s + 1 + i) mod 32) (ring s)) [0..<k]"
      using 2(2) by (simp add: pending_def mod_simps)
    with 2 tail show ?thesis by simp
  qed (simp add: pending_def level_def)
qed

section \<open>Every interleaving keeps the stream\<close>

fun rest_of :: "phase \<Rightarrow> u8 list" where
  "rest_of (Store_carry r) = r"
| "rest_of (Publish_carry r) = r"
| "rest_of (Ring_loop r) = r"
| "rest_of (Publish_ring r) = r"
| "rest_of _ = []"

text \<open>What holds where the thread is.\<close>

fun phase_ok :: "phase \<Rightarrow> audio_state \<Rightarrow> bool" where
  "phase_ok (Store_carry r) s = (carryFill s = 4096)"
| "phase_ok (Publish_carry r) s =
     (carryFill s = 4096 \<and> level s \<le> 30 \<and> ring_block (bufferFill s) (ring s) = carry s)"
| "phase_ok (Ring_loop r) s = (r \<noteq> [] \<longrightarrow> carryFill s = 0)"
| "phase_ok (Publish_ring r) s =
     (carryFill s = 0 \<and> 4096 \<le> length r \<and> level s \<le> 30 \<and> ring_block (bufferFill s) (ring s) = take 4096 r)"
| "phase_ok _ s = True"

definition cfg_ok :: "phase \<times> audio_state \<Rightarrow> bool" where
  "cfg_ok c \<longleftrightarrow> ring_ok (snd c) \<and> phase_ok (fst c) (snd c)"

text \<open>The bytes the interrupt has taken, and those that are still on their way.\<close>

fun event_bytes :: "dma_event \<Rightarrow> u8 list" where
  "event_bytes (Next_buffer b) = b"
| "event_bytes _ = []"

definition heard :: "audio_state \<Rightarrow> u8 list" where
  "heard s = concat (map event_bytes (dma s))"

definition unheard :: "phase \<times> audio_state \<Rightarrow> u8 list" where
  "unheard c = concat (pending (snd c)) @ take (carryFill (snd c)) (carry (snd c)) @ rest_of (fst c)"

definition whole :: "phase \<times> audio_state \<Rightarrow> u8 list" where
  "whole c = heard (snd c) @ unheard c"

lemma irq_keeps:
  assumes "cfg_ok (p, s)"
  shows "cfg_ok (p, dma_irq s)" "whole (p, dma_irq s) = whole (p, s)"
proof -
  let ?t = "dma_callback s"
  have r: "ring_ok s" "phase_ok p s" using assms by (simp_all add: cfg_ok_def)
  note cb = callback_ok [OF r(1) refl]
  have "phase_ok p ?t" using r(2) cb(2-6) by (cases p) auto
  moreover have "whole (p, ?t) = whole (p, s)"
    using cb(5-7) by (auto simp: whole_def heard_def unheard_def)
  ultimately show "cfg_ok (p, dma_irq s)" "whole (p, dma_irq s) = whole (p, s)"
    using cb(1) assms by (simp_all add: dma_irq_def cfg_ok_def)
qed

lemma begin_keeps:
  assumes "cfg_ok (Idle, s)"
  shows "cfg_ok (begin_append chunk s)" "whole (begin_append chunk s) = whole (Idle, s) @ chunk"
proof -
  have r: "ring_ok s" using assms by (simp add: cfg_ok_def)
  show "cfg_ok (begin_append chunk s)"
    using r by (auto simp: cfg_ok_def begin_append_def fill_carry_def Let_def ring_ok_def level_def BUFFER_SIZE_def min_def)
  show "whole (begin_append chunk s) = whole (Idle, s) @ chunk"
  proof (cases "carryFill s = 0")
    case False
    define n where "n = min (length chunk) (BUFFER_SIZE - carryFill s)"
    have "length (take n chunk) = n" by (simp add: n_def)
    then have "take (carryFill s + n) (blit (carry s) (carryFill s) (take n chunk)) = take (carryFill s) (carry s) @ take n chunk"
      using take_blit [of "carryFill s" "carry s" "take n chunk"] r by (simp add: ring_ok_def)
    then have "take (carryFill s + n) (blit (carry s) (carryFill s) (take n chunk)) @ drop n chunk = take (carryFill s) (carry s) @ chunk"
      by simp
    with False show ?thesis
      by (cases "carryFill s + n = BUFFER_SIZE")
        (simp_all add: whole_def unheard_def heard_def begin_append_def fill_carry_def Let_def n_def [symmetric] pending_def level_def)
  qed (simp add: whole_def unheard_def heard_def begin_append_def fill_carry_def)
qed

lemma space_level: "ring_ok s \<Longrightarrow> get_space s = 4096 * (30 - int (level s))"
  by (simp add: ring_ok_def get_space_def audio_sizes)

lemma set_fill_ok:
  assumes "ring_ok s" and "n \<le> 4096"
  shows "ring_ok (s\<lparr>carryFill := n\<rparr>)" "pending (s\<lparr>carryFill := n\<rparr>) = pending s" "heard (s\<lparr>carryFill := n\<rparr>) = heard s"
proof -
  have "level (s\<lparr>carryFill := n\<rparr>) = level s" by (simp add: level_def)
  then show "ring_ok (s\<lparr>carryFill := n\<rparr>)" "pending (s\<lparr>carryFill := n\<rparr>) = pending s" "heard (s\<lparr>carryFill := n\<rparr>) = heard s"
    using assms by (simp_all add: ring_ok_def pending_def heard_def)
qed

lemma advance_keeps:
  assumes "cfg_ok (p, s)" and "\<not> loses p s"
  shows "cfg_ok (advance p s) \<and> whole (advance p s) = whole (p, s)"
proof -
  have r: "ring_ok s" "phase_ok p s" using assms(1) by (simp_all add: cfg_ok_def)
  have c: "length (carry s) = 4096" using r(1) by (simp add: ring_ok_def)
  have nop: "heard (store_block b u) = heard u" "heard (publish_block u) = heard u" "carry (store_block b u) = carry u"
      "carry (publish_block u) = carry u" "carryFill (store_block b u) = carryFill u" "carryFill (publish_block u) = carryFill u"
      "bufferFill (store_block b u) = bufferFill u" for b u
    by (simp_all add: store_block_def publish_block_def heard_def)
  show ?thesis
  proof (cases p)
    case (Store_carry q)
    have "level s \<le> 30" using assms(2) space_level [OF r(1)] Store_carry by simp
    then show ?thesis using Store_carry r c store_ok [OF r(1), of "carry s"]
      by (simp add: cfg_ok_def whole_def unheard_def nop BUFFER_SIZE_def)
  next
    case (Publish_carry q)
    let ?t = "(publish_block s)\<lparr>carryFill := 0\<rparr>"
    have l: "level s \<le> 30" using r(2) Publish_carry by simp
    have t: "ring_ok ?t" "pending ?t = pending s @ [carry s]" "heard ?t = heard s"
      using publish_ok [OF r(1) l] set_fill_ok [of "publish_block s" 0] r(2) Publish_carry by (simp_all add: nop)
    then show ?thesis using Publish_carry r c
      by (simp add: cfg_ok_def whole_def unheard_def)
  next
    case (Ring_loop q)
    show ?thesis
    proof (cases "4096 \<le> length q \<and> 4096 \<le> get_space s")
      case True
      have "level s \<le> 30" using True space_level [OF r(1)] by simp
      then show ?thesis using Ring_loop True r c store_ok [OF r(1), of "take 4096 q"]
        by (auto simp: cfg_ok_def whole_def unheard_def nop BUFFER_SIZE_def)
    next
      case False
      then have q: "length q < 4096" using assms(2) Ring_loop by (auto simp: BUFFER_SIZE_def)
      then have "advance p s = (Kick, keep_tail q s)" using Ring_loop by (simp add: BUFFER_SIZE_def)
      moreover have "take (length q) (blit (carry s) 0 q) = q" using take_blit [of 0 "carry s" q] by simp
      ultimately show ?thesis using q r c Ring_loop
        by (auto simp: cfg_ok_def whole_def unheard_def keep_tail_def BUFFER_SIZE_def ring_ok_def level_def pending_def heard_def)
    qed
  next
    case (Publish_ring q)
    have l: "level s \<le> 30" using r(2) Publish_ring by simp
    show ?thesis using Publish_ring r publish_ok [OF r(1) l]
      by (simp add: cfg_ok_def whole_def unheard_def nop BUFFER_SIZE_def)
  next
    case Kick
    then show ?thesis using r
      by (auto simp: cfg_ok_def whole_def unheard_def kick_def ring_ok_def level_def pending_def heard_def)
  qed (use assms(1) in simp)
qed

lemma run_keeps: "audio_run c sent lost d \<Longrightarrow> cfg_ok c \<Longrightarrow> \<not> lost \<Longrightarrow> cfg_ok d \<and> whole d = whole c @ sent"
proof (induction rule: audio_run.induct)
  case (run_irq sent lost p s)
  then show ?case using irq_keeps [of p s] by simp
next
  case (run_packet sent lost s chunk)
  then show ?case using begin_keeps [of s chunk] by simp
next
  case (run_work sent lost p s)
  then show ?case using advance_keeps [of p s] by simp
qed simp

text \<open>The code itself, undisturbed, is one of the interleavings.\<close>

lemma run_loop:
  "audio_run c sent lost (Ring_loop r, s) \<Longrightarrow>
     \<exists>lost'. audio_run c sent lost' (Idle, kick (case ring_loop r s of (r', t) \<Rightarrow> keep_tail r' t))"
proof (induction r s arbitrary: lost rule: ring_loop.induct)
  case (1 r s)
  show ?case
  proof (cases "BUFFER_SIZE \<le> length r \<and> int BUFFER_SIZE \<le> get_space s")
    case True
    from run_work [OF "1.prems"] True
    have "audio_run c sent lost (Publish_ring r, store_block (take BUFFER_SIZE r) s)" by auto
    from run_work [OF this]
    have "audio_run c sent lost (Ring_loop (drop BUFFER_SIZE r), publish_block (store_block (take BUFFER_SIZE r) s))" by simp
    from "1.IH" [OF True this] True show ?thesis by (subst ring_loop.simps) simp
  next
    case False
    from run_work [OF "1.prems"] False
    have "audio_run c sent (lost \<or> loses (Ring_loop r) s) (Kick, keep_tail r s)" by simp
    from run_work [OF this] False show ?thesis by (subst ring_loop.simps) auto
  qed
qed

lemma append_is_run: "\<exists>lost. audio_run (Idle, s) chunk lost (Idle, kick (append_to_ring chunk s))"
proof -
  obtain r s1 where f: "fill_carry chunk s = (r, s1)" by fastforce
  have b: "audio_run (Idle, s) chunk False (begin_append chunk s)"
    using run_packet [OF run_start, of s chunk] by simp
  show ?thesis
  proof (cases "0 < carryFill s \<and> carryFill s1 = BUFFER_SIZE")
    case True
    then have "audio_run (Idle, s) chunk False (Store_carry r, s1)" using b f by (simp add: begin_append_def)
    from run_work [OF this] obtain l where "audio_run (Idle, s) chunk l (Publish_carry r, store_block (take BUFFER_SIZE (carry s1)) s1)"
      by auto
    from run_work [OF this] obtain l where "audio_run (Idle, s) chunk l (Ring_loop r, commit_carry s1)"
      by (auto simp: commit_carry_def)
    from run_loop [OF this] True f show ?thesis by (simp add: append_to_ring_def split_beta Let_def)
  next
    case False
    then have "audio_run (Idle, s) chunk False (Ring_loop r, s1)" using b f by (auto simp: begin_append_def)
    from run_loop [OF this] False f show ?thesis by (auto simp: append_to_ring_def split_beta Let_def)
  qed
qed


definition fresh_audio :: audio_state where
  "fresh_audio = snd (ar_init True (\<lambda>_. True) \<lparr>oc_channels = 2, oc_samplesPerFrame = 240\<rparr>
     \<lparr>has_decoder = False, decodeBuf = [], carry = [], carryFill = 0, ring = [], channelCount = 0, frameSize = 0,
      bufferFill = 0, bufferPlay = 0, buffered = 0, playing = False, audioInited = False, dma_callback_set = False,
      dma_running = False, dma = []\<rparr>)"

lemma fresh_audio: "ring_ok fresh_audio" "pending fresh_audio = []" "heard fresh_audio = []" "carryFill fresh_audio = 0"
  "buffered fresh_audio = 0" "bufferFill fresh_audio = 0"
  by (simp_all add: fresh_audio_def ar_init_def Let_def ring_ok_def level_def pending_def heard_def audio_sizes)


text \<open>The buffer that starts the engine stays in the ring: the first interrupt hands it over again.\<close>

lemma first_buffer_twice:
  "\<not> playing s \<Longrightarrow> 0 < buffered s \<Longrightarrow> dma_callback_set s \<Longrightarrow> \<exists>b. dma (dma_irq (kick s)) = dma s @ [Kicked b, Next_buffer b]"
  by (simp add: dma_irq_def kick_def dma_callback_def)

section \<open>Small chunks\<close>

lemma div_carry: "a div d + (a mod d + n) div d = (a + n) div (d::nat)" if "0 < d"
proof -
  have "(a mod d + n + a div d * d) div d = a div d + (a mod d + n) div d"
    using that by (simp only: div_mult_self1 neq0_conv)
  moreover have "a mod d + n + a div d * d = a + n" by (simp add: mod_div_mult_eq [symmetric])
  ultimately show ?thesis by simp
qed

lemma append_small:
  assumes "length c < 4096" and "carryFill s < 4096"
  shows "buffered (append_to_ring c s) = buffered s + 4096 * int ((carryFill s + length c) div 4096) \<and>
    carryFill (append_to_ring c s) = (carryFill s + length c) mod 4096"
proof -
  have loop: "ring_loop r u = (r, u)" if "length r < 4096" for r u
    using that by (subst ring_loop.simps) (simp add: BUFFER_SIZE_def)
  consider "carryFill s = 0" | "0 < carryFill s" "carryFill s + length c < 4096" | "0 < carryFill s" "4096 \<le> carryFill s + length c"
    by linarith
  then show ?thesis
  proof cases
    case 3
    have d: "(carryFill s + length c) div 4096 = 1" using 3 assms by auto
    have m: "(carryFill s + length c) mod 4096 = carryFill s + length c - 4096" using 3 assms by (simp add: mod_if)
    have l: "length c - (4096 - carryFill s) < 4096" using assms by simp
    show ?thesis using 3 assms l
      by (auto simp: append_to_ring_def fill_carry_def Let_def BUFFER_SIZE_def min_def loop keep_tail_def commit_carry_def
          publish_block_def store_block_def d m)
  qed (use assms in \<open>auto simp: append_to_ring_def fill_carry_def Let_def BUFFER_SIZE_def min_def loop keep_tail_def\<close>)
qed

text \<open>C38. Chunks smaller than a buffer go through the carry buffer only, and that path never looks at the room that is left: without
  interrupts the fill level is the whole number of buffers in what was sent, however much that is. As soon as 33 buffers
  were sent the level is above the size of the ring, so sound that was not played yet has been overwritten.\<close>

theorem small_chunks_overrun:
  assumes "list_all (\<lambda>c. length c < 4096) chunks" and "carryFill s < 4096" and "0 \<le> buffered s"
  shows "buffered (fold append_to_ring chunks s) =
      buffered s + 4096 * int ((carryFill s + length (concat chunks)) div 4096) \<and>
    (33 * 4096 \<le> length (concat chunks) \<longrightarrow>
       int (BUFFER_COUNT * BUFFER_SIZE) < buffered (fold append_to_ring chunks s))"
proof -
  have "buffered (fold append_to_ring chunks s) = buffered s + 4096 * int ((carryFill s + length (concat chunks)) div 4096)"
    using assms(1,2)
  proof (induction chunks arbitrary: s)
    case (Cons c chunks)
    let ?n = "length (concat chunks)"
    from Cons.prems append_small [of c s] have
      1: "buffered (append_to_ring c s) = buffered s + 4096 * int ((carryFill s + length c) div 4096)"
      "carryFill (append_to_ring c s) = (carryFill s + length c) mod 4096" by auto
    have d: "int ((carryFill s + length (concat (c # chunks))) div 4096) =
        int ((carryFill s + length c) div 4096) + int (((carryFill s + length c) mod 4096 + ?n) div 4096)"
      using div_carry [of 4096 "carryFill s + length c" ?n] by (simp add: add.assoc flip: of_nat_add)
    have "buffered (fold append_to_ring chunks (append_to_ring c s)) = buffered (append_to_ring c s) +
        4096 * int ((carryFill (append_to_ring c s) + ?n) div 4096)"
      using Cons.prems(1) 1(2) by (intro Cons.IH) simp_all
    with 1 d show ?case by simp
  qed simp
  then show ?thesis using assms(3) by (auto simp: audio_sizes)
qed

theorem small_chunks_overrun_witness:
  "int (BUFFER_COUNT * BUFFER_SIZE) < buffered (fold append_to_ring (replicate 141 (replicate 960 0)) fresh_audio)"
proof -
  have "list_all (\<lambda>c. length c < 4096) (replicate 141 (replicate 960 (0::u8)))" by (simp add: list_all_iff)
  moreover have "length (concat (replicate 141 (replicate 960 (0::u8)))) = 135360"
    by (simp add: length_concat sum_list_replicate)
  ultimately show ?thesis using small_chunks_overrun [of "replicate 141 (replicate 960 0)" fresh_audio] fresh_audio(4,5)
    by simp
qed

end
