(* ===== verification/Mem2.thy ===== *)
theory Mem2
  imports Prelude
begin

text \<open>
  \<open>src/wii/mem2_manager.c\<close>: areas carved from the top of the MEM2 arena, each managed by a heap of libogc. The heap is not part
  of the program: its operations are the parameters in \<open>lwp\<close>, over a type \<open>'h\<close> of heap control blocks. Addresses are
  32-bit words, 0 is \<open>NULL\<close>; memory maps addresses to bytes. The size of an allocated block (\<open>__lwp_heap_block_size\<close>) is
  read from the headers the heap writes and is a parameter with them.
\<close>

unbundle bit_operations_syntax

definition MEM2_VIDEO :: int where "MEM2_VIDEO = 0"
definition MEM2_MAX :: int where "MEM2_MAX = 1"

record 'h lwp =
  heap_init :: "u32 \<Rightarrow> u32 \<Rightarrow> 'h"
  heap_allocate :: "'h \<Rightarrow> u32 \<Rightarrow> u32 \<times> 'h"
  heap_free :: "'h \<Rightarrow> u32 \<Rightarrow> 'h"
  heap_block_size :: "'h \<Rightarrow> u32 \<Rightarrow> u32"
  heap_free_size :: "'h \<Rightarrow> u32"
  heap_zero :: 'h

record 'h mem2_area =
  area_heap :: 'h
  heap_ptr :: u32
  area_size :: u32
  old_arena2hi :: u32

record 'h mem2 =
  mem2_inited :: bool
  mem2_areas :: "'h mem2_area list"
  arena2hi :: u32
  arena2lo :: u32
  memory2 :: "u32 \<Rightarrow> u8"

definition ROUNDDOWN32 :: "u32 \<Rightarrow> u32" where
  "ROUNDDOWN32 v = (v - 31) AND NOT 31"

definition mem_set :: "u32 \<Rightarrow> u8 \<Rightarrow> u32 \<Rightarrow> (u32 \<Rightarrow> u8) \<Rightarrow> u32 \<Rightarrow> u8" where
  "mem_set p c n m = (\<lambda>a. if a - p < n then c else m a)"

definition mem_copy :: "u32 \<Rightarrow> u32 \<Rightarrow> u32 \<Rightarrow> (u32 \<Rightarrow> u8) \<Rightarrow> u32 \<Rightarrow> u8" where
  "mem_copy d p n m = (\<lambda>a. if a - d < n then m (p + (a - d)) else m a)"

definition mem2_area_at :: "int \<Rightarrow> 'h mem2 \<Rightarrow> 'h mem2_area" where
  "mem2_area_at i s = mem2_areas s ! nat i"

definition set_area :: "int \<Rightarrow> ('h mem2_area \<Rightarrow> 'h mem2_area) \<Rightarrow> 'h mem2 \<Rightarrow> 'h mem2" where
  "set_area i f s = s\<lparr>mem2_areas := (mem2_areas s)[nat i := f (mem2_area_at i s)]\<rparr>"

section \<open>Areas\<close>

text \<open>The heap control blocks of the static array are zero until an area is added.\<close>

definition initMem2Areas :: "'h lwp \<Rightarrow> 'h mem2 \<Rightarrow> 'h mem2" where
  "initMem2Areas lib s =
     s\<lparr>mem2_areas := map (\<lambda>a. a\<lparr>heap_ptr := 0, area_size := 0, old_arena2hi := 0\<rparr>) (mem2_areas s), mem2_inited := True\<rparr>"

definition ClearMem2Area :: "'h lwp \<Rightarrow> int \<Rightarrow> 'h mem2 \<Rightarrow> 'h mem2" where
  "ClearMem2Area lib area s =
     (if MEM2_MAX \<le> area then s
      else
        (let a = mem2_area_at area s
         in if area_size a = 0 then s
            else set_area area (\<lambda>a. a\<lparr>area_heap := heap_init lib (heap_ptr a) (area_size a)\<rparr>)
                   (s\<lparr>memory2 := mem_set (heap_ptr a) 0 (area_size a) (memory2 s)\<rparr>)))"

text \<open>An area that was carved later lies lower; it has to go first.\<close>

definition lower_area :: "int \<Rightarrow> 'h mem2 \<Rightarrow> bool" where
  "lower_area area s =
     list_ex (\<lambda>i. i \<noteq> area \<and> old_arena2hi (mem2_area_at i s) \<noteq> 0 \<and>
        old_arena2hi (mem2_area_at i s) < old_arena2hi (mem2_area_at area s)) [0..MEM2_MAX - 1]"

definition RemoveMem2Area :: "'h lwp \<Rightarrow> int \<Rightarrow> 'h mem2 \<Rightarrow> bool \<times> 'h mem2" where
  "RemoveMem2Area lib area s =
     (if MEM2_MAX \<le> area \<or> area_size (mem2_area_at area s) = 0 then (False, s)
      else if lower_area area s then (False, s)
      else
        (True, set_area area (\<lambda>a. a\<lparr>area_heap := heap_zero lib, heap_ptr := 0, area_size := 0, old_arena2hi := 0\<rparr>)
                 (s\<lparr>arena2hi := old_arena2hi (mem2_area_at area s)\<rparr>)))"

text \<open>The part of \<open>AddMem2Area\<close> after the checks.\<close>

definition carve_area :: "'h lwp \<Rightarrow> u32 \<Rightarrow> int \<Rightarrow> 'h mem2 \<Rightarrow> bool \<times> 'h mem2" where
  "carve_area lib sz index s =
     (let p = ROUNDDOWN32 (arena2hi s - sz);
          s1 = set_area index (\<lambda>a. a\<lparr>old_arena2hi := arena2hi s, heap_ptr := p\<rparr>) s
      in if p < arena2lo s then (False, set_area index (\<lambda>a. a\<lparr>old_arena2hi := 0, heap_ptr := 0\<rparr>) s1)
         else (True, set_area index (\<lambda>a. a\<lparr>area_heap := heap_init lib p sz, area_size := sz\<rparr>) (s1\<lparr>arena2hi := p\<rparr>)))"

definition AddMem2Area :: "'h lwp \<Rightarrow> u32 \<Rightarrow> int \<Rightarrow> 'h mem2 \<Rightarrow> bool \<times> 'h mem2" where
  "AddMem2Area lib sz index s0 =
     (let s = (if mem2_inited s0 then s0 else initMem2Areas lib s0)
      in if MEM2_MAX \<le> index \<or> sz = 0 then (False, s)
         else if area_size (mem2_area_at index s) = sz then (True, s)
         else if 0 < area_size (mem2_area_at index s) then
           (case RemoveMem2Area lib index s of
              (False, t) \<Rightarrow> (False, t)
            | (True, t) \<Rightarrow> carve_area lib sz index t)
         else carve_area lib sz index s)"

section \<open>Allocation\<close>

definition mem2_memalign :: "'h lwp \<Rightarrow> u8 \<Rightarrow> u32 \<Rightarrow> int \<Rightarrow> 'h mem2 \<Rightarrow> u32 \<times> 'h mem2" where
  "mem2_memalign lib align sz area s =
     (if sz = 0 then (0, s)
      else if MEM2_MAX \<le> area \<or> area_size (mem2_area_at area s) = 0 then (0, s)
      else
        (let (p, h) = heap_allocate lib (area_heap (mem2_area_at area s)) sz
         in (p, set_area area (\<lambda>a. a\<lparr>area_heap := h\<rparr>) s)))"

definition mem2_malloc :: "'h lwp \<Rightarrow> u32 \<Rightarrow> int \<Rightarrow> 'h mem2 \<Rightarrow> u32 \<times> 'h mem2" where
  "mem2_malloc lib sz area = mem2_memalign lib 32 sz area"

definition mem2_calloc :: "'h lwp \<Rightarrow> u32 \<Rightarrow> u32 \<Rightarrow> int \<Rightarrow> 'h mem2 \<Rightarrow> u32 \<times> 'h mem2" where
  "mem2_calloc lib num sz area s =
     (let (p, t) = mem2_malloc lib (num * sz) area s
      in if p = 0 then (0, t) else (p, t\<lparr>memory2 := mem_set p 0 (num * sz) (memory2 t)\<rparr>))"

definition mem2_free :: "'h lwp \<Rightarrow> u32 \<Rightarrow> int \<Rightarrow> 'h mem2 \<Rightarrow> 'h mem2" where
  "mem2_free lib ptr area s =
     (if ptr = 0 then s
      else if MEM2_MAX \<le> area \<or> area_size (mem2_area_at area s) = 0 then s
      else set_area area (\<lambda>a. a\<lparr>area_heap := heap_free lib (area_heap a) ptr\<rparr>) s)"

definition mem2_realloc :: "'h lwp \<Rightarrow> u32 \<Rightarrow> u32 \<Rightarrow> int \<Rightarrow> 'h mem2 \<Rightarrow> u32 \<times> 'h mem2" where
  "mem2_realloc lib ptr newsize area s =
     (if ptr = 0 then mem2_malloc lib newsize area s
      else if newsize = 0 then (0, mem2_free lib ptr area s)
      else if MEM2_MAX \<le> area \<or> area_size (mem2_area_at area s) = 0 then (0, s)
      else
        (let sz = min newsize (heap_block_size lib (area_heap (mem2_area_at area s)) ptr);
             (p, t) = mem2_malloc lib newsize area s
         in if p = 0 then (0, t)
            else (p, mem2_free lib ptr area (t\<lparr>memory2 := mem_copy p ptr sz (memory2 t)\<rparr>))))"

definition mem2_size :: "'h lwp \<Rightarrow> int \<Rightarrow> 'h mem2 \<Rightarrow> u32" where
  "mem2_size lib area s =
     (if MEM2_MAX \<le> area \<or> area_size (mem2_area_at area s) = 0 then 0
      else heap_free_size lib (area_heap (mem2_area_at area s)))"

section \<open>The arena\<close>

datatype area_op = Add_area u32 | Remove_area | Clear_area

definition area_exec :: "'h lwp \<Rightarrow> area_op \<Rightarrow> 'h mem2 \<Rightarrow> 'h mem2" where
  "area_exec lib op s =
     (case op of
        Add_area n \<Rightarrow> snd (AddMem2Area lib n MEM2_VIDEO s)
      | Remove_area \<Rightarrow> snd (RemoveMem2Area lib MEM2_VIDEO s)
      | Clear_area \<Rightarrow> ClearMem2Area lib MEM2_VIDEO s)"

text \<open>The arena was \<open>[lo, hi)\<close> at the start; the video area, when there is one, lies at its upper end.\<close>

definition arena_ok :: "u32 \<Rightarrow> u32 \<Rightarrow> 'h mem2 \<Rightarrow> bool" where
  "arena_ok lo hi s \<longleftrightarrow>
     length (mem2_areas s) = 1 \<and> arena2lo s = lo \<and>
     (let a = mem2_areas s ! 0
      in if mem2_inited s \<and> area_size a \<noteq> 0 then
           old_arena2hi a = hi \<and> arena2hi s = heap_ptr a \<and> lo \<le> heap_ptr a \<and>
           32 dvd unat (heap_ptr a) \<and> unat (heap_ptr a) + unat (area_size a) \<le> unat hi
         else arena2hi s = hi \<and> area_size a = 0)"

lemma rounddown_below:
  assumes "31 \<le> unat v"
  shows "unat (ROUNDDOWN32 v) \<le> unat v - 31" "32 dvd unat (ROUNDDOWN32 v)"
proof -
  have u: "unat (v - 31) = unat v - 31" using assms by (simp add: unat_sub word_le_nat_alt)
  have "unat (ROUNDDOWN32 v) = (unat v - 31) div 32 * 32"
    using unat_and_not_mask [of "v - 31" 5] u by (simp add: ROUNDDOWN32_def mask_eq_exp_minus_1)
  then show "unat (ROUNDDOWN32 v) \<le> unat v - 31" "32 dvd unat (ROUNDDOWN32 v)" by simp_all
qed

lemma lower_area_single [simp]: "lower_area 0 s = False"
  by (simp add: lower_area_def MEM2_MAX_def upto.simps)

lemma single_area: "length (mem2_areas s) = 1 \<Longrightarrow> \<exists>a. mem2_areas s = [a]"
  by (cases "mem2_areas s") auto

text \<open>Only the size of an area may be too big: a size above the arena's end would wrap around and pass the check.\<close>

fun op_fits :: "u32 \<Rightarrow> area_op \<Rightarrow> bool" where
  "op_fits hi (Add_area n) = (unat n + 31 \<le> unat hi)"
| "op_fits hi _ = True"

lemma carve_ok:
  assumes "mem2_areas s = [a]" and "mem2_inited s" and "arena2hi s = hi" and "arena2lo s = lo" and "area_size a = 0"
    and "n \<noteq> 0" and "unat n + 31 \<le> unat hi"
  shows "arena_ok lo hi (snd (carve_area lib n 0 s))"
proof -
  have "unat (hi - n) = unat hi - unat n" using assms(7) by (simp add: unat_sub word_le_nat_alt)
  with assms(7) have "31 \<le> unat (hi - n)" "unat (hi - n) - 31 + unat n \<le> unat hi" by linarith+
  with rounddown_below [of "hi - n"] have p: "unat (ROUNDDOWN32 (hi - n)) + unat n \<le> unat hi"
      "32 dvd unat (ROUNDDOWN32 (hi - n))" by linarith+
  with assms show ?thesis
    by (auto simp: carve_area_def arena_ok_def set_area_def mem2_area_at_def Let_def)
qed

lemma remove_area_state:
  assumes "mem2_areas s = [a]"
  shows "RemoveMem2Area lib 0 s =
    (if area_size a = 0 then (False, s)
     else (True, s\<lparr>mem2_areas := [a\<lparr>area_heap := heap_zero lib, heap_ptr := 0, area_size := 0, old_arena2hi := 0\<rparr>],
                   arena2hi := old_arena2hi a\<rparr>))"
  using assms by (simp add: RemoveMem2Area_def mem2_area_at_def set_area_def MEM2_MAX_def)

lemma area_exec_ok:
  assumes "arena_ok lo hi s" and "op_fits hi op"
  shows "arena_ok lo hi (area_exec lib op s)"
proof -
  obtain a where a: "mem2_areas s = [a]" using assms(1) single_area [of s] by (auto simp: arena_ok_def)
  show ?thesis
  proof (cases op)
    case (Add_area n)
    let ?s = "if mem2_inited s then s else initMem2Areas lib s"
    obtain b where b: "mem2_areas ?s = [b]" "area_size b = area_size a" "mem2_inited ?s" "arena2hi ?s = arena2hi s" "arena2lo ?s = arena2lo s"
    proof (cases "mem2_inited s")
      case False
      then have "area_size a = 0" using a assms(1) by (simp add: arena_ok_def Let_def)
      with False a that show ?thesis by (simp add: initMem2Areas_def)
    qed (use a that in simp)
    have s: "arena_ok lo hi ?s" using assms(1) a by (auto simp: arena_ok_def initMem2Areas_def Let_def)
    consider "n = 0" | "n \<noteq> 0" "area_size b = n" | "n \<noteq> 0" "area_size b \<noteq> n" "area_size b = 0" | "n \<noteq> 0" "area_size b \<noteq> n" "area_size b \<noteq> 0"
      by blast
    then have "arena_ok lo hi (snd (AddMem2Area lib n 0 s))"
    proof cases
      case 3
      then have "AddMem2Area lib n 0 s = carve_area lib n 0 ?s"
        using b by (simp add: AddMem2Area_def mem2_area_at_def MEM2_MAX_def)
      moreover have h: "arena2hi ?s = hi" "arena2lo ?s = lo" "unat n + 31 \<le> unat hi"
        using s b(1) 3(3) assms(2) Add_area by (simp_all add: arena_ok_def Let_def)
      ultimately show ?thesis using carve_ok [OF b(1,3) h(1,2) 3(3,1) h(3)] by simp
    next
      case 4
      define t where "t = snd (RemoveMem2Area lib 0 ?s)"
      have t: "RemoveMem2Area lib 0 ?s = (True, t)" "mem2_inited t" "arena2hi t = hi" "arena2lo t = lo"
          "\<exists>c. mem2_areas t = [c] \<and> area_size c = 0"
        using remove_area_state [OF b(1), of lib] 4 s b(1,3) by (auto simp: t_def arena_ok_def)
      then have "AddMem2Area lib n 0 s = carve_area lib n 0 t"
        using b 4 by (simp add: AddMem2Area_def mem2_area_at_def MEM2_MAX_def word_greater_zero_iff)
      then show ?thesis using carve_ok [OF _ t(2-4) _ 4(1)] t(5) assms(2) Add_area by fastforce
    qed (use s b in \<open>simp_all add: AddMem2Area_def mem2_area_at_def MEM2_MAX_def\<close>)
    then show ?thesis using Add_area by (simp add: area_exec_def MEM2_VIDEO_def)
  next
    case Remove_area
    then show ?thesis using assms(1) a remove_area_state [OF a, of lib]
      by (auto simp: area_exec_def arena_ok_def MEM2_VIDEO_def Let_def split: if_splits)
  next
    case Clear_area
    then show ?thesis using assms(1) a
      by (auto simp: area_exec_def arena_ok_def ClearMem2Area_def MEM2_VIDEO_def MEM2_MAX_def mem2_area_at_def set_area_def Let_def
          split: if_splits)
  qed
qed

text \<open>C22. Whatever sequence of requests for the video area comes, of sizes the arena could ever hold: the area, when there is one, is aligned to
  32 bytes, lies inside the arena and ends below its old end, the rest of the arena is what is below it, and giving the
  area back restores the arena exactly.\<close>

theorem mem2_arena_restored:
  assumes "arena_ok lo hi s" and "list_all (op_fits hi) ops"
  shows "arena_ok lo hi (fold (area_exec lib) ops s) \<and>
    arena2hi (area_exec lib Remove_area (fold (area_exec lib) ops s)) = hi"
proof -
  have ok: "arena_ok lo hi (fold (area_exec lib) ops s)"
    using assms by (induction ops arbitrary: s) (auto intro: area_exec_ok)
  then obtain a where a: "mem2_areas (fold (area_exec lib) ops s) = [a]"
    using single_area by (auto simp: arena_ok_def)
  show ?thesis
    using ok a remove_area_state [OF a, of lib] by (auto simp: area_exec_def arena_ok_def MEM2_VIDEO_def Let_def split: if_splits)
qed

definition example_lwp :: "unit lwp" where
  "example_lwp = \<lparr>heap_init = (\<lambda>_ _. ()), heap_allocate = (\<lambda>h _. (0, h)), heap_free = (\<lambda>h _. h),
     heap_block_size = (\<lambda>_ _. 0), heap_free_size = (\<lambda>_. 0), heap_zero = ()\<rparr>"

definition example_mem2 :: "unit mem2" where
  "example_mem2 = \<lparr>mem2_inited = False, mem2_areas = [\<lparr>area_heap = (), heap_ptr = 0, area_size = 0, old_arena2hi = 0\<rparr>],
     arena2hi = 0x93400000, arena2lo = 0x90002000, memory2 = (\<lambda>_. 0)\<rparr>"

theorem mem2_arena_restored_witness:
  "arena2hi (area_exec example_lwp Remove_area (area_exec example_lwp (Add_area 2392064) example_mem2)) = 0x93400000"
proof -
  have "arena_ok 0x90002000 0x93400000 example_mem2" by (simp add: arena_ok_def example_mem2_def)
  from mem2_arena_restored [OF this, of "[Add_area 2392064]" example_lwp] show ?thesis by simp
qed

end
