(* ===== verification/GxVideo.thy ===== *)
theory GxVideo
  imports Mem2
begin

text \<open>
  \<open>src/wii/gx_video.c\<close>: the planes of a decoded frame are copied into textures of the graphics processor, which converts
  them to RGB, draws them, and copies the picture to one of two frame buffers; the retrace interrupt hands that buffer to
  the video interface. Modelled: the video mode, the textures (their sizes, their place in MEM2, the copy loops with their
  tile layout), the state of the double buffer, the debug pictures. Calls that only program the graphics
  processor (its stages, its matrices, the texture coordinates) have no counterpart here.

  A plane and a texture are the bytes they consist of. A copy that would read or write outside of them is undefined
  behaviour, the result \<open>None\<close>. The two instances of each copy macro differ in the type that carries eight bytes, not in
  what they copy; \<open>dcbz\<close> clears a line that is written completely right after it.
\<close>

unbundle bit_operations_syntax

definition MAX_WIDTH :: nat where "MAX_WIDTH = 1280"
definition MAX_HEIGHT :: nat where "MAX_HEIGHT = 1024"
definition DELAYRENDER_FRAMES :: nat where "DELAYRENDER_FRAMES = 4"

section \<open>State\<close>

record vmode_obj =
  vm_fbWidth :: int
  vm_efbHeight :: int
  vm_xfbHeight :: int
  vm_viWidth :: int
  vm_viHeight :: int
  vm_viXOrigin :: u16
  vm_viYOrigin :: u16
  vm_non_interlace :: bool

record gx_textures =
  Yltexture :: "u8 list option"
  Yrtexture :: "u8 list option"
  Utexture :: "u8 list option"
  Vtexture :: "u8 list option"
  Yltexsize :: u32
  Yrtexsize :: u32
  UVtexsize :: u32
  Ylwidth :: u16
  Yrwidth :: u16
  Ywidth :: u16
  Yheight :: u16
  UVwidth :: u16
  UVheight :: u16
  st0 :: int
  st1 :: int
  wl :: int
  wr :: int
  Yrowpitch :: u16
  UVrowpitch :: u16
  yuv_cfg_w :: int
  yuv_cfg_h :: int
  texture_ptrs :: "u32 list"

text \<open>\<open>shown\<close> is what the video interface displays, \<open>copied\<close> the buffers the pictures were copied to.\<close>

record gx_state =
  vmode :: "vmode_obj option"
  xfb_bpp :: nat
  whichfb :: nat
  gx_presented :: bool
  flip_pending :: bool
  sync_interlace :: int
  is_pal :: bool
  want576i :: bool
  pal60 :: bool
  delayrender_frames :: nat
  vi_black :: bool
  shown :: nat
  copied :: "nat list"
  textures :: gx_textures
  neutral_uv_size :: int
  dbg_frame :: u32
  dumped :: "(string \<times> u8 list) list"

section \<open>The video mode\<close>

text \<open>What the console says: the preferred mode and which PAL mode it is, the system settings, the sizes of the raster.\<close>

record gx_platform =
  gp_mode :: vmode_obj
  gp_pal_int :: bool
  gp_pal_prog :: bool
  gp_conf_pal :: bool
  gp_wide :: bool
  gp_offset :: "int option"
  gp_max_pal :: "int \<times> int"
  gp_max_ntsc :: "int \<times> int"

definition HOffset :: "gx_platform \<Rightarrow> bool \<Rightarrow> vmode_obj \<Rightarrow> vmode_obj" where
  "HOffset gp pal m =
     (let (mw, mh) = (if pal then gp_max_pal gp else gp_max_ntsc gp);
          m1 = m\<lparr>vm_viXOrigin := word_of_int (c_div (mw - vm_viWidth m) 2), vm_viYOrigin := word_of_int (c_div (mh - vm_viHeight m) 2)\<rparr>
      in case gp_offset gp of None \<Rightarrow> m1 | Some h \<Rightarrow> m1\<lparr>vm_viXOrigin := vm_viXOrigin m1 + word_of_int h\<rparr>)"

definition gx_video_init :: "gx_platform \<Rightarrow> gx_state \<Rightarrow> gx_state" where
  "gx_video_init gp s =
     (let pal = (if gp_pal_int gp \<or> gp_pal_prog gp then True else is_pal s);
          m = (gp_mode gp)\<lparr>vm_viWidth := (if gp_wide gp then 711 else 704)\<rparr>
      in s\<lparr>vmode := Some (HOffset gp pal m), is_pal := pal,
           want576i := (if gp_pal_int gp then True else want576i s),
           pal60 := (if \<not> gp_pal_int gp \<and> \<not> gp_pal_prog gp \<and> gp_conf_pal gp then True else pal60 s),
           vi_black := True\<rparr>)"

definition gx_video_efb_width :: "gx_state \<Rightarrow> int" where
  "gx_video_efb_width s = (case vmode s of None \<Rightarrow> 640 | Some m \<Rightarrow> vm_fbWidth m)"

definition gx_video_efb_height :: "gx_state \<Rightarrow> int" where
  "gx_video_efb_height s = (case vmode s of None \<Rightarrow> 480 | Some m \<Rightarrow> vm_efbHeight m)"

section \<open>The double buffer\<close>

text \<open>The retrace interrupt; \<open>field\<close> is the next field of an interlaced picture.\<close>

definition vblank_cb :: "int \<Rightarrow> gx_state \<Rightarrow> gx_state" where
  "vblank_cb field s =
     (if delayrender_frames s < DELAYRENDER_FRAMES then
        (let n = delayrender_frames s + 1
         in s\<lparr>delayrender_frames := n, vi_black := (if n = DELAYRENDER_FRAMES then False else vi_black s)\<rparr>)
      else
        (let doflip = (if sync_interlace s = 1 then field = 0 else if sync_interlace s = 2 then field \<noteq> 0 else True)
         in if \<not> flip_pending s \<or> \<not> doflip then s
            else s\<lparr>shown := whichfb s, whichfb := 1 - whichfb s, flip_pending := False\<rparr>))"

definition draw_done_cb :: "gx_state \<Rightarrow> gx_state" where
  "draw_done_cb s = s\<lparr>flip_pending := True\<rparr>"

definition gx_video_present :: "gx_state \<Rightarrow> gx_state" where
  "gx_video_present s = s\<lparr>copied := copied s @ [whichfb s], gx_presented := True\<rparr>"

section \<open>The textures\<close>

definition texture_area :: nat where
  "texture_area = 1024 * MAX_HEIGHT + (MAX_WIDTH - 1024) * MAX_HEIGHT + 1024 * (MAX_HEIGHT div 2) * 2 + 32 * 1024"

text \<open>\<open>None\<close> is the write through \<open>NULL\<close> that follows when the heap of the area has no room for a texture.\<close>

definition gx_video_alloc_texture_memory :: "'h lwp \<Rightarrow> 'h mem2 \<times> gx_textures \<Rightarrow> ('h mem2 \<times> gx_textures) option" where
  "gx_video_alloc_texture_memory lib mt =
     (case mt of (m, t) \<Rightarrow>
       (case AddMem2Area lib (of_nat texture_area) MEM2_VIDEO m of
          (False, m1) \<Rightarrow> Some (m1, t)
        | (True, m1) \<Rightarrow>
            (let (yl, m2) = mem2_memalign lib 32 (of_nat (1024 * MAX_HEIGHT)) MEM2_VIDEO m1;
                 (yr, m3) = mem2_memalign lib 32 (of_nat ((MAX_WIDTH - 1024) * MAX_HEIGHT)) MEM2_VIDEO m2;
                 (u, m4) = mem2_memalign lib 32 (of_nat (1024 * (MAX_HEIGHT div 2))) MEM2_VIDEO m3;
                 (v, m5) = mem2_memalign lib 32 (of_nat (1024 * (MAX_HEIGHT div 2))) MEM2_VIDEO m4
             in if yl = 0 \<or> yr = 0 \<or> u = 0 \<or> v = 0 then None
                else Some (m5, t\<lparr>Yltexture := Some (replicate (1024 * MAX_HEIGHT) 0),
                                 Yrtexture := Some (replicate ((MAX_WIDTH - 1024) * MAX_HEIGHT) 0),
                                 Utexture := Some (replicate (1024 * (MAX_HEIGHT div 2)) 0x80),
                                 Vtexture := Some (replicate (1024 * (MAX_HEIGHT div 2)) 0x80),
                                 texture_ptrs := [yl, yr, u, v]\<rparr>))))"

definition round8 :: "int \<Rightarrow> u16" where
  "round8 n = word_of_int ((n + 7) AND NOT 7)"

definition round4 :: "int \<Rightarrow> u16" where
  "round4 n = word_of_int ((n + 3) AND NOT 3)"

text \<open>\<open>gx_video_config_yuv\<close>: the sizes; unsigned 16-bit numbers, \<open>int\<close> in between.\<close>

definition config_sizes :: "int \<Rightarrow> int \<Rightarrow> gx_textures \<Rightarrow> gx_textures" where
  "config_sizes width height t =
     (let yw = round8 width; uvw = round8 (c_div width 2); n = uint yw div 8;
          yh = round4 height; uvh = round4 (c_div height 2);
          ylw = (if 1016 < uint yw then 1024 else yw);
          yrw = (if 1024 < uint yw then word_of_int (uint yw - 1016 + 8) else 8)
      in t\<lparr>Ywidth := yw, UVwidth := uvw, st0 := 0, st1 := 0,
           wl := (if 1024 div 8 < n then 1024 div 8 - 1 else n),
           wr := (if 1024 div 8 < n then n - 1024 div 8 + 1 else 0),
           Ylwidth := ylw, Yrwidth := yrw, Yheight := yh, UVheight := uvh,
           Yltexsize := ucast ylw * ucast yh, Yrtexsize := ucast yrw * ucast yh, UVtexsize := ucast uvw * ucast uvh\<rparr>)"

definition gx_video_config_yuv :: "int \<Rightarrow> int \<Rightarrow> gx_textures \<Rightarrow> gx_textures" where
  "gx_video_config_yuv width height t =
     (if yuv_cfg_w t = width \<and> yuv_cfg_h t = height then t
      else config_sizes width height (t\<lparr>yuv_cfg_w := width, yuv_cfg_h := height\<rparr>))"

section \<open>The copy\<close>

text \<open>One tile: eight bytes of each of four rows.\<close>

definition copy_tile :: "u8 list \<Rightarrow> nat \<Rightarrow> nat \<Rightarrow> nat \<Rightarrow> u8 list \<Rightarrow> u8 list option" where
  "copy_tile src stride off dst tex =
     (if dst + 32 \<le> length tex \<and> off + 3 * stride + 8 \<le> length src then
        Some (blit tex dst (concat (map (\<lambda>k. take 8 (drop (off + k * stride) src)) [0..<4])))
      else None)"

fun tile_row :: "nat \<Rightarrow> u8 list \<Rightarrow> nat \<Rightarrow> nat \<Rightarrow> nat \<Rightarrow> u8 list \<Rightarrow> u8 list option" where
  "tile_row 0 src stride off dst tex = Some tex"
| "tile_row (Suc n) src stride off dst tex =
     Option.bind (copy_tile src stride off dst tex) (tile_row n src stride (off + 8) (dst + 32))"

text \<open>\<open>LUMA_COPY\<close>: \<open>off\<close> is the offset of the four row pointers, \<open>dl\<close> and \<open>dr\<close> those of the two textures.\<close>

fun luma_rows ::
  "nat \<Rightarrow> nat \<Rightarrow> nat \<Rightarrow> u8 list \<Rightarrow> nat \<Rightarrow> nat \<Rightarrow> nat \<Rightarrow> nat \<Rightarrow> nat \<Rightarrow> u8 list \<Rightarrow> u8 list \<Rightarrow> (u8 list \<times> u8 list) option" where
  "luma_rows 0 l r src stride pitch off dl dr yl yr = Some (yl, yr)"
| "luma_rows (Suc rows) l r src stride pitch off dl dr yl yr =
     Option.bind (tile_row l src stride off dl yl) (\<lambda>yl1.
       if 0 < r then
         Option.bind (tile_row r src stride (off + 8 * l) dr yr) (\<lambda>yr1.
           luma_rows rows l r src stride pitch (off + 8 * l + 8 * r + pitch) (dl + 32 * l + 32) (dr + 32 * r + 32) yl1 yr1)
       else luma_rows rows l r src stride pitch (off + 8 * l + pitch) (dl + 32 * l) dr yl1 yr)"

text \<open>\<open>CHROMA_COPY\<close>: the tiles of the two planes in turn.\<close>

fun chroma_tiles ::
  "nat \<Rightarrow> u8 list \<Rightarrow> u8 list \<Rightarrow> nat \<Rightarrow> nat \<Rightarrow> nat \<Rightarrow> u8 list \<Rightarrow> u8 list \<Rightarrow> (u8 list \<times> u8 list) option" where
  "chroma_tiles 0 us vs stride off dst ut vt = Some (ut, vt)"
| "chroma_tiles (Suc n) us vs stride off dst ut vt =
     Option.bind (copy_tile us stride off dst ut) (\<lambda>ut1.
     Option.bind (copy_tile vs stride off dst vt) (\<lambda>vt1.
       chroma_tiles n us vs stride (off + 8) (dst + 32) ut1 vt1))"

fun chroma_rows ::
  "nat \<Rightarrow> nat \<Rightarrow> u8 list \<Rightarrow> u8 list \<Rightarrow> nat \<Rightarrow> nat \<Rightarrow> nat \<Rightarrow> nat \<Rightarrow> u8 list \<Rightarrow> u8 list \<Rightarrow> (u8 list \<times> u8 list) option" where
  "chroma_rows 0 n us vs stride pitch off dst ut vt = Some (ut, vt)"
| "chroma_rows (Suc rows) n us vs stride pitch off dst ut vt =
     Option.bind (chroma_tiles n us vs stride off dst ut vt) (\<lambda>(ut1, vt1).
       chroma_rows rows n us vs stride pitch (off + 8 * n + pitch) (dst + 32 * n) ut1 vt1)"

definition set_pitches :: "int \<Rightarrow> int \<Rightarrow> gx_textures \<Rightarrow> gx_textures" where
  "set_pitches s0 s1 t =
     (if st0 t \<noteq> s0 \<or> st1 t \<noteq> s1 then
        t\<lparr>st0 := s0, st1 := s1, Yrowpitch := word_of_int (s0 * 4 - uint (Ywidth t)),
          UVrowpitch := word_of_int (s1 * 4 - uint (UVwidth t))\<rparr>
      else t)"

definition GX_FillTextureYUV ::
  "u8 list \<Rightarrow> u8 list \<Rightarrow> u8 list \<Rightarrow> nat \<Rightarrow> nat \<Rightarrow> gx_textures \<Rightarrow> gx_textures option" where
  "GX_FillTextureYUV ys us vs ystride uvstride t0 =
     (let t = set_pitches (int ystride) (int uvstride) t0
      in case (Yltexture t, Yrtexture t, Utexture t, Vtexture t) of
           (Some yl, Some yr, Some ut, Some vt) \<Rightarrow>
             Option.bind
               (luma_rows (unat (Yheight t) div 4) (nat (wl t)) (nat (wr t)) ys ystride (unat (Yrowpitch t)) 0 0 32 yl yr)
               (\<lambda>(yl1, yr1).
             Option.bind
               (chroma_rows (unat (UVheight t) div 4) (unat (UVwidth t) div 8) us vs uvstride (unat (UVrowpitch t)) 0 0 ut vt)
               (\<lambda>(ut1, vt1).
             Some (t\<lparr>Yltexture := Some yl1, Yrtexture := Some yr1, Utexture := Some ut1, Vtexture := Some vt1\<rparr>)))
         | _ \<Rightarrow> None)"

section \<open>Debug pictures\<close>

text \<open>Numbers are written as they lie in memory, most significant byte first.\<close>

definition be16 :: "u16 \<Rightarrow> u8 list" where
  "be16 x = [ucast (drop_bit 8 x), ucast x]"

definition rowpad :: "nat \<Rightarrow> nat" where
  "rowpad w = (4 - w * 3 mod 4) mod 4"

definition bmp24_header :: "nat \<Rightarrow> nat \<Rightarrow> u8 list" where
  "bmp24_header w h =
     (let imgsize = of_nat ((w * 3 + rowpad w) * h) :: u32
      in [0x42, 0x4D] @ be32 (54 + imgsize) @ be16 0 @ be16 0 @ be32 54 @ be32 40 @ be32 (of_nat w) @ be32 (of_nat h) @
         be16 1 @ be16 24 @ be32 0 @ be32 imgsize @ be32 0 @ be32 0 @ be32 0 @ be32 0)"

definition bmp_rows :: "(nat \<Rightarrow> u8 list) \<Rightarrow> nat \<Rightarrow> nat \<Rightarrow> u8 list" where
  "bmp_rows pixels w h = concat (map (\<lambda>y. pixels y @ replicate (rowpad w) 0) (rev [0..<h]))"

definition dump_gray_bmp :: "u8 list \<Rightarrow> nat \<Rightarrow> nat \<Rightarrow> nat \<Rightarrow> u8 list" where
  "dump_gray_bmp data w h stride =
     bmp24_header w h @
     bmp_rows (\<lambda>y. concat (map (\<lambda>x. let v = data ! (y * stride + x) in [v, v, v]) [0..<w])) w h"

definition rgb565 :: "u16 \<Rightarrow> u8 list" where
  "rgb565 p =
     (let r5 = ucast (drop_bit 11 p AND 0x1f) :: u8; g6 = ucast (drop_bit 5 p AND 0x3f) :: u8; b5 = ucast (p AND 0x1f) :: u8
      in [push_bit 3 r5 OR drop_bit 2 r5, push_bit 2 g6 OR drop_bit 4 g6, push_bit 3 b5 OR drop_bit 2 b5])"

definition dump_xfb_bmp :: "u8 list \<Rightarrow> nat \<Rightarrow> nat \<Rightarrow> nat \<Rightarrow> nat \<Rightarrow> u8 list" where
  "dump_xfb_bmp data w stride h bpp =
     bmp24_header w h @
     bmp_rows (\<lambda>y. concat (map (\<lambda>x.
       let i = y * stride * bpp
       in if bpp = 2 then
            rgb565 (push_bit 8 (ucast (data ! (i + 2 * x))) OR ucast (data ! (i + 2 * x + 1)))
          else [data ! (i + x * 4), data ! (i + x * 4 + 1), data ! (i + x * 4 + 2)]) [0..<w])) w h"

definition dbg_path :: "string \<Rightarrow> u32 \<Rightarrow> string" where
  "dbg_path name frame =
     (let n = show_nat (unat frame)
      in ''/moonlight/dbg_'' @ name @ ''_'' @ replicate (3 - length n) (CHR ''0'') @ n @ ''.bmp'')"

definition dump_file :: "(string \<Rightarrow> bool) \<Rightarrow> string \<Rightarrow> u8 list \<Rightarrow> gx_state \<Rightarrow> gx_state" where
  "dump_file can_open path bs s = (if can_open path then s\<lparr>dumped := dumped s @ [(path, bs)]\<rparr> else s)"

definition dump_texture ::
  "(string \<Rightarrow> bool) \<Rightarrow> string \<Rightarrow> u32 \<Rightarrow> u8 list option \<Rightarrow> u16 \<Rightarrow> u16 \<Rightarrow> gx_state \<Rightarrow> gx_state" where
  "dump_texture can_open name frame tex w h s =
     (case tex of None \<Rightarrow> s
      | Some t \<Rightarrow> dump_file can_open (dbg_path name frame) (dump_gray_bmp t (unat w) (unat h) (unat w)) s)"

text \<open>\<open>efb\<close> and \<open>xfb\<close> are the bytes of the embedded and of the current external frame buffer.\<close>

definition gx_video_dump_debug ::
  "(string \<Rightarrow> bool) \<Rightarrow> u8 list \<Rightarrow> u8 list \<Rightarrow> u32 \<Rightarrow> gx_state \<Rightarrow> gx_state" where
  "gx_video_dump_debug can_open efb xfb frame s =
     (let t = textures s; w = nat (gx_video_efb_width s); h = nat (gx_video_efb_height s)
      in dump_file can_open (dbg_path ''xfb'' frame) (dump_xfb_bmp xfb w 720 h (xfb_bpp s))
        (dump_file can_open (dbg_path ''efb'' frame) (dump_xfb_bmp efb w 640 h 4)
        ((if Utexture t = None then id
          else dump_texture can_open ''v'' frame (Vtexture t) (UVwidth t) (UVheight t) \<circ>
               dump_texture can_open ''u'' frame (Utexture t) (UVwidth t) (UVheight t))
        ((if 0 < wr t then dump_texture can_open ''yr'' frame (Yrtexture t) (Yrwidth t) (Yheight t) else id)
        (dump_texture can_open ''y'' frame (Yltexture t) (Ylwidth t) (Yheight t) s)))))"

definition gx_video_dbg_maybe :: "(string \<Rightarrow> bool) \<Rightarrow> u8 list \<Rightarrow> u8 list \<Rightarrow> gx_state \<Rightarrow> gx_state" where
  "gx_video_dbg_maybe can_open efb xfb s =
     (let n = dbg_frame s + 1; s1 = s\<lparr>dbg_frame := n\<rparr>
      in if n \<in> {16, 64, 256} then gx_video_dump_debug can_open efb xfb n s1 else s1)"

section \<open>Drawing\<close>

definition gx_video_draw_yuv ::
  "(string \<Rightarrow> bool) \<Rightarrow> u8 list \<Rightarrow> u8 list \<Rightarrow> u8 list \<Rightarrow> u8 list \<Rightarrow> u8 list \<Rightarrow> nat \<Rightarrow> nat \<Rightarrow> gx_state \<Rightarrow> gx_state option" where
  "gx_video_draw_yuv can_open efb xfb y u v ystride uvstride s =
     map_option (\<lambda>t. gx_video_dbg_maybe can_open efb xfb (gx_video_present (s\<lparr>textures := t\<rparr>)))
       (GX_FillTextureYUV y u v ystride uvstride (textures s))"

text \<open>A grey picture; the buffer of neutral colour grows to what is needed.\<close>

definition gx_video_draw_gray ::
  "(string \<Rightarrow> bool) \<Rightarrow> u8 list \<Rightarrow> u8 list \<Rightarrow> int \<Rightarrow> int \<Rightarrow> u8 list \<Rightarrow> nat \<Rightarrow> gx_state \<Rightarrow> gx_state option" where
  "gx_video_draw_gray can_open efb xfb width height gray gray_stride s =
     (let uv_w = c_div (width + 1) 2; uv_h = c_div (height + 1) 2; need = uv_w * uv_h;
          room = max (neutral_uv_size s) need;
          neutral = replicate (nat room) (0x80 :: u8)
      in gx_video_draw_yuv can_open efb xfb gray neutral neutral gray_stride (nat uv_w)
           (s\<lparr>neutral_uv_size := room, textures := gx_video_config_yuv width height (textures s)\<rparr>))"

section \<open>Start and end\<close>

definition gx_video_init2 :: "'h lwp \<Rightarrow> 'h mem2 \<times> gx_state \<Rightarrow> ('h mem2 \<times> gx_state) option" where
  "gx_video_init2 lib ms =
     (case ms of (m, s) \<Rightarrow>
       (case vmode s of
          None \<Rightarrow> None
        | Some vm \<Rightarrow>
            (let vm1 = vm\<lparr>vm_fbWidth := 640, vm_xfbHeight := (if want576i s then 576 else 480)\<rparr>
             in case gx_video_alloc_texture_memory lib (m, textures s) of
                  None \<Rightarrow> None
                | Some (m1, t) \<Rightarrow>
                    Some (snd (mem2_malloc lib (word_of_int (vm_fbWidth vm1 * vm_efbHeight vm1 * 4)) MEM2_VIDEO m1),
                      s\<lparr>vmode := Some vm1, xfb_bpp := (if vm_non_interlace vm then 4 else 2), shown := 0, textures := t, whichfb := 0,
                        sync_interlace := (if vm_non_interlace vm then 0 else 1)\<rparr>))))"

definition gx_video_fini :: "'h lwp \<Rightarrow> 'h mem2 \<times> gx_state \<Rightarrow> 'h mem2 \<times> gx_state" where
  "gx_video_fini lib ms =
     (case ms of (m, s) \<Rightarrow>
       (snd (RemoveMem2Area lib MEM2_VIDEO (fold (\<lambda>p. mem2_free lib p MEM2_VIDEO) (texture_ptrs (textures s)) m)),
        s\<lparr>vi_black := True,
          textures := (textures s)\<lparr>Yltexture := None, Yrtexture := None, Utexture := None, Vtexture := None, texture_ptrs := []\<rparr>\<rparr>))"

end
