(* ===== verification/Single.thy ===== *)
theory Single imports Complex_Main "HOL-Library.Log_Nat"
begin

text \<open>Single precision numbers (C \<open>float\<close>, \<open>f32\<close>). A number is the rational it stands for, and an operation of
the code is the exact rational result rounded by \<open>f32\<close> to the nearest single precision number, a tie to the
even one. Infinities, NaNs and the sign of a zero do not occur: every number of the code stays far below the
largest one and no divisor is zero.\<close>

section \<open>Rounding\<close>

definition rne :: "rat \<Rightarrow> int" where
  "rne x = (let f = \<lfloor>x\<rfloor>; r = x - of_int f
            in if r < 1 / 2 then f else if 1 / 2 < r then f + 1 else if even f then f else f + 1)"

text \<open>The exponent of a number: the \<open>e\<close> with \<open>2 ^ e \<le> \<bar>x\<bar> < 2 ^ (e + 1)\<close>.\<close>

definition binade :: "rat \<Rightarrow> int" where
  "binade x = (let (p, q) = quotient_of \<bar>x\<bar>; k = int (floorlog 2 (nat p)) - int (floorlog 2 (nat q))
               in if power_int 2 k \<le> \<bar>x\<bar> then k else k - 1)"

text \<open>The distance of neighbouring numbers around \<open>x\<close>: 24 significant bits, and none below \<open>2 ^ -149\<close>.\<close>

definition ulp :: "rat \<Rightarrow> rat" where
  "ulp x = power_int 2 (max (binade x - 23) (- 149))"

definition f32 :: "rat \<Rightarrow> rat" where
  "f32 x = (if x = 0 then 0 else of_int (rne (x / ulp x)) * ulp x)"

text \<open>The conversion to an integer drops the fraction.\<close>

definition f32_to_int :: "rat \<Rightarrow> int" where
  "f32_to_int x = (if 0 \<le> x then \<lfloor>x\<rfloor> else - \<lfloor>- x\<rfloor>)"

section \<open>The exponent\<close>

lemma rne_error: "\<bar>of_int (rne x) - x\<bar> \<le> 1 / 2"
proof -
  have "of_int \<lfloor>x\<rfloor> \<le> x" "x < of_int \<lfloor>x\<rfloor> + 1"
    by linarith+
  then show ?thesis
    unfolding rne_def Let_def by (auto simp: abs_le_iff split: if_split)
qed

lemma rne_int [simp]: "rne (of_int n) = n"
  by (simp add: rne_def)

lemma rne_mono_int: "x \<le> of_int n \<Longrightarrow> rne x \<le> n"
proof -
  assume "x \<le> of_int n"
  then have "\<lfloor>x\<rfloor> \<le> n" "\<lfloor>x\<rfloor> = n \<Longrightarrow> x = of_int n"
    by linarith+
  then show ?thesis
    unfolding rne_def Let_def by (cases "\<lfloor>x\<rfloor> = n") (auto split: if_split)
qed

lemma rne_int_mono: "of_int n \<le> x \<Longrightarrow> n \<le> rne x"
proof -
  assume "of_int n \<le> x"
  then have "n \<le> \<lfloor>x\<rfloor>"
    by (simp add: le_floor_iff)
  then show ?thesis
    unfolding rne_def Let_def by (auto split: if_split)
qed

lemma floorlog2_bounds:
  assumes "0 < n"
  shows "power_int (2::rat) (int (floorlog 2 n) - 1) \<le> of_nat n" "of_nat n < power_int (2::rat) (int (floorlog 2 n))"
proof -
  have b: "2 ^ (floorlog 2 n - 1) \<le> n \<and> n < 2 ^ floorlog 2 n"
    using floorlog_bounds[OF assms, of 2] by simp
  have p: "0 < floorlog 2 n"
    using assms by (simp add: floorlog_def)
  then have "power_int (2::rat) (int (floorlog 2 n) - 1) = of_nat (2 ^ (floorlog 2 n - 1))"
    by (simp add: power_int_def nat_diff_distrib)
  with b show "power_int (2::rat) (int (floorlog 2 n) - 1) \<le> of_nat n"
    by (metis of_nat_le_iff)
  have "power_int (2::rat) (int (floorlog 2 n)) = of_nat (2 ^ floorlog 2 n)"
    by simp
  with b show "of_nat n < power_int (2::rat) (int (floorlog 2 n))"
    by (metis of_nat_less_iff)
qed

lemma binade_bounds:
  assumes "x \<noteq> 0"
  shows "power_int 2 (binade x) \<le> \<bar>x\<bar>" "\<bar>x\<bar> < power_int 2 (binade x + 1)"
proof -
  obtain p q where pq: "quotient_of \<bar>x\<bar> = (p, q)"
    by (cases "quotient_of \<bar>x\<bar>")
  have q: "0 < q" and x: "\<bar>x\<bar> = of_int p / of_int q"
    using quotient_of_denom_pos[OF pq] quotient_of_div[OF pq] by auto
  have "0 < (of_int p :: rat) / of_int q"
    using assms x by (metis zero_less_abs_iff)
  with q have p: "0 < p"
    by (simp add: zero_less_divide_iff)
  define lp where "lp = int (floorlog 2 (nat p))"
  define lq where "lq = int (floorlog 2 (nat q))"
  define k where "k = lp - lq"
  have P: "power_int (2::rat) (lp - 1) \<le> of_int p" "of_int p < power_int (2::rat) lp"
    using floorlog2_bounds[of "nat p"] p by (simp_all add: lp_def)
  have Q: "power_int (2::rat) (lq - 1) \<le> of_int q" "of_int q < power_int (2::rat) lq"
    using floorlog2_bounds[of "nat q"] q by (simp_all add: lq_def)
  have lo: "power_int 2 (k - 1) \<le> \<bar>x\<bar>"
  proof -
    have "power_int (2::rat) (k - 1) * of_int q \<le> power_int 2 (k - 1) * power_int 2 lq"
      using Q(2) by simp
    also have "\<dots> = power_int 2 (lp - 1)"
      by (subst power_int_add[symmetric]) (simp_all add: k_def)
    finally have "power_int (2::rat) (k - 1) * of_int q \<le> of_int p"
      using P(1) by linarith
    then show ?thesis
      using q by (simp add: x pos_le_divide_eq)
  qed
  have hi: "\<bar>x\<bar> < power_int 2 (k + 1)"
  proof -
    have "of_int p < power_int (2::rat) ((k + 1) + (lq - 1))"
      using P(2) by (simp add: k_def)
    also have "\<dots> = power_int (2::rat) (k + 1) * power_int 2 (lq - 1)"
      by (subst power_int_add) simp_all
    also have "\<dots> \<le> power_int (2::rat) (k + 1) * of_int q"
      using Q(1) by simp
    finally show ?thesis
      using q by (simp add: x pos_divide_less_eq)
  qed
  have b: "binade x = (if power_int 2 k \<le> \<bar>x\<bar> then k else k - 1)"
    by (simp add: binade_def pq k_def lp_def lq_def)
  show "power_int 2 (binade x) \<le> \<bar>x\<bar>" "\<bar>x\<bar> < power_int 2 (binade x + 1)"
    using lo hi by (auto simp: b)
qed

lemma ulp_pos: "0 < ulp x"
  by (simp add: ulp_def)

lemma f32_zero [simp]: "f32 0 = 0"
  by (simp add: f32_def)

section \<open>Numbers on the grid\<close>

lemma f32_grid_le:
  assumes "x \<le> of_int n * ulp x"
  shows "f32 x \<le> of_int n * ulp x"
proof (cases "x = 0")
  case False
  have "x / ulp x \<le> of_int n"
    using assms ulp_pos[of x] by (simp add: pos_divide_le_eq)
  then have "of_int (rne (x / ulp x)) \<le> (of_int n :: rat)"
    using rne_mono_int by simp
  then show ?thesis
    using False ulp_pos[of x] by (simp add: f32_def)
qed (use assms in simp)

lemma f32_grid_ge:
  assumes "of_int n * ulp x \<le> x"
  shows "of_int n * ulp x \<le> f32 x"
proof (cases "x = 0")
  case False
  have "of_int n \<le> x / ulp x"
    using assms ulp_pos[of x] by (simp add: pos_le_divide_eq)
  then have "(of_int n :: rat) \<le> of_int (rne (x / ulp x))"
    using rne_int_mono by simp
  then show ?thesis
    using False ulp_pos[of x] by (simp add: f32_def)
qed (use assms in simp)

text \<open>An integer is on the grid of every smaller number.\<close>

lemma int_on_grid:
  assumes "\<bar>x\<bar> < 2 ^ 24"
  obtains m where "of_int n = of_int m * ulp x"
proof -
  have "binade x \<le> 23 \<or> x = 0"
  proof (rule ccontr)
    assume "\<not> (binade x \<le> 23 \<or> x = 0)"
    then have "x \<noteq> 0" "24 \<le> binade x"
      by auto
    have "power_int (2::rat) 24 \<le> power_int 2 (binade x)"
      by (rule power_int_increasing) (use \<open>24 \<le> binade x\<close> in auto)
    also have "\<dots> \<le> \<bar>x\<bar>"
      using \<open>x \<noteq> 0\<close> by (rule binade_bounds)
    finally show False
      using assms by simp
  qed
  moreover have "binade 0 \<le> 0"
    by (simp add: binade_def floorlog_def)
  ultimately have "max (binade x - 23) (- 149) \<le> 0"
    by auto
  then obtain k :: nat where k: "max (binade x - 23) (- 149) = - int k"
    by (metis neg_int_cases minus_minus neg_le_0_iff_le nonneg_int_cases)
  have "ulp x = 1 / 2 ^ k"
    by (simp add: ulp_def k power_int_minus divide_inverse)
  then have "of_int n = of_int (n * 2 ^ k) * ulp x"
    by simp
  then show ?thesis
    by (rule that)
qed

lemma f32_le_int:
  assumes "x \<le> of_int n" "\<bar>x\<bar> < 2 ^ 24"
  shows "f32 x \<le> of_int n"
proof -
  obtain m where "of_int n = of_int m * ulp x"
    using assms(2) by (rule int_on_grid)
  with f32_grid_le[of x m] assms(1) show ?thesis
    by simp
qed

lemma f32_ge_int:
  assumes "of_int n \<le> x" "\<bar>x\<bar> < 2 ^ 24"
  shows "of_int n \<le> f32 x"
proof -
  obtain m where "of_int n = of_int m * ulp x"
    using assms(2) by (rule int_on_grid)
  with f32_grid_ge[of m x] assms(1) show ?thesis
    by simp
qed

lemma f32_int: "\<bar>n\<bar> < 2 ^ 24 \<Longrightarrow> f32 (of_int n) = of_int n"
proof -
  assume "\<bar>n\<bar> < 2 ^ 24"
  then have "\<bar>of_int n :: rat\<bar> < 2 ^ 24"
    by (metis of_int_abs of_int_less_iff of_int_numeral of_int_power)
  then show ?thesis
    using f32_le_int[of "of_int n" n] f32_ge_int[of n "of_int n"] by simp
qed

lemma f32_nonneg: "0 \<le> x \<Longrightarrow> 0 \<le> f32 x"
  using f32_grid_ge[of 0 x] by simp

section \<open>The error of one rounding\<close>

lemma f32_error:
  assumes "1 / 2 ^ 100 \<le> \<bar>x\<bar>"
  shows "\<bar>f32 x - x\<bar> \<le> \<bar>x\<bar> / 2 ^ 24"
proof -
  have nz: "x \<noteq> 0"
    using assms by auto
  have "\<not> binade x < - 100"
  proof
    assume "binade x < - 100"
    then have "power_int (2::rat) (binade x + 1) \<le> power_int 2 (- 100)"
      by (intro power_int_increasing) auto
    also have "\<dots> = 1 / 2 ^ 100"
      by (simp only: power_int_minus divide_inverse power_int_numeral mult_1)
    finally show False
      using binade_bounds(2)[OF nz] assms by linarith
  qed
  then have u: "ulp x = power_int 2 (binade x - 23)"
    by (simp add: ulp_def)
  have "ulp x = power_int 2 (binade x) / 2 ^ 23"
    using power_int_diff[of "2::rat" "binade x" 23] by (simp add: u)
  then have ub: "ulp x \<le> \<bar>x\<bar> / 2 ^ 23"
    using binade_bounds(1)[OF nz] by (simp add: divide_right_mono)
  have "f32 x - x = (of_int (rne (x / ulp x)) - x / ulp x) * ulp x"
    using nz ulp_pos[of x] by (simp add: f32_def left_diff_distrib)
  then have "\<bar>f32 x - x\<bar> = \<bar>of_int (rne (x / ulp x)) - x / ulp x\<bar> * ulp x"
    using ulp_pos[of x] by (simp add: abs_mult)
  also have "\<dots> \<le> 1 / 2 * ulp x"
    using rne_error ulp_pos[of x] by (intro mult_right_mono) simp_all
  also have "\<dots> \<le> \<bar>x\<bar> / 2 ^ 24"
    using ub by simp
  finally show ?thesis .
qed

section \<open>Evaluation on a fraction\<close>

text \<open>Integer division rounded the same way; with \<open>s\<close> chosen so that the quotient has 24 bits it gives
the significand of the rounded fraction.\<close>

definition rdiv :: "int \<Rightarrow> int \<Rightarrow> int" where
  "rdiv n d = (let f = n div d; r = 2 * (n mod d)
               in if r < d then f else if d < r then f + 1 else if even f then f else f + 1)"

lemma rne_fraction:
  assumes "0 < d"
  shows "rne (of_int n / of_int d) = rdiv n d"
proof -
  have "n = d * (n div d) + n mod d"
    by simp
  then have "(of_int n :: rat) = of_int d * of_int (n div d) + of_int (n mod d)"
    by (metis of_int_add of_int_mult)
  then have r: "(of_int n / of_int d :: rat) - of_int (n div d) = of_int (n mod d) / of_int d"
    using assms by (simp add: field_simps)
  have "(of_int (n mod d) / of_int d :: rat) < 1 / 2 \<longleftrightarrow> of_int (2 * (n mod d)) < (of_int d :: rat)"
       "(1 / 2 :: rat) < of_int (n mod d) / of_int d \<longleftrightarrow> of_int d < (of_int (2 * (n mod d)) :: rat)"
    using assms by (simp_all add: field_simps)
  then have c: "(of_int (n mod d) / of_int d :: rat) < 1 / 2 \<longleftrightarrow> 2 * (n mod d) < d"
       "(1 / 2 :: rat) < of_int (n mod d) / of_int d \<longleftrightarrow> d < 2 * (n mod d)"
    by (simp_all only: of_int_less_iff)
  show ?thesis
    unfolding rne_def rdiv_def Let_def floor_divide_of_int_eq r c ..
qed

lemma binade_unique:
  assumes "power_int 2 e \<le> \<bar>x\<bar>" "\<bar>x\<bar> < power_int 2 (e + 1)"
  shows "binade x = e"
proof -
  have "0 < power_int (2::rat) e"
    by (rule zero_less_power_int) simp
  with assms(1) have "x \<noteq> 0"
    by (metis abs_zero not_le)
  note b = binade_bounds[OF this]
  have "power_int (2::rat) e < power_int 2 (binade x + 1)" "power_int (2::rat) (binade x) < power_int 2 (e + 1)"
    using assms b by linarith+
  then have "e < binade x + 1" "binade x < e + 1"
    using power_int_increasing[of "binade x + 1" e "2::rat"] power_int_increasing[of "e + 1" "binade x" "2::rat"]
    by (meson not_le one_le_numeral)+
  then show ?thesis
    by simp
qed

lemma f32_fraction:
  assumes "0 < q" "2 ^ 23 * q \<le> p * 2 ^ s" "p * 2 ^ s < 2 ^ 24 * q" "s \<le> 149"
  shows "f32 (of_int p / of_int q) = of_int (rdiv (p * 2 ^ s) q) / 2 ^ s"
proof -
  let ?x = "of_int p / of_int q :: rat"
  have "0 < p * 2 ^ s"
    using assms(1,2) by (metis less_le_trans mult_pos_pos zero_less_numeral zero_less_power)
  then have p: "0 < p"
    by (simp add: zero_less_mult_iff)
  have pw: "power_int (2::rat) (23 - int s) = 2 ^ 23 / 2 ^ s" "power_int (2::rat) (23 - int s + 1) = 2 ^ 24 / 2 ^ s"
    using power_int_diff[of "2::rat" 23 "int s"] power_int_diff[of "2::rat" 24 "int s"] by (simp_all add: algebra_simps)
  have "(of_int (2 ^ 23 * q) :: rat) \<le> of_int (p * 2 ^ s)" "(of_int (p * 2 ^ s) :: rat) < of_int (2 ^ 24 * q)"
    using assms(2,3) by (simp_all only: of_int_le_iff of_int_less_iff)
  then have "2 ^ 23 / 2 ^ s \<le> ?x" "?x < 2 ^ 24 / 2 ^ s"
    using assms(1) by (simp_all add: field_simps)
  moreover have "\<bar>?x\<bar> = ?x"
    using p assms(1) by simp
  ultimately have "binade ?x = 23 - int s"
    using pw by (intro binade_unique) simp_all
  then have u: "ulp ?x = 1 / 2 ^ s"
    using assms(4) by (simp add: ulp_def power_int_minus divide_inverse)
  have "?x / ulp ?x = of_int (p * 2 ^ s) / of_int q"
    by (simp add: u)
  then have "rne (?x / ulp ?x) = rdiv (p * 2 ^ s) q"
    using rne_fraction[OF assms(1)] by metis
  then show ?thesis
    using p assms(1) by (simp add: f32_def u)
qed

end
