(* ===== verification/GxSetup.thy ===== *)
theory GxSetup
  imports GxVideo Single
begin

text \<open>
  The graphics processor's setup in \<open>src/wii/gx_video.c\<close>: \<open>StartGX\<close>, \<open>setup_disp_copy\<close>, \<open>draw_initYUV\<close>,
  \<open>draw_scaling\<close> and the part of \<open>gx_video_config_yuv\<close> that theory \<open>GxVideo\<close> leaves out. The calls of the graphics library are
  recorded in order, with their arguments, as a list of \<open>gx_call\<close>; the library and the processor stay outside. The
  library's constants are datatypes, one for each group, a texture stage, a texture object and a constant colour its
  number. Coordinates are computed in single precision (theory \<open>Single\<close>).
\<close>

unbundle bit_operations_syntax

section \<open>The calls\<close>

datatype gx_cc =
    GX_CC_ZERO | GX_CC_ONE | GX_CC_KONST | GX_CC_RASC | GX_CC_TEXC | GX_CC_CPREV | GX_CC_APREV
  | GX_CC_C0 | GX_CC_C1 | GX_CC_C2 | GX_CC_A2

datatype gx_ca = GX_CA_ZERO | GX_CA_RASA | GX_CA_KONST | GX_CA_TEXA | GX_CA_APREV | GX_CA_A0 | GX_CA_A1

datatype gx_ksel =
    GX_TEV_KCSEL_1 | GX_TEV_KCSEL_K0 | GX_TEV_KCSEL_K1 | GX_TEV_KCSEL_K2 | GX_TEV_KCSEL_K3
  | GX_TEV_KASEL_1 | GX_TEV_KASEL_K0_A | GX_TEV_KASEL_K1_A | GX_TEV_KASEL_K2_A | GX_TEV_KASEL_K3_A

datatype gx_tevreg = GX_TEVPREV | GX_TEVREG0 | GX_TEVREG1 | GX_TEVREG2
datatype gx_tevop = GX_TEV_ADD | GX_TEV_SUB
datatype gx_tevbias = GX_TB_ZERO | GX_TB_SUBHALF
datatype gx_tevscale = GX_CS_SCALE_1 | GX_CS_SCALE_2
datatype gx_texcoord = GX_TEXCOORD0 | GX_TEXCOORD1 | GX_TEXCOORD2 | GX_TEXCOORDNULL
datatype gx_texmap = GX_TEXMAP0 | GX_TEXMAP1 | GX_TEXMAP2 | GX_TEXMAP3 | GX_TEXMAP_NULL
datatype gx_channel = GX_COLOR0A0 | GX_COLORNULL
datatype gx_attr = GX_VA_POS | GX_VA_CLR0 | GX_VA_TEX0 | GX_VA_TEX1 | GX_VA_TEX2
datatype gx_format = GX_POS_XYZ_S16 | GX_CLR_RGBA_RGBA8 | GX_TEX_ST_F32
datatype gx_array = Array_square | Array_colors | Array_texcoordsY | Array_texcoordsUV
datatype gx_texobj = YltexObj | YrtexObj | UtexObj | VtexObj

type_synonym gx_color = "int \<times> int \<times> int \<times> int"
type_synonym vec = "rat \<times> rat \<times> rat"

text \<open>The matrices of the library's \<open>gu\<close> functions, as the expressions that make them.\<close>

datatype gx_matrix =
    GuLookAt vec vec vec
  | GuMtxIdentity
  | GuMtxTransApply gx_matrix rat rat rat
  | GuMtxConcat gx_matrix gx_matrix
  | GuOrtho rat rat rat rat rat rat

text \<open>Three groups of calls: the texture stages and textures, the vertices, and the rest of the processor's state.\<close>

datatype tev_call =
    GX_SetNumChans nat | GX_SetNumTexGens nat | GX_SetTexCoordGen gx_texcoord gx_attr | GX_SetNumTevStages nat
  | GX_SetTevKColor nat gx_color
  | GX_SetTevKColorSel nat gx_ksel | GX_SetTevKAlphaSel nat gx_ksel
  | GX_SetTevOrder nat gx_texcoord gx_texmap gx_channel
  | GX_SetTevColorIn nat gx_cc gx_cc gx_cc gx_cc
  | GX_SetTevColorOp nat gx_tevop gx_tevbias gx_tevscale bool gx_tevreg
  | GX_SetTevAlphaIn nat gx_ca gx_ca gx_ca gx_ca
  | GX_SetTevAlphaOp nat gx_tevop gx_tevbias gx_tevscale bool gx_tevreg
  | GX_InitTexObj_I8 gx_texobj u16 u16 | GX_InitTexObjLOD_LINEAR gx_texobj | GX_LoadTexObj gx_texobj gx_texmap

datatype vertex_call =
    GX_ClearVtxDesc | GX_SetVtxDesc_INDEX8 gx_attr | GX_SetVtxAttrFmt gx_attr gx_format
  | GX_SetArray gx_attr gx_array nat
  | GX_BeginDispList nat | GX_Begin_QUADS nat | GX_Position1x8 nat | GX_Color1x8 nat | GX_TexCoord1x8 nat
  | GX_End | GX_EndDispList

datatype setup_call =
    GX_Init int | GX_SetCopyClear gx_color int | GX_SetDispCopyGamma_1_0 | GX_SetCullMode_NONE
  | GX_SetBlendMode_SRCALPHA | GX_SetAlphaUpdate bool
  | GX_SetDispCopyYScale rat | GX_SetScissor int int int int | GX_SetDispCopySrc int int int int
  | GX_SetDispCopyDst int int | GX_SetFieldMode bool bool
  | GX_LoadPosMtxImm gx_matrix | GX_SetViewport rat rat rat rat rat rat | GX_LoadProjectionMtx_ORTHO gx_matrix
  | GX_SetPixelFmt_RGB8_Z24 | GX_SetClipMode bool | GX_SetZMode_ALWAYS bool bool
  | GX_SetAlphaCompare_GREATER_0_AND_ALWAYS_0 | GX_SetColorUpdate bool | GX_Flush

datatype gx_call = Tev tev_call | Vertex vertex_call | Setup setup_call

section \<open>Start\<close>

definition FIFO_SIZE :: int where "FIFO_SIZE = 384 * 1024"

definition StartGX :: "setup_call list" where
  "StartGX = [GX_Init FIFO_SIZE, GX_SetCopyClear (0, 0, 0, 0xff) 0x00ffffff, GX_SetDispCopyGamma_1_0, GX_SetCullMode_NONE,
     GX_SetBlendMode_SRCALPHA, GX_SetAlphaUpdate True]"

text \<open>The library gives the scale between two heights and the height a scale leads to.\<close>

definition setup_disp_copy :: "(int \<Rightarrow> int \<Rightarrow> rat) \<Rightarrow> (rat \<Rightarrow> int) \<Rightarrow> vmode_obj \<Rightarrow> setup_call list" where
  "setup_disp_copy GX_GetYScaleFactor scaled_height vm =
     (let yscale = GX_GetYScaleFactor (vm_efbHeight vm) (vm_xfbHeight vm); xfbHeight = scaled_height yscale
      in [GX_SetDispCopyYScale yscale, GX_SetScissor 0 0 (vm_fbWidth vm) (vm_efbHeight vm),
          GX_SetDispCopySrc 0 0 (vm_fbWidth vm) (vm_efbHeight vm), GX_SetDispCopyDst (vm_fbWidth vm) xfbHeight,
          GX_SetFieldMode False (vm_viHeight vm = 2 * vm_xfbHeight vm)])"

section \<open>The program of the texture stages\<close>

record gx_levels =
  levelconv :: bool
  g_brightness :: rat
  g_contrast :: rat

text \<open>The statics; nothing in the file assigns them.\<close>

definition default_levels :: gx_levels where
  "default_levels = \<lparr>levelconv = True, g_brightness = 0, g_contrast = 0\<rparr>"

text \<open>The constants of contrast and brightness and the last input of the contrast stage. The products are exact for the
  statics' value 0.\<close>

definition byte_of :: "int \<Rightarrow> int" where "byte_of n = n mod 256"

definition tev_levels :: "gx_levels \<Rightarrow> int \<times> int \<times> gx_cc" where
  "tev_levels lv =
     (let low = g_contrast lv \<le> 0;
          contrast_konst = byte_of (f32_to_int ((if low then 1 + g_contrast lv / 2 else g_contrast lv) * 255));
          brightness_offset = c_div (- contrast_konst) 2 + (if low then 128 else 0) + f32_to_int (g_brightness lv * 255);
          brightness_konst = byte_of (if 255 < brightness_offset then brightness_offset - 128
                             else if 0 \<le> brightness_offset then brightness_offset
                             else if - 255 \<le> brightness_offset then - brightness_offset
                             else - brightness_offset - 128)
      in (contrast_konst, brightness_konst, if low then GX_CC_ZERO else GX_CC_CPREV))"

definition tev_kcolors :: "gx_levels \<Rightarrow> tev_call list" where
  "tev_kcolors lv =
     (case tev_levels lv of (contrast_konst, brightness_konst, _) \<Rightarrow>
       [GX_SetTevKColor 0 (255, 0, 0, if levelconv lv then 18 else 0),
        GX_SetTevKColor 1 (0, 0, 255, if levelconv lv then 41 else 0),
        GX_SetTevKColor 2 (200, 59, 0, contrast_konst),
        GX_SetTevKColor 3 (0, 11, 118, brightness_konst)])"

text \<open>The fifteen stages, in the order of the code.\<close>

definition tev_stages :: "gx_cc \<Rightarrow> tev_call list" where
  "tev_stages InD =
     [GX_SetTevKColorSel 0 GX_TEV_KCSEL_K1,
      GX_SetTevOrder 0 GX_TEXCOORD2 GX_TEXMAP2 GX_COLOR0A0,
      GX_SetTevColorIn 0 GX_CC_RASC GX_CC_KONST GX_CC_TEXC GX_CC_ZERO,
      GX_SetTevColorOp 0 GX_TEV_ADD GX_TB_SUBHALF GX_CS_SCALE_2 True GX_TEVREG0,
      GX_SetTevKAlphaSel 0 GX_TEV_KASEL_K0_A,
      GX_SetTevAlphaIn 0 GX_CA_ZERO GX_CA_RASA GX_CA_KONST GX_CA_ZERO,
      GX_SetTevAlphaOp 0 GX_TEV_ADD GX_TB_ZERO GX_CS_SCALE_1 True GX_TEVREG0,
      GX_SetTevKColorSel 1 GX_TEV_KCSEL_K1,
      GX_SetTevOrder 1 GX_TEXCOORD2 GX_TEXMAP2 GX_COLOR0A0,
      GX_SetTevColorIn 1 GX_CC_KONST GX_CC_RASC GX_CC_TEXC GX_CC_ZERO,
      GX_SetTevColorOp 1 GX_TEV_ADD GX_TB_SUBHALF GX_CS_SCALE_2 True GX_TEVREG1,
      GX_SetTevAlphaIn 1 GX_CA_ZERO GX_CA_ZERO GX_CA_ZERO GX_CA_ZERO,
      GX_SetTevAlphaOp 1 GX_TEV_ADD GX_TB_ZERO GX_CS_SCALE_1 True GX_TEVPREV,
      GX_SetTevKColorSel 2 GX_TEV_KCSEL_K0,
      GX_SetTevOrder 2 GX_TEXCOORD2 GX_TEXMAP3 GX_COLOR0A0,
      GX_SetTevColorIn 2 GX_CC_RASC GX_CC_KONST GX_CC_TEXC GX_CC_ZERO,
      GX_SetTevColorOp 2 GX_TEV_ADD GX_TB_SUBHALF GX_CS_SCALE_1 True GX_TEVREG2,
      GX_SetTevAlphaIn 2 GX_CA_ZERO GX_CA_ZERO GX_CA_ZERO GX_CA_ZERO,
      GX_SetTevAlphaOp 2 GX_TEV_ADD GX_TB_ZERO GX_CS_SCALE_1 True GX_TEVPREV,
      GX_SetTevKColorSel 3 GX_TEV_KCSEL_K0,
      GX_SetTevOrder 3 GX_TEXCOORD2 GX_TEXMAP3 GX_COLOR0A0,
      GX_SetTevColorIn 3 GX_CC_KONST GX_CC_RASC GX_CC_TEXC GX_CC_ZERO,
      GX_SetTevColorOp 3 GX_TEV_ADD GX_TB_SUBHALF GX_CS_SCALE_1 True GX_TEVPREV,
      GX_SetTevAlphaIn 3 GX_CA_ZERO GX_CA_ZERO GX_CA_ZERO GX_CA_ZERO,
      GX_SetTevAlphaOp 3 GX_TEV_ADD GX_TB_ZERO GX_CS_SCALE_1 True GX_TEVPREV,
      GX_SetTevKColorSel 4 GX_TEV_KCSEL_K2,
      GX_SetTevOrder 4 GX_TEXCOORD0 GX_TEXMAP0 GX_COLORNULL,
      GX_SetTevColorIn 4 GX_CC_ZERO GX_CC_KONST GX_CC_CPREV GX_CC_ZERO,
      GX_SetTevColorOp 4 GX_TEV_SUB GX_TB_ZERO GX_CS_SCALE_2 False GX_TEVPREV,
      GX_SetTevAlphaIn 4 GX_CA_ZERO GX_CA_ZERO GX_CA_ZERO GX_CA_TEXA,
      GX_SetTevAlphaOp 4 GX_TEV_ADD GX_TB_ZERO GX_CS_SCALE_1 False GX_TEVPREV,
      GX_SetTevKColorSel 5 GX_TEV_KCSEL_K2,
      GX_SetTevOrder 5 GX_TEXCOORD1 GX_TEXMAP1 GX_COLORNULL,
      GX_SetTevColorIn 5 GX_CC_ZERO GX_CC_KONST GX_CC_C2 GX_CC_CPREV,
      GX_SetTevColorOp 5 GX_TEV_ADD GX_TB_ZERO GX_CS_SCALE_1 False GX_TEVPREV,
      GX_SetTevAlphaIn 5 GX_CA_TEXA GX_CA_ZERO GX_CA_ZERO GX_CA_APREV,
      GX_SetTevAlphaOp 5 GX_TEV_ADD GX_TB_ZERO GX_CS_SCALE_1 False GX_TEVREG1,
      GX_SetTevKColorSel 6 GX_TEV_KCSEL_K2,
      GX_SetTevOrder 6 GX_TEXCOORDNULL GX_TEXMAP_NULL GX_COLORNULL,
      GX_SetTevColorIn 6 GX_CC_ZERO GX_CC_KONST GX_CC_C2 GX_CC_CPREV,
      GX_SetTevColorOp 6 GX_TEV_ADD GX_TB_ZERO GX_CS_SCALE_1 False GX_TEVPREV,
      GX_SetTevKAlphaSel 6 GX_TEV_KASEL_1,
      GX_SetTevAlphaIn 6 GX_CA_ZERO GX_CA_KONST GX_CA_A0 GX_CA_A1,
      GX_SetTevAlphaOp 6 GX_TEV_SUB GX_TB_ZERO GX_CS_SCALE_1 False GX_TEVPREV,
      GX_SetTevOrder 7 GX_TEXCOORDNULL GX_TEXMAP_NULL GX_COLORNULL,
      GX_SetTevColorIn 7 GX_CC_ZERO GX_CC_ZERO GX_CC_ZERO GX_CC_CPREV,
      GX_SetTevColorOp 7 GX_TEV_ADD GX_TB_ZERO GX_CS_SCALE_1 False GX_TEVPREV,
      GX_SetTevKAlphaSel 7 GX_TEV_KASEL_K1_A,
      GX_SetTevAlphaIn 7 GX_CA_ZERO GX_CA_KONST GX_CA_A1 GX_CA_APREV,
      GX_SetTevAlphaOp 7 GX_TEV_ADD GX_TB_ZERO GX_CS_SCALE_1 True GX_TEVREG2,
      GX_SetTevKColorSel 8 GX_TEV_KCSEL_1,
      GX_SetTevOrder 8 GX_TEXCOORDNULL GX_TEXMAP_NULL GX_COLORNULL,
      GX_SetTevColorIn 8 GX_CC_ZERO GX_CC_ONE GX_CC_A2 GX_CC_CPREV,
      GX_SetTevColorOp 8 GX_TEV_ADD GX_TB_ZERO GX_CS_SCALE_1 False GX_TEVPREV,
      GX_SetTevAlphaIn 8 GX_CA_ZERO GX_CA_ZERO GX_CA_ZERO GX_CA_ZERO,
      GX_SetTevAlphaOp 8 GX_TEV_ADD GX_TB_ZERO GX_CS_SCALE_1 True GX_TEVPREV,
      GX_SetTevKColorSel 9 GX_TEV_KCSEL_K3,
      GX_SetTevOrder 9 GX_TEXCOORDNULL GX_TEXMAP_NULL GX_COLORNULL,
      GX_SetTevColorIn 9 GX_CC_ZERO GX_CC_KONST GX_CC_C1 GX_CC_CPREV,
      GX_SetTevColorOp 9 GX_TEV_SUB GX_TB_ZERO GX_CS_SCALE_1 False GX_TEVPREV,
      GX_SetTevAlphaIn 9 GX_CA_ZERO GX_CA_ZERO GX_CA_ZERO GX_CA_ZERO,
      GX_SetTevAlphaOp 9 GX_TEV_ADD GX_TB_ZERO GX_CS_SCALE_1 False GX_TEVPREV,
      GX_SetTevKColorSel 10 GX_TEV_KCSEL_K3,
      GX_SetTevOrder 10 GX_TEXCOORDNULL GX_TEXMAP_NULL GX_COLORNULL,
      GX_SetTevColorIn 10 GX_CC_ZERO GX_CC_KONST GX_CC_C1 GX_CC_CPREV,
      GX_SetTevColorOp 10 GX_TEV_SUB GX_TB_ZERO GX_CS_SCALE_1 False GX_TEVPREV,
      GX_SetTevAlphaIn 10 GX_CA_ZERO GX_CA_ZERO GX_CA_ZERO GX_CA_ZERO,
      GX_SetTevAlphaOp 10 GX_TEV_ADD GX_TB_ZERO GX_CS_SCALE_1 False GX_TEVPREV,
      GX_SetTevKColorSel 11 GX_TEV_KCSEL_K3,
      GX_SetTevOrder 11 GX_TEXCOORDNULL GX_TEXMAP_NULL GX_COLORNULL,
      GX_SetTevColorIn 11 GX_CC_ZERO GX_CC_KONST GX_CC_C0 GX_CC_CPREV,
      GX_SetTevColorOp 11 GX_TEV_ADD GX_TB_ZERO GX_CS_SCALE_1 False GX_TEVPREV,
      GX_SetTevAlphaIn 11 GX_CA_ZERO GX_CA_ZERO GX_CA_ZERO GX_CA_ZERO,
      GX_SetTevAlphaOp 11 GX_TEV_ADD GX_TB_ZERO GX_CS_SCALE_1 False GX_TEVPREV,
      GX_SetTevKColorSel 12 GX_TEV_KCSEL_K3,
      GX_SetTevOrder 12 GX_TEXCOORDNULL GX_TEXMAP_NULL GX_COLORNULL,
      GX_SetTevColorIn 12 GX_CC_ZERO GX_CC_KONST GX_CC_C0 GX_CC_CPREV,
      GX_SetTevColorOp 12 GX_TEV_ADD GX_TB_ZERO GX_CS_SCALE_1 True GX_TEVPREV,
      GX_SetTevKAlphaSel 12 GX_TEV_KASEL_K2_A,
      GX_SetTevAlphaIn 12 GX_CA_ZERO GX_CA_ZERO GX_CA_ZERO GX_CA_KONST,
      GX_SetTevAlphaOp 12 GX_TEV_ADD GX_TB_ZERO GX_CS_SCALE_1 True GX_TEVPREV,
      GX_SetTevOrder 13 GX_TEXCOORDNULL GX_TEXMAP_NULL GX_COLORNULL,
      GX_SetTevColorIn 13 GX_CC_ZERO GX_CC_CPREV GX_CC_APREV InD,
      GX_SetTevColorOp 13 GX_TEV_ADD GX_TB_ZERO GX_CS_SCALE_1 False GX_TEVPREV,
      GX_SetTevKAlphaSel 13 GX_TEV_KASEL_K3_A,
      GX_SetTevAlphaIn 13 GX_CA_ZERO GX_CA_ZERO GX_CA_ZERO GX_CA_KONST,
      GX_SetTevAlphaOp 13 GX_TEV_ADD GX_TB_ZERO GX_CS_SCALE_1 True GX_TEVPREV,
      GX_SetTevOrder 14 GX_TEXCOORDNULL GX_TEXMAP_NULL GX_COLORNULL,
      GX_SetTevColorIn 14 GX_CC_APREV GX_CC_ZERO GX_CC_ZERO GX_CC_CPREV,
      GX_SetTevColorOp 14 GX_TEV_ADD GX_TB_ZERO GX_CS_SCALE_1 True GX_TEVPREV,
      GX_SetTevKAlphaSel 14 GX_TEV_KCSEL_1,
      GX_SetTevAlphaIn 14 GX_CA_ZERO GX_CA_ZERO GX_CA_ZERO GX_CA_KONST,
      GX_SetTevAlphaOp 14 GX_TEV_ADD GX_TB_ZERO GX_CS_SCALE_1 True GX_TEVPREV]"

section \<open>Vertices and textures\<close>

definition vertex_setup :: "vertex_call list" where
  "vertex_setup =
     [GX_ClearVtxDesc, GX_SetVtxDesc_INDEX8 GX_VA_POS, GX_SetVtxDesc_INDEX8 GX_VA_CLR0, GX_SetVtxDesc_INDEX8 GX_VA_TEX0,
      GX_SetVtxDesc_INDEX8 GX_VA_TEX1, GX_SetVtxDesc_INDEX8 GX_VA_TEX2,
      GX_SetVtxAttrFmt GX_VA_POS GX_POS_XYZ_S16, GX_SetVtxAttrFmt GX_VA_CLR0 GX_CLR_RGBA_RGBA8,
      GX_SetVtxAttrFmt GX_VA_TEX0 GX_TEX_ST_F32, GX_SetVtxAttrFmt GX_VA_TEX1 GX_TEX_ST_F32, GX_SetVtxAttrFmt GX_VA_TEX2 GX_TEX_ST_F32,
      GX_SetArray GX_VA_POS Array_square (3 * 2), GX_SetArray GX_VA_CLR0 Array_colors 4,
      GX_SetArray GX_VA_TEX0 Array_texcoordsY (2 * 4), GX_SetArray GX_VA_TEX1 Array_texcoordsY (2 * 4),
      GX_SetArray GX_VA_TEX2 Array_texcoordsUV (2 * 4)]"

definition texture_objects :: "gx_textures \<Rightarrow> tev_call list" where
  "texture_objects t =
     [GX_InitTexObj_I8 YltexObj (Ylwidth t) (Yheight t), GX_InitTexObjLOD_LINEAR YltexObj,
      GX_InitTexObj_I8 YrtexObj (Yrwidth t) (Yheight t), GX_InitTexObjLOD_LINEAR YrtexObj,
      GX_InitTexObj_I8 UtexObj (UVwidth t) (UVheight t), GX_InitTexObjLOD_LINEAR UtexObj,
      GX_InitTexObj_I8 VtexObj (UVwidth t) (UVheight t), GX_InitTexObjLOD_LINEAR VtexObj,
      GX_LoadTexObj YltexObj GX_TEXMAP0, GX_LoadTexObj YrtexObj GX_TEXMAP1,
      GX_LoadTexObj UtexObj GX_TEXMAP2, GX_LoadTexObj VtexObj GX_TEXMAP3]"

definition vertex :: "nat \<Rightarrow> vertex_call list" where
  "vertex i = [GX_Position1x8 i, GX_Color1x8 0, GX_TexCoord1x8 i, GX_TexCoord1x8 (4 + i), GX_TexCoord1x8 i]"

definition display_list :: "vertex_call list" where
  "display_list = [GX_BeginDispList 32, GX_Begin_QUADS 4] @ vertex 0 @ vertex 1 @ vertex 2 @ vertex 3 @ [GX_End, GX_EndDispList]"

definition draw_initYUV :: "gx_levels \<Rightarrow> gx_textures \<Rightarrow> gx_call list" where
  "draw_initYUV lv t =
     map Tev ([GX_SetNumChans 1, GX_SetNumTexGens 4, GX_SetTexCoordGen GX_TEXCOORD0 GX_VA_TEX0,
               GX_SetTexCoordGen GX_TEXCOORD1 GX_VA_TEX1, GX_SetTexCoordGen GX_TEXCOORD2 GX_VA_TEX2, GX_SetNumTevStages 15] @
              tev_kcolors lv @ tev_stages (snd (snd (tev_levels lv)))) @
     map Vertex vertex_setup @ map Tev (texture_objects t) @ map Vertex display_list"

section \<open>Geometry\<close>

record gx_geometry =
  texcoordsY :: "rat list"
  texcoordsUV :: "rat list"
  square :: "int list"
  gx_calls :: "gx_call list"

definition initial_geometry :: gx_geometry where
  "initial_geometry = \<lparr>texcoordsY = [0, 0, 1, 0, 1, 1, 0, 1, 0, 0, 1, 0, 1, 1, 0, 1],
     texcoordsUV = [0, 0, 1, 0, 1, 1, 0, 1], square = replicate 12 0, gx_calls = []\<rparr>"

definition issue :: "gx_call list \<Rightarrow> gx_geometry \<Rightarrow> gx_geometry" where
  "issue cs g = g\<lparr>gx_calls := gx_calls g @ cs\<rparr>"

text \<open>A signed 16-bit number.\<close>

definition s16 :: "int \<Rightarrow> int" where "s16 n = signed_take_bit 15 n"

definition quad_scale :: "int \<Rightarrow> int \<Rightarrow> int \<Rightarrow> int \<Rightarrow> rat" where
  "quad_scale vw vh ew eh =
     (if f32 (of_int ew / of_int eh) < f32 (of_int vw / of_int vh) then f32 (of_int eh / of_int vh) else f32 (of_int ew / of_int vw))"

text \<open>\<open>(s16) (v * scale / 2)\<close>; halving is exact.\<close>

definition half_size :: "int \<Rightarrow> rat \<Rightarrow> int" where
  "half_size v scale = s16 (f32_to_int (f32 (of_int v * scale) / 2))"

definition camera_matrix :: gx_matrix where
  "camera_matrix = GuLookAt (0, 0, 352) (0, 1 / 2, 0) (0, 0, - 1 / 2)"

definition draw_scaling :: "vmode_obj \<Rightarrow> gx_textures \<Rightarrow> gx_geometry \<Rightarrow> gx_geometry" where
  "draw_scaling vm t g =
     (let vw = uint (Ywidth t); vh = uint (Yheight t);
          scale = quad_scale vw vh (vm_fbWidth vm) (vm_efbHeight vm);
          w = half_size vw scale; h = half_size vh scale
      in issue [Setup (GX_LoadPosMtxImm (GuMtxConcat camera_matrix (GuMtxTransApply GuMtxIdentity 0 0 (- 100)))),
                Setup (GX_SetViewport (f32 (1 / 24)) (f32 (1 / 24)) (of_int (vm_fbWidth vm)) (of_int (vm_efbHeight vm)) 0 1)]
           (g\<lparr>square := [s16 (- w), h, 0, w, h, 0, w, s16 (- h), 0, s16 (- w), s16 (- h), 0]\<rparr>))"

definition config_texcoords :: "int \<Rightarrow> int \<Rightarrow> gx_textures \<Rightarrow> gx_geometry \<Rightarrow> gx_geometry" where
  "config_texcoords width height t g =
     (let YtexcoordS = f32 (of_int width / of_int (uint (Ywidth t)));
          UVtexcoordS = f32 (of_int (c_div width 2) / of_int (uint (UVwidth t)));
          YtexcoordT = f32 (of_int height / of_int (uint (Yheight t)));
          UVtexcoordT = f32 (of_int (c_div height 2) / of_int (uint (UVheight t)));
          small = uint (Ywidth t) \<le> 1024;
          s = (if small then YtexcoordS else f32 (of_int (uint (Ywidth t)) / 1024));
          r = (if small then 0 else f32 ((- 1016 + 8) / of_int (uint (Yrwidth t))))
      in g\<lparr>texcoordsY := (texcoordsY g)[2 := s, 4 := s, 5 := YtexcoordT, 7 := YtexcoordT, 8 := r, 14 := r],
           texcoordsUV := (texcoordsUV g)[2 := UVtexcoordS, 4 := UVtexcoordS, 5 := UVtexcoordT, 7 := UVtexcoordT]\<rparr>)"

definition gx_state_calls :: "vmode_obj \<Rightarrow> setup_call list" where
  "gx_state_calls vm =
     [GX_LoadProjectionMtx_ORTHO (GuOrtho (of_int (vm_efbHeight vm) / 2) (- of_int (vm_efbHeight vm) / 2)
        (- of_int (vm_fbWidth vm) / 2) (of_int (vm_fbWidth vm) / 2) 10 1000),
      GX_SetPixelFmt_RGB8_Z24, GX_SetCullMode_NONE, GX_SetClipMode False, GX_SetZMode_ALWAYS False True,
      GX_SetBlendMode_SRCALPHA, GX_SetAlphaUpdate True, GX_SetAlphaCompare_GREATER_0_AND_ALWAYS_0, GX_SetColorUpdate True, GX_Flush]"

text \<open>\<open>gx_video_config_yuv\<close> as a whole: nothing for the sizes already set, else the sizes (\<open>GxVideo\<close>), the coordinates, the
  program, the quad and the state of the processor.\<close>

definition gx_video_setup_yuv ::
  "int \<Rightarrow> int \<Rightarrow> gx_levels \<Rightarrow> vmode_obj \<Rightarrow> gx_textures \<times> gx_geometry \<Rightarrow> gx_textures \<times> gx_geometry" where
  "gx_video_setup_yuv width height lv vm tg =
     (case tg of (t, g) \<Rightarrow>
       (if yuv_cfg_w t = width \<and> yuv_cfg_h t = height then (t, g)
        else
          (let t1 = config_sizes width height (t\<lparr>yuv_cfg_w := width, yuv_cfg_h := height\<rparr>);
               g1 = issue (draw_initYUV lv t1) (config_texcoords width height t1 g)
           in (t1, issue (map Setup (gx_state_calls vm)) (draw_scaling vm t1 g1)))))"

end
