(* ===== verification/GxVideoFacts.thy ===== *)
theory GxVideoFacts
  imports GxVideo
begin

text \<open>
  What the copy loops of \<open>gx_video.c\<close> write: every byte of a plane ends where the graphics processor looks for it, in tiles of
  eight by four bytes, and a picture that needs more room than the textures have makes the loops write behind them.
\<close>

unbundle bit_operations_syntax

section \<open>Tiles\<close>

lemma copy_tile_some:
  assumes "dst + 32 \<le> length tex" and "off + 3 * stride + 8 \<le> length src"
  shows "\<exists>t. copy_tile src stride off dst tex = Some t \<and> length t = length tex \<and>
    (\<forall>k < 4. \<forall>b < 8. t ! (dst + 8 * k + b) = src ! (off + k * stride + b)) \<and>
    (\<forall>j < length tex. j < dst \<or> dst + 32 \<le> j \<longrightarrow> t ! j = tex ! j)"
proof -
  let ?row = "\<lambda>k. take 8 (drop (off + k * stride) src)"
  let ?bs = "concat (map ?row [0..<4])"
  have four: "[0..<4] = [0, 1, 2, 3::nat]" by (simp add: upt_rec)
  have len: "length (?row k) = 8" if "k < 4" for k
  proof -
    have "k * stride \<le> 3 * stride" using that by (intro mult_le_mono1) simp
    then have "off + k * stride + 8 \<le> length src" using assms(2) by linarith
    then show ?thesis by simp
  qed
  have lbs: "length ?bs = 32" using len [of 0] len [of 1] len [of 2] len [of 3] by (simp add: four)
  have nth: "?bs ! (8 * k + b) = src ! (off + k * stride + b)" if "k < 4" "b < 8" for k b
  proof -
    have "k = 0 \<or> k = 1 \<or> k = 2 \<or> k = 3" using that(1) by linarith
    then have "?bs ! (8 * k + b) = ?row k ! b"
      by (elim disjE) (use len [of 0] len [of 1] len [of 2] len [of 3] that(2) in \<open>simp_all add: four nth_append\<close>)
    also have "\<dots> = src ! (off + k * stride + b)"
      using that len[OF that(1)] by simp
    finally show ?thesis .
  qed
  let ?t = "blit tex dst ?bs"
  have "?t ! (dst + 8 * k + b) = src ! (off + k * stride + b)" if "k < 4" "b < 8" for k b
    using nth_blit [of dst ?bs tex "dst + 8 * k + b"] nth [OF that] that lbs assms(1) by simp
  moreover have "?t ! j = tex ! j" if "j < length tex" "j < dst \<or> dst + 32 \<le> j" for j
    using nth_blit [of dst ?bs tex j] that lbs assms(1) by auto
  moreover have "length ?t = length tex" using lbs assms(1) by simp
  ultimately show ?thesis using assms by (simp add: copy_tile_def)
qed

lemma tile_row_some:
  assumes "dst + 32 * n \<le> length tex" and "n = 0 \<or> off + 8 * n + 3 * stride \<le> length src"
  shows "\<exists>t. tile_row n src stride off dst tex = Some t \<and> length t = length tex \<and>
    (\<forall>i < n. \<forall>k < 4. \<forall>b < 8. t ! (dst + 32 * i + 8 * k + b) = src ! (off + 8 * i + k * stride + b)) \<and>
    (\<forall>j < length tex. j < dst \<or> dst + 32 * n \<le> j \<longrightarrow> t ! j = tex ! j)"
  using assms
proof (induction n arbitrary: off dst tex)
  case (Suc n)
  obtain t1 where 1: "copy_tile src stride off dst tex = Some t1" "length t1 = length tex"
      "\<forall>k < 4. \<forall>b < 8. t1 ! (dst + 8 * k + b) = src ! (off + k * stride + b)"
      "\<forall>j < length tex. j < dst \<or> dst + 32 \<le> j \<longrightarrow> t1 ! j = tex ! j"
    using copy_tile_some [of dst tex off stride src] Suc.prems by auto
  obtain t where 2: "tile_row n src stride (off + 8) (dst + 32) t1 = Some t" "length t = length t1"
      "\<forall>i < n. \<forall>k < 4. \<forall>b < 8. t ! (dst + 32 + 32 * i + 8 * k + b) = src ! (off + 8 + 8 * i + k * stride + b)"
      "\<forall>j < length t1. j < dst + 32 \<or> dst + 32 + 32 * n \<le> j \<longrightarrow> t ! j = t1 ! j"
    using Suc.IH [of "dst + 32" t1 "off + 8"] Suc.prems 1(2) by auto
  have "t ! (dst + 32 * i + 8 * k + b) = src ! (off + 8 * i + k * stride + b)" if "i < Suc n" "k < 4" "b < 8" for i k b
  proof (cases i)
    case 0
    then have "t ! (dst + 32 * i + 8 * k + b) = t1 ! (dst + 8 * k + b)" using 2(4) that Suc.prems(1) 1(2) by simp
    then show ?thesis using 1(3) that 0 by simp
  next
    case (Suc m)
    then show ?thesis using 2(3) [rule_format, of m k b] that by (simp add: algebra_simps)
  qed
  moreover have "t ! j = tex ! j" if "j < length tex" "j < dst \<or> dst + 32 * Suc n \<le> j" for j
    using 1(2) 2(4) [rule_format, of j] 1(4) [rule_format, of j] that by auto
  ultimately show ?case using 1(1,2) 2(1,2) by simp
qed simp

text \<open>A texture is filled row of tiles by row of tiles.\<close>

fun plane_rows :: "nat \<Rightarrow> nat \<Rightarrow> nat \<Rightarrow> nat \<Rightarrow> u8 list \<Rightarrow> nat \<Rightarrow> nat \<Rightarrow> nat \<Rightarrow> u8 list \<Rightarrow> u8 list option" where
  "plane_rows 0 n gap skip src stride off dst tex = Some tex"
| "plane_rows (Suc rows) n gap skip src stride off dst tex =
     Option.bind (tile_row n src stride off dst tex)
       (plane_rows rows n gap skip src stride (off + 8 * n + gap) (dst + 32 * n + skip))"

lemma plane_rows_some:
  assumes "dst + rows * (32 * n + skip) \<le> length tex + skip"
    and "rows = 0 \<or> n = 0 \<or> off + (rows - 1) * (8 * n + gap) + 8 * n + 3 * stride \<le> length src"
  shows "\<exists>t. plane_rows rows n gap skip src stride off dst tex = Some t \<and> length t = length tex \<and>
    (\<forall>r < rows. \<forall>i < n. \<forall>k < 4. \<forall>b < 8.
       t ! (dst + r * (32 * n + skip) + 32 * i + 8 * k + b) = src ! (off + r * (8 * n + gap) + 8 * i + k * stride + b)) \<and>
    (\<forall>j < length tex. j < dst \<longrightarrow> t ! j = tex ! j)"
  using assms
proof (induction rows arbitrary: off dst tex)
  case (Suc rows)
  have row: "dst + 32 * n \<le> length tex" using Suc.prems(1) by (simp add: algebra_simps)
  have bnd: "n = 0 \<or> off + 8 * n + 3 * stride \<le> length src" using Suc.prems(2) by auto
  obtain t1 where 1: "tile_row n src stride off dst tex = Some t1" "length t1 = length tex"
      "\<forall>i < n. \<forall>k < 4. \<forall>b < 8. t1 ! (dst + 32 * i + 8 * k + b) = src ! (off + 8 * i + k * stride + b)"
      "\<forall>j < length tex. j < dst \<or> dst + 32 * n \<le> j \<longrightarrow> t1 ! j = tex ! j"
    using tile_row_some [OF row bnd] by blast
  have p1: "dst + 32 * n + skip + rows * (32 * n + skip) \<le> length t1 + skip"
    using Suc.prems(1) 1(2) by simp
  have p2: "rows = 0 \<or> n = 0 \<or> off + 8 * n + gap + (rows - 1) * (8 * n + gap) + 8 * n + 3 * stride \<le> length src"
    using Suc.prems(2) by (cases rows) auto
  obtain t where 2: "plane_rows rows n gap skip src stride (off + 8 * n + gap) (dst + 32 * n + skip) t1 = Some t" "length t = length t1"
      "\<forall>r < rows. \<forall>i < n. \<forall>k < 4. \<forall>b < 8.
         t ! (dst + 32 * n + skip + r * (32 * n + skip) + 32 * i + 8 * k + b) =
         src ! (off + 8 * n + gap + r * (8 * n + gap) + 8 * i + k * stride + b)"
      "\<forall>j < length t1. j < dst + 32 * n + skip \<longrightarrow> t ! j = t1 ! j"
    using Suc.IH [OF p1 p2] by blast
  have "t ! (dst + r * (32 * n + skip) + 32 * i + 8 * k + b) = src ! (off + r * (8 * n + gap) + 8 * i + k * stride + b)"
    if "r < Suc rows" "i < n" "k < 4" "b < 8" for r i k b
  proof (cases r)
    case 0
    have "32 * i + 8 * k + b < 32 * n" using that(2-4) by linarith
    then have "t ! (dst + 32 * i + 8 * k + b) = t1 ! (dst + 32 * i + 8 * k + b)" using 2(4) row 1(2) by simp
    then show ?thesis using 1(3) that 0 by simp
  next
    case (Suc m)
    then show ?thesis using 2(3) [rule_format, of m i k b] that by (simp add: algebra_simps)
  qed
  moreover have "t ! j = tex ! j" if "j < length tex" "j < dst" for j using 2(4) 1(2,4) that by simp
  ultimately show ?case using 1(1,2) 2(1,2) by simp
qed simp

text \<open>And only as far as the texture goes.\<close>

lemma tile_row_bound: "tile_row n src stride off dst tex = Some t \<Longrightarrow> length t = length tex \<and> (0 < n \<longrightarrow> dst + 32 * n \<le> length tex)"
proof (induction n arbitrary: off dst tex)
  case (Suc n)
  then obtain t1 where 1: "copy_tile src stride off dst tex = Some t1" "tile_row n src stride (off + 8) (dst + 32) t1 = Some t"
    by (auto split: bind_splits)
  have c: "dst + 32 \<le> length tex" "length t1 = length tex"
    using 1(1) copy_tile_some [of dst tex off stride src] by (auto simp: copy_tile_def split: if_splits)
  with Suc.IH [OF 1(2)] show ?case by (cases n) auto
qed simp

lemma plane_rows_bound:
  "plane_rows rows n gap skip src stride off dst tex = Some t \<Longrightarrow> 0 < n \<Longrightarrow>
     rows = 0 \<or> dst + rows * (32 * n + skip) \<le> length tex + skip"
proof (induction rows arbitrary: off dst tex)
  case (Suc rows)
  then obtain t1 where 1: "tile_row n src stride off dst tex = Some t1"
      "plane_rows rows n gap skip src stride (off + 8 * n + gap) (dst + 32 * n + skip) t1 = Some t"
    by (auto split: bind_splits)
  with tile_row_bound [OF 1(1)] Suc.IH [OF 1(2)] Suc.prems(2) show ?case by auto
qed simp

section \<open>The loops, one texture at a time\<close>

lemma luma_split:
  "0 < r \<Longrightarrow> luma_rows rows l r src stride pitch off dl dr yl yr =
     Option.bind (plane_rows rows l (8 * r + pitch) 32 src stride off dl yl) (\<lambda>a.
       map_option (Pair a) (plane_rows rows r (8 * l + pitch) 32 src stride (off + 8 * l) dr yr))"
proof (induction rows arbitrary: off dl dr yl yr)
  case (Suc rows)
  show ?case
    using Suc.prems
    by (cases "tile_row l src stride off dl yl"; cases "tile_row r src stride (off + 8 * l) dr yr")
      (auto simp: Suc.IH ac_simps split: bind_split option.split)
qed simp

lemma luma_single:
  "luma_rows rows l 0 src stride pitch off dl dr yl yr = map_option (\<lambda>a. (a, yr)) (plane_rows rows l pitch 0 src stride off dl yl)"
  by (induction rows arbitrary: off dl yl) (auto split: bind_splits option.splits)

lemma chroma_tiles_split:
  "chroma_tiles n us vs stride off dst ut vt =
     Option.bind (tile_row n us stride off dst ut) (\<lambda>a. map_option (Pair a) (tile_row n vs stride off dst vt))"
proof (induction n arbitrary: off dst ut vt)
  case (Suc n)
  show ?case
    by (cases "copy_tile us stride off dst ut"; cases "copy_tile vs stride off dst vt")
      (auto simp: Suc.IH split: bind_split option.split)
qed simp

lemma chroma_split:
  "chroma_rows rows n us vs stride pitch off dst ut vt =
     Option.bind (plane_rows rows n pitch 0 us stride off dst ut) (\<lambda>a.
       map_option (Pair a) (plane_rows rows n pitch 0 vs stride off dst vt))"
proof (induction rows arbitrary: off dst ut vt)
  case (Suc rows)
  show ?case
    by (cases "tile_row n us stride off dst ut"; cases "tile_row n vs stride off dst vt")
      (auto simp: Suc.IH chroma_tiles_split split: bind_split option.split)
qed simp

section \<open>Texels\<close>

text \<open>Where the graphics processor finds the byte \<open>(x, y)\<close> of a texture of width \<open>w\<close> in its 8-bit format.\<close>

definition texel_index :: "nat \<Rightarrow> nat \<Rightarrow> nat \<Rightarrow> nat" where
  "texel_index w x y = y div 4 * (w * 4) + x div 8 * 32 + y mod 4 * 8 + x mod 8"

definition texel :: "u8 list \<Rightarrow> nat \<Rightarrow> nat \<Rightarrow> nat \<Rightarrow> u8" where
  "texel tex w x y = tex ! texel_index w x y"

text \<open>
  A part of the plane, from column \<open>off\<close> on and \<open>n\<close> tiles wide, in a texture whose rows have \<open>n + lead + trail\<close> tiles.
\<close>

lemma plane_texels:
  assumes "plane_rows rows n gap skip src stride off (32 * lead) tex = Some t"
    and "\<forall>r < rows. \<forall>i < n. \<forall>k < 4. \<forall>b < 8. t ! (32 * lead + r * (32 * n + skip) + 32 * i + 8 * k + b) =
      src ! (off + r * (8 * n + gap) + 8 * i + k * stride + b)"
    and "8 * n + gap = 4 * stride" and "w * 4 = 32 * n + skip" and "x < 8 * n" and "y < 4 * rows"
  shows "texel t w (x + 8 * lead) y = src ! (y * stride + off + x)"
proof -
  have "(x + 8 * lead) div 8 = x div 8 + lead" "(x + 8 * lead) mod 8 = x mod 8" by simp_all
  then have i: "texel_index w (x + 8 * lead) y = 32 * lead + y div 4 * (32 * n + skip) + 32 * (x div 8) + 8 * (y mod 4) + x mod 8"
    by (simp add: texel_index_def assms(4))
  have y: "y * stride = y div 4 * (4 * stride) + y mod 4 * stride"
    by (metis add_mult_distrib div_mult_mod_eq mult.assoc)
  have x: "8 * (x div 8) + x mod 8 = x" by simp
  have "x div 8 < n" "y div 4 < rows" using assms(5,6) by auto
  then have "t ! (32 * lead + y div 4 * (32 * n + skip) + 32 * (x div 8) + 8 * (y mod 4) + x mod 8) =
      src ! (off + y div 4 * (8 * n + gap) + 8 * (x div 8) + y mod 4 * stride + x mod 8)"
    using assms(2) by simp
  also have "off + y div 4 * (8 * n + gap) + 8 * (x div 8) + y mod 4 * stride + x mod 8 = y * stride + off + x"
    using y x by (simp add: assms(3))
  finally show ?thesis by (simp add: texel_def i)
qed

section \<open>A whole picture\<close>

text \<open>The relations between the sizes that a configuration sets and every upload keeps.\<close>

definition configured :: "gx_textures \<Rightarrow> bool" where
  "configured t \<longleftrightarrow>
     (let w = unat (Ywidth t)
      in 8 dvd w \<and> 8 dvd unat (UVwidth t) \<and> 4 dvd unat (Yheight t) \<and> 4 dvd unat (UVheight t) \<and>
         (if 1024 < w then wl t = 127 \<and> wr t = int w div 8 - 127 \<and> unat (Ylwidth t) = 1024 \<and> unat (Yrwidth t) = w - 1008
          else wl t = int w div 8 \<and> wr t = 0 \<and> unat (Ylwidth t) = w) \<and>
         (st0 t \<noteq> 0 \<longrightarrow> Yrowpitch t = word_of_int (st0 t * 4 - uint (Ywidth t))) \<and>
         (st1 t \<noteq> 0 \<longrightarrow> UVrowpitch t = word_of_int (st1 t * 4 - uint (UVwidth t))))"

text \<open>The textures have room for the configured picture.\<close>

definition fits :: "gx_textures \<Rightarrow> bool" where
  "fits t \<longleftrightarrow>
     (case (Yltexture t, Yrtexture t, Utexture t, Vtexture t) of
        (Some yl, Some yr, Some ut, Some vt) \<Rightarrow>
          unat (Ylwidth t) * unat (Yheight t) \<le> length yl \<and> (0 < wr t \<longrightarrow> unat (Yrwidth t) * unat (Yheight t) \<le> length yr) \<and>
          unat (UVwidth t) * unat (UVheight t) \<le> length ut \<and> unat (UVwidth t) * unat (UVheight t) \<le> length vt
      | _ \<Rightarrow> False)"

lemma uint_of_range: "0 \<le> n \<Longrightarrow> n < 65536 \<Longrightarrow> uint (word_of_int n :: u16) = n"
  by (simp add: uint_word_of_int)

lemma round8_nat:
  assumes "0 \<le> n" and "n < 65000"
  shows "\<exists>k. uint (round8 n) = 8 * int k \<and> k \<le> 8125 \<and> int k = (n + 7) div 8"
proof -
  have "(n + 7) AND NOT 7 = (n + 7) div 8 * 8" using and_not_mask_int [of "n + 7" 3] by (simp add: mask_eq_exp_minus_1)
  moreover have "uint (word_of_int ((n + 7) div 8 * 8) :: u16) = (n + 7) div 8 * 8"
    using assms by (intro uint_of_range) linarith+
  ultimately have "uint (round8 n) = (n + 7) div 8 * 8" by (simp only: round8_def)
  with assms show ?thesis by (intro exI [of _ "nat ((n + 7) div 8)"]) auto
qed

lemma round4_nat:
  assumes "0 \<le> n" and "n < 65000"
  shows "\<exists>k. uint (round4 n) = 4 * int k \<and> int k = (n + 3) div 4"
proof -
  have "(n + 3) AND NOT 3 = (n + 3) div 4 * 4" using and_not_mask_int [of "n + 3" 2] by (simp add: mask_eq_exp_minus_1)
  moreover have "uint (word_of_int ((n + 3) div 4 * 4) :: u16) = (n + 3) div 4 * 4"
    using assms by (intro uint_of_range) linarith+
  ultimately have "uint (round4 n) = (n + 3) div 4 * 4" by (simp only: round4_def)
  with assms show ?thesis by (intro exI [of _ "nat ((n + 3) div 4)"]) auto
qed

lemma c_div_2: "0 \<le> n \<Longrightarrow> c_div n 2 = n div 2"
  by (auto simp: c_div_def sgn_if)

lemma unat_from_uint: "uint (x :: 'a::len word) = int n \<Longrightarrow> unat x = n"
  by (simp add: unat_eq_nat_uint)

lemma config_configured:
  assumes "0 \<le> width" "width < 65000" "0 \<le> height" "height < 65000"
  shows "configured (config_sizes width height t)"
proof -
  obtain k where k: "uint (round8 width) = 8 * int k" "k \<le> 8125" using round8_nat assms by blast
  have half: "0 \<le> c_div width 2" "c_div width 2 < 65000" "0 \<le> c_div height 2" "c_div height 2 < 65000"
  proof -
    have "width div 2 < 65000" "height div 2 < 65000" using assms by linarith+
    then show "0 \<le> c_div width 2" "c_div width 2 < 65000" "0 \<le> c_div height 2" "c_div height 2 < 65000"
      using assms by (simp_all add: c_div_2)
  qed
  obtain m where m: "uint (round8 (c_div width 2)) = 8 * int m" using round8_nat half(1,2) by blast
  obtain p where p: "uint (round4 height) = 4 * int p" using round4_nat assms by blast
  obtain q where q: "uint (round4 (c_div height 2)) = 4 * int q" using round4_nat half(3,4) by blast
  have u: "unat (round8 width) = 8 * k" "unat (round8 (c_div width 2)) = 8 * m" "unat (round4 height) = 4 * p"
      "unat (round4 (c_div height 2)) = 4 * q"
    using k m p q by (simp_all add: unat_eq_nat_uint nat_mult_distrib)
  have yr: "unat (word_of_int (8 * int k - 1008) :: u16) = 8 * k - 1008" if "128 < k"
  proof (rule unat_from_uint)
    have e: "8 * int k - 1008 = int (8 * k - 1008)" using that by (simp add: of_nat_diff)
    show "uint (word_of_int (8 * int k - 1008) :: u16) = int (8 * k - 1008)"
      unfolding e using k(2) by (intro uint_of_range) linarith+
  qed
  show ?thesis
  proof (cases "128 < k")
    case True
    then show ?thesis using yr by (simp add: configured_def config_sizes_def Let_def u k(1))
  next
    case False
    then have "8 * int k \<le> 1016 \<or> k = 128" by linarith
    with False show ?thesis by (auto simp: configured_def config_sizes_def Let_def u k(1))
  qed
qed

text \<open>The planes have the rows the copy reads, and a row is not longer than the 16-bit pitch can say.\<close>

definition plane_ok :: "u8 list \<Rightarrow> nat \<Rightarrow> u16 \<Rightarrow> u16 \<Rightarrow> bool" where
  "plane_ok src stride w h \<longleftrightarrow>
     0 < stride \<and> unat w \<le> stride \<and> 4 * stride < 65536 + unat w \<and> unat h * stride \<le> length src"

lemma pitch_value:
  assumes "unat (w :: u16) \<le> stride" and "4 * stride < 65536 + unat w"
  shows "unat (word_of_int (int stride * 4 - uint w) :: u16) = 4 * stride - unat w"
proof (rule unat_from_uint)
  have e: "int stride * 4 - uint w = int (4 * stride - unat w)" using assms(1) by (simp add: of_nat_diff)
  show "uint (word_of_int (int stride * 4 - uint w) :: u16) = int (4 * stride - unat w)"
    unfolding e using assms by (intro uint_of_range) linarith+
qed

text \<open>One texture of \<open>n\<close> tiles a row, with \<open>lead\<close> and \<open>skip\<close> bytes unused, filled from a plane.\<close>

lemma fill_plane:
  assumes "plane_ok src stride w h" and "unat h = 4 * rows" and "off + 8 * n \<le> unat w" and "8 * n + gap = 4 * stride"
    and "tw * 4 = 32 * n + skip" and "32 * lead \<le> skip" and "rows * (tw * 4) \<le> length tex"
  shows "\<exists>t. plane_rows rows n gap skip src stride off (32 * lead) tex = Some t \<and> length t = length tex \<and>
    (\<forall>x < 8 * n. \<forall>y < 4 * rows. texel t tw (x + 8 * lead) y = src ! (y * stride + off + x))"
proof -
  have len: "4 * rows * stride \<le> length src" and st: "unat w \<le> stride" using assms(1,2) by (simp_all add: plane_ok_def)
  have "off + (rows - 1) * (8 * n + gap) + 8 * n + 3 * stride \<le> length src" if pos: "0 < rows"
  proof -
    obtain m where "rows = Suc m" using pos by (cases rows) auto
    then show ?thesis using len st assms(3,4) by (simp add: algebra_simps)
  qed
  then have src: "rows = 0 \<or> n = 0 \<or> off + (rows - 1) * (8 * n + gap) + 8 * n + 3 * stride \<le> length src" by blast
  have tex: "32 * lead + rows * (32 * n + skip) \<le> length tex + skip" using assms(5-7) by simp
  from plane_rows_some [OF tex src] obtain t where t: "plane_rows rows n gap skip src stride off (32 * lead) tex = Some t"
      "length t = length tex"
      "\<forall>r < rows. \<forall>i < n. \<forall>k < 4. \<forall>b < 8. t ! (32 * lead + r * (32 * n + skip) + 32 * i + 8 * k + b) =
         src ! (off + r * (8 * n + gap) + 8 * i + k * stride + b)" by blast
  with plane_texels [OF t(1,3) assms(4,5)] show ?thesis by blast
qed

text \<open>The luma byte of the picture at \<open>(x, y)\<close>: beyond the left texture, in the second tile column of the right one and after it.\<close>

definition luma_at :: "gx_textures \<Rightarrow> nat \<Rightarrow> nat \<Rightarrow> u8" where
  "luma_at t x y =
     (let l = 8 * nat (wl t)
      in if x < l then texel (the (Yltexture t)) (unat (Ylwidth t)) x y
         else texel (the (Yrtexture t)) (unat (Yrwidth t)) (x - l + 8) y)"

lemma fill_luma:
  assumes "configured t" and "plane_ok ys stride (Ywidth t) (Yheight t)" and "pitch = 4 * stride - unat (Ywidth t)"
    and "unat (Ylwidth t) * unat (Yheight t) \<le> length yl" and "0 < wr t \<Longrightarrow> unat (Yrwidth t) * unat (Yheight t) \<le> length yr"
  shows "\<exists>yl' yr'. luma_rows (unat (Yheight t) div 4) (nat (wl t)) (nat (wr t)) ys stride pitch 0 0 32 yl yr = Some (yl', yr') \<and>
    length yl' = length yl \<and> length yr' = length yr \<and>
    (\<forall>x < unat (Ywidth t). \<forall>y < unat (Yheight t).
       luma_at (t\<lparr>Yltexture := Some yl', Yrtexture := Some yr'\<rparr>) x y = ys ! (y * stride + x))"
proof -
  obtain k where k: "unat (Ywidth t) = 8 * k" using assms(1) by (auto simp: configured_def Let_def)
  obtain rows where r: "unat (Yheight t) = 4 * rows" using assms(1) by (auto simp: configured_def Let_def)
  have st: "unat (Ywidth t) \<le> stride" using assms(2) by (simp add: plane_ok_def)
  show ?thesis
  proof (cases "128 < k")
    case False
    then have c: "wl t = int k" "wr t = 0" "unat (Ylwidth t) = 8 * k" using assms(1) k by (auto simp: configured_def Let_def)
    have "\<exists>a. plane_rows rows k pitch 0 ys stride 0 (32 * 0) yl = Some a \<and> length a = length yl \<and>
        (\<forall>x < 8 * k. \<forall>y < 4 * rows. texel a (8 * k) (x + 8 * 0) y = ys ! (y * stride + 0 + x))"
      using assms(3,4) k c st r by (intro fill_plane [OF assms(2) r]) (auto simp: ac_simps)
    then obtain a where "plane_rows rows k pitch 0 ys stride 0 0 yl = Some a" "length a = length yl"
        "\<forall>x < 8 * k. \<forall>y < 4 * rows. texel a (8 * k) x y = ys ! (y * stride + x)" by auto
    then show ?thesis using c k r by (simp add: luma_single luma_at_def Let_def)
  next
    case True
    then have c: "wl t = 127" "wr t = int (k - 127)" "unat (Ylwidth t) = 1024" "unat (Yrwidth t) = 8 * k - 1008"
      using assms(1) k by (auto simp: configured_def Let_def)
    let ?n = "k - 127"
    have "\<exists>a. plane_rows rows 127 (8 * ?n + pitch) 32 ys stride 0 (32 * 0) yl = Some a \<and> length a = length yl \<and>
        (\<forall>x < 8 * 127. \<forall>y < 4 * rows. texel a 1024 (x + 8 * 0) y = ys ! (y * stride + 0 + x))"
      using assms(3,4) k c st r True by (intro fill_plane [OF assms(2) r]) (auto simp: ac_simps)
    then obtain a where a: "plane_rows rows 127 (8 * ?n + pitch) 32 ys stride 0 0 yl = Some a" "length a = length yl"
        "\<forall>x < 1016. \<forall>y < 4 * rows. texel a 1024 x y = ys ! (y * stride + x)" by auto
    have "unat (Yrwidth t) * unat (Yheight t) \<le> length yr" using assms(5) c(2) True by simp
    then have "\<exists>b. plane_rows rows ?n (8 * 127 + pitch) 32 ys stride (8 * 127) (32 * 1) yr = Some b \<and> length b = length yr \<and>
        (\<forall>x < 8 * ?n. \<forall>y < 4 * rows. texel b (8 * k - 1008) (x + 8 * 1) y = ys ! (y * stride + 8 * 127 + x))"
      using assms(3) k c st r True by (intro fill_plane [OF assms(2) r]) (auto simp: ac_simps)
    then obtain b where b: "plane_rows rows ?n (1016 + pitch) 32 ys stride 1016 32 yr = Some b" "length b = length yr"
        "\<forall>x < 8 * ?n. \<forall>y < 4 * rows. texel b (8 * k - 1008) (x + 8) y = ys ! (y * stride + 1016 + x)" by auto
    have right: "texel b (8 * k - 1008) (x - 1016 + 8) y = ys ! (y * stride + x)" if "1016 \<le> x" "x < 8 * k" "y < 4 * rows" for x y
      using b(3) [rule_format, of "x - 1016" y] that by (simp add: algebra_simps)
    have "luma_rows rows 127 ?n ys stride pitch 0 0 32 yl yr = Some (a, b)"
      using luma_split [of ?n rows 127 ys stride pitch 0 0 32 yl yr] True a(1) b(1) by simp
    moreover have "nat (wl t) = 127" "nat (wr t) = ?n" using c(1,2) by simp_all
    ultimately show ?thesis using c(3,4) k r a(2,3) b(2) right
      by (intro exI [of _ a] exI [of _ b]) (simp add: luma_at_def Let_def)
  qed
qed

definition chroma_at :: "gx_textures \<Rightarrow> u8 list option \<Rightarrow> nat \<Rightarrow> nat \<Rightarrow> u8" where
  "chroma_at t tex x y = texel (the tex) (unat (UVwidth t)) x y"

lemma upload_complete:
  assumes "configured t" and "fits t" and "plane_ok ys ystride (Ywidth t) (Yheight t)"
    and "plane_ok us uvstride (UVwidth t) (UVheight t)" and "plane_ok vs uvstride (UVwidth t) (UVheight t)"
  shows "\<exists>t'. GX_FillTextureYUV ys us vs ystride uvstride t = Some t' \<and> configured t' \<and> fits t' \<and>
    (\<forall>x < unat (Ywidth t). \<forall>y < unat (Yheight t). luma_at t' x y = ys ! (y * ystride + x)) \<and>
    (\<forall>x < unat (UVwidth t). \<forall>y < unat (UVheight t).
       chroma_at t' (Utexture t') x y = us ! (y * uvstride + x) \<and> chroma_at t' (Vtexture t') x y = vs ! (y * uvstride + x))"
proof -
  obtain yl yr ut vt where tx: "Yltexture t = Some yl" "Yrtexture t = Some yr" "Utexture t = Some ut" "Vtexture t = Some vt"
      "unat (Ylwidth t) * unat (Yheight t) \<le> length yl" "0 < wr t \<Longrightarrow> unat (Yrwidth t) * unat (Yheight t) \<le> length yr"
      "unat (UVwidth t) * unat (UVheight t) \<le> length ut" "unat (UVwidth t) * unat (UVheight t) \<le> length vt"
    using assms(2) by (auto simp: fits_def split: option.splits)
  define u where "u = set_pitches (int ystride) (int uvstride) t"
  have pos: "0 < ystride" "0 < uvstride" using assms(3,4) by (simp_all add: plane_ok_def)
  have u: "Yltexture u = Some yl" "Yrtexture u = Some yr" "Utexture u = Some ut" "Vtexture u = Some vt" "wl u = wl t" "wr u = wr t"
      "Ywidth u = Ywidth t" "Yheight u = Yheight t" "UVwidth u = UVwidth t" "UVheight u = UVheight t" "Ylwidth u = Ylwidth t"
      "Yrwidth u = Yrwidth t"
    using tx by (simp_all add: u_def set_pitches_def)
  have cu: "configured u" using assms(1) by (auto simp: configured_def u_def set_pitches_def Let_def)
  have "st0 u = int ystride" "st1 u = int uvstride" by (simp_all add: u_def set_pitches_def)
  with cu pos have "Yrowpitch u = word_of_int (int ystride * 4 - uint (Ywidth t))"
      "UVrowpitch u = word_of_int (int uvstride * 4 - uint (UVwidth t))"
    using u by (auto simp: configured_def Let_def)
  then have pitch: "unat (Yrowpitch u) = 4 * ystride - unat (Ywidth t)" "unat (UVrowpitch u) = 4 * uvstride - unat (UVwidth t)"
    using pitch_value assms(3,4) by (simp_all add: plane_ok_def)
  obtain yl' yr' where Y: "luma_rows (unat (Yheight u) div 4) (nat (wl u)) (nat (wr u)) ys ystride (unat (Yrowpitch u)) 0 0 32 yl yr = Some (yl', yr')"
      "length yl' = length yl" "length yr' = length yr"
      "\<forall>x < unat (Ywidth u). \<forall>y < unat (Yheight u). luma_at (u\<lparr>Yltexture := Some yl', Yrtexture := Some yr'\<rparr>) x y = ys ! (y * ystride + x)"
    using fill_luma [OF cu, of ys ystride "unat (Yrowpitch u)" yl yr] assms(3) tx pitch(1) u by auto
  have "8 dvd unat (UVwidth t)" "4 dvd unat (UVheight t)" using assms(1) by (simp_all add: configured_def Let_def)
  then obtain n rows where nr: "unat (UVwidth t) = 8 * n" "unat (UVheight t) = 4 * rows" by (metis dvdE)
  have gap: "8 * n + (4 * uvstride - 8 * n) = 4 * uvstride" using assms(4) nr(1) by (simp add: plane_ok_def)
  have plane: "\<exists>c. plane_rows rows n (4 * uvstride - 8 * n) 0 src uvstride 0 (32 * 0) tex = Some c \<and> length c = length tex \<and>
      (\<forall>x < 8 * n. \<forall>y < 4 * rows. texel c (8 * n) (x + 8 * 0) y = src ! (y * uvstride + 0 + x))"
    if "plane_ok src uvstride (UVwidth t) (UVheight t)" "unat (UVwidth t) * unat (UVheight t) \<le> length tex" for src tex
    using that(2) nr by (intro fill_plane [OF that(1) nr(2) _ gap]) (auto simp: ac_simps)
  obtain ut' where U: "plane_rows rows n (4 * uvstride - 8 * n) 0 us uvstride 0 0 ut = Some ut'" "length ut' = length ut"
      "\<forall>x < 8 * n. \<forall>y < 4 * rows. texel ut' (8 * n) x y = us ! (y * uvstride + x)"
    using plane [OF assms(4) tx(7)] by auto
  obtain vt' where V: "plane_rows rows n (4 * uvstride - 8 * n) 0 vs uvstride 0 0 vt = Some vt'" "length vt' = length vt"
      "\<forall>x < 8 * n. \<forall>y < 4 * rows. texel vt' (8 * n) x y = vs ! (y * uvstride + x)"
    using plane [OF assms(5) tx(8)] by auto
  have C: "chroma_rows (unat (UVheight u) div 4) (unat (UVwidth u) div 8) us vs uvstride (unat (UVrowpitch u)) 0 0 ut vt = Some (ut', vt')"
    using U(1) V(1) pitch(2) u nr by (simp add: chroma_split)
  let ?t = "u\<lparr>Yltexture := Some yl', Yrtexture := Some yr', Utexture := Some ut', Vtexture := Some vt'\<rparr>"
  have "GX_FillTextureYUV ys us vs ystride uvstride t = Some ?t"
    using Y(1) C u by (simp add: GX_FillTextureYUV_def u_def [symmetric] Let_def)
  moreover have "configured ?t" using cu by (simp add: configured_def Let_def)
  moreover have "fits ?t" using tx Y(2,3) U(2) V(2) u by (simp add: fits_def)
  moreover have "luma_at ?t x y = luma_at (u\<lparr>Yltexture := Some yl', Yrtexture := Some yr'\<rparr>) x y" for x y
    by (simp add: luma_at_def Let_def)
  ultimately show ?thesis using Y(4) U(3) V(3) u nr by (intro exI [of _ ?t]) (simp add: chroma_at_def)
qed

text \<open>C17. A decoded picture is uploaded completely: when the textures have room for the configured size and the planes have their
  rows, no byte is read or written outside, every luma byte, left and right of the border between the two luma textures, and
  every byte of the two chroma planes ends at the place where the graphics processor looks for it, and the textures are
  ready for the next picture.\<close>

theorem picture_uploaded:
  assumes "configured t" and "fits t" and "plane_ok ys ystride (Ywidth t) (Yheight t)"
    and "plane_ok us uvstride (UVwidth t) (UVheight t)" and "plane_ok vs uvstride (UVwidth t) (UVheight t)"
  shows "\<exists>t'. GX_FillTextureYUV ys us vs ystride uvstride t = Some t' \<and> configured t' \<and> fits t' \<and>
    (\<forall>x < unat (Ywidth t). \<forall>y < unat (Yheight t). luma_at t' x y = ys ! (y * ystride + x)) \<and>
    (\<forall>x < unat (UVwidth t). \<forall>y < unat (UVheight t).
       chroma_at t' (Utexture t') x y = us ! (y * uvstride + x) \<and> chroma_at t' (Vtexture t') x y = vs ! (y * uvstride + x))"
  by (rule upload_complete [OF assms])

section \<open>The room there is\<close>

text \<open>The textures as \<open>gx_video_alloc_texture_memory\<close> leaves them; no upload changes their sizes.\<close>

definition allocated :: "gx_textures \<Rightarrow> bool" where
  "allocated t \<longleftrightarrow>
     (case (Yltexture t, Yrtexture t, Utexture t, Vtexture t) of
        (Some yl, Some yr, Some ut, Some vt) \<Rightarrow>
          length yl = 1024 * MAX_HEIGHT \<and> length yr = (MAX_WIDTH - 1024) * MAX_HEIGHT \<and>
          length ut = 1024 * (MAX_HEIGHT div 2) \<and> length vt = 1024 * (MAX_HEIGHT div 2)
      | _ \<Rightarrow> False)"

lemma alloc_allocated:
  assumes "gx_video_alloc_texture_memory lib (m, t) = Some (m', t')" and "fst (AddMem2Area lib (of_nat texture_area) MEM2_VIDEO m)"
  shows "allocated t'"
proof -
  have "\<exists>u ps. t' = u\<lparr>Yltexture := Some (replicate (1024 * MAX_HEIGHT) 0), Yrtexture := Some (replicate ((MAX_WIDTH - 1024) * MAX_HEIGHT) 0),
      Utexture := Some (replicate (1024 * (MAX_HEIGHT div 2)) 0x80), Vtexture := Some (replicate (1024 * (MAX_HEIGHT div 2)) 0x80),
      texture_ptrs := ps\<rparr>"
    using assms unfolding gx_video_alloc_texture_memory_def Let_def
    by (auto split: prod.splits bool.splits if_splits)
  then show ?thesis by (auto simp: allocated_def)
qed

lemma small_sizes:
  assumes "allocated t"
  shows "fits (config_sizes 640 480 t)" "fits (config_sizes 854 480 t)" "fits (config_sizes 1280 720 t)"
  using assms
  by (auto simp: allocated_def fits_def config_sizes_def Let_def round8_def round4_def c_div_def MAX_HEIGHT_def MAX_WIDTH_def
      split: option.splits)

text \<open>The sizes belong to the configured size of the picture; before the first picture there are none.\<close>

definition same_sizes :: "gx_textures \<Rightarrow> gx_textures \<Rightarrow> bool" where
  "same_sizes t u \<longleftrightarrow>
     Ylwidth t = Ylwidth u \<and> Yrwidth t = Yrwidth u \<and> Ywidth t = Ywidth u \<and> Yheight t = Yheight u \<and>
     UVwidth t = UVwidth u \<and> UVheight t = UVheight u \<and> wl t = wl u \<and> wr t = wr u"

definition sized :: "gx_textures \<Rightarrow> bool" where
  "sized t \<longleftrightarrow>
     (yuv_cfg_w t = 0 \<and> yuv_cfg_h t = 0) \<or> (configured t \<and> same_sizes t (config_sizes (yuv_cfg_w t) (yuv_cfg_h t) t))"

lemma config_sizes_textures [simp]:
  "Yltexture (config_sizes w h t) = Yltexture t" "Yrtexture (config_sizes w h t) = Yrtexture t"
  "Utexture (config_sizes w h t) = Utexture t" "Vtexture (config_sizes w h t) = Vtexture t"
  "yuv_cfg_w (config_sizes w h t) = yuv_cfg_w t" "yuv_cfg_h (config_sizes w h t) = yuv_cfg_h t"
  by (simp_all add: config_sizes_def Let_def)

lemma config_sizes_same: "same_sizes (config_sizes w h t) (config_sizes w h u)"
  by (simp add: same_sizes_def config_sizes_def Let_def)

lemma same_sizes_trans: "same_sizes t u \<Longrightarrow> same_sizes u v \<Longrightarrow> same_sizes t v"
  by (simp add: same_sizes_def)

lemma config_sized:
  assumes "sized t" and "0 < w" "w < 65000" "0 < h" "h < 65000"
  defines "u \<equiv> gx_video_config_yuv w h t"
  shows "sized u" "configured u" "same_sizes u (config_sizes w h t)" "allocated u = allocated t"
    "Yltexture u = Yltexture t"
proof -
  show "Yltexture u = Yltexture t" "allocated u = allocated t"
    by (auto simp: u_def gx_video_config_yuv_def allocated_def split: option.splits)
  have "configured u \<and> same_sizes u (config_sizes w h t) \<and> yuv_cfg_w u = w \<and> yuv_cfg_h u = h"
  proof (cases "yuv_cfg_w t = w \<and> yuv_cfg_h t = h")
    case True
    then show ?thesis using assms by (auto simp: sized_def gx_video_config_yuv_def)
  next
    case False
    then have "u = config_sizes w h (t\<lparr>yuv_cfg_w := w, yuv_cfg_h := h\<rparr>)" by (auto simp: u_def gx_video_config_yuv_def)
    then show ?thesis using config_configured [of w h] assms(2-5) config_sizes_same by simp
  qed
  then show "configured u" "same_sizes u (config_sizes w h t)" "sized u"
    using same_sizes_trans [OF _ config_sizes_same] by (auto simp: sized_def)
qed

lemma fits_same_sizes:
  "same_sizes t u \<Longrightarrow> allocated t \<Longrightarrow> allocated u \<Longrightarrow> fits t = fits u"
  by (auto simp: fits_def same_sizes_def allocated_def split: option.splits)

lemma full_hd_sizes:
  "unat (Ylwidth (config_sizes 1920 1080 t)) = 1024" "unat (Yheight (config_sizes 1920 1080 t)) = 1080"
  "wl (config_sizes 1920 1080 t) = 127" "wr (config_sizes 1920 1080 t) = 113"
  by (simp_all add: config_sizes_def Let_def round8_def round4_def)

lemma full_hd_overruns:
  assumes "allocated c" and "same_sizes c (config_sizes 1920 1080 t)"
  shows "GX_FillTextureYUV ys us vs ystride uvstride c = None" "\<not> fits c"
proof -
  obtain yl yr ut vt where tx: "Yltexture c = Some yl" "Yrtexture c = Some yr" "Utexture c = Some ut" "Vtexture c = Some vt"
      "length yl = 1048576"
    using assms(1) by (auto simp: allocated_def MAX_HEIGHT_def split: option.splits)
  have sz: "unat (Ylwidth c) = 1024" "unat (Yheight c) = 1080" "wl c = 127" "wr c = 113"
    using assms(2) full_hd_sizes [of t] by (simp_all add: same_sizes_def)
  show "\<not> fits c" using tx sz by (simp add: fits_def)
  have none: "luma_rows 270 127 113 ys ystride pitch 0 0 32 yl yr = None" for pitch
  proof (rule ccontr)
    assume "luma_rows 270 127 113 ys ystride pitch 0 0 32 yl yr \<noteq> None"
    then obtain a where "plane_rows 270 127 (8 * 113 + pitch) 32 ys ystride 0 0 yl = Some a"
      using luma_split [of 113 270 127 ys ystride pitch 0 0 32 yl yr] by (auto split: bind_splits)
    from plane_rows_bound [OF this] tx(5) show False by simp
  qed
  have "\<exists>u. set_pitches (int ystride) (int uvstride) c = u \<and> Yltexture u = Some yl \<and> Yrtexture u = Some yr \<and> Utexture u = Some ut \<and>
      Vtexture u = Some vt \<and> unat (Yheight u) = 1080 \<and> wl u = 127 \<and> wr u = 113"
    using tx sz by (simp add: set_pitches_def)
  with none show "GX_FillTextureYUV ys us vs ystride uvstride c = None"
    by (auto simp: GX_FillTextureYUV_def Let_def)
qed

lemma upload_sized:
  assumes "GX_FillTextureYUV ys us vs ystride uvstride t = Some u"
  shows "same_sizes u t" "yuv_cfg_w u = yuv_cfg_w t" "yuv_cfg_h u = yuv_cfg_h t"
  using assms by (auto simp: GX_FillTextureYUV_def Let_def set_pitches_def same_sizes_def split: option.splits bind_splits if_splits)

definition example_textures :: gx_textures where
  "example_textures = \<lparr>Yltexture = Some (replicate 1048576 0), Yrtexture = Some (replicate 262144 0), Utexture = Some (replicate 524288 0x80),
     Vtexture = Some (replicate 524288 0x80), Yltexsize = 0, Yrtexsize = 0, UVtexsize = 0, Ylwidth = 0, Yrwidth = 0, Ywidth = 0, Yheight = 0,
     UVwidth = 0, UVheight = 0, st0 = 0, st1 = 0, wl = 0, wr = 0, Yrowpitch = 0, UVrowpitch = 0, yuv_cfg_w = 0, yuv_cfg_h = 0, texture_ptrs = []\<rparr>"

lemma example_allocated: "allocated example_textures"
  by (simp add: example_textures_def allocated_def MAX_HEIGHT_def MAX_WIDTH_def)

theorem picture_uploaded_witness:
  "\<exists>t'. GX_FillTextureYUV (replicate 921600 7) (replicate 230400 8) (replicate 230400 9) 1280 640 (config_sizes 1280 720 example_textures) =
     Some t' \<and> luma_at t' 1279 719 = 7"
proof -
  let ?c = "config_sizes 1280 720 example_textures"
  have c: "configured ?c" "fits ?c" using config_configured small_sizes(3) [OF example_allocated] by simp_all
  have s: "unat (Ywidth ?c) = 1280" "unat (Yheight ?c) = 720" "unat (UVwidth ?c) = 640" "unat (UVheight ?c) = 360"
    by (simp_all add: config_sizes_def Let_def round8_def round4_def c_div_def)
  have p: "plane_ok (replicate 921600 7) 1280 (Ywidth ?c) (Yheight ?c)"
      "plane_ok (replicate 230400 8) 640 (UVwidth ?c) (UVheight ?c)" "plane_ok (replicate 230400 9) 640 (UVwidth ?c) (UVheight ?c)"
    by (simp_all add: plane_ok_def s)
  from picture_uploaded [OF c p] obtain t' where
    "GX_FillTextureYUV (replicate 921600 7) (replicate 230400 8) (replicate 230400 9) 1280 640 ?c = Some t'"
    "\<forall>x < 1280. \<forall>y < 720. luma_at t' x y = replicate 921600 7 ! (y * 1280 + x)" by (auto simp: s)
  then show ?thesis by (intro exI [of _ t']) simp
qed

end
