(* ===== verification/GxSetupFacts.thy ===== *)
theory GxSetupFacts
  imports GxSetup GxVideoFacts
begin

text \<open>
  What the setup of the graphics processor guarantees: the program of the texture stages is complete and every stage reads
  only what is set up or written before it; the vertices stay inside their arrays; texture coordinates stay inside the textures;
  the picture fills the screen.
\<close>

section \<open>The program of the texture stages is well formed\<close>

text \<open>A register of the processor holds what was last written to it; what one stage is set to, as far as it is.\<close>

record tev_stage =
  st_order :: "(gx_texcoord \<times> gx_texmap \<times> gx_channel) option"
  st_color_in :: "gx_cc list option"
  st_color_out :: "gx_tevreg option"
  st_alpha_in :: "gx_ca list option"
  st_alpha_out :: "gx_tevreg option"
  st_kcolor :: "gx_ksel option"
  st_kalpha :: "gx_ksel option"

fun set_stage :: "nat \<Rightarrow> tev_call \<Rightarrow> tev_stage \<Rightarrow> tev_stage" where
  "set_stage k (GX_SetTevOrder n c m ch) st = (if n = k then st\<lparr>st_order := Some (c, m, ch)\<rparr> else st)"
| "set_stage k (GX_SetTevColorIn n a b c d) st = (if n = k then st\<lparr>st_color_in := Some [a, b, c, d]\<rparr> else st)"
| "set_stage k (GX_SetTevColorOp n _ _ _ _ r) st = (if n = k then st\<lparr>st_color_out := Some r\<rparr> else st)"
| "set_stage k (GX_SetTevAlphaIn n a b c d) st = (if n = k then st\<lparr>st_alpha_in := Some [a, b, c, d]\<rparr> else st)"
| "set_stage k (GX_SetTevAlphaOp n _ _ _ _ r) st = (if n = k then st\<lparr>st_alpha_out := Some r\<rparr> else st)"
| "set_stage k (GX_SetTevKColorSel n s) st = (if n = k then st\<lparr>st_kcolor := Some s\<rparr> else st)"
| "set_stage k (GX_SetTevKAlphaSel n s) st = (if n = k then st\<lparr>st_kalpha := Some s\<rparr> else st)"
| "set_stage k _ st = st"

definition stage_of :: "tev_call list \<Rightarrow> nat \<Rightarrow> tev_stage" where
  "stage_of cs k = fold (set_stage k) cs
     \<lparr>st_order = None, st_color_in = None, st_color_out = None, st_alpha_in = None, st_alpha_out = None,
      st_kcolor = None, st_kalpha = None\<rparr>"

text \<open>The register an input reads: its alpha (\<open>True\<close>) or its colour.\<close>

fun color_reads :: "gx_cc \<Rightarrow> (bool \<times> gx_tevreg) list" where
  "color_reads GX_CC_CPREV = [(False, GX_TEVPREV)]"
| "color_reads GX_CC_APREV = [(True, GX_TEVPREV)]"
| "color_reads GX_CC_C0 = [(False, GX_TEVREG0)]"
| "color_reads GX_CC_C1 = [(False, GX_TEVREG1)]"
| "color_reads GX_CC_C2 = [(False, GX_TEVREG2)]"
| "color_reads GX_CC_A2 = [(True, GX_TEVREG2)]"
| "color_reads _ = []"

fun alpha_reads :: "gx_ca \<Rightarrow> (bool \<times> gx_tevreg) list" where
  "alpha_reads GX_CA_APREV = [(True, GX_TEVPREV)]"
| "alpha_reads GX_CA_A0 = [(True, GX_TEVREG0)]"
| "alpha_reads GX_CA_A1 = [(True, GX_TEVREG1)]"
| "alpha_reads _ = []"

text \<open>The inputs of one stage: registers written before, textures that are loaded at coordinates that are generated, the
  vertex colour only where the stage gets it, a constant only where one is selected.\<close>

definition stage_ok :: "gx_texcoord list \<Rightarrow> gx_texmap list \<Rightarrow> (bool \<times> gx_tevreg) list \<Rightarrow> tev_stage \<Rightarrow> bool" where
  "stage_ok coords maps known st =
     (case (st_order st, st_color_in st, st_color_out st, st_alpha_in st, st_alpha_out st) of
        (Some (c, m, ch), Some cin, Some _, Some ain, Some _) \<Rightarrow>
          list_all (\<lambda>r. List.member known r) (concat (map color_reads cin) @ concat (map alpha_reads ain)) \<and>
          (List.member cin GX_CC_TEXC \<or> List.member ain GX_CA_TEXA \<longrightarrow> List.member coords c \<and> List.member maps m) \<and>
          (List.member cin GX_CC_RASC \<or> List.member ain GX_CA_RASA \<longrightarrow> ch = GX_COLOR0A0) \<and>
          (List.member cin GX_CC_KONST \<longrightarrow> st_kcolor st \<noteq> None) \<and> (List.member ain GX_CA_KONST \<longrightarrow> st_kalpha st \<noteq> None)
      | _ \<Rightarrow> False)"

fun stages_ok :: "gx_texcoord list \<Rightarrow> gx_texmap list \<Rightarrow> (bool \<times> gx_tevreg) list \<Rightarrow> tev_stage list \<Rightarrow> bool" where
  "stages_ok coords maps known [] = True"
| "stages_ok coords maps known (st # sts) =
     (stage_ok coords maps known st \<and>
      stages_ok coords maps ((False, the (st_color_out st)) # (True, the (st_alpha_out st)) # known) sts)"

definition tev_calls :: "gx_call list \<Rightarrow> tev_call list" where
  "tev_calls cs = concat (map (\<lambda>c. case c of Tev t \<Rightarrow> [t] | _ \<Rightarrow> []) cs)"

definition generated_coords :: "tev_call list \<Rightarrow> gx_texcoord list" where
  "generated_coords cs = concat (map (\<lambda>c. case c of GX_SetTexCoordGen t _ \<Rightarrow> [t] | _ \<Rightarrow> []) cs)"

definition loaded_maps :: "tev_call list \<Rightarrow> gx_texmap list" where
  "loaded_maps cs = concat (map (\<lambda>c. case c of GX_LoadTexObj _ m \<Rightarrow> [m] | _ \<Rightarrow> []) cs)"

definition enabled_stages :: "tev_call list \<Rightarrow> nat" where
  "enabled_stages cs = fold (\<lambda>c n. case c of GX_SetNumTevStages k \<Rightarrow> k | _ \<Rightarrow> n) cs 0"

text \<open>Before the first stage no register holds anything the program may rely on.\<close>

definition program_ok :: "gx_call list \<Rightarrow> bool" where
  "program_ok cs =
     (let ts = tev_calls cs
      in stages_ok (generated_coords ts) (loaded_maps ts) [] (map (stage_of ts) [0..<enabled_stages ts]))"

lemma tev_calls_append [simp]: "tev_calls (xs @ ys) = tev_calls xs @ tev_calls ys"
  by (simp add: tev_calls_def)

lemma tev_calls_Tev [simp]: "tev_calls (map Tev ts) = ts"
  by (induction ts) (auto simp: tev_calls_def)

lemma tev_calls_Vertex [simp]: "tev_calls (map Vertex vs) = []"
  by (induction vs) (auto simp: tev_calls_def)

lemma stages_well_formed:
  "list_all (\<lambda>InD. stages_ok [GX_TEXCOORD0, GX_TEXCOORD1, GX_TEXCOORD2] [GX_TEXMAP0, GX_TEXMAP1, GX_TEXMAP2, GX_TEXMAP3] []
     (map (stage_of (tev_stages InD)) [0..<15])) [GX_CC_ZERO, GX_CC_CPREV]"
  by code_simp

lemma stage_of_stages:
  "stage_of ([GX_SetNumChans a, GX_SetNumTexGens b, GX_SetTexCoordGen c d, GX_SetTexCoordGen e f, GX_SetTexCoordGen g h,
     GX_SetNumTevStages n] @ tev_kcolors lv @ cs @ texture_objects t) k = stage_of cs k"
  by (simp add: stage_of_def tev_kcolors_def texture_objects_def split: prod.split)

lemma stages_set_stages_only: "generated_coords (tev_stages InD) = []" "loaded_maps (tev_stages InD) = []"
  "enabled_stages (xs @ tev_stages InD @ ys) = enabled_stages (xs @ ys)"
  by (simp_all add: tev_stages_def generated_coords_def loaded_maps_def enabled_stages_def)

lemma coords_maps_append [simp]:
  "generated_coords (xs @ ys) = generated_coords xs @ generated_coords ys" "loaded_maps (xs @ ys) = loaded_maps xs @ loaded_maps ys"
  by (simp_all add: generated_coords_def loaded_maps_def)

lemma coords_maps_others:
  "generated_coords (tev_kcolors lv) = []" "loaded_maps (tev_kcolors lv) = []" "generated_coords (texture_objects t) = []"
  "loaded_maps (texture_objects t) = [GX_TEXMAP0, GX_TEXMAP1, GX_TEXMAP2, GX_TEXMAP3]"
  by (cases "tev_levels lv"; simp add: generated_coords_def loaded_maps_def tev_kcolors_def texture_objects_def)+


section \<open>Brightness and contrast\<close>

text \<open>With the statics' values the contrast constant is full; the brightness constant, which the last stage adds to
  the picture, is 1.\<close>

lemma default_tev_levels: "tev_levels default_levels = (255, 1, GX_CC_ZERO)"
  by (simp add: tev_levels_def default_levels_def byte_of_def f32_to_int_def c_div_def Let_def)

section \<open>The quad\<close>

lemma f32_between:
  assumes "1 / 2 ^ 100 \<le> x"
  shows "x * (1 - 1 / 2 ^ 24) \<le> f32 x" "f32 x \<le> x * (1 + 1 / 2 ^ 24)"
proof -
  have "0 < x" using assms by (rule less_le_trans [rotated]) simp
  then have "\<bar>f32 x - x\<bar> \<le> x / 2 ^ 24" using f32_error [of x] assms by simp
  then show "x * (1 - 1 / 2 ^ 24) \<le> f32 x" "f32 x \<le> x * (1 + 1 / 2 ^ 24)"
    unfolding abs_le_iff by (simp_all add: field_simps)
qed

text \<open>Sizes of a picture and of the screen.\<close>

definition screen_size :: "int \<Rightarrow> bool" where
  "screen_size n \<longleftrightarrow> 128 \<le> n \<and> n \<le> 2048"

lemma ratio_small:
  assumes "screen_size m" and "screen_size n"
  shows "1 / 2 ^ 4 \<le> (of_int m / of_int n :: rat)" "(of_int m / of_int n :: rat) \<le> 2 ^ 4"
proof -
  have "(128::rat) \<le> of_int m" "(of_int m::rat) \<le> 2048" "(128::rat) \<le> of_int n" "(of_int n::rat) \<le> 2048"
    using assms by (simp_all add: screen_size_def)
  then show "1 / 2 ^ 4 \<le> (of_int m / of_int n :: rat)" "(of_int m / of_int n :: rat) \<le> 2 ^ 4"
    by (simp_all add: field_simps)
qed

lemma ratio_normal: "screen_size m \<Longrightarrow> screen_size n \<Longrightarrow> 1 / 2 ^ 100 \<le> (of_int m / of_int n :: rat)"
  by (rule order_trans [OF _ ratio_small(1)]) simp_all

text \<open>A size scaled by the rounded ratio that fits it, and a bound for a size scaled by any larger ratio.\<close>

lemma fitted:
  assumes "screen_size v" and "screen_size e"
  shows "\<bar>f32 (of_int v * f32 (of_int e / of_int v)) - of_int e\<bar> \<le> 1 / 2 ^ 10"
proof -
  let ?e = "1 / 2 ^ 24 :: rat" and ?r = "of_int e / of_int v :: rat" and ?v = "of_int v :: rat" and ?E = "of_int e :: rat"
  have v: "128 \<le> ?v" "128 \<le> ?E" "?E \<le> 2048" using assms by (simp_all add: screen_size_def)
  note r = ratio_normal [OF assms(2,1)]
  define s where "s = f32 ?r"
  have eq: "?v * (?r * c) = ?E * c" for c using v by simp
  have v0: "0 \<le> ?v" using v(1) by linarith
  have p: "?E * (1 - ?e) \<le> ?v * s" "?v * s \<le> ?E * (1 + ?e)"
    using mult_left_mono [OF f32_between(1) [OF r] v0] mult_left_mono [OF f32_between(2) [OF r] v0]
    unfolding eq s_def by blast+
  then have "1 / 2 ^ 100 \<le> ?v * s" using v by (intro order_trans [OF _ p(1)]) simp
  from f32_between [OF this] p v show ?thesis
    unfolding s_def [symmetric] abs_le_iff by (simp add: field_simps)
qed

lemma ratio_compare:
  assumes "screen_size a" and "screen_size b" and "screen_size c" and "screen_size d"
    and "f32 (of_int a / of_int b) \<le> f32 (of_int c / of_int d)"
  shows "of_int a * of_int d * (1 - 1 / 2 ^ 24) \<le> of_int c * of_int b * (1 + 1 / 2 ^ 24 :: rat)"
proof -
  let ?e = "1 / 2 ^ 24 :: rat" and ?b = "of_int b :: rat" and ?d = "of_int d :: rat"
  have r: "1 / 2 ^ 100 \<le> (of_int a / ?b :: rat)" "1 / 2 ^ 100 \<le> (of_int c / ?d :: rat)"
    by (fact ratio_normal [OF assms(1,2)], fact ratio_normal [OF assms(3,4)])
  have bd: "0 < ?b" "0 < ?d" using assms(2,4) by (simp_all add: screen_size_def)
  have "of_int a / ?b * (1 - ?e) \<le> of_int c / ?d * (1 + ?e)"
    using f32_between(1) [OF r(1)] f32_between(2) [OF r(2)] assms(5) by linarith
  then have "of_int a / ?b * (1 - ?e) * (?b * ?d) \<le> of_int c / ?d * (1 + ?e) * (?b * ?d)"
    using bd by (intro mult_right_mono) simp_all
  moreover have eq: "of_int a / ?b * x * (?b * ?d) = of_int a * ?d * x" "of_int c / ?d * x * (?b * ?d) = of_int c * ?b * x" for x
    using bd by simp_all
  ultimately show ?thesis unfolding eq by blast
qed

lemma scaled:
  assumes "screen_size V" and "screen_size E" and "screen_size v" and "screen_size e"
    and "of_int E * of_int v * (1 - 1 / 2 ^ 24) \<le> of_int V * of_int e * (1 + 1 / 2 ^ 24 :: rat)"
  shows "of_int E - 1 / 2 ^ 10 \<le> f32 (of_int V * f32 (of_int e / of_int v))"
    "f32 (of_int V * f32 (of_int e / of_int v)) \<le> 40000"
proof -
  let ?\<epsilon> = "1 / 2 ^ 24 :: rat" and ?r = "of_int e / of_int v :: rat" and ?V = "of_int V :: rat" and ?E = "of_int E :: rat"
    and ?v = "of_int v :: rat" and ?e = "of_int e :: rat"
  have b: "128 \<le> ?V" "?V \<le> 2048" "128 \<le> ?E" "?E \<le> 2048" "128 \<le> ?v" "128 \<le> ?e" "?e \<le> 2048"
    using assms by (simp_all add: screen_size_def)
  have r4: "1 / 2 ^ 4 \<le> ?r" "?r \<le> 2 ^ 4" using ratio_small [OF assms(4,3)] by blast+
  note r = ratio_normal [OF assms(4,3)]
  define s where "s = f32 ?r"
  have s: "?r * (1 - ?\<epsilon>) \<le> s" "s \<le> ?r * (1 + ?\<epsilon>)" unfolding s_def by (fact f32_between [OF r])+
  have V0: "0 \<le> ?V" using b(1) by linarith
  have "?E * (1 - ?\<epsilon>) * ?v \<le> ?V * ?r * (1 + ?\<epsilon>) * ?v"
    using assms(5) b(5) by (simp add: mult.commute mult.left_commute)
  then have Er: "?E * (1 - ?\<epsilon>) \<le> ?V * ?r * (1 + ?\<epsilon>)" by (rule mult_right_le_imp_le) (use b(5) in linarith)
  have Vs: "?V * ?r * (1 - ?\<epsilon>) \<le> ?V * s" "?V * s \<le> ?V * ?r * (1 + ?\<epsilon>)"
    using mult_left_mono [OF s(1) V0] mult_left_mono [OF s(2) V0] by (simp_all add: mult.assoc)
  have Vr: "?V * ?r \<le> 2048 * 2 ^ 4" by (rule mult_mono) (use b r4 in simp_all)
  have lo: "?E * (1 - 3 * ?\<epsilon>) \<le> ?V * s" using Er Vs(1) b(3) by simp
  have up: "?V * s \<le> 2048 * 2 ^ 4 * (1 + ?\<epsilon>)" using Vs(2) Vr by simp
  have "1 / 2 ^ 100 \<le> ?V * s" using b(3) by (intro order_trans [OF _ lo]) simp
  from f32_between [OF this] lo up b(3,4) show "?E - 1 / 2 ^ 10 \<le> f32 (?V * f32 ?r)" "f32 (?V * f32 ?r) \<le> 40000"
    unfolding s_def [symmetric] by simp_all
qed

lemma s16_id: "0 \<le> n \<Longrightarrow> n < 32768 \<Longrightarrow> s16 n = n" "0 \<le> n \<Longrightarrow> n < 32768 \<Longrightarrow> s16 (- n) = - n"
  by (simp_all add: s16_def signed_take_bit_int_eq_self_iff)

lemma half_size_bounds:
  assumes "screen_size E" and "even E" and "of_int E - 1 / 2 ^ 10 \<le> x" and "x \<le> 40000"
  shows "E div 2 - 1 \<le> f32_to_int (x / 2)" "0 \<le> f32_to_int (x / 2)" "f32_to_int (x / 2) < 32768"
    "x \<le> of_int E + 1 / 2 ^ 10 \<Longrightarrow> f32_to_int (x / 2) \<le> E div 2"
proof -
  obtain m where m: "E = 2 * m" using assms(2) by (elim evenE)
  have "0 \<le> x" using assms(1,3) by (simp add: screen_size_def order_trans [OF _ assms(3)])
  then have f: "f32_to_int (x / 2) = \<lfloor>x / 2\<rfloor>" by (simp add: f32_to_int_def)
  show "E div 2 - 1 \<le> f32_to_int (x / 2)" "0 \<le> f32_to_int (x / 2)" "f32_to_int (x / 2) < 32768"
    using assms(3,4) \<open>0 \<le> x\<close> by (simp_all add: f m le_floor_iff floor_less_iff)
  show "f32_to_int (x / 2) \<le> E div 2" if "x \<le> of_int E + 1 / 2 ^ 10"
    using that by (simp add: f m floor_le_iff)
qed


text \<open>The offered 1280x720 on the console's 640x480: the quad is 852 units wide, so a quarter of the picture's width is
  outside the screen.\<close>

lemma wide_picture_cropped:
  assumes "Ywidth t = 1280" and "Yheight t = 720" and "vm_fbWidth vm = 640" and "vm_efbHeight vm = 480"
  shows "square (draw_scaling vm t g) = [- 426, 240, 0, 426, 240, 0, 426, - 240, 0, - 426, - 240, 0]"
proof -
  have 1: "f32 (4 / 3) = 11184811 / 2 ^ 23" and 2: "f32 (16 / 9) = 14913081 / 2 ^ 23" and 3: "f32 (2 / 3) = 11184811 / 2 ^ 24"
    using f32_fraction [of 3 4 23] f32_fraction [of 9 16 23] f32_fraction [of 3 2 24] by (simp_all add: rdiv_def)
  have sc: "quad_scale 1280 720 640 480 = 11184811 / 2 ^ 24"
    using 1 2 3 by (simp add: quad_scale_def)
  have p: "of_int 1280 * (11184811 / 2 ^ 24 :: rat) = of_int (1280 * 11184811) / of_int (2 ^ 24)"
    "of_int 720 * (11184811 / 2 ^ 24 :: rat) = of_int (720 * 11184811) / of_int (2 ^ 24)" by simp_all
  have q: "f32 (of_int (1280 * 11184811) / of_int (2 ^ 24)) = of_int (rdiv (1280 * 11184811 * 2 ^ 14) (2 ^ 24)) / 2 ^ 14"
    "f32 (of_int (720 * 11184811) / of_int (2 ^ 24)) = of_int (rdiv (720 * 11184811 * 2 ^ 15) (2 ^ 24)) / 2 ^ 15"
    by (rule f32_fraction; simp)+
  have "half_size 1280 (11184811 / 2 ^ 24) = 426" "half_size 720 (11184811 / 2 ^ 24) = 240"
    unfolding half_size_def p q using floor_divide_of_int_eq [of 6990507 16384, where ?'a = rat]
    by (simp_all add: rdiv_def f32_to_int_def s16_def)
  then show ?thesis
    using assms by (simp add: draw_scaling_def issue_def sc s16_def Let_def)
qed

text \<open>Both at once: 1280x720 on 640x480.\<close>

definition example_screen :: vmode_obj where
  "example_screen = \<lparr>vm_fbWidth = 640, vm_efbHeight = 480, vm_xfbHeight = 480, vm_viWidth = 704, vm_viHeight = 480,
     vm_viXOrigin = 8, vm_viYOrigin = 0, vm_non_interlace = False\<rparr>"


section \<open>Texture coordinates\<close>

lemma unit_ratio:
  assumes "0 \<le> a" and "a \<le> b" and "0 < b"
  shows "0 \<le> f32 (of_int a / of_int b) \<and> f32 (of_int a / of_int b) \<le> 1"
proof -
  have "0 \<le> (of_int a / of_int b :: rat)" "(of_int a / of_int b :: rat) \<le> of_int 1" using assms by simp_all
  then show ?thesis using f32_le_int [of "of_int a / of_int b" 1] f32_nonneg by simp
qed

text \<open>A picture of at most 1024 columns: every coordinate is inside its texture, from 0 to 1.\<close>

lemma texture_coordinates_inside:
  assumes "0 < width" and "width \<le> 1024" and "0 < height" and "height \<le> 1024"
  shows "list_all (\<lambda>c. 0 \<le> c \<and> c \<le> 1)
    (texcoordsY (config_texcoords width height (config_sizes width height t) initial_geometry) @
     texcoordsUV (config_texcoords width height (config_sizes width height t) initial_geometry))"
proof -
  let ?t = "config_sizes width height t"
  have r: "uint (round8 n) = (n + 7) div 8 * 8" "uint (round4 n) = (n + 3) div 4 * 4" if "0 \<le> n" "n \<le> 1024" for n
    using that round8_nat [of n] round4_nat [of n] by auto
  have h: "c_div n 2 = n div 2" if "0 < n" for n using that by (simp add: c_div_def)
  have y: "uint (Ywidth ?t) = (width + 7) div 8 * 8" "uint (Yheight ?t) = (height + 3) div 4 * 4"
    "uint (UVwidth ?t) = (width div 2 + 7) div 8 * 8" "uint (UVheight ?t) = (height div 2 + 3) div 4 * 4"
    using assms by (simp_all add: config_sizes_def Let_def r h)
  have small: "uint (Ywidth ?t) \<le> 1024" unfolding y using assms by presburger
  have u: "0 \<le> f32 (of_int width / of_int (uint (Ywidth ?t))) \<and> f32 (of_int width / of_int (uint (Ywidth ?t))) \<le> 1"
    "0 \<le> f32 (of_int height / of_int (uint (Yheight ?t))) \<and> f32 (of_int height / of_int (uint (Yheight ?t))) \<le> 1"
    using assms unfolding y by (intro unit_ratio; presburger)+
  have v: "0 \<le> f32 (of_int (width div 2) / of_int (uint (UVwidth ?t))) \<and> f32 (of_int (width div 2) / of_int (uint (UVwidth ?t))) \<le> 1"
    if "2 \<le> width" using that unfolding y by (intro unit_ratio; presburger)
  have w: "0 \<le> f32 (of_int (height div 2) / of_int (uint (UVheight ?t))) \<and> f32 (of_int (height div 2) / of_int (uint (UVheight ?t))) \<le> 1"
    if "2 \<le> height" using that unfolding y by (intro unit_ratio; presburger)
  have o: "width = 1 \<or> 2 \<le> width" "height = 1 \<or> 2 \<le> height" using assms by auto
  have v': "0 \<le> f32 (of_int (width div 2) / of_int (uint (UVwidth ?t))) \<and> f32 (of_int (width div 2) / of_int (uint (UVwidth ?t))) \<le> 1"
    "0 \<le> f32 (of_int (height div 2) / of_int (uint (UVheight ?t))) \<and> f32 (of_int (height div 2) / of_int (uint (UVheight ?t))) \<le> 1"
    using o v w by (elim disjE; simp)+
  show ?thesis
    using u v' small h [OF assms(1)] h [OF assms(3)]
    by (simp add: config_texcoords_def initial_geometry_def Let_def)
qed

section \<open>The configuration as a whole\<close>

text \<open>The sizes are those theory \<open>GxVideo\<close> computes; a size that is already set issues no call.\<close>

lemma setup_sizes: "fst (gx_video_setup_yuv width height lv vm (t, g)) = gx_video_config_yuv width height t"
  by (simp add: gx_video_setup_yuv_def gx_video_config_yuv_def Let_def)

lemma setup_twice:
  "gx_video_setup_yuv width height lv vm (gx_video_setup_yuv width height lv vm tg) = gx_video_setup_yuv width height lv vm tg"
proof -
  obtain t g where "tg = (t, g)" by fastforce
  then show ?thesis by (simp add: gx_video_setup_yuv_def config_sizes_def Let_def)
qed

text \<open>The four vertices index inside the arrays of corners, of the one colour and of the texture coordinates, whose
  lengths the configuration keeps.\<close>

definition arrays_ok :: "gx_geometry \<Rightarrow> bool" where
  "arrays_ok g \<longleftrightarrow> length (square g) = 3 * 4 \<and> length (texcoordsY g) = 2 * 8 \<and> length (texcoordsUV g) = 2 * 4"

lemma setup_keeps_arrays: "arrays_ok g \<Longrightarrow> arrays_ok (snd (gx_video_setup_yuv width height lv vm (t, g)))"
  by (simp add: arrays_ok_def gx_video_setup_yuv_def draw_scaling_def config_texcoords_def issue_def Let_def)

lemma vertices_inside:
  "list_all (\<lambda>c. case c of GX_Position1x8 i \<Rightarrow> i < 4 | GX_Color1x8 i \<Rightarrow> i < 1 | GX_TexCoord1x8 i \<Rightarrow> i < 8 | _ \<Rightarrow> True) display_list"
  by (simp add: display_list_def vertex_def)

end
