(* ===== verification/Decode.thy ===== *)
theory Decode
  imports FrameQueue GxVideo
begin

text \<open>
  \<open>src/wii/decode.c\<close>: the callbacks of the video decoder. A decode unit is gathered into one buffer and given to FFmpeg; a
  picture that comes out is copied, row by row, into one of two frame buffers, which then enters the frame queue of
  \<open>wii.c\<close>. FFmpeg is a parameter: whether its decoder can be set up, and what it answers to the packets so far.
  \<open>None\<close> as a result is undefined behaviour: a read or write outside of a buffer or through \<open>NULL\<close>.
\<close>

unbundle bit_operations_syntax

definition DECODER_BUFFER_SIZE :: nat where "DECODER_BUFFER_SIZE = 92 * 1024"
definition VIDEO_FORMAT_H264 :: int where "VIDEO_FORMAT_H264 = 1"
definition DR_OK :: int where "DR_OK = 0"
definition DR_NEED_IDR :: int where "DR_NEED_IDR = -1"

section \<open>State\<close>

text \<open>The three planes of a decoded picture with the distances of their rows.\<close>

record picture =
  pic_width :: nat
  pic_height :: nat
  pic_y :: "u8 list"
  pic_u :: "u8 list"
  pic_v :: "u8 list"
  pic_linesize :: "nat \<times> nat \<times> nat"

record ffmpeg =
  av_find :: bool
  av_alloc :: bool
  av_open :: bool
  av_decode :: "u8 list list \<Rightarrow> int \<times> picture option"

record decoder_state =
  has_ctx :: bool
  decodebuffer :: "u8 list option"
  currentTexture :: nat
  packets :: "u8 list list"
  video :: wii_video
  gx :: gx_textures

text \<open>\<open>memalign\<close>: the bytes of a fresh block, or \<open>NULL\<close>.\<close>

type_synonym byte_alloc = "nat \<Rightarrow> u8 list option"

definition set_frame :: "nat \<Rightarrow> (frame_t \<Rightarrow> frame_t) \<Rightarrow> wii_video \<Rightarrow> wii_video" where
  "set_frame i f s = s\<lparr>frames := (frames s)[i := f (wii_frame_buffer i s)]\<rparr>"

section \<open>Setting up\<close>

definition frame_for :: "byte_alloc \<Rightarrow> int \<Rightarrow> int \<Rightarrow> frame_t" where
  "frame_for malloc width height =
     (let ys = word_of_int ((width + 7) AND NOT 7) :: u32; us = word_of_int ((c_div width 2 + 7) AND NOT 7) :: u32
      in \<lparr>frm_y = malloc (unat ys * nat height), frm_u = malloc (unat us * nat (c_div height 2)),
          frm_v = malloc (unat us * nat (c_div height 2)), frm_width = word_of_int width, frm_height = word_of_int height,
          frm_ystride = ys, frm_uvstride = us\<rparr>)"

text \<open>The frame buffers from \<open>i\<close> on; the result is the return value. A failure leaves the frame without planes and stops.\<close>

fun alloc_frames_from :: "nat list \<Rightarrow> byte_alloc \<Rightarrow> int \<Rightarrow> int \<Rightarrow> wii_video \<Rightarrow> int \<times> wii_video" where
  "alloc_frames_from [] malloc width height s = (0, s)"
| "alloc_frames_from (i # is) malloc width height s =
     (let f = frame_for malloc width height
      in if frm_y f = None \<or> frm_u f = None \<or> frm_v f = None then (-1, set_frame i (\<lambda>_. clear_planes f) s)
         else alloc_frames_from is malloc width height (set_frame i (\<lambda>_. f) s))"

definition wii_alloc_frames :: "byte_alloc \<Rightarrow> int \<Rightarrow> int \<Rightarrow> wii_video \<Rightarrow> int \<times> wii_video" where
  "wii_alloc_frames malloc width height s = alloc_frames_from [0..<NUM_BUFFERS] malloc width height s"

definition wii_decoder_cleanup :: "decoder_state \<Rightarrow> decoder_state" where
  "wii_decoder_cleanup s =
     s\<lparr>has_ctx := False, decodebuffer := None, video := (video s)\<lparr>frames := map clear_planes (frames (video s))\<rparr>\<rparr>"

definition wii_decoder_setup ::
  "ffmpeg \<Rightarrow> byte_alloc \<Rightarrow> int \<Rightarrow> int \<Rightarrow> int \<Rightarrow> decoder_state \<Rightarrow> int \<times> decoder_state" where
  "wii_decoder_setup av malloc videoFormat width height s =
     (if videoFormat \<noteq> VIDEO_FORMAT_H264 then (-1, s)
      else if \<not> av_find av then (-1, s)
      else if \<not> av_alloc av then (-1, s\<lparr>has_ctx := False\<rparr>)
      else if \<not> av_open av then (-1, s\<lparr>has_ctx := False\<rparr>)
      else
        (let s1 = s\<lparr>has_ctx := True, packets := [], gx := gx_video_config_yuv width height (gx s)\<rparr>;
             (r, v) = wii_alloc_frames malloc width height (video s1);
             s2 = s1\<lparr>video := v\<rparr>
         in if r \<noteq> 0 then (-1, s2\<lparr>has_ctx := False\<rparr>)
            else
              (case malloc (DECODER_BUFFER_SIZE + 64) of
                 None \<Rightarrow> (-1, wii_decoder_cleanup (s2\<lparr>decodebuffer := None\<rparr>))
               | Some b \<Rightarrow> (0, s2\<lparr>decodebuffer := Some b, currentTexture := 0\<rparr>))))"

section \<open>A decode unit\<close>

text \<open>The fragments, one behind the other.\<close>

fun gather :: "u8 list list \<Rightarrow> nat \<Rightarrow> u8 list \<Rightarrow> (nat \<times> u8 list) option" where
  "gather [] n buf = Some (n, buf)"
| "gather (e # es) n buf =
     (if n + length e \<le> length buf then gather es (n + length e) (blit buf n e) else None)"

text \<open>\<open>w\<close> bytes of each of \<open>h\<close> rows, and \<open>pad\<close> up to the length of a row.\<close>

fun copy_plane :: "nat \<Rightarrow> nat \<Rightarrow> u8 \<Rightarrow> u8 list \<Rightarrow> nat \<Rightarrow> nat \<Rightarrow> u8 list \<Rightarrow> u8 list option" where
  "copy_plane 0 w pad src linesize stride dst = Some dst"
| "copy_plane (Suc h) w pad src linesize stride dst =
     Option.bind (copy_plane h w pad src linesize stride dst) (\<lambda>d.
       if w \<le> stride \<and> h * stride + stride \<le> length d \<and> h * linesize + w \<le> length src then
         Some (blit d (h * stride) (take w (drop (h * linesize) src) @ replicate (stride - w) pad))
       else None)"

definition copy_picture :: "picture \<Rightarrow> frame_t \<Rightarrow> frame_t option" where
  "copy_picture p fb =
     (case (frm_y fb, frm_u fb, frm_v fb, pic_linesize p) of
        (Some y, Some u, Some v, (ly, lu, lv)) \<Rightarrow>
          (let w = min (pic_width p) (unat (frm_width fb)); h = min (pic_height p) (unat (frm_height fb));
               ys = unat (frm_ystride fb); us = unat (frm_uvstride fb)
           in Option.bind (copy_plane h w 0 (pic_y p) ly ys y) (\<lambda>y1.
              Option.bind (copy_plane (h div 2) (w div 2) 0x80 (pic_u p) lu us u) (\<lambda>u1.
              Option.bind (copy_plane (h div 2) (w div 2) 0x80 (pic_v p) lv us v) (\<lambda>v1.
                Some (fb\<lparr>frm_y := Some y1, frm_u := Some u1, frm_v := Some v1\<rparr>)))))
      | _ \<Rightarrow> None)"

text \<open>\<open>fullLength\<close> is what the unit says about itself, \<open>entries\<close> are its fragments.\<close>

definition wii_decoder_submit_decode_unit ::
  "ffmpeg \<Rightarrow> nat \<Rightarrow> u8 list list \<Rightarrow> decoder_state \<Rightarrow> (int \<times> decoder_state) option" where
  "wii_decoder_submit_decode_unit av fullLength entries s =
     (if DECODER_BUFFER_SIZE < fullLength then Some (DR_OK, s)
      else
        (case decodebuffer s of
           None \<Rightarrow> None
         | Some buf0 \<Rightarrow>
             Option.bind (gather entries 0 buf0) (\<lambda>(n, buf).
               let s1 = s\<lparr>decodebuffer := Some buf, packets := packets s @ [take n buf]\<rparr>;
                   (r, got) = av_decode av (packets s1)
               in if r < 0 then Some (DR_NEED_IDR, s1)
                  else
                    (case got of
                       None \<Rightarrow> Some (DR_OK, s1)
                     | Some p \<Rightarrow>
                         map_option (\<lambda>fb.
                           let i = currentTexture s1;
                               v = set_frame i (\<lambda>_. fb) (video s1);
                               v1 = add_frame i (v\<lparr>nextFrame := nextFrame v + 1\<rparr>)
                           in (DR_OK, s1\<lparr>video := v1, currentTexture := (if NUM_BUFFERS \<le> i + 1 then 0 else i + 1)\<rparr>))
                         (copy_picture p (wii_frame_buffer (currentTexture s1) (video s1)))))))"

end
