(* ===== verification/DecodeFacts.thy ===== *)
theory DecodeFacts
  imports Decode GxVideoFacts
begin

text \<open>
  The decoder never leaves its buffers: every decode unit, whatever FFmpeg answers to it, finds the frame buffers and the
  queue in a well-formed state and leaves them so, and a picture lands in its frame buffer row by row. Also: the queue may
  hold more entries than there are frame buffers, so a queued picture can be written over.
\<close>

unbundle bit_operations_syntax

section \<open>Copying\<close>

text \<open>The rows that are read lie inside of the plane.\<close>

definition plane_has :: "u8 list \<Rightarrow> nat \<Rightarrow> nat \<Rightarrow> nat \<Rightarrow> bool" where
  "plane_has src linesize w h \<longleftrightarrow> h = 0 \<or> (h - 1) * linesize + w \<le> length src"

lemma plane_has_less:
  assumes "plane_has src ls w h" and "w' \<le> w" and "h' \<le> h"
  shows "plane_has src ls w' h'"
proof (cases "h' = 0")
  case False
  then have "(h' - 1) * ls + w' \<le> (h - 1) * ls + w" using assms(2,3) by (intro add_mono mult_right_mono) auto
  moreover have "(h - 1) * ls + w \<le> length src" using assms(1,3) False by (auto simp: plane_has_def)
  ultimately show ?thesis unfolding plane_has_def by linarith
qed (simp add: plane_has_def)

lemma row_fits: "y < h \<Longrightarrow> h * stride \<le> n \<Longrightarrow> y * stride + stride \<le> (n::nat)"
proof -
  assume "y < h" and n: "h * stride \<le> n"
  then have "Suc y * stride \<le> h * stride" by (intro mult_right_mono) auto
  with n show ?thesis by simp
qed

lemma row_index: "x < stride \<Longrightarrow> y < h \<Longrightarrow> h * stride \<le> n \<Longrightarrow> y * stride + x < (n::nat)"
  using row_fits [of y h stride n] by simp

lemma copy_plane_some:
  assumes "w \<le> stride" and "h * stride \<le> length dst" and "plane_has src ls w h"
  shows "\<exists>d. copy_plane h w pad src ls stride dst = Some d \<and> length d = length dst \<and>
    (\<forall>y < h. \<forall>x < stride. d ! (y * stride + x) = (if x < w then src ! (y * ls + x) else pad)) \<and>
    (\<forall>k < length dst. h * stride \<le> k \<longrightarrow> d ! k = dst ! k)"
  using assms(2,3)
proof (induction h)
  case 0
  then show ?case by simp
next
  case (Suc h)
  have "plane_has src ls w h" using Suc.prems(2) by (rule plane_has_less) auto
  with Suc obtain d where d: "copy_plane h w pad src ls stride dst = Some d" "length d = length dst"
      "\<forall>y < h. \<forall>x < stride. d ! (y * stride + x) = (if x < w then src ! (y * ls + x) else pad)"
      "\<forall>k < length dst. h * stride \<le> k \<longrightarrow> d ! k = dst ! k" by auto
  let ?row = "take w (drop (h * ls) src) @ replicate (stride - w) pad"
  have src: "h * ls + w \<le> length src" using Suc.prems(2) by (simp add: plane_has_def)
  then have row: "length ?row = stride" using assms(1) by simp
  have in_row: "?row ! x = (if x < w then src ! (h * ls + x) else pad)" if "x < stride" for x
    using that src by (simp add: nth_append)
  have room: "h * stride + length ?row \<le> length d" using row d(2) Suc.prems(1) by simp
  have at: "blit d (h * stride) ?row ! k =
      (if h * stride \<le> k \<and> k < h * stride + stride then ?row ! (k - h * stride) else d ! k)" if "k < length dst" for k
    using nth_blit [OF room, of k] that d(2) unfolding row by simp
  have new: "blit d (h * stride) ?row ! (y * stride + x) = (if x < w then src ! (y * ls + x) else pad)"
    if y: "y < Suc h" and x: "x < stride" for x y
  proof (cases "y = h")
    case True
    with at [of "h * stride + x"] in_row [OF x] x row_index [OF x, of h "Suc h"] Suc.prems(1) show ?thesis by simp
  next
    case False
    then have "y < h" using y by simp
    moreover from row_index [OF x this order_refl] have "y * stride + x < h * stride" .
    ultimately show ?thesis using at [of "y * stride + x"] d(3) x Suc.prems(1) by simp
  qed
  have "copy_plane (Suc h) w pad src ls stride dst = Some (blit d (h * stride) ?row)"
    using d src assms(1) Suc.prems(1) by simp
  moreover have "length (blit d (h * stride) ?row) = length dst" using length_blit [OF room] d(2) by simp
  moreover have "blit d (h * stride) ?row ! k = dst ! k" if "k < length dst" "Suc h * stride \<le> k" for k
    using at [OF that(1)] that d(4) by simp
  ultimately show ?case using new by blast
qed

lemma gather_some:
  assumes "n + sum_list (map length es) \<le> length buf"
  shows "\<exists>b. gather es n buf = Some (n + sum_list (map length es), b) \<and> length b = length buf \<and>
    take (n + sum_list (map length es)) b = take n buf @ concat es"
  using assms
proof (induction es arbitrary: n buf)
  case (Cons e es)
  have b: "n + length e \<le> length buf" using Cons.prems by simp
  then have "n + length e + sum_list (map length es) \<le> length (blit buf n e)" using Cons.prems by simp
  from Cons.IH [OF this] b take_blit [of n buf e] show ?case by (auto simp: add.assoc)
qed simp

section \<open>Well-formed states\<close>

definition frame_ok :: "frame_t \<Rightarrow> bool" where
  "frame_ok f \<longleftrightarrow>
     (case (frm_y f, frm_u f, frm_v f) of
        (Some y, Some u, Some v) \<Rightarrow>
          length y = unat (frm_ystride f) * unat (frm_height f) \<and>
          length u = unat (frm_uvstride f) * (unat (frm_height f) div 2) \<and>
          length v = unat (frm_uvstride f) * (unat (frm_height f) div 2) \<and>
          unat (frm_width f) \<le> unat (frm_ystride f) \<and> unat (frm_width f) div 2 \<le> unat (frm_uvstride f)
      | _ \<Rightarrow> False)"

definition picture_ok :: "picture \<Rightarrow> bool" where
  "picture_ok p \<longleftrightarrow>
     (case pic_linesize p of (ly, lu, lv) \<Rightarrow>
        plane_has (pic_y p) ly (pic_width p) (pic_height p) \<and>
        plane_has (pic_u p) lu (pic_width p div 2) (pic_height p div 2) \<and>
        plane_has (pic_v p) lv (pic_width p div 2) (pic_height p div 2))"

definition decoder_ok :: "decoder_state \<Rightarrow> bool" where
  "decoder_ok s \<longleftrightarrow>
     queue_ok (video s) \<and> list_all (\<lambda>i. i < NUM_BUFFERS) (queue_contents (video s)) \<and>
     currentTexture s < NUM_BUFFERS \<and> length (frames (video s)) = NUM_BUFFERS \<and> list_all frame_ok (frames (video s)) \<and>
     (case decodebuffer s of None \<Rightarrow> False | Some b \<Rightarrow> length b = DECODER_BUFFER_SIZE + 64)"

definition same_shape :: "frame_t \<Rightarrow> frame_t \<Rightarrow> bool" where
  "same_shape f g \<longleftrightarrow>
     frm_width f = frm_width g \<and> frm_height f = frm_height g \<and> frm_ystride f = frm_ystride g \<and> frm_uvstride f = frm_uvstride g"

text \<open>A plane of the picture in a plane of the frame buffer.\<close>

definition plane_copied :: "nat \<Rightarrow> nat \<Rightarrow> u8 \<Rightarrow> u8 list \<Rightarrow> nat \<Rightarrow> nat \<Rightarrow> u8 list \<Rightarrow> bool" where
  "plane_copied h w pad src ls stride dst \<longleftrightarrow>
     (\<forall>y < h. \<forall>x < stride. dst ! (y * stride + x) = (if x < w then src ! (y * ls + x) else pad))"

definition shows_picture :: "picture \<Rightarrow> frame_t \<Rightarrow> bool" where
  "shows_picture p f \<longleftrightarrow>
     (case (frm_y f, frm_u f, frm_v f, pic_linesize p) of
        (Some y, Some u, Some v, (ly, lu, lv)) \<Rightarrow>
          (let w = min (pic_width p) (unat (frm_width f)); h = min (pic_height p) (unat (frm_height f))
           in plane_copied h w 0 (pic_y p) ly (unat (frm_ystride f)) y \<and>
              plane_copied (h div 2) (w div 2) 0x80 (pic_u p) lu (unat (frm_uvstride f)) u \<and>
              plane_copied (h div 2) (w div 2) 0x80 (pic_v p) lv (unat (frm_uvstride f)) v)
      | _ \<Rightarrow> False)"

lemma copy_picture_some:
  assumes "frame_ok fb" and "picture_ok p"
  shows "\<exists>f. copy_picture p fb = Some f \<and> frame_ok f \<and> shows_picture p f \<and> same_shape f fb"
proof -
  obtain y u v where f: "frm_y fb = Some y" "frm_u fb = Some u" "frm_v fb = Some v"
      "length y = unat (frm_ystride fb) * unat (frm_height fb)" "length u = unat (frm_uvstride fb) * (unat (frm_height fb) div 2)"
      "length v = unat (frm_uvstride fb) * (unat (frm_height fb) div 2)"
      "unat (frm_width fb) \<le> unat (frm_ystride fb)" "unat (frm_width fb) div 2 \<le> unat (frm_uvstride fb)"
    using assms(1) by (auto simp: frame_ok_def split: option.splits)
  obtain ly lu lv where l: "pic_linesize p = (ly, lu, lv)" by (cases "pic_linesize p")
  define w where "w = min (pic_width p) (unat (frm_width fb))"
  define h where "h = min (pic_height p) (unat (frm_height fb))"
  have le: "w \<le> pic_width p" "h \<le> pic_height p" "w \<le> unat (frm_width fb)" "h \<le> unat (frm_height fb)" by (simp_all add: w_def h_def)
  then have half: "w div 2 \<le> pic_width p div 2" "h div 2 \<le> pic_height p div 2" "w div 2 \<le> unat (frm_width fb) div 2"
      "h div 2 \<le> unat (frm_height fb) div 2" by (simp_all add: div_le_mono)
  have has: "plane_has (pic_y p) ly w h" "plane_has (pic_u p) lu (w div 2) (h div 2)" "plane_has (pic_v p) lv (w div 2) (h div 2)"
    using assms(2) l le half by (auto simp: picture_ok_def elim: plane_has_less)
  have room: "h * unat (frm_ystride fb) \<le> length y" "h div 2 * unat (frm_uvstride fb) \<le> length u" "h div 2 * unat (frm_uvstride fb) \<le> length v"
    using f le half by (simp_all add: mult.commute mult_left_mono)
  have wide: "w \<le> unat (frm_ystride fb)" "w div 2 \<le> unat (frm_uvstride fb)" using f le half by linarith+
  obtain y1 where y1: "copy_plane h w 0 (pic_y p) ly (unat (frm_ystride fb)) y = Some y1" "length y1 = length y"
      "plane_copied h w 0 (pic_y p) ly (unat (frm_ystride fb)) y1"
    using copy_plane_some [OF wide(1) room(1) has(1), of 0] unfolding plane_copied_def by blast
  obtain u1 where u1: "copy_plane (h div 2) (w div 2) 0x80 (pic_u p) lu (unat (frm_uvstride fb)) u = Some u1" "length u1 = length u"
      "plane_copied (h div 2) (w div 2) 0x80 (pic_u p) lu (unat (frm_uvstride fb)) u1"
    using copy_plane_some [OF wide(2) room(2) has(2), of "0x80"] unfolding plane_copied_def by blast
  obtain v1 where v1: "copy_plane (h div 2) (w div 2) 0x80 (pic_v p) lv (unat (frm_uvstride fb)) v = Some v1" "length v1 = length v"
      "plane_copied (h div 2) (w div 2) 0x80 (pic_v p) lv (unat (frm_uvstride fb)) v1"
    using copy_plane_some [OF wide(2) room(3) has(3), of "0x80"] unfolding plane_copied_def by blast
  have "copy_picture p fb = Some (fb\<lparr>frm_y := Some y1, frm_u := Some u1, frm_v := Some v1\<rparr>)"
    using y1(1) u1(1) v1(1) by (simp add: copy_picture_def f l Let_def flip: w_def h_def)
  moreover have "frame_ok (fb\<lparr>frm_y := Some y1, frm_u := Some u1, frm_v := Some v1\<rparr>)"
    using f y1(2) u1(2) v1(2) by (simp add: frame_ok_def)
  moreover have "shows_picture p (fb\<lparr>frm_y := Some y1, frm_u := Some u1, frm_v := Some v1\<rparr>)"
    using y1(3) u1(3) v1(3) by (simp add: shows_picture_def l Let_def flip: w_def h_def)
  ultimately show ?thesis by (auto simp: same_shape_def)
qed

section \<open>Setting up\<close>

text \<open>\<open>memalign\<close> gives as many bytes as were asked for, or nothing.\<close>

definition memalign_ok :: "byte_alloc \<Rightarrow> bool" where
  "memalign_ok malloc \<longleftrightarrow> (\<forall>n. case malloc n of None \<Rightarrow> True | Some b \<Rightarrow> length b = n)"

lemma malloc_length: "memalign_ok malloc \<Longrightarrow> malloc n = Some b \<Longrightarrow> length b = n"
  unfolding memalign_ok_def by (drule spec [of _ n]) simp

text \<open>A length is rounded up to a multiple of eight.\<close>

lemma round_up_8:
  assumes "0 \<le> n" and "n < 2 ^ 31"
  shows "n \<le> int (unat (word_of_int ((n + 7) AND NOT 7) :: u32))"
proof -
  let ?r = "(n + 7) AND NOT (7 :: int)"
  have r: "?r = 8 * ((n + 7) div 8)" using and_not_mask_int [of "n + 7" 3] by (simp add: mask_eq_exp_minus_1 mult.commute)
  have "n + 7 = 8 * ((n + 7) div 8) + (n + 7) mod 8" by simp
  moreover have "0 \<le> (n + 7) mod 8" "(n + 7) mod 8 < 8" by simp_all
  ultimately have b: "n \<le> ?r" "?r \<le> n + 7" unfolding r by linarith+
  then have "uint (word_of_int ?r :: u32) = ?r" using assms by (simp add: uint_word_of_int)
  then show ?thesis using b(1) by simp
qed

lemma frame_for_ok:
  assumes "memalign_ok malloc" and "0 \<le> width" "width < 2 ^ 31" "0 \<le> height" "height < 2 ^ 31"
    and "frm_y (frame_for malloc width height) \<noteq> None" "frm_u (frame_for malloc width height) \<noteq> None"
        "frm_v (frame_for malloc width height) \<noteq> None"
  shows "frame_ok (frame_for malloc width height)"
proof -
  have w: "unat (word_of_int width :: u32) = nat width" "unat (word_of_int height :: u32) = nat height"
    using assms by (auto intro!: unat_from_uint simp: uint_word_of_int)
  have h2: "nat (height div 2) = nat height div 2" by (simp add: nat_div_distrib)
  have "nat width \<le> unat (word_of_int ((width + 7) AND NOT 7) :: u32)"
    using nat_mono [OF round_up_8 [OF assms(2,3)]] by simp
  moreover have "nat width div 2 \<le> unat (word_of_int ((c_div width 2 + 7) AND NOT 7) :: u32)"
  proof -
    have "0 \<le> width div 2" "width div 2 < 2 ^ 31" using assms(2,3) by linarith+
    from nat_mono [OF round_up_8 [OF this]] assms(2) show ?thesis by (simp add: c_div_2 nat_div_distrib)
  qed
  ultimately show ?thesis
    using assms(6-8) malloc_length [OF assms(1)]
    by (auto simp: frame_ok_def frame_for_def Let_def w c_div_2 h2 assms(4) split: option.splits)
qed

lemma wii_alloc_frames_ok:
  assumes "memalign_ok malloc" and "0 \<le> width" "width < 2 ^ 31" "0 \<le> height" "height < 2 ^ 31"
    and "length (frames s) = NUM_BUFFERS" and "wii_alloc_frames malloc width height s = (0, t)"
  shows "frames t = [frame_for malloc width height, frame_for malloc width height] \<and>
    frame_ok (frame_for malloc width height) \<and> t = s\<lparr>frames := frames t\<rparr>"
proof -
  obtain f g where fs: "frames s = [f, g]" using assms(6) by (auto simp: NUM_BUFFERS_def length_Suc_conv numeral_2_eq_2)
  have two: "[0..<NUM_BUFFERS] = [0, 1]" by (simp add: NUM_BUFFERS_def upt_rec)
  have "frm_y (frame_for malloc width height) \<noteq> None" "frm_u (frame_for malloc width height) \<noteq> None"
      "frm_v (frame_for malloc width height) \<noteq> None" and "t = s\<lparr>frames := [frame_for malloc width height, frame_for malloc width height]\<rparr>"
    using assms(7) fs by (auto simp: wii_alloc_frames_def two Let_def set_frame_def split: if_splits)
  then show ?thesis using frame_for_ok [OF assms(1-5)] by simp
qed

lemma decoder_setup_ok:
  assumes "memalign_ok malloc" and "0 \<le> width" "width < 2 ^ 31" "0 \<le> height" "height < 2 ^ 31"
    and "length (frames (video s)) = NUM_BUFFERS" "queue_ok (video s)" "list_all (\<lambda>i. i < NUM_BUFFERS) (queue_contents (video s))"
    and "wii_decoder_setup av malloc fmt width height s = (r, t)"
  shows "if r = 0 then decoder_ok t \<and> has_ctx t \<and> frames (video t) = replicate 2 (frame_for malloc width height) \<and>
      gx t = gx_video_config_yuv width height (gx s) else r = -1"
proof (cases "fmt = VIDEO_FORMAT_H264 \<and> av_find av \<and> av_alloc av \<and> av_open av")
  case True
  obtain r1 v where v: "wii_alloc_frames malloc width height (video s) = (r1, v)" by fastforce
  show ?thesis
  proof (cases "r1 = 0")
    case r1: True
    from wii_alloc_frames_ok [OF assms(1-6)] v r1
    have f: "frames v = [frame_for malloc width height, frame_for malloc width height]" "frame_ok (frame_for malloc width height)"
      and q: "v = (video s)\<lparr>frames := frames v\<rparr>" by auto
    have "queue_ok v" "queue_contents v = queue_contents (video s)"
      using assms(7) by (subst q; simp add: queue_defs)+
    then show ?thesis
      using assms(8,9) True v r1 f malloc_length [OF assms(1)]
      by (auto simp: wii_decoder_setup_def decoder_ok_def NUM_BUFFERS_def numeral_2_eq_2 Let_def split: option.splits prod.splits if_splits)
  qed (use assms(9) True v in \<open>auto simp: wii_decoder_setup_def split: if_splits\<close>)
qed (use assms(9) in \<open>auto simp: wii_decoder_setup_def split: if_splits\<close>)

section \<open>Decode units\<close>

text \<open>FFmpeg's pictures have the rows they claim to have.\<close>

definition av_ok :: "ffmpeg \<Rightarrow> bool" where
  "av_ok av \<longleftrightarrow> (\<forall>ps p. snd (av_decode av ps) = Some p \<longrightarrow> picture_ok p)"

lemma queue_keeps_indices:
  "list_all P (queue_contents s) \<Longrightarrow> queue_ok s \<Longrightarrow> P x \<Longrightarrow> list_all P (queue_contents (add_frame x s))"
  using add_frame_ok [of s x] by (simp add: spec_enq_def)

lemma frames_add_frame [simp]: "frames (add_frame x s) = frames s"
  by (simp add: add_frame_def Let_def)

lemma queue_of_frames:
  "queue_ok (s\<lparr>frames := fs, nextFrame := n\<rparr>) = queue_ok s"
  "queue_contents (s\<lparr>frames := fs, nextFrame := n\<rparr>) = queue_contents s"
  by (simp_all add: queue_defs)

text \<open>What a decode unit that fits does, from the state \<open>s\<close> to \<open>t\<close> with the result \<open>r\<close>.\<close>

definition unit_outcome :: "ffmpeg \<Rightarrow> decoder_state \<Rightarrow> int \<Rightarrow> decoder_state \<Rightarrow> bool" where
  "unit_outcome av s r t \<longleftrightarrow>
       (case av_decode av (packets t) of
          (code, got) \<Rightarrow>
            if code < 0 then r = DR_NEED_IDR \<and> video t = video s \<and> currentTexture t = currentTexture s
            else r = DR_OK \<and>
              (case got of
                 None \<Rightarrow> video t = video s \<and> currentTexture t = currentTexture s
               | Some p \<Rightarrow>
                   shows_picture p (wii_frame_buffer (currentTexture s) (video t)) \<and>
                   same_shape (wii_frame_buffer (currentTexture s) (video t)) (wii_frame_buffer (currentTexture s) (video s)) \<and>
                   queue_contents (video t) = spec_enq MAX_QUEUEMESSAGES (currentTexture s) (queue_contents (video s)) \<and>
                   currentTexture t = (currentTexture s + 1) mod NUM_BUFFERS))"

lemma decode_unit_effect:
  assumes "decoder_ok s" and "av_ok av" and "fullLength = sum_list (map length entries)"
  shows "\<exists>r t. wii_decoder_submit_decode_unit av fullLength entries s = Some (r, t) \<and> decoder_ok t \<and>
    (if DECODER_BUFFER_SIZE < fullLength then r = DR_OK \<and> t = s
     else packets t = packets s @ [concat entries] \<and> unit_outcome av s r t)"
proof (cases "DECODER_BUFFER_SIZE < fullLength")
  case True
  then show ?thesis using assms(1) by (simp add: wii_decoder_submit_decode_unit_def)
next
  case False
  obtain buf0 where b0: "decodebuffer s = Some buf0" "length buf0 = DECODER_BUFFER_SIZE + 64"
    using assms(1) by (auto simp: decoder_ok_def split: option.splits)
  then obtain b where b: "gather entries 0 buf0 = Some (fullLength, b)" "length b = DECODER_BUFFER_SIZE + 64"
      "take fullLength b = concat entries"
    using gather_some [of 0 entries buf0] assms(3) False by auto
  define s1 where "s1 = s\<lparr>decodebuffer := Some b, packets := packets s @ [concat entries]\<rparr>"
  have ok1: "decoder_ok s1" using assms(1) b(2) by (simp add: decoder_ok_def s1_def)
  obtain code got where av: "av_decode av (packets s @ [concat entries]) = (code, got)" by fastforce
  show ?thesis
  proof (cases "code < 0 \<or> got = None")
    case True
    then show ?thesis
      using False b0 b av ok1
      by (auto simp: wii_decoder_submit_decode_unit_def unit_outcome_def Let_def s1_def)
  next
    case go: False
    then obtain p where p: "got = Some p" by auto
    let ?i = "currentTexture s"
    have i: "?i < 2" and len: "length (frames (video s)) = 2" and fok: "\<forall>f \<in> set (frames (video s)). frame_ok f"
      using assms(1) by (auto simp: decoder_ok_def NUM_BUFFERS_def list_all_iff)
    have "picture_ok p" using assms(2) av p unfolding av_ok_def by (metis snd_conv)
    with copy_picture_some [of "wii_frame_buffer ?i (video s)" p] i len fok
    obtain f where f: "copy_picture p (wii_frame_buffer ?i (video s)) = Some f" "frame_ok f" "shows_picture p f"
      "same_shape f (wii_frame_buffer ?i (video s))" by (auto simp: wii_frame_buffer_def)
    define v where "v = (video s)\<lparr>frames := (frames (video s))[?i := f], nextFrame := nextFrame (video s) + 1\<rparr>"
    have q: "queue_ok v" "queue_contents v = queue_contents (video s)"
      using assms(1) unfolding v_def queue_of_frames by (simp_all add: decoder_ok_def)
    have fr: "frames v = (frames (video s))[?i := f]" by (simp add: v_def)
    define t where "t = s1\<lparr>video := add_frame ?i v, currentTexture := (if 2 \<le> ?i + 1 then 0 else ?i + 1)\<rparr>"
    have run: "wii_decoder_submit_decode_unit av fullLength entries s = Some (DR_OK, t)"
      using False b0 b av go p f(1)
      by (simp add: wii_decoder_submit_decode_unit_def Let_def s1_def t_def v_def set_frame_def NUM_BUFFERS_def)
    have "list_all (\<lambda>i. i < NUM_BUFFERS) (queue_contents (add_frame ?i v))"
      using q assms(1) by (intro queue_keeps_indices) (simp_all add: decoder_ok_def)
    moreover have "\<forall>g \<in> set (frames v). frame_ok g" unfolding fr using f(2) fok by (auto dest: set_update_subset_insert [THEN subsetD])
    ultimately have "decoder_ok t"
      using ok1 add_frame_ok [OF q(1), of ?i] len
      by (auto simp: decoder_ok_def t_def s1_def fr NUM_BUFFERS_def list_all_iff)
    moreover have "shows_picture p (wii_frame_buffer ?i (video t))"
        "same_shape (wii_frame_buffer ?i (video t)) (wii_frame_buffer ?i (video s))"
      using f(3,4) i len by (simp_all add: t_def s1_def wii_frame_buffer_def fr)
    moreover have "queue_contents (video t) = spec_enq MAX_QUEUEMESSAGES ?i (queue_contents (video s))"
      using add_frame_ok [OF q(1), of ?i] q(2) by (simp add: t_def)
    moreover have "currentTexture t = (?i + 1) mod NUM_BUFFERS" using i by (auto simp: t_def NUM_BUFFERS_def less_2_cases_iff)
    moreover have "packets t = packets s @ [concat entries]" by (simp add: t_def s1_def)
    ultimately show ?thesis using run False av go p by (auto simp: unit_outcome_def)
  qed
qed

text \<open>C9. Whatever FFmpeg answers to the packets so far, a decode unit is handled inside of the buffers and leaves the decoder
  well-formed. A unit that does not fit is skipped; any other is one packet, its fragments in order. An error asks
  for a new key frame; a picture fills the frame buffer whose turn it is, row by row, the unused end of each row black, and that
  buffer enters the frame queue, which drops it only when it is full.\<close>

theorem decode_unit_handled:
  assumes "decoder_ok s" and "av_ok av" and "fullLength = sum_list (map length entries)"
  shows "\<exists>r t. wii_decoder_submit_decode_unit av fullLength entries s = Some (r, t) \<and> decoder_ok t \<and>
    (if DECODER_BUFFER_SIZE < fullLength then r = DR_OK \<and> t = s
     else packets t = packets s @ [concat entries] \<and> unit_outcome av s r t)"
  using decode_unit_effect [OF assms] .

definition example_malloc :: byte_alloc where
  "example_malloc n = Some (replicate n 0)"

definition example_picture :: "u8 \<Rightarrow> picture" where
  "example_picture b = \<lparr>pic_width = 16, pic_height = 8, pic_y = replicate 256 b, pic_u = replicate 64 b, pic_v = replicate 64 b,
     pic_linesize = (32, 16, 16)\<rparr>"

text \<open>An FFmpeg whose every packet holds a picture in the colour of its first byte.\<close>

definition example_ffmpeg :: ffmpeg where
  "example_ffmpeg = \<lparr>av_find = True, av_alloc = True, av_open = True,
     av_decode = (\<lambda>ps. (0, Some (example_picture (case last ps of [] \<Rightarrow> 0 | b # bs \<Rightarrow> b))))\<rparr>"

definition example_decoder :: decoder_state where
  "example_decoder = \<lparr>has_ctx = True, decodebuffer = Some (replicate (DECODER_BUFFER_SIZE + 64) 0), currentTexture = 0, packets = [],
     video = example_video\<lparr>frames := replicate 2 (frame_for example_malloc 16 8)\<rparr>, gx = config_sizes 16 8 example_textures\<rparr>"

lemma example_av_ok: "av_ok example_ffmpeg"
  by (simp add: av_ok_def example_ffmpeg_def example_picture_def picture_ok_def plane_has_def)

lemma example_memalign_ok: "memalign_ok example_malloc"
  by (simp add: memalign_ok_def example_malloc_def)

lemma example_frame_ok: "frame_ok (frame_for example_malloc 16 8)"
  by (rule frame_for_ok [OF example_memalign_ok]) (simp_all add: frame_for_def example_malloc_def Let_def)

lemma example_queue: "queue_ok (video example_decoder)" "queue_contents (video example_decoder) = []"
  by (simp_all add: example_decoder_def example_video_def queue_ok_def queue_len_def queue_contents_def MAX_QUEUEMESSAGES_def)

lemma example_decoder_ok: "decoder_ok example_decoder"
  using example_queue example_frame_ok by (simp add: decoder_ok_def) (simp add: example_decoder_def NUM_BUFFERS_def list_all_iff)

lemma small_unit: "\<not> DECODER_BUFFER_SIZE < sum_list (map length [[a, b], [c]])"
  by (simp add: DECODER_BUFFER_SIZE_def)

theorem decode_unit_handled_witness:
  "\<exists>t. wii_decoder_submit_decode_unit example_ffmpeg 3 [[7, 1], [2]] example_decoder = Some (DR_OK, t) \<and> decoder_ok t \<and>
     shows_picture (example_picture 7) (wii_frame_buffer 0 (video t)) \<and> queue_contents (video t) = [0]"
proof -
  have c: "currentTexture example_decoder = 0" "packets example_decoder = []" by (simp_all add: example_decoder_def)
  obtain r t where t: "wii_decoder_submit_decode_unit example_ffmpeg 3 [[7, 1], [2]] example_decoder = Some (r, t)" "decoder_ok t"
      "r = DR_OK" "shows_picture (example_picture 7) (wii_frame_buffer 0 (video t))"
      "queue_contents (video t) = spec_enq MAX_QUEUEMESSAGES 0 []"
    using decode_unit_handled [OF example_decoder_ok example_av_ok, of 3 "[[7, 1], [2]]"] c example_queue(2)
    by (auto simp: DECODER_BUFFER_SIZE_def example_ffmpeg_def unit_outcome_def)
  then show ?thesis by (simp add: spec_enq_def MAX_QUEUEMESSAGES_def)
qed

section \<open>Sixteen entries, two frame buffers\<close>

definition gives_picture :: "ffmpeg \<Rightarrow> u8 list list \<Rightarrow> picture \<Rightarrow> bool" where
  "gives_picture av ps p \<longleftrightarrow> (case av_decode av ps of (code, got) \<Rightarrow> 0 \<le> code \<and> got = Some p)"

lemma decode_picture:
  assumes "decoder_ok s" and "av_ok av" and "length e \<le> DECODER_BUFFER_SIZE" and "gives_picture av (packets s @ [e]) p"
  shows "\<exists>t. wii_decoder_submit_decode_unit av (length e) [e] s = Some (DR_OK, t) \<and> decoder_ok t \<and> packets t = packets s @ [e] \<and>
    shows_picture p (wii_frame_buffer (currentTexture s) (video t)) \<and>
    same_shape (wii_frame_buffer (currentTexture s) (video t)) (wii_frame_buffer (currentTexture s) (video s)) \<and>
    queue_contents (video t) = spec_enq MAX_QUEUEMESSAGES (currentTexture s) (queue_contents (video s)) \<and>
    currentTexture t = (currentTexture s + 1) mod NUM_BUFFERS"
proof -
  obtain code where av: "av_decode av (packets s @ [e]) = (code, Some p)" "0 \<le> code"
    using assms(4) by (auto simp: gives_picture_def split: prod.splits)
  have len: "length e = sum_list (map length [e])" and "concat [e] = e" by simp_all
  from decode_unit_effect [OF assms(1,2) len] assms(3) \<open>concat [e] = e\<close>
  obtain r t where t: "wii_decoder_submit_decode_unit av (length e) [e] s = Some (r, t)" "decoder_ok t"
      "packets t = packets s @ [e]" "unit_outcome av s r t" by auto
  from t(3,4) av have "r = DR_OK" "shows_picture p (wii_frame_buffer (currentTexture s) (video t))"
      "same_shape (wii_frame_buffer (currentTexture s) (video t)) (wii_frame_buffer (currentTexture s) (video s))"
      "queue_contents (video t) = spec_enq MAX_QUEUEMESSAGES (currentTexture s) (queue_contents (video s))"
      "currentTexture t = (currentTexture s + 1) mod NUM_BUFFERS" by (simp_all add: unit_outcome_def)
  with t(1-3) show ?thesis by blast
qed

text \<open>C40. The queue does not protect the picture that waits in it: it has room for sixteen entries, but they are numbers of only two
  frame buffers. When the drawing thread is late by three pictures, the first entry of the queue stands for the buffer
  that holds the third picture; the first one is never shown, the third one twice.\<close>

theorem late_drawer_loses_picture:
  assumes "decoder_ok s" and "av_ok av" and "queue_contents (video s) = []"
    and "length a \<le> DECODER_BUFFER_SIZE" "length b \<le> DECODER_BUFFER_SIZE" "length c \<le> DECODER_BUFFER_SIZE"
    and "gives_picture av (packets s @ [a]) p" "gives_picture av (packets s @ [a, b]) q" "gives_picture av (packets s @ [a, b, c]) r"
  shows "\<exists>t u v. wii_decoder_submit_decode_unit av (length a) [a] s = Some (DR_OK, t) \<and>
    wii_decoder_submit_decode_unit av (length b) [b] t = Some (DR_OK, u) \<and>
    wii_decoder_submit_decode_unit av (length c) [c] u = Some (DR_OK, v) \<and>
    (let i = currentTexture s
     in queue_contents (video t) = [i] \<and> shows_picture p (wii_frame_buffer i (video t)) \<and>
        queue_contents (video v) = [i, 1 - i, i] \<and> shows_picture r (wii_frame_buffer i (video v)))"
proof -
  have i: "currentTexture s < 2" using assms(1) by (simp add: decoder_ok_def NUM_BUFFERS_def)
  obtain t where t: "wii_decoder_submit_decode_unit av (length a) [a] s = Some (DR_OK, t)" "decoder_ok t" "packets t = packets s @ [a]"
      "shows_picture p (wii_frame_buffer (currentTexture s) (video t))" "queue_contents (video t) = [currentTexture s]"
      "currentTexture t = (currentTexture s + 1) mod 2"
    using decode_picture [OF assms(1,2,4,7)] assms(3) by (auto simp: spec_enq_def MAX_QUEUEMESSAGES_def NUM_BUFFERS_def)
  have "gives_picture av (packets t @ [b]) q" using assms(8) t(3) by simp
  from decode_picture [OF t(2) assms(2,5) this] t(5)
  obtain u where u: "wii_decoder_submit_decode_unit av (length b) [b] t = Some (DR_OK, u)" "decoder_ok u" "packets u = packets t @ [b]"
      "queue_contents (video u) = [currentTexture s, currentTexture t]" "currentTexture u = (currentTexture t + 1) mod 2"
    by (auto simp: spec_enq_def MAX_QUEUEMESSAGES_def NUM_BUFFERS_def)
  have "gives_picture av (packets u @ [c]) r" using assms(9) t(3) u(3) by simp
  from decode_picture [OF u(2) assms(2,6) this] u(4)
  obtain v where v: "wii_decoder_submit_decode_unit av (length c) [c] u = Some (DR_OK, v)"
      "shows_picture r (wii_frame_buffer (currentTexture u) (video v))"
      "queue_contents (video v) = [currentTexture s, currentTexture t, currentTexture u]"
    by (auto simp: spec_enq_def MAX_QUEUEMESSAGES_def)
  have "currentTexture t = 1 - currentTexture s" "currentTexture u = currentTexture s" using i t(6) u(5) by (auto simp: less_2_cases_iff)
  with t u v show ?thesis by (auto simp: Let_def)
qed

theorem late_drawer_loses_picture_witness:
  "\<exists>t u v. wii_decoder_submit_decode_unit example_ffmpeg 1 [[7]] example_decoder = Some (DR_OK, t) \<and>
     wii_decoder_submit_decode_unit example_ffmpeg 1 [[8]] t = Some (DR_OK, u) \<and>
     wii_decoder_submit_decode_unit example_ffmpeg 1 [[9]] u = Some (DR_OK, v) \<and>
     queue_contents (video v) = [0, 1, 0] \<and> shows_picture (example_picture 9) (wii_frame_buffer 0 (video v))"
proof -
  have c: "currentTexture example_decoder = 0" "packets example_decoder = []" by (simp_all add: example_decoder_def)
  have "gives_picture example_ffmpeg (packets example_decoder @ [[7]]) (example_picture 7)"
      "gives_picture example_ffmpeg (packets example_decoder @ [[7], [8]]) (example_picture 8)"
      "gives_picture example_ffmpeg (packets example_decoder @ [[7], [8], [9]]) (example_picture 9)"
    by (simp_all add: gives_picture_def example_ffmpeg_def c)
  from late_drawer_loses_picture [OF example_decoder_ok example_av_ok example_queue(2) _ _ _ this] c show ?thesis
    by (simp add: DECODER_BUFFER_SIZE_def Let_def) blast
qed

end
