(* ===== verification/Streaming.thy ===== *)
theory Streaming
  imports DecodeFacts
begin

text \<open>
  From the network to the screen: the decoder of \<open>decode.c\<close>, the frame queue of \<open>wii.c\<close> and the drawing of \<open>gx_video.c\<close>
  together. The sizes are the ones the settings menu offers up to 1280x720; 1920x1080 does not fit in the textures.
\<close>

unbundle bit_operations_syntax

text \<open>What \<open>wii_stream_draw\<close> does with the frame it got.\<close>

definition draw_frame :: "(string \<Rightarrow> bool) \<Rightarrow> u8 list \<Rightarrow> u8 list \<Rightarrow> frame_t \<Rightarrow> gx_state option \<Rightarrow> gx_state option" where
  "draw_frame can_open efb xfb f g =
     (case (frm_y f, frm_u f, frm_v f) of
        (Some y, Some u, Some v) \<Rightarrow>
          Option.bind g (gx_video_draw_yuv can_open efb xfb y u v (unat (frm_ystride f)) (unat (frm_uvstride f)))
      | _ \<Rightarrow> None)"

definition small_size :: "int \<Rightarrow> int \<Rightarrow> bool" where
  "small_size w h \<longleftrightarrow> (w, h) \<in> {(640, 480), (854, 480), (1280, 720)}"

lemma small_sizes_fit:
  assumes "small_size w h" and "sized t" and "allocated t"
  shows "fits (gx_video_config_yuv w h t)"
proof -
  have b: "0 < w" "w < 65000" "0 < h" "h < 65000" using assms(1) by (auto simp: small_size_def)
  have "allocated (config_sizes w h t)" using assms(3) by (auto simp: allocated_def split: option.splits)
  moreover have "fits (config_sizes w h t)" using assms(1) small_sizes [OF assms(3)] by (auto simp: small_size_def)
  ultimately show ?thesis using fits_same_sizes config_sized [OF assms(2) b] assms(3) by blast
qed

text \<open>The planes of a frame buffer have what the upload reads.\<close>

lemma frame_for_strides:
  assumes "small_size w h"
  shows "same_sizes u (config_sizes w h t) \<Longrightarrow> f = frame_for malloc w h \<Longrightarrow>
    unat (Ywidth u) = unat (frm_ystride f) \<and> unat (UVwidth u) \<le> unat (frm_uvstride f) \<and>
    unat (frm_uvstride f) < unat (UVwidth u) + 8 \<and> nat w \<le> unat (Ywidth u) \<and> nat w div 2 \<le> unat (UVwidth u) \<and>
    unat (Yheight u) = nat h \<and> unat (UVheight u) = nat h div 2 \<and> unat (frm_height f) = nat h \<and> unat (frm_width f) = nat w \<and>
    0 < unat (UVwidth u) \<and> unat (Ywidth u) < 2000"
  using assms
  by (auto simp: small_size_def same_sizes_def config_sizes_def frame_for_def Let_def round8_def round4_def c_div_def)

lemma frame_planes_ok:
  assumes "small_size w h" and "same_sizes u (config_sizes w h t)" and "frame_ok f" and "same_shape f (frame_for malloc w h)"
  shows "\<exists>y us vs. frm_y f = Some y \<and> frm_u f = Some us \<and> frm_v f = Some vs \<and>
    plane_ok y (unat (frm_ystride f)) (Ywidth u) (Yheight u) \<and>
    plane_ok us (unat (frm_uvstride f)) (UVwidth u) (UVheight u) \<and> plane_ok vs (unat (frm_uvstride f)) (UVwidth u) (UVheight u)"
proof -
  obtain y us vs where p: "frm_y f = Some y" "frm_u f = Some us" "frm_v f = Some vs"
      "length y = unat (frm_ystride f) * unat (frm_height f)" "length us = unat (frm_uvstride f) * (unat (frm_height f) div 2)"
      "length vs = unat (frm_uvstride f) * (unat (frm_height f) div 2)" "unat (frm_width f) div 2 \<le> unat (frm_uvstride f)"
    using assms(3) by (auto simp: frame_ok_def split: option.splits)
  from frame_for_strides [OF assms(1,2) refl, of malloc] assms(4)
  have s: "unat (Ywidth u) = unat (frm_ystride f)" "unat (UVwidth u) \<le> unat (frm_uvstride f)"
      "unat (frm_uvstride f) < unat (UVwidth u) + 8" "nat w \<le> unat (Ywidth u)"
      "unat (Yheight u) = nat h" "unat (UVheight u) = nat h div 2" "unat (frm_height f) = nat h" "0 < unat (UVwidth u)"
      "unat (Ywidth u) < 2000" "unat (frm_width f) = nat w"
    by (auto simp: same_shape_def)
  have "0 < nat w" using assms(1) by (auto simp: small_size_def)
  then have "0 < unat (frm_ystride f)" using s(1,4) by linarith
  moreover have "unat (UVwidth u) < 2000"
    using assms(1,2) by (auto simp: small_size_def same_sizes_def config_sizes_def Let_def round8_def round4_def c_div_def)
  ultimately show ?thesis using p s by (simp add: plane_ok_def mult.commute)
qed

section \<open>One picture\<close>

text \<open>The texels of the picture's area are the bytes of the picture.\<close>

definition texels_show :: "picture \<Rightarrow> gx_textures \<Rightarrow> bool" where
  "texels_show p t \<longleftrightarrow>
     (case pic_linesize p of (ly, lu, lv) \<Rightarrow>
        (\<forall>x < pic_width p. \<forall>y < pic_height p. luma_at t x y = pic_y p ! (y * ly + x)) \<and>
        (\<forall>x < pic_width p div 2. \<forall>y < pic_height p div 2.
           chroma_at t (Utexture t) x y = pic_u p ! (y * lu + x) \<and> chroma_at t (Vtexture t) x y = pic_v p ! (y * lv + x)))"

text \<open>The debug pictures are written from the textures and do not change them.\<close>

lemma dump_keeps [simp]:
  "textures (dump_file can_open path bs s) = textures s" "copied (dump_file can_open path bs s) = copied s"
  "textures (dump_texture can_open name n tex w h s) = textures s" "copied (dump_texture can_open name n tex w h s) = copied s"
  by (simp_all add: dump_file_def dump_texture_def split: option.split)

lemma dbg_keeps [simp]:
  "textures (gx_video_dbg_maybe can_open efb xfb s) = textures s" "copied (gx_video_dbg_maybe can_open efb xfb s) = copied s"
  by (simp_all add: gx_video_dbg_maybe_def gx_video_dump_debug_def Let_def)

lemma frame_drawn:
  assumes size: "small_size w h" and f: "frame_ok f" "same_shape f (frame_for malloc w h)" "shows_picture p f"
    and t: "sized t" "allocated t" and p: "pic_width p = nat w" "pic_height p = nat h" and g: "textures g = gx_video_config_yuv w h t"
  shows "\<exists>g'. draw_frame can_open efb xfb f (Some g) = Some g' \<and> texels_show p (textures g') \<and> copied g' = copied g @ [whichfb g]"
proof -
  have b: "0 < w" "w < 65000" "0 < h" "h < 65000" using size by (auto simp: small_size_def)
  note c = config_sized [OF t(1) b]
  obtain y us vs where pl: "frm_y f = Some y" "frm_u f = Some us" "frm_v f = Some vs"
      "plane_ok y (unat (frm_ystride f)) (Ywidth (textures g)) (Yheight (textures g))"
      "plane_ok us (unat (frm_uvstride f)) (UVwidth (textures g)) (UVheight (textures g))"
      "plane_ok vs (unat (frm_uvstride f)) (UVwidth (textures g)) (UVheight (textures g))"
    using frame_planes_ok [OF size c(3) f(1,2)] g by auto
  obtain u where u: "GX_FillTextureYUV y us vs (unat (frm_ystride f)) (unat (frm_uvstride f)) (textures g) = Some u"
      "\<forall>x < unat (Ywidth (textures g)). \<forall>yy < unat (Yheight (textures g)). luma_at u x yy = y ! (yy * unat (frm_ystride f) + x)"
      "\<forall>x < unat (UVwidth (textures g)). \<forall>yy < unat (UVheight (textures g)).
         chroma_at u (Utexture u) x yy = us ! (yy * unat (frm_uvstride f) + x) \<and>
         chroma_at u (Vtexture u) x yy = vs ! (yy * unat (frm_uvstride f) + x)"
    using upload_complete [OF c(2) small_sizes_fit [OF size t], folded g, OF pl(4-6)] by blast
  from frame_for_strides [OF size c(3) refl, of malloc, folded g] f(2)
  have s: "unat (Ywidth (textures g)) = unat (frm_ystride f)" "unat (UVwidth (textures g)) \<le> unat (frm_uvstride f)"
      "nat w \<le> unat (Ywidth (textures g))" "nat w div 2 \<le> unat (UVwidth (textures g))"
      "unat (Yheight (textures g)) = nat h" "unat (UVheight (textures g)) = nat h div 2"
      "unat (frm_height f) = nat h" "unat (frm_width f) = nat w"
    by (auto simp: same_shape_def)
  obtain ly lu lv where l: "pic_linesize p = (ly, lu, lv)" by (cases "pic_linesize p")
  have shown: "plane_copied (nat h) (nat w) 0 (pic_y p) ly (unat (frm_ystride f)) y"
      "plane_copied (nat h div 2) (nat w div 2) 0x80 (pic_u p) lu (unat (frm_uvstride f)) us"
      "plane_copied (nat h div 2) (nat w div 2) 0x80 (pic_v p) lv (unat (frm_uvstride f)) vs"
    using f(3) pl(1-3) l p s by (simp_all add: shows_picture_def Let_def)
  have "texels_show p u"
    using u(2,3) shown s p unfolding texels_show_def l plane_copied_def by simp
  moreover have "draw_frame can_open efb xfb f (Some g) =
      Some (gx_video_dbg_maybe can_open efb xfb (gx_video_present (g\<lparr>textures := u\<rparr>)))"
    using pl(1-3) u(1) by (simp add: draw_frame_def gx_video_draw_yuv_def)
  ultimately show ?thesis by (auto simp: gx_video_present_def)
qed

section \<open>The queue between the two\<close>

lemma get_frame_frames: "get_frame s = (r, t) \<Longrightarrow> frames t = frames s"
  by (auto simp: get_frame_def Let_def split: if_splits)

lemma alloc_frames_queue:
  "alloc_frames_from js malloc w h s = (r, t) \<Longrightarrow>
     queueMessages t = queueMessages s \<and> queueReadIndex t = queueReadIndex s \<and> queueWriteIndex t = queueWriteIndex s"
  by (induction js arbitrary: s) (auto simp: Let_def set_frame_def split: if_splits)

lemma same_queue:
  "queueMessages t = queueMessages s \<Longrightarrow> queueReadIndex t = queueReadIndex s \<Longrightarrow> queueWriteIndex t = queueWriteIndex s \<Longrightarrow>
     queue_contents t = queue_contents s"
  by (simp add: queue_defs)

text \<open>Neither the start nor the end of a decoder empties the queue: what a stream left in it is drawn by the next one.\<close>

lemma setup_queue:
  "wii_decoder_setup av malloc fmt w h s = (r, t) \<Longrightarrow> queue_contents (video t) = queue_contents (video s)"
  by (rule same_queue)
    (auto simp: wii_decoder_setup_def wii_alloc_frames_def wii_decoder_cleanup_def Let_def dest!: alloc_frames_queue
      split: if_splits prod.splits option.splits)

lemma cleanup_queue: "queue_contents (video (wii_decoder_cleanup s)) = queue_contents (video s)"
  by (rule same_queue) (simp_all add: wii_decoder_cleanup_def)

end
