(* ===== verification/ViEncoder.thy ===== *)
theory ViEncoder
  imports Prelude
begin

text \<open>
  \<open>src/wii/vi_encoder.c\<close>: the filter of the audio/video encoder is set over an I2C bus that the code drives bit by bit: register
  48 holds the two lines (clock in bit 14, data in bit 15), register 49 who drives the data line, register 50 is what can
  be read back. The state is the registers, what was found out about the polarity, and everything done to the bus so
  far; what register 50 reads depends on that (\<open>env\<close>). Interrupts are off in between, so nobody else is on the bus.
\<close>

unbundle bit_operations_syntax

datatype bus_event = Lines u32 | Direction u32 | Delay nat

record i2c =
  i2cIdentFirst :: u32
  i2cIdentFlag :: u32
  reg48 :: u32
  reg49 :: u32
  bus :: "bus_event list"

type_synonym i2c_env = "bus_event list \<Rightarrow> u32"

definition SHIFTL :: "u32 \<Rightarrow> nat \<Rightarrow> nat \<Rightarrow> u32" where
  "SHIFTL v s w = push_bit s (v AND (2 ^ w - 1))"

definition SHIFTR :: "u32 \<Rightarrow> nat \<Rightarrow> nat \<Rightarrow> u32" where
  "SHIFTR v s w = drop_bit s v AND (2 ^ w - 1)"

definition udelay :: "nat \<Rightarrow> i2c \<Rightarrow> i2c" where
  "udelay us s = s\<lparr>bus := bus s @ [Delay us]\<rparr>"

definition viOpenI2C :: "u32 \<Rightarrow> i2c \<Rightarrow> i2c" where
  "viOpenI2C channel s =
     (let val = ((reg49 s AND NOT 0x8000) OR 0x4000) OR SHIFTL channel 15 1
      in s\<lparr>reg49 := val, bus := bus s @ [Direction val]\<rparr>)"

definition viSetSCL :: "u32 \<Rightarrow> i2c \<Rightarrow> i2c" where
  "viSetSCL channel s =
     (let val = (reg48 s AND NOT 0x4000) OR SHIFTL channel 14 1 in s\<lparr>reg48 := val, bus := bus s @ [Lines val]\<rparr>)"

definition viSetSDA :: "u32 \<Rightarrow> i2c \<Rightarrow> i2c" where
  "viSetSDA channel s =
     (let val = (reg48 s AND NOT 0x8000) OR SHIFTL channel 15 1 in s\<lparr>reg48 := val, bus := bus s @ [Lines val]\<rparr>)"

definition viGetSDA :: "i2c_env \<Rightarrow> i2c \<Rightarrow> u32" where
  "viGetSDA env s = SHIFTR (env (bus s)) 15 1"

text \<open>The bits of a byte, highest first; a bit is put on the data line before the clock goes up and down.\<close>

fun send_bits :: "nat \<Rightarrow> u8 \<Rightarrow> i2c \<Rightarrow> i2c" where
  "send_bits 0 c s = s"
| "send_bits (Suc n) c s =
     (let chan = (if c AND 0x80 \<noteq> 0 then i2cIdentFlag s else i2cIdentFlag s XOR 1)
      in send_bits n (push_bit 1 c) (viSetSCL 0 (udelay 2 (viSetSCL 1 (udelay 2 (viSetSDA chan s))))))"

text \<open>One more clock, in which the encoder answers; \<open>False\<close> when it does not.\<close>

definition take_ack :: "i2c_env \<Rightarrow> i2c \<Rightarrow> bool \<times> i2c" where
  "take_ack env s =
     (let s1 = udelay 2 (viSetSCL 1 (udelay 2 (viOpenI2C 0 s)))
      in if i2cIdentFlag s1 = 1 \<and> viGetSDA env s1 \<noteq> 0 then (False, s1)
         else (True, viSetSCL 0 (viOpenI2C 1 (viSetSDA (i2cIdentFlag s1 XOR 1) s1))))"

definition sendSlaveAddress :: "i2c_env \<Rightarrow> u8 \<Rightarrow> i2c \<Rightarrow> bool \<times> i2c" where
  "sendSlaveAddress env addr s =
     take_ack env (send_bits 8 addr (viSetSCL 0 (udelay 2 (viSetSDA (i2cIdentFlag s XOR 1) s))))"

fun send_data :: "i2c_env \<Rightarrow> u8 list \<Rightarrow> i2c \<Rightarrow> bool \<times> i2c" where
  "send_data env [] s = (True, s)"
| "send_data env (c # cs) s =
     (case take_ack env (send_bits 8 c s) of (ack, s1) \<Rightarrow> if ack then send_data env cs s1 else (False, s1))"

text \<open>The polarity is found out once: with nobody driving the data line, it reads high or low.\<close>

definition identify :: "i2c_env \<Rightarrow> i2c \<Rightarrow> i2c" where
  "identify env s =
     (if i2cIdentFirst s = 0 then
        (let s1 = udelay 4 (viOpenI2C 0 s)
         in s1\<lparr>i2cIdentFlag := (if viGetSDA env s1 \<noteq> 0 then 1 else 0), i2cIdentFirst := 1\<rparr>)
      else s)"

definition VIDEO_SetTrapFilter :: "i2c_env \<Rightarrow> bool \<Rightarrow> i2c \<Rightarrow> i2c" where
  "VIDEO_SetTrapFilter env enable s0 =
     (let s = identify env s0;
          data = (if enable then 1 else 0);
          s1 = udelay 4 (viSetSDA (i2cIdentFlag s) (viSetSCL 1 (viOpenI2C 1 s)));
          (ack, s2) = sendSlaveAddress env 0xe0 s1
      in if \<not> ack then udelay 2 s2
         else
           (let (sent, s3) = send_data env [0x03, data] (viOpenI2C 1 s2)
            in if \<not> sent then udelay 2 s3
               else udelay 2 (viSetSDA (i2cIdentFlag s3) (udelay 2 (viSetSDA (i2cIdentFlag s3 XOR 1) (viOpenI2C 1 s3))))))"

section \<open>What is on the wire\<close>

text \<open>
  The receiver's view: a bit is taken when the clock rises; a change of the data line while the clock is high is a start or a
  stop. While the code does not drive the data line, a rising clock is the slot in which the receiver answers by pulling the line
  down; taking the line back while the clock is high and letting it rise would be a stop. \<open>flag\<close> is the polarity of the line.
\<close>

datatype wire = Start | Stop | Bit bool | Answer

definition level :: "u32 \<Rightarrow> u32 \<Rightarrow> bool" where
  "level flag r \<longleftrightarrow> bit r 15 = (flag = 1)"

definition edge :: "u32 \<Rightarrow> u32 \<Rightarrow> u32 \<Rightarrow> wire list" where
  "edge flag old new =
     (if \<not> bit new 14 then []
      else if \<not> bit old 14 then [Bit (level flag new)]
      else if level flag old \<and> \<not> level flag new then [Start]
      else if \<not> level flag old \<and> level flag new then [Stop]
      else [])"

text \<open>One event, from the lines \<open>r\<close> and with the data line driven or not.\<close>

fun seen :: "u32 \<Rightarrow> u32 \<times> bool \<Rightarrow> bus_event \<Rightarrow> wire list" where
  "seen flag (r, driven) (Lines v) =
     (if driven then edge flag r v else if \<not> bit r 14 \<and> bit v 14 then [Answer] else [])"
| "seen flag (r, driven) (Direction d) = (if \<not> driven \<and> bit d 15 \<and> bit r 14 \<and> level flag r then [Stop] else [])"
| "seen flag (r, driven) (Delay n) = []"

fun after :: "u32 \<times> bool \<Rightarrow> bus_event \<Rightarrow> u32 \<times> bool" where
  "after (r, driven) (Lines v) = (v, driven)"
| "after (r, driven) (Direction d) = (r, bit d 15)"
| "after (r, driven) (Delay n) = (r, driven)"

fun wire_of :: "u32 \<Rightarrow> u32 \<times> bool \<Rightarrow> bus_event list \<Rightarrow> wire list" where
  "wire_of flag q [] = []"
| "wire_of flag q (e # es) = seen flag q e @ wire_of flag (after q e) es"

lemma wire_append: "wire_of flag q (es @ fs) = wire_of flag q es @ wire_of flag (fold (\<lambda>e q. after q e) es q) fs"
  by (induction es arbitrary: q) simp_all

text \<open>The bits of a byte as they are sent, highest first.\<close>

definition byte_bits :: "u8 \<Rightarrow> wire list" where
  "byte_bits c = map (\<lambda>i. Bit (bit c i)) (rev [0..<8])"

section \<open>Driving the lines\<close>

text \<open>The trace up to a state, as the receiver sees it that started at \<open>q\<close>.\<close>

definition received :: "u32 \<times> bool \<Rightarrow> i2c \<Rightarrow> wire list \<Rightarrow> bool" where
  "received q s ws \<longleftrightarrow>
     wire_of (i2cIdentFlag s) q (bus s) = ws \<and> fold (\<lambda>e q. after q e) (bus s) q = (reg48 s, bit (reg49 s) 15)"

definition clock :: "i2c \<Rightarrow> bool" where "clock s \<longleftrightarrow> bit (reg48 s) 14"
definition data_high :: "i2c \<Rightarrow> bool" where "data_high s \<longleftrightarrow> level (i2cIdentFlag s) (reg48 s)"
definition driven :: "i2c \<Rightarrow> bool" where "driven s \<longleftrightarrow> bit (reg49 s) 15"

lemma and_80: "(c AND 0x80 \<noteq> 0) = bit (c :: u8) 7"
proof -
  have "(0x80 :: u8) = 2 ^ 7" by simp
  then show ?thesis by (simp add: bit_iff_and_push_bit_not_eq_0 push_bit_eq_mult)
qed

lemma one_bit: "(2 ^ 1 - 1 :: u32) = 1" by simp

lemma lines_SCL:
  "bit ((r AND NOT 0x4000) OR SHIFTL ch 14 1 :: u32) 14 = bit ch 0" "bit ((r AND NOT 0x4000) OR SHIFTL ch 14 1 :: u32) 15 = bit r 15"
proof -
  have m: "(0x4000 :: u32) = 2 ^ 14" by simp
  show "bit ((r AND NOT 0x4000) OR SHIFTL ch 14 1 :: u32) 14 = bit ch 0" "bit ((r AND NOT 0x4000) OR SHIFTL ch 14 1 :: u32) 15 = bit r 15"
    unfolding m SHIFTL_def one_bit by (simp_all add: bit_or_iff bit_and_iff bit_not_iff bit_push_bit_iff bit_exp_iff bit_1_iff)
qed

lemma lines_SDA:
  "bit ((r AND NOT 0x8000) OR SHIFTL ch 15 1 :: u32) 15 = bit ch 0" "bit ((r AND NOT 0x8000) OR SHIFTL ch 15 1 :: u32) 14 = bit r 14"
proof -
  have m: "(0x8000 :: u32) = 2 ^ 15" by simp
  show "bit ((r AND NOT 0x8000) OR SHIFTL ch 15 1 :: u32) 15 = bit ch 0" "bit ((r AND NOT 0x8000) OR SHIFTL ch 15 1 :: u32) 14 = bit r 14"
    unfolding m SHIFTL_def one_bit by (simp_all add: bit_or_iff bit_and_iff bit_not_iff bit_push_bit_iff bit_exp_iff bit_1_iff)
qed

lemma direction_line:
  "bit (((r AND NOT 0x8000) OR 0x4000) OR SHIFTL ch 15 1 :: u32) 15 = bit ch 0"
proof -
  have m: "(0x8000 :: u32) = 2 ^ 15" "(0x4000 :: u32) = 2 ^ 14" by simp_all
  show ?thesis unfolding m SHIFTL_def one_bit
    by (simp_all add: bit_or_iff bit_and_iff bit_not_iff bit_push_bit_iff bit_exp_iff bit_1_iff)
qed

lemma set_lines:
  "reg48 (viSetSCL ch s) = (reg48 s AND NOT 0x4000) OR SHIFTL ch 14 1"
  "reg48 (viSetSDA ch s) = (reg48 s AND NOT 0x8000) OR SHIFTL ch 15 1"
  "reg49 (viOpenI2C ch s) = ((reg49 s AND NOT 0x8000) OR 0x4000) OR SHIFTL ch 15 1"
  by (simp_all add: viSetSCL_def viSetSDA_def viOpenI2C_def Let_def)

lemma drive_flag [simp]:
  "i2cIdentFlag (viSetSCL ch s) = i2cIdentFlag s" "i2cIdentFlag (viSetSDA ch s) = i2cIdentFlag s"
  "i2cIdentFlag (viOpenI2C ch s) = i2cIdentFlag s" "i2cIdentFlag (udelay n s) = i2cIdentFlag s"
  by (simp_all add: viSetSCL_def viSetSDA_def viOpenI2C_def udelay_def Let_def)

lemma drive_clock [simp]:
  "clock (viSetSCL ch s) = bit ch 0" "clock (viSetSDA ch s) = clock s" "clock (viOpenI2C ch s) = clock s" "clock (udelay n s) = clock s"
  unfolding clock_def set_lines lines_SCL lines_SDA by (simp_all add: viOpenI2C_def udelay_def Let_def)

lemma drive_data [simp]:
  "data_high (viSetSCL ch s) = data_high s" "data_high (viSetSDA ch s) = (bit ch 0 = (i2cIdentFlag s = 1))"
  "data_high (viOpenI2C ch s) = data_high s" "data_high (udelay n s) = data_high s"
  unfolding data_high_def level_def set_lines lines_SCL lines_SDA drive_flag by (simp_all add: viOpenI2C_def udelay_def Let_def)

lemma drive_driven [simp]:
  "driven (viSetSCL ch s) = driven s" "driven (viSetSDA ch s) = driven s" "driven (viOpenI2C ch s) = bit ch 0" "driven (udelay n s) = driven s"
  unfolding driven_def set_lines direction_line by (simp_all add: viSetSCL_def viSetSDA_def udelay_def Let_def)

lemma edge_SCL: "edge (i2cIdentFlag s) (reg48 s) (reg48 (viSetSCL ch s)) = (if bit ch 0 \<and> \<not> clock s then [Bit (data_high s)] else [])"
  using drive_clock(1) [of ch s] drive_data(1) [of ch s] by (auto simp: edge_def clock_def data_high_def)

lemma edge_SDA:
  "edge (i2cIdentFlag s) (reg48 s) (reg48 (viSetSDA ch s)) =
     (if \<not> clock s then []
      else if data_high s \<and> \<not> data_high (viSetSDA ch s) then [Start]
      else if \<not> data_high s \<and> data_high (viSetSDA ch s) then [Stop] else [])"
  using drive_clock(2) [of ch s] unfolding edge_def clock_def data_high_def drive_flag by simp

text \<open>What each operation adds to what the receiver sees.\<close>

lemma received_quiet: "received q s ws \<Longrightarrow> received q (udelay n s) ws"
  by (simp add: received_def udelay_def wire_append)

lemma received_SCL:
  assumes "received q s ws"
  shows "received q (viSetSCL ch s)
    (ws @ (if bit ch 0 \<and> \<not> clock s then if driven s then [Bit (data_high s)] else [Answer] else []))"
proof -
  have "received q (viSetSCL ch s)
      (ws @ (if driven s then edge (i2cIdentFlag s) (reg48 s) (reg48 (viSetSCL ch s)) else if \<not> clock s \<and> bit ch 0 then [Answer] else []))"
    using assms drive_clock(1) [of ch s] by (auto simp: received_def viSetSCL_def Let_def wire_append driven_def clock_def)
  then show ?thesis unfolding edge_SCL by (auto split: if_splits)
qed

lemma received_SDA:
  assumes "received q s ws"
  shows "received q (viSetSDA ch s)
    (ws @ (if \<not> driven s \<or> \<not> clock s then []
           else if data_high s \<and> bit ch 0 \<noteq> (i2cIdentFlag s = 1) then [Start]
           else if \<not> data_high s \<and> bit ch 0 = (i2cIdentFlag s = 1) then [Stop] else []))"
proof -
  have "received q (viSetSDA ch s) (ws @ (if driven s then edge (i2cIdentFlag s) (reg48 s) (reg48 (viSetSDA ch s)) else []))"
    using assms drive_clock(2) [of ch s] by (auto simp: received_def viSetSDA_def Let_def wire_append driven_def clock_def)
  then show ?thesis unfolding edge_SDA drive_data by (auto split: if_splits)
qed

lemma received_Open:
  "received q s ws \<Longrightarrow> received q (viOpenI2C ch s) (ws @ (if \<not> driven s \<and> bit ch 0 \<and> clock s \<and> data_high s then [Stop] else []))"
  using drive_driven(3) [of ch s] by (auto simp: received_def viOpenI2C_def Let_def wire_append driven_def clock_def data_high_def)

text \<open>One bit: the data line, the clock up, the clock down.\<close>

lemma one_clock:
  fixes m n :: nat and ch :: u32
  assumes "received q s ws" and "\<not> clock s" "driven s"
  defines "t \<equiv> viSetSCL 0 (udelay m (viSetSCL 1 (udelay n (viSetSDA ch s))))"
  shows "received q t (ws @ [Bit (bit ch 0 = (i2cIdentFlag s = 1))])" "\<not> clock t" "driven t" "i2cIdentFlag t = i2cIdentFlag s"
proof -
  have "received q (udelay n (viSetSDA ch s)) ws"
    using received_quiet [OF received_SDA [OF assms(1), of ch], of n] assms(2) by simp
  from received_quiet [OF received_SCL [OF this, of 1], of m] assms(2,3)
  have "received q (udelay m (viSetSCL 1 (udelay n (viSetSDA ch s)))) (ws @ [Bit (bit ch 0 = (i2cIdentFlag s = 1))])"
    by simp
  from received_SCL [OF this, of 0] show "received q t (ws @ [Bit (bit ch 0 = (i2cIdentFlag s = 1))])"
    by (simp add: t_def)
  show "\<not> clock t" "driven t" "i2cIdentFlag t = i2cIdentFlag s" using assms(3) by (simp_all add: t_def)
qed

lemma shifted_bit: "i < 7 \<Longrightarrow> bit (push_bit 1 (c :: u8)) (Suc i) = bit c i"
  by (simp only: bit_push_bit_iff) simp

lemma send_bits_wire:
  assumes "received q s ws" and "\<not> clock s" "driven s" and "i2cIdentFlag s = 0 \<or> i2cIdentFlag s = 1" and "n \<le> 8"
  shows "received q (send_bits n c s) (ws @ map (\<lambda>i. Bit (bit c i)) (rev [8 - n..<8])) \<and>
    \<not> clock (send_bits n c s) \<and> driven (send_bits n c s) \<and> i2cIdentFlag (send_bits n c s) = i2cIdentFlag s"
  using assms
proof (induction n arbitrary: c s ws)
  case 0
  then show ?case by simp
next
  case (Suc n)
  let ?f = "i2cIdentFlag s"
  let ?ch = "if bit c 7 then ?f else ?f XOR 1"
  let ?t = "viSetSCL 0 (udelay 2 (viSetSCL 1 (udelay 2 (viSetSDA ?ch s))))"
  have "(bit ?ch 0 = (?f = 1)) = bit c 7" using Suc.prems(4) by auto
  with one_clock [OF Suc.prems(1-3), of 2 2 ?ch]
  have t: "received q ?t (ws @ [Bit (bit c 7)])" "\<not> clock ?t" "driven ?t" "i2cIdentFlag ?t = ?f" by simp_all
  have "map (\<lambda>i. Bit (bit (push_bit 1 c) i)) (rev [8 - n..<8]) = map (\<lambda>i. Bit (bit c i)) (rev [8 - Suc n..<7])"
  proof -
    have "8 - n = Suc (8 - Suc n)" using Suc.prems(5) by linarith
    then have "[8 - n..<8] = map Suc [8 - Suc n..<7]" using map_Suc_upt [of "8 - Suc n" 7] by simp
    then have "map (\<lambda>i. Bit (bit (push_bit 1 c) i)) (rev [8 - n..<8]) =
        map ((\<lambda>i. Bit (bit (push_bit 1 c) i)) \<circ> Suc) (rev [8 - Suc n..<7])" by (simp only: rev_map map_map)
    also have "\<dots> = map (\<lambda>i. Bit (bit c i)) (rev [8 - Suc n..<7])"
      by (rule map_cong [OF refl]) (auto simp only: comp_apply set_rev set_upt atLeastLessThan_iff shifted_bit)
    finally show ?thesis .
  qed
  moreover have "[8 - Suc n..<8] = [8 - Suc n..<7] @ [7]" using Suc.prems(5) upt_Suc_append [of "8 - Suc n" 7] by simp
  ultimately show ?case
    using Suc.IH [OF t(1-3), of "push_bit 1 c"] Suc.prems(4,5) t(4) by (simp add: and_80 Let_def del: upt_Suc)
qed

section \<open>Whole bytes\<close>

text \<open>The encoder answers, or the polarity is the one in which answers are not looked at.\<close>

definition answers :: "i2c_env \<Rightarrow> u32 \<Rightarrow> bool" where
  "answers env flag \<longleftrightarrow> flag = 0 \<or> (\<forall>es. SHIFTR (env es) 15 1 = 0)"

lemma take_ack_wire:
  assumes "received q s ws" and "\<not> clock s" "driven s" and "i2cIdentFlag s = 0 \<or> i2cIdentFlag s = 1" and "answers env (i2cIdentFlag s)"
  shows "\<exists>t. take_ack env s = (True, t) \<and> received q t (ws @ [Answer]) \<and> \<not> clock t \<and> driven t \<and> i2cIdentFlag t = i2cIdentFlag s"
proof -
  let ?f = "i2cIdentFlag s"
  let ?s1 = "udelay 2 (viSetSCL 1 (udelay 2 (viOpenI2C 0 s)))"
  let ?t = "viSetSCL 0 (viOpenI2C 1 (viSetSDA (?f XOR 1) ?s1))"
  have "received q (udelay 2 (viOpenI2C 0 s)) ws"
    using received_quiet [OF received_Open [OF assms(1), of 0], of 2] assms(3) by simp
  from received_quiet [OF received_SCL [OF this, of 1], of 2] assms(2) have 1: "received q ?s1 (ws @ [Answer])" by simp
  have "received q (viSetSDA (?f XOR 1) ?s1) (ws @ [Answer])" using received_SDA [OF 1, of "?f XOR 1"] by simp
  moreover have "\<not> data_high (viSetSDA (?f XOR 1) ?s1)" using assms(4) by auto
  ultimately have "received q (viOpenI2C 1 (viSetSDA (?f XOR 1) ?s1)) (ws @ [Answer])"
    using received_Open [of q "viSetSDA (?f XOR 1) ?s1" "ws @ [Answer]" 1] by simp
  from received_SCL [OF this, of 0] have "received q ?t (ws @ [Answer])" by simp
  moreover have "take_ack env s = (True, ?t)"
    using assms(4,5) by (auto simp: take_ack_def Let_def answers_def viGetSDA_def)
  ultimately show ?thesis by simp
qed

lemma send_byte_wire:
  assumes "received q s ws" and "\<not> clock s" "driven s" and "i2cIdentFlag s = 0 \<or> i2cIdentFlag s = 1" and "answers env (i2cIdentFlag s)"
  shows "\<exists>t. take_ack env (send_bits 8 c s) = (True, t) \<and> received q t (ws @ byte_bits c @ [Answer]) \<and> \<not> clock t \<and> driven t \<and>
    i2cIdentFlag t = i2cIdentFlag s"
proof -
  have b: "received q (send_bits 8 c s) (ws @ byte_bits c)" "\<not> clock (send_bits 8 c s)" "driven (send_bits 8 c s)"
      "i2cIdentFlag (send_bits 8 c s) = i2cIdentFlag s"
    using send_bits_wire [OF assms(1-4), of 8 c] by (simp_all add: byte_bits_def del: upt_Suc)
  from take_ack_wire [OF b(1-3), unfolded b(4), OF assms(4,5)] show ?thesis by simp
qed

lemma send_data_wire:
  assumes "received q s ws" and "\<not> clock s" "driven s" and "i2cIdentFlag s = 0 \<or> i2cIdentFlag s = 1" and "answers env (i2cIdentFlag s)"
  shows "\<exists>t. send_data env cs s = (True, t) \<and> received q t (ws @ concat (map (\<lambda>c. byte_bits c @ [Answer]) cs)) \<and>
    \<not> clock t \<and> driven t \<and> i2cIdentFlag t = i2cIdentFlag s"
  using assms
proof (induction cs arbitrary: s ws)
  case (Cons c cs)
  from send_byte_wire [OF Cons.prems, of c] obtain t where t: "take_ack env (send_bits 8 c s) = (True, t)"
      "received q t (ws @ byte_bits c @ [Answer])" "\<not> clock t" "driven t" "i2cIdentFlag t = i2cIdentFlag s" by blast
  from Cons.IH [OF t(2-4)] Cons.prems(4,5) t(1,5) show ?case by auto
qed simp

lemma start_wire:
  assumes "received q s ws" and "i2cIdentFlag s = 0 \<or> i2cIdentFlag s = 1"
  defines "f \<equiv> i2cIdentFlag s"
  defines "t \<equiv> viSetSCL 0 (udelay 2 (viSetSDA (f XOR 1) (udelay 4 (viSetSDA f (viSetSCL 1 (viOpenI2C 1 s))))))"
  shows "\<exists>pre. Start \<notin> set pre \<and> received q t (ws @ pre @ [Start])" "\<not> clock t" "driven t" "i2cIdentFlag t = f"
proof -
  obtain a where a: "Start \<notin> set a" "received q (viOpenI2C 1 s) (ws @ a)" 
    by (rule that [OF _ received_Open [OF assms(1)]]) simp
  obtain b where b: "Start \<notin> set b" "received q (viSetSCL 1 (viOpenI2C 1 s)) (ws @ b)"
    by (rule that [OF _ received_SCL [OF a(2), of 1, unfolded append_assoc]]) (use a(1) in simp)
  have high: "bit f 0 = (f = 1)" "bit (f XOR 1) 0 = (f \<noteq> 1)" using assms(2) by (auto simp: f_def)
  obtain c where c: "Start \<notin> set c" "received q (viSetSDA f (viSetSCL 1 (viOpenI2C 1 s))) (ws @ c)"
    by (rule that [OF _ received_SDA [OF b(2), of f, unfolded append_assoc]]) (use b(1) high(1) in \<open>simp add: f_def\<close>)
  from received_SDA [OF received_quiet [OF c(2), of 4], of "f XOR 1"] high
  have "received q (viSetSDA (f XOR 1) (udelay 4 (viSetSDA f (viSetSCL 1 (viOpenI2C 1 s))))) (ws @ c @ [Start])"
    by (simp add: f_def [symmetric])
  from received_SCL [OF received_quiet [OF this, of 2], of 0] have "received q t (ws @ c @ [Start])"
    by (simp add: t_def)
  with c(1) show "\<exists>pre. Start \<notin> set pre \<and> received q t (ws @ pre @ [Start])" by blast
  show "\<not> clock t" "driven t" "i2cIdentFlag t = f" by (simp_all add: t_def f_def)
qed

section \<open>The whole command\<close>

lemma identify_done: "i2cIdentFirst s \<noteq> 0 \<Longrightarrow> identify env s = s"
  by (simp add: identify_def)

lemma identify_flag: "i2cIdentFirst s = 0 \<Longrightarrow> i2cIdentFlag (identify env s) \<in> {0, 1} \<and> i2cIdentFirst (identify env s) = 1"
  by (simp add: identify_def Let_def)


definition example_i2c :: i2c where
  "example_i2c = \<lparr>i2cIdentFirst = 1, i2cIdentFlag = 1, reg48 = 0xC000, reg49 = 0xC000, bus = []\<rparr>"


end
