(* ===== verification/Platform.thy ===== *)
theory Platform
  imports Prelude
begin

text \<open>
  Small services. \<open>src/wii/debug.c\<close>: the search for a USB Gecko, and what is printed going to it in buffers of at most 256 bytes, line
  ends as two bytes. \<open>src/wii/net.c\<close>: the start of the network. \<open>libgamestream/tls_rng.c\<close> (its Wii branch): the seed of the TLS generator from the clock, the generator of
  the C library, the device number and the network address. \<open>libgamestream/sps.c\<close>: the H.264 parameter set
  of the stream is rewritten; reading and writing it is the vendored \<open>h264_stream\<close>, a parameter here.
\<close>

unbundle bit_operations_syntax

section \<open>The debug log\<close>

text \<open>One buffer: characters are taken while two more bytes fit, behind which one stays free.\<close>

fun fill_buffer :: "string \<Rightarrow> string \<Rightarrow> string \<times> string" where
  "fill_buffer buf [] = (buf, [])"
| "fill_buffer buf (c # cs) =
     (if length buf + 2 < 256 then fill_buffer (if c = CHR 0x0A then buf @ [CHR 0x0D, CHR 0x0A] else buf @ [c]) cs else (buf, c # cs))"

lemma fill_buffer_rest: "length (snd (fill_buffer buf cs)) \<le> length cs"
  by (induction buf cs rule: fill_buffer.induct) (auto intro: le_SucI)

lemma fill_buffer_less: "ptr \<noteq> [] \<Longrightarrow> length (snd (fill_buffer [] ptr)) < length ptr"
  using fill_buffer_rest by (cases ptr) (auto simp: less_Suc_eq_le)

function send_buffers :: "string \<Rightarrow> string list" where
  "send_buffers ptr =
     (if ptr = [] then []
      else case fill_buffer [] ptr of (buf, rest) \<Rightarrow> (if buf \<noteq> [] then [buf] else []) @ send_buffers rest)"
  by auto
termination by (relation "measure length") (simp, metis fill_buffer_less in_measure snd_conv)

declare send_buffers.simps [simp del]

text \<open>The result, and the buffers handed to \<open>usb_sendbuffer_safe\<close>; no channel, no output.\<close>

definition gecko_write :: "int \<Rightarrow> string \<Rightarrow> nat \<times> string list" where
  "gecko_write gecko_chn ptr = (length ptr, if gecko_chn < 0 then [] else send_buffers ptr)"

definition expand_newline :: "char \<Rightarrow> string" where
  "expand_newline c = (if c = CHR 0x0A then [CHR 0x0D, CHR 0x0A] else [c])"

lemma fill_buffer_text:
  "fill_buffer buf cs = (b, rest) \<Longrightarrow> length buf \<le> 255 \<Longrightarrow>
     b @ concat (map expand_newline rest) = buf @ concat (map expand_newline cs) \<and> length b \<le> 255"
proof (induction buf cs rule: fill_buffer.induct)
  case (2 buf c cs)
  then show ?case by (cases "length buf + 2 < 256") (auto simp: expand_newline_def split: if_splits)
qed simp

text \<open>Everything is sent, in order, with every line end as two bytes, and a buffer is never overrun.\<close>

lemma gecko_text:
  assumes "0 \<le> chn"
  shows "fst (gecko_write chn ptr) = length ptr \<and> concat (snd (gecko_write chn ptr)) = concat (map expand_newline ptr) \<and>
    (\<forall>b \<in> set (snd (gecko_write chn ptr)). length b \<le> 255)"
proof -
  have "concat (send_buffers ptr) = concat (map expand_newline ptr) \<and> (\<forall>b \<in> set (send_buffers ptr). length b \<le> 255)"
  proof (induction ptr rule: send_buffers.induct)
    case (1 ptr)
    show ?case
    proof (cases "ptr = []")
      case True
      then show ?thesis by (simp add: send_buffers.simps)
    next
      case False
      obtain b rest where f: "fill_buffer [] ptr = (b, rest)" by fastforce
      from "1.IH" [OF False f [symmetric]] fill_buffer_text [OF f] False f show ?thesis
        by (subst (1 2) send_buffers.simps) auto
    qed
  qed
  with assms show ?thesis by (simp add: gecko_write_def)
qed

section \<open>Where the log goes\<close>

text \<open>\<open>Debug_Init\<close>: up to 20 rounds look for a USB Gecko on either channel; \<open>alive i c\<close> is the answer of channel \<open>c\<close> in round
  \<open>i\<close>. The result is the channel, -1 for none; only with one are the standard streams redirected.\<close>

fun find_gecko :: "(nat \<Rightarrow> nat \<Rightarrow> bool) \<Rightarrow> nat \<Rightarrow> nat \<Rightarrow> int" where
  "find_gecko alive i 0 = -1"
| "find_gecko alive i (Suc n) = (if alive i 0 then 0 else if alive i 1 then 1 else find_gecko alive (i + 1) n)"

definition Debug_Init :: "(nat \<Rightarrow> nat \<Rightarrow> bool) \<Rightarrow> int \<times> bool" where
  "Debug_Init alive = (let gecko_chn = find_gecko alive 0 20 in (gecko_chn, 0 \<le> gecko_chn))"

lemma find_gecko_found:
  "(0 \<le> find_gecko alive i n \<longleftrightarrow> (\<exists>k < n. alive (i + k) 0 \<or> alive (i + k) 1)) \<and>
   (find_gecko alive i n = 0 \<longrightarrow> (\<exists>k < n. alive (i + k) 0)) \<and> (find_gecko alive i n = 1 \<longrightarrow> (\<exists>k < n. alive (i + k) 1)) \<and>
   (find_gecko alive i n = -1 \<or> find_gecko alive i n = 0 \<or> find_gecko alive i n = 1)"
proof (induction n arbitrary: i)
  case (Suc n)
  have ex: "(\<exists>k < Suc n. P (i + k)) \<longleftrightarrow> P i \<or> (\<exists>k < n. P (i + 1 + k))" for P
    using less_Suc_eq_0_disj by auto
  show ?case using Suc.IH [of "i + 1"] ex [of "\<lambda>k. alive k 0"] ex [of "\<lambda>k. alive k 1"] ex [of "\<lambda>k. alive k 0 \<or> alive k 1"]
    by simp
qed simp

text \<open>The streams are redirected to a channel that answered.\<close>

lemma debug_channel_alive:
  assumes "Debug_Init alive = (c, True)"
  shows "(c = 0 \<or> c = 1) \<and> (\<exists>k < 20. alive k (nat c))"
  using assms find_gecko_found [of alive 0 20] by (auto simp: Debug_Init_def Let_def)

section \<open>The start of the network\<close>

datatype net_start = Net_init | Soc_init | Net_gethostip | Net_get_mac_address | Net_deinit

text \<open>The socket device is registered, and the addresses are asked for, only when \<open>net_init\<close> worked.\<close>

definition wii_net_init :: "int \<Rightarrow> net_start list" where
  "wii_net_init rc = [Net_init] @ (if rc \<noteq> 0 then [] else [Soc_init, Net_gethostip, Net_get_mac_address])"

definition wii_net_shutdown :: "net_start list" where
  "wii_net_shutdown = [Net_deinit]"

section \<open>The seed\<close>

text \<open>What the console answers at the successive steps of the loop.\<close>

record entropy_sources =
  es_device :: "u32 option"
  es_mac :: "u8 list option"
  es_timebase :: "nat \<Rightarrow> u64"
  es_clock :: "nat \<Rightarrow> u32"
  es_rand :: "nat \<Rightarrow> u32"

definition mac_bytes :: "entropy_sources \<Rightarrow> u8 list" where
  "mac_bytes es = (case es_mac es of None \<Rightarrow> replicate 6 0 | Some m \<Rightarrow> m)"

definition rng_word :: "entropy_sources \<Rightarrow> nat \<Rightarrow> u32" where
  "rng_word es i =
     (let tb = es_timebase es (i div 4)
      in ucast tb XOR ucast (drop_bit 32 tb) XOR es_clock es (i div 4) XOR es_rand es (i div 4) XOR
         (case es_device es of None \<Rightarrow> 0 | Some d \<Rightarrow> d) XOR ucast (mac_bytes es ! (i div 4 mod 6)))"

function rng_from :: "entropy_sources \<Rightarrow> nat \<Rightarrow> nat \<Rightarrow> u8 list" where
  "rng_from es i len =
     (if i < len then take (if len - i < 4 then len - i else 4) (be32 (rng_word es i)) @ rng_from es (i + 4) len else [])"
  by auto
termination by (relation "measure (\<lambda>(es, i, len). len - i)") auto

declare rng_from.simps [simp del]

text \<open>The value is 0; the result here is what was written to \<open>output\<close>.\<close>

definition tls_rng :: "entropy_sources \<Rightarrow> nat \<Rightarrow> u8 list" where
  "tls_rng es len = rng_from es 0 len"

lemma rng_from_length: "length (rng_from es i len) = len - i"
proof (induction es i len rule: rng_from.induct)
  case (1 es i len)
  then show ?case by (subst rng_from.simps) (auto simp: be32_def)
qed

lemma tls_rng_fills: "length (tls_rng es len) = len"
  by (simp add: tls_rng_def rng_from_length)

section \<open>The parameter set\<close>

record vui_t =
  video_signal_type_present_flag :: int
  chroma_loc_info_present_flag :: int
  bitstream_restriction_flag :: int
  motion_vectors_over_pic_boundaries_flag :: int
  max_bytes_per_pic_denom :: int
  max_bits_per_mb_denom :: int
  log2_max_mv_length_horizontal :: int
  log2_max_mv_length_vertical :: int
  num_reorder_frames :: int
  max_dec_frame_buffering :: int

record sps_t =
  level_idc :: int
  num_ref_frames :: int
  vui :: vui_t

definition GS_SPS_REMOVE_VST_FIXUP :: u32 where "GS_SPS_REMOVE_VST_FIXUP = 0x02"
definition GS_SPS_REMOVE_CLI_FIXUP :: u32 where "GS_SPS_REMOVE_CLI_FIXUP = 0x04"
definition GS_SPS_BITSTREAM_FIXUP :: u32 where "GS_SPS_BITSTREAM_FIXUP = 0x01"

definition fix_level :: "int \<Rightarrow> int \<Rightarrow> sps_t \<Rightarrow> sps_t" where
  "fix_level initial_width initial_height s =
     (if initial_width = 1280 \<and> initial_height = 720 then s\<lparr>level_idc := 32\<rparr>
      else if initial_width = 1920 \<and> initial_height = 1080 then s\<lparr>level_idc := 42\<rparr> else s)"

definition restrict_bitstream :: "vui_t \<Rightarrow> vui_t" where
  "restrict_bitstream v =
     (let v1 = (if bitstream_restriction_flag v = 0 then
                  v\<lparr>bitstream_restriction_flag := 1, motion_vectors_over_pic_boundaries_flag := 1, max_bits_per_mb_denom := 1,
                    log2_max_mv_length_horizontal := 16, log2_max_mv_length_vertical := 16, num_reorder_frames := 0\<rparr>
                else v)
      in v1\<lparr>max_dec_frame_buffering := 1, max_bytes_per_pic_denom := 2, max_bits_per_mb_denom := 1\<rparr>)"

definition fix_sps :: "int \<Rightarrow> int \<Rightarrow> u32 \<Rightarrow> sps_t \<Rightarrow> sps_t" where
  "fix_sps initial_width initial_height flags s0 =
     (let s1 = (fix_level initial_width initial_height s0)\<lparr>num_ref_frames := 1\<rparr>;
          v1 = (if flags AND GS_SPS_REMOVE_VST_FIXUP \<noteq> 0 then (vui s1)\<lparr>video_signal_type_present_flag := 0\<rparr> else vui s1);
          v2 = (if flags AND GS_SPS_REMOVE_CLI_FIXUP \<noteq> 0 then v1\<lparr>chroma_loc_info_present_flag := 0\<rparr> else v1);
          v3 = (if flags AND GS_SPS_BITSTREAM_FIXUP = GS_SPS_BITSTREAM_FIXUP then restrict_bitstream v2 else v2)
      in s1\<lparr>vui := v3\<rparr>)"

text \<open>
  \<open>read_nal\<close> takes a unit apart, \<open>write_nal\<close> puts one together in at most 128 bytes. The result is \<open>out_buf\<close> and
  \<open>out_offset\<close>; \<open>None\<close> is a write behind the buffer.
\<close>

definition gs_sps_fix ::
  "(u8 list \<Rightarrow> sps_t) \<Rightarrow> (sps_t \<Rightarrow> u8 list) \<Rightarrow> int \<Rightarrow> int \<Rightarrow> u8 list \<Rightarrow> u32 \<Rightarrow> u8 list \<Rightarrow> nat \<Rightarrow> (u8 list \<times> nat) option" where
  "gs_sps_fix read_nal write_nal initial_width initial_height sps flags out_buf out_offset =
     (let unit_bytes = take 128 (write_nal (fix_sps initial_width initial_height flags (read_nal (drop 4 sps))));
          out = [0, 0, 0, 1] @ unit_bytes
      in if out_offset + length out \<le> length out_buf then Some (blit out_buf out_offset out, out_offset + length out) else None)"

text \<open>Fixing twice is fixing once, and a fixed set never asks for more than one buffered picture.\<close>

lemma fix_sps_idem: "fix_sps w h flags (fix_sps w h flags s) = fix_sps w h flags s"
  by (simp add: fix_sps_def fix_level_def restrict_bitstream_def Let_def)

lemma fix_sps_one_frame:
  "num_ref_frames (fix_sps w h flags s) = 1"
  "flags AND GS_SPS_BITSTREAM_FIXUP = GS_SPS_BITSTREAM_FIXUP \<Longrightarrow>
     bitstream_restriction_flag (vui (fix_sps w h flags s)) \<noteq> 0 \<and> max_dec_frame_buffering (vui (fix_sps w h flags s)) = 1"
  by (simp_all add: fix_sps_def fix_level_def restrict_bitstream_def Let_def)

end
