(* ===== verification/WiiuVideo.thy ===== *)
theory WiiuVideo
  imports FrameQueue
begin

text \<open>
  The Wii U port's way of a picture: \<open>src/wiiu/wiiu.c\<close> (frame queue and drawing) and \<open>src/wiiu/decode.c\<close>. Its hardware decoder
  writes straight into the texture whose turn it is; the H.264 library is a parameter (\<open>h264_lib\<close>), the drawing of a
  texture on both screens is its number in \<open>drawn\<close>. The queue is the same ring as in the Wii port and satisfies the
  same contract.
\<close>

unbundle bit_operations_syntax

section \<open>The queue and the drawing\<close>

definition WIIU_NUM_BUFFERS :: nat where "WIIU_NUM_BUFFERS = 2"
definition WIIU_MAX_QUEUEMESSAGES :: nat where "WIIU_MAX_QUEUEMESSAGES = 16"

record wiiu_video =
  wu_currentFrame :: u32
  wu_nextFrame :: u32
  wu_queueMessages :: "nat option list"
  wu_queueWriteIndex :: u32
  wu_queueReadIndex :: u32
  drawn :: "nat list"

definition wiiu_stream_init :: "wiiu_video \<Rightarrow> wiiu_video" where
  "wiiu_stream_init s = s\<lparr>wu_currentFrame := 0, wu_nextFrame := 0, wu_queueReadIndex := 0, wu_queueWriteIndex := 0\<rparr>"

definition wiiu_get_frame :: "wiiu_video \<Rightarrow> nat option \<times> wiiu_video" where
  "wiiu_get_frame s =
     (let elements_in = wu_queueWriteIndex s - wu_queueReadIndex s
      in if elements_in = 0 then (None, s)
         else (let i = wu_queueReadIndex s AND of_nat (WIIU_MAX_QUEUEMESSAGES - 1)
               in (wu_queueMessages s ! unat i, s\<lparr>wu_queueReadIndex := wu_queueReadIndex s + 1\<rparr>)))"

definition wiiu_add_frame :: "nat \<Rightarrow> wiiu_video \<Rightarrow> wiiu_video" where
  "wiiu_add_frame msg s =
     (let elements_in = wu_queueWriteIndex s - wu_queueReadIndex s
      in if elements_in = of_nat WIIU_MAX_QUEUEMESSAGES then s
         else (let i = wu_queueWriteIndex s AND of_nat (WIIU_MAX_QUEUEMESSAGES - 1)
               in s\<lparr>wu_queueWriteIndex := wu_queueWriteIndex s + 1,
                    wu_queueMessages := (wu_queueMessages s)[unat i := Some msg]\<rparr>))"

text \<open>Numbers are unsigned: \<open>nextFrame - NUM_BUFFERS\<close> wraps around for the first frames.\<close>

definition wiiu_stream_draw :: "wiiu_video \<Rightarrow> wiiu_video" where
  "wiiu_stream_draw s =
     (case wiiu_get_frame s of
        (None, s1) \<Rightarrow> s1
      | (Some tex, s1) \<Rightarrow>
          (let s2 = s1\<lparr>wu_currentFrame := wu_currentFrame s1 + 1\<rparr>
           in if wu_currentFrame s2 \<le> wu_nextFrame s2 - of_nat WIIU_NUM_BUFFERS then s2
              else s2\<lparr>drawn := drawn s2 @ [tex]\<rparr>))"

section \<open>The decoder\<close>

definition H264_FRAME_PITCH :: "int \<Rightarrow> int" where "H264_FRAME_PITCH w = (w + 0xff) AND NOT 0xff"
definition H264_FRAME_HEIGHT :: "int \<Rightarrow> int" where "H264_FRAME_HEIGHT h = (h + 0xf) AND NOT 0xf"
definition H264_FRAME_SIZE :: "int \<Rightarrow> int \<Rightarrow> int" where "H264_FRAME_SIZE w h = drop_bit 1 (w * h * 3)"
definition WIIU_DECODER_BUFFER_SIZE :: nat where "WIIU_DECODER_BUFFER_SIZE = 92 * 1024"

text \<open>
  \<open>h_setup\<close> are the results of the six calls on the decoder's memory, in their order; \<open>h_segment\<close> is the check of a texture's
  memory; \<open>h_bitstream\<close> and \<open>h_execute\<close> answer to the packets so far.
\<close>

record h264_lib =
  h_memory :: bool
  h_setup :: "int list"
  h_image :: "nat \<Rightarrow> u8 list option"
  h_segment :: "u8 list option \<Rightarrow> int \<Rightarrow> int"
  h_buffer :: "nat \<Rightarrow> u8 list option"
  h_bitstream :: "u8 list list \<Rightarrow> int"
  h_execute :: "u8 list list \<Rightarrow> int \<times> u8 list"

record wiiu_decoder =
  wu_decoder :: bool
  wu_decodebuffer :: "u8 list option"
  wu_currentTexture :: nat
  wu_images :: "u8 list option list"
  wu_packets :: "u8 list list"
  wu_video :: wiiu_video

fun setup_textures :: "nat list \<Rightarrow> h264_lib \<Rightarrow> int \<Rightarrow> int \<Rightarrow> wiiu_decoder \<Rightarrow> bool \<times> wiiu_decoder" where
  "setup_textures [] lib width height s = (True, s)"
| "setup_textures (i # js) lib width height s =
     (let pic = h_image lib (nat (H264_FRAME_SIZE (H264_FRAME_PITCH width) (H264_FRAME_HEIGHT height)));
          s1 = s\<lparr>wu_images := (wu_images s)[i := pic]\<rparr>
      in if h_segment lib pic (H264_FRAME_SIZE (H264_FRAME_PITCH width) height) \<noteq> 0 then (False, s1)
         else setup_textures js lib width height s1)"

definition wiiu_decoder_setup :: "h264_lib \<Rightarrow> int \<Rightarrow> int \<Rightarrow> int \<Rightarrow> wiiu_decoder \<Rightarrow> int \<times> wiiu_decoder" where
  "wiiu_decoder_setup lib videoFormat width height s =
     (if videoFormat \<noteq> 1 then (-1, s)
      else if \<not> h_memory lib then (-1, s\<lparr>wu_decoder := False\<rparr>)
      else
        (let s1 = s\<lparr>wu_decoder := True, wu_packets := []\<rparr>
         in if list_ex (\<lambda>r. r \<noteq> 0) (h_setup lib) then (-1, s1)
            else
              (case setup_textures [0..<WIIU_NUM_BUFFERS] lib width height s1 of
                 (False, s2) \<Rightarrow> (-1, s2)
               | (True, s2) \<Rightarrow>
                   (let b = h_buffer lib (WIIU_DECODER_BUFFER_SIZE + 64); s3 = s2\<lparr>wu_currentTexture := 0, wu_decodebuffer := b\<rparr>
                    in (if b = None then -1 else 0, s3)))))"

definition wiiu_decoder_cleanup :: "wiiu_decoder \<Rightarrow> wiiu_decoder" where
  "wiiu_decoder_cleanup s =
     s\<lparr>wu_decoder := False, wu_decodebuffer := None, wu_images := map (\<lambda>_. None) (wu_images s)\<rparr>"

fun wiiu_gather :: "u8 list list \<Rightarrow> nat \<Rightarrow> u8 list \<Rightarrow> (nat \<times> u8 list) option" where
  "wiiu_gather [] n buf = Some (n, buf)"
| "wiiu_gather (e # es) n buf =
     (if n + length e \<le> length buf then wiiu_gather es (n + length e) (blit buf n e) else None)"

text \<open>\<open>None\<close> is a write behind the buffer or through \<open>NULL\<close>.\<close>

definition wiiu_decoder_submit_decode_unit ::
  "h264_lib \<Rightarrow> nat \<Rightarrow> u8 list list \<Rightarrow> wiiu_decoder \<Rightarrow> (int \<times> wiiu_decoder) option" where
  "wiiu_decoder_submit_decode_unit lib fullLength entries s =
     (if WIIU_DECODER_BUFFER_SIZE < fullLength then Some (0, s)
      else
        (case wu_decodebuffer s of
           None \<Rightarrow> None
         | Some buf0 \<Rightarrow>
             Option.bind (wiiu_gather entries 0 buf0) (\<lambda>(n, buf).
               let s1 = s\<lparr>wu_decodebuffer := Some buf, wu_packets := wu_packets s @ [take n buf]\<rparr>
               in if h_bitstream lib (wu_packets s1) \<noteq> 0 then Some (-1, s1)
                  else
                    (case h_execute lib (wu_packets s1) of
                       (res, pic) \<Rightarrow>
                         (let i = wu_currentTexture s1; s2 = s1\<lparr>wu_images := (wu_images s1)[i := Some pic]\<rparr>
                          in if res AND NOT 0xff \<noteq> 0 then Some (-1, s2)
                             else
                               (let v = wu_video s2; v1 = wiiu_add_frame i (v\<lparr>wu_nextFrame := wu_nextFrame v + 1\<rparr>)
                                in Some (0, s2\<lparr>wu_video := v1,
                                     wu_currentTexture := (if WIIU_NUM_BUFFERS \<le> i + 1 then 0 else i + 1)\<rparr>)))))))"

section \<open>The same contract\<close>

text \<open>The queue of the other port, seen through its fields; the operations agree on them.\<close>

definition as_wii :: "wiiu_video \<Rightarrow> wii_video" where
  "as_wii s = \<lparr>currentFrame = wu_currentFrame s, nextFrame = wu_nextFrame s, frames = [], queueMessages = wu_queueMessages s,
     queueWriteIndex = wu_queueWriteIndex s, queueReadIndex = wu_queueReadIndex s\<rparr>"

definition wiiu_contents :: "wiiu_video \<Rightarrow> nat list" where
  "wiiu_contents s = queue_contents (as_wii s)"

definition wiiu_queue_ok :: "wiiu_video \<Rightarrow> bool" where
  "wiiu_queue_ok s \<longleftrightarrow> queue_ok (as_wii s)"

lemma as_wii_add: "as_wii (wiiu_add_frame x s) = add_frame x (as_wii s)"
  by (simp add: as_wii_def wiiu_add_frame_def add_frame_def WIIU_MAX_QUEUEMESSAGES_def MAX_QUEUEMESSAGES_def Let_def)

lemma as_wii_get: "fst (wiiu_get_frame s) = fst (get_frame (as_wii s))" "as_wii (snd (wiiu_get_frame s)) = snd (get_frame (as_wii s))"
  by (simp_all add: as_wii_def wiiu_get_frame_def get_frame_def WIIU_MAX_QUEUEMESSAGES_def MAX_QUEUEMESSAGES_def Let_def)

interpretation wq: bounded_queue wiiu_add_frame wiiu_get_frame wiiu_contents wiiu_queue_ok WIIU_MAX_QUEUEMESSAGES
proof unfold_locales
  have cap: "WIIU_MAX_QUEUEMESSAGES = MAX_QUEUEMESSAGES" by (simp add: WIIU_MAX_QUEUEMESSAGES_def MAX_QUEUEMESSAGES_def)
  fix q :: wiiu_video
  assume "wiiu_queue_ok q"
  then have q: "queue_ok (as_wii q)" by (simp add: wiiu_queue_ok_def)
  show "length (wiiu_contents q) \<le> WIIU_MAX_QUEUEMESSAGES" using fq.ok_cap [OF q] by (simp add: wiiu_contents_def cap)
  show "wiiu_queue_ok (wiiu_add_frame x q)" for x using fq.ok_enq [OF q] by (simp add: wiiu_queue_ok_def as_wii_add)
  show "wiiu_contents (wiiu_add_frame x q) = spec_enq WIIU_MAX_QUEUEMESSAGES x (wiiu_contents q)" for x
    using fq.contents_enq [OF q] by (simp add: wiiu_contents_def as_wii_add cap)
  show "wiiu_queue_ok (snd (wiiu_get_frame q))" using fq.ok_deq [OF q] by (simp add: wiiu_queue_ok_def as_wii_get)
  show "spec_deq (wiiu_contents q) = (fst (wiiu_get_frame q), wiiu_contents (snd (wiiu_get_frame q)))"
    using fq.contents_deq [OF q] by (simp add: wiiu_contents_def as_wii_get)
qed

lemma wiiu_queue_fifo:
  "wiiu_queue_ok s \<Longrightarrow> exec_ops wiiu_add_frame wiiu_get_frame ops s = (rs, t) \<Longrightarrow>
     somes rs @ wiiu_contents t = wiiu_contents s @ accepted WIIU_MAX_QUEUEMESSAGES ops (length (wiiu_contents s))"
  by (rule wq.exec_fifo)

text \<open>Here too the queue has more room than there are textures.\<close>

interpretation wp: buffer_pool wiiu_add_frame wiiu_get_frame wiiu_contents wiiu_queue_ok WIIU_MAX_QUEUEMESSAGES WIIU_NUM_BUFFERS
  by unfold_locales (simp_all add: WIIU_MAX_QUEUEMESSAGES_def WIIU_NUM_BUFFERS_def)

lemma wiiu_late_drawer:
  assumes "wiiu_queue_ok s" and "wiiu_contents s = []" and "i < 2"
  shows "fst (wiiu_get_frame (fold wiiu_add_frame [i, 1 - i, i] s)) = Some i"
proof -
  have "turns WIIU_NUM_BUFFERS i (Suc WIIU_NUM_BUFFERS) = [i, 1 - i, i]"
    using assms(3) by (auto simp: turns_def WIIU_NUM_BUFFERS_def less_2_cases_iff upt_rec)
  with wp.late_consumer [OF assms(1,2), of i] assms(3) show ?thesis by (simp add: WIIU_NUM_BUFFERS_def)
qed

section \<open>Which frames are drawn\<close>

text \<open>With two or more frames decoded, the drawer skips exactly the frames it is more than one behind with.\<close>

lemma draw_skips:
  assumes "wiiu_get_frame s = (Some tex, s1)" and "2 \<le> unat (wu_nextFrame s)" and "unat (wu_currentFrame s) + 1 < 2 ^ 32"
  shows "drawn (wiiu_stream_draw s) =
    (if unat (wu_currentFrame s) + 1 + 2 \<le> unat (wu_nextFrame s) then drawn s else drawn s @ [tex])"
proof -
  have s1: "wu_currentFrame s1 = wu_currentFrame s" "wu_nextFrame s1 = wu_nextFrame s" "drawn s1 = drawn s"
    using assms(1) by (auto simp: wiiu_get_frame_def Let_def split: if_splits)
  have "unat (wu_currentFrame s + 1) = unat (wu_currentFrame s) + 1"
    using assms(3) by (simp add: unat_word_ariths)
  moreover have "(2 :: u32) \<le> wu_nextFrame s" using assms(2) by (simp add: word_le_nat_alt)
  then have "unat (wu_nextFrame s - 2) = unat (wu_nextFrame s) - 2" by (simp add: unat_sub)
  ultimately show ?thesis
    using assms(1,2) s1 by (auto simp: wiiu_stream_draw_def Let_def WIIU_NUM_BUFFERS_def word_le_nat_alt)
qed

text \<open>The very first frame is skipped although nobody is behind: \<open>1 - 2\<close> is the largest number.\<close>

lemma first_frame_skipped:
  assumes "wiiu_get_frame s = (Some tex, s1)" and "wu_nextFrame s = 1" and "wu_currentFrame s = 0"
  shows "drawn (wiiu_stream_draw s) = drawn s"
proof -
  have s1: "wu_currentFrame s1 = 0" "wu_nextFrame s1 = 1" "drawn s1 = drawn s"
    using assms by (auto simp: wiiu_get_frame_def Let_def split: if_splits)
  have "(1 :: u32) \<le> - 1" by (rule word_order.extremum)
  then show ?thesis using assms(1) s1 by (simp add: wiiu_stream_draw_def Let_def WIIU_NUM_BUFFERS_def)
qed

end
