(* ===== verification/WiiuInput.thy ===== *)
theory WiiuInput
  imports Input
begin

text \<open>
  \<open>src/wiiu/input.c\<close>: the touch screen as a mouse or a touch pad, the gamepad and up to four other controllers as controllers of
  the stream, and the buttons of the menus. What \<open>VPADRead\<close>, \<open>KPADReadEx\<close> and \<open>WPADProbe\<close> say at a poll is an argument, as
  is the clock in milliseconds. The buttons of the three kinds of controller are named alike and a mask of buttons is the set of their names; a
  stick's deflection times \<open>INT16_MAX\<close> is given as the 16-bit number it is truncated to.
\<close>

unbundle bit_operations_syntax

section \<open>Data\<close>

datatype mouse_modes = MOUSE_MODE_RELATIVE | MOUSE_MODE_ABSOLUTE | MOUSE_MODE_TOUCHSCREEN

datatype pad_button =
    PAD_A | PAD_B | PAD_X | PAD_Y | PAD_UP | PAD_DOWN | PAD_LEFT | PAD_RIGHT | PAD_L | PAD_R | PAD_ZL | PAD_ZR
  | PAD_STICK_L | PAD_STICK_R | PAD_PLUS | PAD_MINUS | PAD_HOME

record pad_sample =
  hold :: "pad_button set"
  trigger :: "pad_button set"
  sticks :: "u16 \<times> u16 \<times> u16 \<times> u16"

record touch_data =
  td_touched :: bool
  td_x :: u16
  td_y :: u16

datatype extension = EXT_PRO pad_sample | EXT_CLASSIC pad_sample | EXT_OTHER

datatype touch_kind = TOUCH_DOWN | TOUCH_MOVE | TOUCH_UP

datatype li_event =
    Mouse_position u16 u16
  | Mouse_button bool
  | Mouse_move u16 u16
  | Touch touch_kind u16 u16
  | Controller controller_event

record wiiu_input =
  disable_gamepad :: bool
  swap_buttons :: bool
  mouse_mode :: mouse_modes
  lastTouched :: nat
  touched :: bool
  last_x :: u16
  last_y :: u16
  touchDownMillis :: u64
  home_pressed :: "u64 list"
  wu_client :: client_state
  sent :: "li_event list"

definition LS_CLK_FLAG :: u16 where "LS_CLK_FLAG = 0x0040"
definition RS_CLK_FLAG :: u16 where "RS_CLK_FLAG = 0x0080"
definition SPECIAL_FLAG :: u16 where "SPECIAL_FLAG = 0x0400"

definition TAP_MILLIS :: u64 where "TAP_MILLIS = 100"
definition DRAG_DISTANCE :: int where "DRAG_DISTANCE = 10"

definition send :: "li_event list \<Rightarrow> wiiu_input \<Rightarrow> wiiu_input" where
  "send evs s = s\<lparr>sent := sent s @ evs\<rparr>"

section \<open>The touch screen\<close>

definition touch_absolute :: "touch_data \<Rightarrow> wiiu_input \<Rightarrow> wiiu_input" where
  "touch_absolute t s =
     (if td_touched t then
        (let s1 = send [Mouse_position (td_x t) (td_y t)] s
         in if \<not> touched s1 then send [Mouse_button True] (s1\<lparr>touched := True\<rparr>) else s1)
      else if touched s then send [Mouse_button False] (s\<lparr>touched := False\<rparr>) else s)"

definition touch_screen :: "touch_data \<Rightarrow> wiiu_input \<Rightarrow> wiiu_input" where
  "touch_screen t s =
     (if td_touched t then
        (if \<not> touched s then send [Touch TOUCH_DOWN (td_x t) (td_y t)] (s\<lparr>touched := True\<rparr>)
         else send [Touch TOUCH_MOVE (td_x t) (td_y t)] s)
      else if touched s then send [Touch TOUCH_UP (td_x t) (td_y t)] (s\<lparr>touched := False\<rparr>) else s)"

text \<open>\<open>int16_t\<close> differences of 16-bit coordinates, and their magnitude in \<open>int16_t\<close> again.\<close>

definition diff16 :: "u16 \<Rightarrow> u16 \<Rightarrow> u16" where
  "diff16 a b = (let d = word_of_int (uint a - uint b) :: u16 in if sint d < 0 then - d else d)"

definition far :: "u16 \<Rightarrow> u16 \<Rightarrow> bool" where
  "far a b \<longleftrightarrow> uint a - uint b < -10 \<or> 10 < uint a - uint b"

text \<open>A finger that stays: a drag moves the pointer, and what may still be a tap is watched for having moved.\<close>

definition touch_hold :: "touch_data \<Rightarrow> u64 \<Rightarrow> wiiu_input \<Rightarrow> wiiu_input" where
  "touch_hold t now s =
     (if TAP_MILLIS < now - touchDownMillis s \<or> touchDownMillis s = 0 then
        (let s1 = (if td_x t \<noteq> last_x s \<or> td_y t \<noteq> last_y s
                   then send [Mouse_move (td_x t - last_x s) (td_y t - last_y s)] s else s)
         in s1\<lparr>last_x := td_x t, last_y := td_y t\<rparr>)
      else if far (td_x t) (last_x s) \<or> far (td_y t) (last_y s) \<or>
              DRAG_DISTANCE < sint (diff16 (td_x t) (last_x s)) + sint (diff16 (td_y t) (last_y s))
           then s\<lparr>touchDownMillis := 0\<rparr> else s)"

definition touch_relative :: "touch_data \<Rightarrow> u64 \<Rightarrow> wiiu_input \<Rightarrow> wiiu_input" where
  "touch_relative t now s =
     (if lastTouched s < 2 \<and> td_touched t then
        s\<lparr>touchDownMillis := now, last_x := td_x t, last_y := td_y t, lastTouched := lastTouched s + 1\<rparr>
      else
        (let s1 = (if lastTouched s \<noteq> 0 \<and> \<not> td_touched t \<and> now - touchDownMillis s < TAP_MILLIS
                   then send [Mouse_button True, Mouse_button False] s else s);
             s2 = (if td_touched t then touch_hold t now s1 else s1)
         in s2\<lparr>lastTouched := (if td_touched t then lastTouched s2 else 0)\<rparr>))"

definition handleTouch :: "touch_data \<Rightarrow> u64 \<Rightarrow> wiiu_input \<Rightarrow> wiiu_input" where
  "handleTouch t now s =
     (case mouse_mode s of
        MOUSE_MODE_ABSOLUTE \<Rightarrow> touch_absolute t s
      | MOUSE_MODE_TOUCHSCREEN \<Rightarrow> touch_screen t s
      | MOUSE_MODE_RELATIVE \<Rightarrow> touch_relative t now s)"

section \<open>Controllers\<close>

text \<open>\<open>CHECKBTN\<close>, over the table of its uses; a classic controller has no buttons on its sticks.\<close>

definition button_table :: "bool \<Rightarrow> (pad_button \<times> u16) list" where
  "button_table swap =
     (if swap then [(PAD_A, B_FLAG), (PAD_B, A_FLAG), (PAD_X, Y_FLAG), (PAD_Y, X_FLAG)]
      else [(PAD_A, A_FLAG), (PAD_B, B_FLAG), (PAD_X, X_FLAG), (PAD_Y, Y_FLAG)]) @
     [(PAD_UP, UP_FLAG), (PAD_DOWN, DOWN_FLAG), (PAD_LEFT, LEFT_FLAG), (PAD_RIGHT, RIGHT_FLAG), (PAD_L, LB_FLAG), (PAD_R, RB_FLAG)]"

definition stick_table :: "(pad_button \<times> u16) list" where
  "stick_table = [(PAD_STICK_L, LS_CLK_FLAG), (PAD_STICK_R, RS_CLK_FLAG)]"

definition menu_table :: "(pad_button \<times> u16) list" where
  "menu_table = [(PAD_PLUS, PLAY_FLAG), (PAD_MINUS, BACK_FLAG), (PAD_HOME, SPECIAL_FLAG)]"

definition pad_flags :: "(pad_button \<times> u16) list \<Rightarrow> pad_button set \<Rightarrow> u16" where
  "pad_flags table held = fold (\<lambda>(b, f) flags. if b \<in> held then flags OR f else flags) table 0"

text \<open>One controller with the next number; \<open>True\<close> when HOME ends the stream.\<close>

definition pad_report ::
  "(pad_button \<times> u16) list \<Rightarrow> pad_sample \<Rightarrow> u16 \<Rightarrow> u64 \<Rightarrow> nat \<times> wiiu_input \<Rightarrow> bool \<times> nat \<times> wiiu_input" where
  "pad_report table p pads now ns =
     (case ns of (n, s) \<Rightarrow>
        (let s1 = (if PAD_HOME \<in> trigger p then s\<lparr>home_pressed := (home_pressed s)[n := now]\<rparr> else s)
         in if PAD_HOME \<in> hold p \<and> 3000 < now - home_pressed s1 ! n then (True, n, s1\<lparr>wu_client := STATE_STOP_STREAM\<rparr>)
            else
              (case sticks p of (lx, ly, rx, ry) \<Rightarrow>
                (False, n + 1,
                 send [Controller \<lparr>controllerNumber = int n, activeGamepadMask = pads, buttonFlags = pad_flags table (hold p),
                   leftTrigger = (if PAD_ZL \<in> hold p then 0xFF else 0), rightTrigger = (if PAD_ZR \<in> hold p then 0xFF else 0),
                   leftStickX = lx, leftStickY = ly, rightStickX = rx, rightStickY = ry\<rparr>] s1))))"

definition full_table :: "bool \<Rightarrow> (pad_button \<times> u16) list" where
  "full_table swap = button_table swap @ stick_table @ menu_table"

definition classic_table :: "bool \<Rightarrow> (pad_button \<times> u16) list" where
  "classic_table swap = button_table swap @ menu_table"

fun other_pads :: "extension option list \<Rightarrow> u16 \<Rightarrow> u64 \<Rightarrow> nat \<times> wiiu_input \<Rightarrow> bool \<times> nat \<times> wiiu_input" where
  "other_pads [] pads now ns = (False, ns)"
| "other_pads (k # ks) pads now ns =
     (let swap = swap_buttons (snd ns)
      in if fst ns < 4 then
           (case k of
              Some (EXT_PRO p) \<Rightarrow>
                (case pad_report (full_table swap) p pads now ns of
                   (True, ns1) \<Rightarrow> (True, ns1) | (False, ns1) \<Rightarrow> other_pads ks pads now ns1)
            | Some (EXT_CLASSIC p) \<Rightarrow>
                (case pad_report (classic_table swap) p pads now ns of
                   (True, ns1) \<Rightarrow> (True, ns1) | (False, ns1) \<Rightarrow> other_pads ks pads now ns1)
            | _ \<Rightarrow> other_pads ks pads now ns)
         else other_pads ks pads now ns)"

definition is_pad :: "extension option \<Rightarrow> bool" where
  "is_pad k = (case k of Some (EXT_PRO p) \<Rightarrow> True | Some (EXT_CLASSIC p) \<Rightarrow> True | _ \<Rightarrow> False)"

definition wiiu_input_num_controllers :: "extension option list \<Rightarrow> wiiu_input \<Rightarrow> nat" where
  "wiiu_input_num_controllers probes s =
     (let n = (if disable_gamepad s then 0 else 1) + length (filter is_pad probes) in if 4 < n then 4 else n)"

text \<open>\<open>vpad\<close> is the gamepad with its touch screen, \<open>None\<close> when it cannot be read, \<open>kpads\<close> the four channels, \<open>probes\<close> what is connected to them.\<close>

definition wiiu_input_update ::
  "(pad_sample \<times> touch_data) option \<Rightarrow> extension option list \<Rightarrow> extension option list \<Rightarrow> u64 \<Rightarrow> wiiu_input \<Rightarrow> wiiu_input" where
  "wiiu_input_update vpad kpads probes now s =
     (let pads = fold (\<lambda>i m. m OR push_bit i 1) [0..<wiiu_input_num_controllers probes s] 0;
          others = (\<lambda>ns. snd (snd (other_pads kpads pads now ns)))
      in case vpad of
           Some (p, t) \<Rightarrow>
             if disable_gamepad s then others (0, s)
             else
               (case pad_report (full_table (swap_buttons s)) p pads now (0, s) of
                  (True, n, s1) \<Rightarrow> s1
                | (False, n, s1) \<Rightarrow> others (n, handleTouch t now s1))
         | None \<Rightarrow> others (0, s))"

definition mapbtns :: "pad_button list \<Rightarrow> pad_button set \<Rightarrow> pad_button set" where
  "mapbtns table trig = set (filter (\<lambda>b. b \<in> trig) table)"

definition classic_buttons :: "pad_button list" where
  "classic_buttons = [PAD_UP, PAD_LEFT, PAD_ZR, PAD_X, PAD_A, PAD_Y, PAD_B, PAD_ZL, PAD_R, PAD_PLUS, PAD_HOME, PAD_MINUS, PAD_L,
     PAD_DOWN, PAD_RIGHT]"

definition wiiu_input_buttons_triggered :: "pad_sample option \<Rightarrow> extension option list \<Rightarrow> pad_button set" where
  "wiiu_input_buttons_triggered vpad kpads =
     fold (\<lambda>k btns. case k of
             Some (EXT_PRO p) \<Rightarrow> btns \<union> mapbtns (classic_buttons @ [PAD_STICK_R, PAD_STICK_L]) (trigger p)
           | Some (EXT_CLASSIC p) \<Rightarrow> btns \<union> mapbtns classic_buttons (trigger p)
           | _ \<Rightarrow> btns)
       kpads (case vpad of None \<Rightarrow> {} | Some p \<Rightarrow> trigger p)"

section \<open>Presses and releases\<close>

text \<open>What an event says about the button, and whether a sequence of such says it in turn.\<close>

fun button_edge :: "li_event \<Rightarrow> bool list" where
  "button_edge (Mouse_button b) = [b]"
| "button_edge (Touch TOUCH_DOWN x y) = [True]"
| "button_edge (Touch TOUCH_UP x y) = [False]"
| "button_edge _ = []"

fun held_after :: "bool \<Rightarrow> bool list \<Rightarrow> bool option" where
  "held_after h [] = Some h"
| "held_after h (b # bs) = (if b = h then None else held_after b bs)"

definition edges :: "li_event list \<Rightarrow> bool list" where
  "edges evs = concat (map button_edge evs)"

lemma edges_append [simp]: "edges (xs @ ys) = edges xs @ edges ys" by (simp add: edges_def)
lemma edges_one: "edges [] = []" "edges [e] = button_edge e" "edges [e, f] = button_edge e @ button_edge f" by (simp_all add: edges_def)

lemma held_after_append: "held_after h (xs @ ys) = Option.bind (held_after h xs) (\<lambda>h'. held_after h' ys)"
  by (induction h xs rule: held_after.induct) simp_all

text \<open>\<open>touched\<close> is whether the host believes the button is down; in the relative mode it never stays down.\<close>

definition host_held :: "wiiu_input \<Rightarrow> bool" where
  "host_held s \<longleftrightarrow> mouse_mode s \<noteq> MOUSE_MODE_RELATIVE \<and> touched s"

lemma send_fields [simp]:
  "touched (send evs s) = touched s" "mouse_mode (send evs s) = mouse_mode s" "sent (send evs s) = sent s @ evs"
  by (simp_all add: send_def)

lemma touch_hold_fields:
  "mouse_mode (touch_hold t now s) = mouse_mode s" "\<exists>evs. sent (touch_hold t now s) = sent s @ evs \<and> edges evs = []"
  by (auto simp: touch_hold_def Let_def edges_one)

lemma handleTouch_step:
  "mouse_mode (handleTouch t now s) = mouse_mode s \<and>
   (\<exists>evs. sent (handleTouch t now s) = sent s @ evs \<and>
      held_after (host_held s) (edges evs) = Some (host_held (handleTouch t now s))) \<and>
   (mouse_mode s \<noteq> MOUSE_MODE_RELATIVE \<longrightarrow> touched (handleTouch t now s) = td_touched t)"
proof (cases "mouse_mode s")
  case MOUSE_MODE_RELATIVE
  consider "td_touched t" "lastTouched s < 2" | "td_touched t" "\<not> lastTouched s < 2" | "\<not> td_touched t" by blast
  then show ?thesis
  proof cases
    case 2
    obtain evs where "sent (touch_hold t now s) = sent s @ evs" "edges evs = []" using touch_hold_fields(2) by blast
    with 2 MOUSE_MODE_RELATIVE show ?thesis
      by (auto simp: handleTouch_def touch_relative_def host_held_def touch_hold_fields Let_def)
  qed (use MOUSE_MODE_RELATIVE in \<open>auto simp: handleTouch_def touch_relative_def host_held_def edges_one Let_def\<close>)
next
  case MOUSE_MODE_ABSOLUTE
  then show ?thesis
    by (cases "td_touched t"; cases "touched s") (auto simp: handleTouch_def touch_absolute_def host_held_def edges_one Let_def)
next
  case MOUSE_MODE_TOUCHSCREEN
  then show ?thesis
    by (cases "td_touched t"; cases "touched s") (auto simp: handleTouch_def touch_screen_def host_held_def edges_one)
qed

text \<open>
  The contract of a device with one button: a step adds to what was sent, and what it adds agrees with whether the receiver
  believes the button down before and after. Any number of steps does then.
\<close>

locale button_device =
  fixes step :: "'i \<Rightarrow> 's \<Rightarrow> 's"
    and sent_by :: "'s \<Rightarrow> li_event list"
    and believes :: "'s \<Rightarrow> bool"
  assumes step_agrees: "\<exists>evs. sent_by (step i s) = sent_by s @ evs \<and> held_after (believes s) (edges evs) = Some (believes (step i s))"
begin

lemma run_agrees:
  "\<exists>evs. sent_by (fold step js s) = sent_by s @ evs \<and> held_after (believes s) (edges evs) = Some (believes (fold step js s))"
proof (induction js arbitrary: s)
  case Nil
  then show ?case by (simp add: edges_one)
next
  case (Cons i js)
  obtain a where a: "sent_by (step i s) = sent_by s @ a" "held_after (believes s) (edges a) = Some (believes (step i s))"
    using step_agrees by blast
  obtain b where "sent_by (fold step js (step i s)) = sent_by (step i s) @ b"
      "held_after (believes (step i s)) (edges b) = Some (believes (fold step js (step i s)))" using Cons.IH by blast
  with a show ?case by (intro exI [of _ "a @ b"]) (simp add: held_after_append)
qed

end

interpretation td: button_device "\<lambda>(t, now). handleTouch t now" sent host_held
proof unfold_locales
  fix i :: "touch_data \<times> u64" and s :: wiiu_input
  show "\<exists>evs. sent ((case i of (t, now) \<Rightarrow> handleTouch t now) s) = sent s @ evs \<and>
      held_after (host_held s) (edges evs) = Some (host_held ((case i of (t, now) \<Rightarrow> handleTouch t now) s))"
    using handleTouch_step by (cases i) auto
qed

definition touch_run :: "(touch_data \<times> u64) list \<Rightarrow> wiiu_input \<Rightarrow> wiiu_input" where
  "touch_run ps s = fold (\<lambda>(t, now). handleTouch t now) ps s"

lemma touch_run_held:
  "mouse_mode (touch_run ps s) = mouse_mode s \<and>
   (mouse_mode s \<noteq> MOUSE_MODE_RELATIVE \<longrightarrow> touched (touch_run ps s) = (if ps = [] then touched s else td_touched (fst (last ps))))"
proof (induction ps arbitrary: s)
  case (Cons p ps)
  obtain t now where p: "p = (t, now)" by (cases p)
  with Cons.IH [of "handleTouch t now s"] handleTouch_step [of t now s] show ?case by (auto simp: touch_run_def)
qed (simp add: touch_run_def)

text \<open>C35. Whatever the finger does in whichever mode, the host sees presses and releases in turn: never two presses or two releases in a
  row, the state it is left in is the one the program remembers, and in the two absolute modes that is whether the
  screen is touched at the last poll.\<close>

theorem touch_buttons_alternate:
  "\<exists>evs. sent (touch_run ps s) = sent s @ evs \<and> held_after (host_held s) (edges evs) = Some (host_held (touch_run ps s)) \<and>
     mouse_mode (touch_run ps s) = mouse_mode s \<and>
     (if mouse_mode s = MOUSE_MODE_RELATIVE then \<not> host_held (touch_run ps s)
      else host_held (touch_run ps s) = (if ps = [] then touched s else td_touched (fst (last ps))))"
  using td.run_agrees [of ps s] touch_run_held [of ps s] by (auto simp: touch_run_def [symmetric] host_held_def)

section \<open>Taps\<close>

text \<open>A finger that goes down, stays where it is for less than a tenth of a second and goes up is one click.\<close>

lemma tap_is_click:
  assumes "mouse_mode s = MOUSE_MODE_RELATIVE" and "lastTouched s = 0"
    and "now2 - now1 \<le> TAP_MILLIS" "now3 - now1 < TAP_MILLIS" and "now1 \<noteq> 0"
  shows "sent (touch_run [(\<lparr>td_touched = True, td_x = x0, td_y = y0\<rparr>, now0), (\<lparr>td_touched = True, td_x = x, td_y = y\<rparr>, now1),
      (\<lparr>td_touched = True, td_x = x, td_y = y\<rparr>, now2), (\<lparr>td_touched = False, td_x = x', td_y = y'\<rparr>, now3)] s) =
    sent s @ [Mouse_button True, Mouse_button False]"
  using assms by (simp add: touch_run_def handleTouch_def touch_relative_def touch_hold_def Let_def far_def diff16_def DRAG_DISTANCE_def)

section \<open>Numbers of controllers\<close>

definition controller_numbers :: "li_event list \<Rightarrow> int list" where
  "controller_numbers evs = concat (map (\<lambda>e. case e of Controller c \<Rightarrow> [controllerNumber c] | _ \<Rightarrow> []) evs)"

lemma controller_numbers_append [simp]: "controller_numbers (xs @ ys) = controller_numbers xs @ controller_numbers ys"
  by (simp add: controller_numbers_def)

lemma pad_report_numbers:
  assumes "pad_report table p pads now (n, s) = (stop, m, t)"
  shows "controller_numbers (sent t) = controller_numbers (sent s) @ map int [n..<m] \<and> m = (if stop then n else n + 1)"
  using assms
  by (auto simp: pad_report_def Let_def send_def controller_numbers_def split: prod.splits if_splits)

lemma other_pads_numbers:
  "other_pads ks pads now (n, s) = (stop, m, t) \<Longrightarrow> n \<le> 4 \<Longrightarrow>
     controller_numbers (sent t) = controller_numbers (sent s) @ map int [n..<m] \<and> n \<le> m \<and> m \<le> 4"
proof (induction ks arbitrary: n s)
  case Nil
  then show ?case by simp
next
  case (Cons k ks)
  have one: ?case if "n < 4" and r: "pad_report table p pads now (n, s) = (st, n', s')"
      and rest: "(if st then (True, n', s') else other_pads ks pads now (n', s')) = (stop, m, t)" for table p st n' s'
  proof (cases st)
    case True
    with pad_report_numbers [OF r] rest that(1) show ?thesis by auto
  next
    case False
    then have n': "n' = Suc n" using pad_report_numbers [OF r] by simp
    have t: "controller_numbers (sent t) = controller_numbers (sent s') @ map int [n'..<m] \<and> n' \<le> m \<and> m \<le> 4"
      using Cons.IH [of n' s'] rest False that(1) n' by simp
    then have "[n..<m] = n # [Suc n..<m]" using n' by (intro upt_conv_Cons) simp
    then have split: "map int [n..<m] = map int [n..<n'] @ map int [n'..<m]" using n' by (simp only: upt_rec [of n "Suc n"]) simp
    have "controller_numbers (sent s') = controller_numbers (sent s) @ map int [n..<n']" using pad_report_numbers [OF r] by blast
    with t split n' show ?thesis by (simp only: append_assoc) simp
  qed
  show ?case
  proof (cases "n < 4 \<and> is_pad k")
    case True
    then consider p where "k = Some (EXT_PRO p)" | p where "k = Some (EXT_CLASSIC p)"
      by (auto simp: is_pad_def split: option.splits extension.splits)
    then show ?thesis
    proof cases
      case 1
      obtain st n' s' where r: "pad_report (full_table (swap_buttons s)) p pads now (n, s) = (st, n', s')" by (metis prod_cases3)
      then have rest: "(if st then (True, n', s') else other_pads ks pads now (n', s')) = (stop, m, t)"
        using Cons.prems(1) True 1 by (cases st) simp_all
      show ?thesis by (rule one [OF _ r rest]) (use True in simp)
    next
      case 2
      obtain st n' s' where r: "pad_report (classic_table (swap_buttons s)) p pads now (n, s) = (st, n', s')" by (metis prod_cases3)
      then have rest: "(if st then (True, n', s') else other_pads ks pads now (n', s')) = (stop, m, t)"
        using Cons.prems(1) True 2 by (cases st) simp_all
      show ?thesis by (rule one [OF _ r rest]) (use True in simp)
    qed
  next
    case False
    then have "other_pads ks pads now (n, s) = (stop, m, t)"
      using Cons.prems(1) by (auto simp: is_pad_def Let_def split: option.splits extension.splits if_splits)
    then show ?thesis using Cons.IH Cons.prems(2) by blast
  qed
qed

lemma handleTouch_numbers: "controller_numbers (sent (handleTouch t now s)) = controller_numbers (sent s)"
proof -
  have "controller_numbers (sent (touch_hold t now u)) = controller_numbers (sent u)" for u
    by (auto simp: touch_hold_def Let_def controller_numbers_def)
  then show ?thesis
    by (cases "mouse_mode s")
      (auto simp: handleTouch_def touch_absolute_def touch_screen_def touch_relative_def Let_def controller_numbers_def)
qed

text \<open>One poll reports the controllers with the numbers from 0 on, each once, and never more than four.\<close>

lemma update_numbers:
  "\<exists>k \<le> 4. controller_numbers (sent (wiiu_input_update vpad kpads probes now s)) = controller_numbers (sent s) @ map int [0..<k]"
proof -
  define pads where "pads = (fold (\<lambda>i m. m OR push_bit i 1) [0..<wiiu_input_num_controllers probes s] 0 :: u16)"
  have others: "\<exists>k \<le> 4. controller_numbers (sent (snd (snd (other_pads kpads pads now (n, u))))) =
      controller_numbers (sent u) @ map int [n..<k] \<and> n \<le> k" if "n \<le> 4" for n u
  proof -
    obtain stop m t where r: "other_pads kpads pads now (n, u) = (stop, m, t)" by (metis prod_cases3)
    from other_pads_numbers [OF r that] r show ?thesis by auto
  qed
  show ?thesis
  proof (cases "vpad = None \<or> disable_gamepad s")
    case True
    then have "wiiu_input_update vpad kpads probes now s = snd (snd (other_pads kpads pads now (0, s)))"
      by (auto simp: wiiu_input_update_def Let_def pads_def split: option.splits)
    with others [of 0 s] show ?thesis by auto
  next
    case False
    then obtain p t where v: "vpad = Some (p, t)" "\<not> disable_gamepad s" by auto
    obtain stop n s1 where r: "pad_report (full_table (swap_buttons s)) p pads now (0, s) = (stop, n, s1)" by (metis prod_cases3)
    have first: "controller_numbers (sent s1) = controller_numbers (sent s) @ map int [0..<n]" "n = (if stop then 0 else 1)"
      using pad_report_numbers [OF r] by simp_all
    have u: "wiiu_input_update vpad kpads probes now s =
        (if stop then s1 else snd (snd (other_pads kpads pads now (n, handleTouch t now s1))))"
      using v(2) r unfolding v(1) wiiu_input_update_def Let_def pads_def [symmetric] by (cases stop) simp_all
    show ?thesis
    proof (cases stop)
      case True
      then show ?thesis using first u by (intro exI [of _ 0]) simp
    next
      case stop: False
      then have "n = 1" using first(2) by simp
      with others [of n "handleTouch t now s1"] obtain k where k: "k \<le> 4" "1 \<le> k"
          "controller_numbers (sent (snd (snd (other_pads kpads pads now (n, handleTouch t now s1))))) =
             controller_numbers (sent s) @ map int [0..<1] @ map int [1..<k]"
        using first(1) by (auto simp: handleTouch_numbers)
      have "[0..<k] = [0..<1] @ [1..<k]" using k(2) upt_add_eq_append [of 0 1 "k - 1"] by simp
      with k u stop show ?thesis by (intro exI [of _ k]) (simp only: map_append if_False)
    qed
  qed
qed

end
