(* ===== verification/WiiuPlatform.thy ===== *)
theory WiiuPlatform
  imports Prelude
begin

text \<open>
  The Wii U port's process and sound: \<open>src/wiiu/proc.c\<close> and \<open>src/wiiu/audio.c\<close>. Calls of the system are kept in the order they are
  made; the Opus decoder, SDL's device and the allocator are parameters.
\<close>

section \<open>The process\<close>

datatype os_call = OS_home_menu bool | OS_register_home | OS_init | OS_shutdown | OS_draw_done | OS_relaunch | OS_launch_menu

datatype proc_status = PROCUI_IN_FOREGROUND | PROCUI_EXITING | PROCUI_RELEASE_FOREGROUND | PROCUI_IN_BACKGROUND

record wiiu_proc =
  wp_running :: bool
  wp_fromHBL :: bool
  wp_homeEnabled :: bool
  os_calls :: "os_call list"

definition HBL_TITLE_IDS :: "u64 list" where
  "HBL_TITLE_IDS = [0x0005000013374842, 0x000500101004A000, 0x000500101004A100, 0x000500101004A200]"

definition os_call :: "os_call \<Rightarrow> wiiu_proc \<Rightarrow> wiiu_proc" where
  "os_call c s = s\<lparr>os_calls := os_calls s @ [c]\<rparr>"

definition wiiu_proc_register_home_callback :: "wiiu_proc \<Rightarrow> wiiu_proc" where
  "wiiu_proc_register_home_callback s = (if wp_fromHBL s then os_call OS_register_home s else s)"

definition wiiu_proc_init :: "u64 \<Rightarrow> wiiu_proc \<Rightarrow> wiiu_proc" where
  "wiiu_proc_init titleID s =
     (let s1 = (if titleID \<in> set HBL_TITLE_IDS then os_call (OS_home_menu False) (s\<lparr>wp_fromHBL := True\<rparr>) else s)
      in wiiu_proc_register_home_callback (os_call OS_init (s1\<lparr>wp_running := True\<rparr>)))"

definition wiiu_proc_shutdown :: "wiiu_proc \<Rightarrow> wiiu_proc" where
  "wiiu_proc_shutdown s =
     (let s1 = s\<lparr>wp_running := False\<rparr> in if wp_fromHBL s1 then os_call OS_relaunch s1 else s1)"

definition wiiu_proc_stop_running :: "wiiu_proc \<Rightarrow> wiiu_proc" where
  "wiiu_proc_stop_running s = (if wp_fromHBL s then s\<lparr>wp_running := False\<rparr> else os_call OS_launch_menu s)"

definition procHomeButtonDenied :: "wiiu_proc \<Rightarrow> wiiu_proc" where
  "procHomeButtonDenied s = (if wp_fromHBL s \<and> wp_homeEnabled s then wiiu_proc_stop_running s else s)"

definition wiiu_proc_running :: "proc_status \<Rightarrow> wiiu_proc \<Rightarrow> bool \<times> wiiu_proc" where
  "wiiu_proc_running status s =
     (let s1 = (if status = PROCUI_EXITING then s\<lparr>wp_running := False\<rparr>
                else if status = PROCUI_RELEASE_FOREGROUND then os_call OS_draw_done s else s);
          s2 = (if \<not> wp_running s1 then os_call OS_shutdown s1 else s1)
      in (wp_running s2, s2))"

definition wiiu_proc_set_home_enabled :: "bool \<Rightarrow> wiiu_proc \<Rightarrow> wiiu_proc" where
  "wiiu_proc_set_home_enabled enabled s =
     (if wp_fromHBL s then s\<lparr>wp_homeEnabled := enabled\<rparr> else os_call (OS_home_menu enabled) s)"

text \<open>Started from the homebrew launcher, a press of HOME ends the program exactly when HOME is enabled; started as a title of its own,
  the system's menu takes care of it.\<close>

lemma home_denied_ends:
  "wp_running s \<Longrightarrow> wp_running (procHomeButtonDenied (wiiu_proc_set_home_enabled on s)) =
     (\<not> (wp_fromHBL s \<and> on))"
  by (simp add: procHomeButtonDenied_def wiiu_proc_set_home_enabled_def wiiu_proc_stop_running_def os_call_def)

lemma running_after_exit: "\<not> fst (wiiu_proc_running PROCUI_EXITING s)"
  by (simp add: wiiu_proc_running_def os_call_def Let_def)

lemma stop_is_final: "wp_fromHBL s \<Longrightarrow> \<not> fst (wiiu_proc_running status (wiiu_proc_stop_running s))"
  by (simp add: wiiu_proc_running_def wiiu_proc_stop_running_def os_call_def Let_def)

section \<open>Sound\<close>

record sdl_audio =
  sa_decoder :: bool
  sa_pcmBuffer :: "nat option"
  sa_samplesPerFrame :: int
  sa_dev :: nat
  sa_channelCount :: int
  sa_queued :: "u16 list list"

text \<open>\<open>decoder\<close> is whether the decoder could be created, \<open>room\<close> whether its buffer, \<open>dev\<close> the device, 0 for none.\<close>

definition sdl_renderer_init :: "bool \<Rightarrow> bool \<Rightarrow> nat \<Rightarrow> int \<Rightarrow> int \<Rightarrow> sdl_audio \<Rightarrow> int \<times> sdl_audio" where
  "sdl_renderer_init decoder room dev channels samples s =
     (let s1 = s\<lparr>sa_decoder := decoder, sa_channelCount := channels, sa_samplesPerFrame := samples,
                 sa_pcmBuffer := (if room then Some (nat (channels * samples)) else None)\<rparr>
      in if \<not> room then (-1, s1) else (if dev = 0 then -1 else 0, s1\<lparr>sa_dev := dev\<rparr>))"

definition sdl_renderer_cleanup :: "sdl_audio \<Rightarrow> sdl_audio" where
  "sdl_renderer_cleanup s = s\<lparr>sa_decoder := False, sa_pcmBuffer := None, sa_dev := 0\<rparr>"

text \<open>\<open>opus\<close> is the number of frames, or an error, and the samples it writes; \<open>None\<close> is a read behind the buffer.\<close>

definition sdl_renderer_decode_and_play_sample ::
  "(u8 list \<Rightarrow> int \<Rightarrow> int \<times> u16 list) \<Rightarrow> u8 list \<Rightarrow> sdl_audio \<Rightarrow> sdl_audio option" where
  "sdl_renderer_decode_and_play_sample opus data s =
     (case opus data (sa_samplesPerFrame s) of
        (decodeLen, pcm) \<Rightarrow>
          if 0 < decodeLen then
            (case sa_pcmBuffer s of
               None \<Rightarrow> None
             | Some room \<Rightarrow>
                 (let n = nat (decodeLen * sa_channelCount s)
                  in if n \<le> room \<and> n \<le> length pcm then Some (s\<lparr>sa_queued := sa_queued s @ [take n pcm]\<rparr>) else None))
          else Some s)"

lemma decoded_is_queued:
  assumes "sdl_renderer_init True True dev channels samples s = (0, t)" and "0 < channels"
    and "opus data samples = (n, pcm)" "0 < n" "n \<le> samples" "nat (n * channels) = length pcm"
  shows "sdl_renderer_decode_and_play_sample opus data t = Some (t\<lparr>sa_queued := sa_queued s @ [pcm]\<rparr>)"
proof -
  have t: "sa_samplesPerFrame t = samples" "sa_channelCount t = channels" "sa_pcmBuffer t = Some (nat (channels * samples))"
      "sa_queued t = sa_queued s"
    using assms(1) by (auto simp: sdl_renderer_init_def Let_def split: if_splits)
  have "n * channels \<le> channels * samples" using assms(2,5) by (simp add: mult.commute mult_left_mono)
  then have "length pcm \<le> nat (channels * samples)" using assms(6) nat_mono by metis
  with t assms show ?thesis by (simp add: sdl_renderer_decode_and_play_sample_def)
qed

end
