(* ===== verification/WiiuFont.thy ===== *)
theory WiiuFont
  imports Font Single
begin

text \<open>
  \<open>src/wiiu/font.c\<close>: the Wii U port's text, drawn in the current colour into a texture of four bytes a pixel and shown on
  the television and on the GamePad. FreeType is the \<open>face\<close> of the Wii port's renderer, absent when the system gave no font; the
  pitch and the size of the texture come from the graphics library. The calls that put the texture on the screens are
  recorded in \<open>wf_calls\<close>, a texture as the bytes it has at that moment. The opacity of a glyph's
  pixel is computed in single precision.
\<close>

section \<open>State\<close>

definition FONT_BUFFER_WIDTH :: int where "FONT_BUFFER_WIDTH = 1920"
definition FONT_BUFFER_HEIGHT :: int where "FONT_BUFFER_HEIGHT = 1080"

datatype screen_call =
    Load_font_shader | Init_font_attribute string nat nat | Init_font_fetch_shader | Create_font_surface int int | Init_font_sampler
  | Done_face | Done_freetype | Free_font_shader | Destroy_font_surface
  | WHBGfxBeginRender | WHBGfxBeginRenderTV | WHBGfxBeginRenderDRC | WHBGfxClearColor
  | Set_font_shaders | Set_font_texture "u8 list" | Set_font_sampler | Set_font_attribs "rat list" | Draw_font_quad nat
  | WHBGfxFinishRenderTV | WHBGfxFinishRenderDRC | WHBGfxFinishRender

record wiiu_font =
  wf_face :: "face option"
  wf_pixels :: "u8 list"
  wf_pitch :: u32
  wf_r :: u8
  wf_g :: u8
  wf_b :: u8
  wf_a :: u8
  wf_size :: u32
  wf_calls :: "screen_call list"

section \<open>Operations\<close>

text \<open>The corners of the screen with their texture coordinates.\<close>

definition font_vertex_buffer :: "rat list" where
  "font_vertex_buffer =
     [- 1, - 1, 0, 1,
      1, - 1, 1, 1,
      1, 1, 1, 0,
      - 1, 1, 0, 0]"

definition screen_calls :: "screen_call list \<Rightarrow> wiiu_font \<Rightarrow> wiiu_font" where
  "screen_calls cs s = s\<lparr>wf_calls := wf_calls s @ cs\<rparr>"

definition wiiu_Font_Clear :: "wiiu_font \<Rightarrow> wiiu_font" where
  "wiiu_Font_Clear s = s\<lparr>wf_pixels := replicate (length (wf_pixels s)) 0\<rparr>"

text \<open>The system's font when there is one, and the texture the graphics library makes: its pitch in pixels and its memory.\<close>

definition wiiu_Font_Init :: "face option \<Rightarrow> u32 \<Rightarrow> u8 list \<Rightarrow> wiiu_font \<Rightarrow> wiiu_font" where
  "wiiu_Font_Init system_font pitch memory s =
     wiiu_Font_Clear (screen_calls
       [Load_font_shader, Init_font_attribute ''in_pos'' 0 0, Init_font_attribute ''in_texCoord'' 0 8, Init_font_fetch_shader,
        Create_font_surface FONT_BUFFER_WIDTH FONT_BUFFER_HEIGHT, Init_font_sampler]
       (s\<lparr>wf_face := (case system_font of None \<Rightarrow> wf_face s | Some fc \<Rightarrow> Some fc), wf_pitch := pitch, wf_pixels := memory\<rparr>))"

text \<open>A face that is given back cannot be used any more.\<close>

definition wiiu_Font_Deinit :: "wiiu_font \<Rightarrow> wiiu_font" where
  "wiiu_Font_Deinit s =
     screen_calls [Done_face, Done_freetype, Free_font_shader, Destroy_font_surface] (s\<lparr>wf_face := None, wf_pixels := []\<rparr>)"

definition wiiu_Font_Draw :: "wiiu_font \<Rightarrow> wiiu_font" where
  "wiiu_Font_Draw s =
     screen_calls [Set_font_shaders, Set_font_texture (wf_pixels s), Set_font_sampler, Set_font_attribs font_vertex_buffer, Draw_font_quad 4] s"

definition wiiu_Font_Draw_TVDRC :: "wiiu_font \<Rightarrow> wiiu_font" where
  "wiiu_Font_Draw_TVDRC =
     screen_calls [WHBGfxFinishRender] \<circ>
     screen_calls [WHBGfxFinishRenderDRC] \<circ> wiiu_Font_Draw \<circ> screen_calls [WHBGfxBeginRenderDRC, WHBGfxClearColor] \<circ>
     screen_calls [WHBGfxFinishRenderTV] \<circ> wiiu_Font_Draw \<circ> screen_calls [WHBGfxBeginRenderTV, WHBGfxClearColor] \<circ>
     screen_calls [WHBGfxBeginRender]"

text \<open>\<open>font_a * opacity\<close> in a byte, with \<open>opacity = coverage / 255.0f\<close>.\<close>

definition alpha_byte :: "u8 \<Rightarrow> u8 \<Rightarrow> u8" where
  "alpha_byte a coverage =
     of_int (f32_to_int (f32 (of_int (uint a) * f32 (of_int (uint coverage) / 255))))"

definition wiiu_draw_pixel :: "glyph \<Rightarrow> int \<Rightarrow> int \<Rightarrow> nat \<Rightarrow> nat \<Rightarrow> wiiu_font \<Rightarrow> wiiu_font" where
  "wiiu_draw_pixel bm x y p q s =
     (let i = x + int p; j = y + int q
      in if i < 0 \<or> j < 0 \<or> FONT_BUFFER_WIDTH \<le> i \<or> FONT_BUFFER_HEIGHT \<le> j then s
         else
           (let coverage = bm_buffer bm ! nat (int q * bm_pitch bm + int p);
                offset = (of_int i + of_int j * wf_pitch s) * 4
            in s\<lparr>wf_pixels := (wf_pixels s)
                   [unat offset := wf_r s, unat (offset + 1) := wf_g s, unat (offset + 2) := wf_b s,
                    unat (offset + 3) := alpha_byte (wf_a s) coverage]\<rparr>))"

definition wiiu_draw_freetype_bitmap :: "glyph \<Rightarrow> int \<Rightarrow> int \<Rightarrow> wiiu_font \<Rightarrow> wiiu_font" where
  "wiiu_draw_freetype_bitmap bm x y s =
     fold (\<lambda>p. fold (wiiu_draw_pixel bm x y p) [0..<nat (bm_rows bm)]) [0..<nat (bm_width bm)] s"

fun wiiu_print_glyphs :: "face \<Rightarrow> int \<Rightarrow> int \<Rightarrow> int \<Rightarrow> nat list \<Rightarrow> wiiu_font \<Rightarrow> wiiu_font" where
  "wiiu_print_glyphs fc x px py [] s = s"
| "wiiu_print_glyphs fc x px py (c # cs) s =
     (if c = 10 then wiiu_print_glyphs fc x x (py + face_line_height fc (wf_size s)) cs s
      else
        (let g = face_glyph fc (wf_size s) c
         in wiiu_print_glyphs fc x (px + advance_px g) py cs
              (wiiu_draw_freetype_bitmap g (px + bitmap_left g) (py - bitmap_top g) s)))"

text \<open>Without a font the code reads through a null pointer: \<open>None\<close>.\<close>

definition wiiu_Font_Printw :: "u32 \<Rightarrow> u32 \<Rightarrow> nat list \<Rightarrow> wiiu_font \<Rightarrow> wiiu_font option" where
  "wiiu_Font_Printw x y str s =
     (case wf_face s of
        None \<Rightarrow> None
      | Some fc \<Rightarrow> Some (wiiu_print_glyphs fc (sint x) (sint x) (sint y) str s))"

text \<open>\<open>mbstowcs\<close> in the C locale takes each byte for a character; for the empty text, where it returns 0, the bytes are
  copied one by one.\<close>

definition wiiu_Font_Print :: "u32 \<Rightarrow> u32 \<Rightarrow> string \<Rightarrow> wiiu_font \<Rightarrow> wiiu_font option" where
  "wiiu_Font_Print x y str s = wiiu_Font_Printw x y (map of_char str) s"

text \<open>\<open>msg\<close> is the text \<open>vasprintf\<close> made, \<open>None\<close> when it failed.\<close>

definition wiiu_Font_Printf :: "u32 \<Rightarrow> u32 \<Rightarrow> string option \<Rightarrow> wiiu_font \<Rightarrow> wiiu_font option" where
  "wiiu_Font_Printf x y msg s = (case msg of None \<Rightarrow> Some s | Some tmp \<Rightarrow> wiiu_Font_Print x y tmp s)"

definition wiiu_Font_SetColor :: "u8 \<Rightarrow> u8 \<Rightarrow> u8 \<Rightarrow> u8 \<Rightarrow> wiiu_font \<Rightarrow> wiiu_font" where
  "wiiu_Font_SetColor r g b a s = s\<lparr>wf_r := r, wf_g := g, wf_b := b, wf_a := a\<rparr>"

definition wiiu_Font_SetSize :: "u32 \<Rightarrow> wiiu_font \<Rightarrow> wiiu_font" where
  "wiiu_Font_SetSize sz s = s\<lparr>wf_size := sz\<rparr>"

section \<open>The texture is only written inside\<close>

text \<open>A texture as the graphics library makes it: rows of at least 1920 pixels, memory for all rows, a size that 32 bits
  hold.\<close>

definition texture_ok :: "wiiu_font \<Rightarrow> bool" where
  "texture_ok s \<longleftrightarrow> 1920 \<le> unat (wf_pitch s) \<and> unat (wf_pitch s) * 1080 * 4 < 2 ^ 32 \<and>
     unat (wf_pitch s) * 1080 * 4 \<le> length (wf_pixels s)"

definition texture_at :: "wiiu_font \<Rightarrow> int \<Rightarrow> int \<Rightarrow> bool" where
  "texture_at s i j \<longleftrightarrow> texture_ok s \<and> 0 \<le> i \<and> i < 1920 \<and> 0 \<le> j \<and> j < 1080"

definition same_texture :: "wiiu_font \<Rightarrow> wiiu_font \<Rightarrow> bool" where
  "same_texture s t \<longleftrightarrow> length (wf_pixels t) = length (wf_pixels s) \<and> t = s\<lparr>wf_pixels := wf_pixels t\<rparr>"

text \<open>The four bytes of a pixel.\<close>

definition rgba :: "wiiu_font \<Rightarrow> int \<Rightarrow> int \<Rightarrow> u8 list" where
  "rgba s i j = (let k = 4 * (nat j * unat (wf_pitch s) + nat i)
                 in [wf_pixels s ! k, wf_pixels s ! (k + 1), wf_pixels s ! (k + 2), wf_pixels s ! (k + 3)])"

definition ink_rgba :: "glyph \<Rightarrow> wiiu_font \<Rightarrow> nat \<Rightarrow> nat \<Rightarrow> u8 list \<Rightarrow> u8 list" where
  "ink_rgba bm s p q old =
     [wf_r s, wf_g s, wf_b s, alpha_byte (wf_a s) (bm_buffer bm ! nat (int q * bm_pitch bm + int p))]"

lemma same_texture_refl: "same_texture s s"
  by (simp add: same_texture_def)

lemma same_textureE:
  assumes "same_texture s t"
  obtains px where "length px = length (wf_pixels s)" and "t = s\<lparr>wf_pixels := px\<rparr>"
  using assms unfolding same_texture_def by blast

lemma same_texture_trans: "same_texture s t \<Longrightarrow> same_texture t u \<Longrightarrow> same_texture s u"
  by (elim same_textureE) (simp add: same_texture_def)

lemma draw_pixel_same_texture: "same_texture s (wiiu_draw_pixel bm x y p q s)"
  by (simp add: same_texture_def wiiu_draw_pixel_def Let_def)

lemma texture_address:
  assumes "texture_at s i j"
  defines "off \<equiv> (of_int i + of_int j * wf_pitch s) * (4 :: u32)"
  shows "unat off = 4 * (nat j * unat (wf_pitch s) + nat i) \<and> unat (off + 1) = unat off + 1 \<and>
    unat (off + 2) = unat off + 2 \<and> unat (off + 3) = unat off + 3 \<and> unat off + 3 < length (wf_pixels s)"
proof -
  let ?w = "unat (wf_pitch s)" and ?k = "4 * (nat j * unat (wf_pitch s) + nat i)"
  have "nat i < ?w" "nat j < 1080"
    using assms(1) by (auto simp: texture_at_def texture_ok_def)
  then have "nat j * ?w + nat i < (nat j + 1) * ?w" by simp
  also have "\<dots> \<le> 1080 * ?w" using \<open>nat j < 1080\<close> by (intro mult_right_mono) simp_all
  finally have k: "?k + 3 < ?w * 1080 * 4" by simp
  then have small: "?k + 3 < 2 ^ 32" "?k + 3 < length (wf_pixels s)"
    using assms(1) by (auto simp: texture_at_def texture_ok_def)
  have "off = of_nat ?k"
    using assms(1) by (simp add: off_def texture_at_def algebra_simps)
  then have "off + of_nat n = of_nat (?k + n)" for n by simp
  then have "unat (off + of_nat n) = ?k + n" if "n \<le> 3" for n
    using that small(1) unat_of_nat [of "?k + n", where ?'a = 32] \<open>\<And>n. off + of_nat n = of_nat (?k + n)\<close>
    by (simp del: of_nat_add of_nat_mult of_nat_numeral)
  from this [of 0] this [of 1] this [of 2] this [of 3] small(2) show ?thesis by simp
qed

lemma quad_update:
  fixes k l :: nat and a b c d :: u8
  assumes "4 * l + 3 < length xs"
  defines "ys \<equiv> xs[4 * l := a, 4 * l + 1 := b, 4 * l + 2 := c, 4 * l + 3 := d]"
  shows "[ys ! (4 * k), ys ! (4 * k + 1), ys ! (4 * k + 2), ys ! (4 * k + 3)] =
    (if l = k then [a, b, c, d] else [xs ! (4 * k), xs ! (4 * k + 1), xs ! (4 * k + 2), xs ! (4 * k + 3)])"
proof (cases "l = k")
  case False
  define K where "K = 4 * k"
  define L where "L = 4 * l"
  have "L + 4 \<le> K \<or> K + 4 \<le> L" using False by (simp add: K_def L_def) presburger
  then show ?thesis using False unfolding ys_def K_def [symmetric] L_def [symmetric]
    by (elim disjE) simp_all
qed (use assms in \<open>simp add: ys_def\<close>)

interpretation wf: raster "wiiu_draw_pixel bm x y" rgba "ink_rgba bm" texture_at same_texture x y for bm x y
proof
  show "same_texture s s" "same_texture s t \<Longrightarrow> same_texture t u \<Longrightarrow> same_texture s u"
    "same_texture s (wiiu_draw_pixel bm x y p q s)" for s t u p q
    by (fact same_texture_refl, fact same_texture_trans, fact draw_pixel_same_texture)
  show "texture_at t i j = texture_at s i j" if "same_texture s t" for s t i j
    using that by (elim same_textureE) (simp add: texture_at_def texture_ok_def)
  show "ink_rgba bm t = ink_rgba bm s" if "same_texture s t" for s t
    using that by (elim same_textureE) (simp add: ink_rgba_def fun_eq_iff)
  show "rgba (wiiu_draw_pixel bm x y p q s) i j =
      (if i = x + int p \<and> j = y + int q then ink_rgba bm s p q (rgba s i j) else rgba s i j)"
    if "texture_at s i j" for s i j p q
  proof (cases "texture_at s (x + int p) (y + int q)")
    case False
    with that show ?thesis
      by (auto simp: texture_at_def wiiu_draw_pixel_def FONT_BUFFER_WIDTH_def FONT_BUFFER_HEIGHT_def Let_def)
  next
    case True
    let ?w = "unat (wf_pitch s)"
    let ?k = "nat j * ?w + nat i" and ?l = "nat (y + int q) * ?w + nat (x + int p)"
    have r: "nat i < ?w" "nat (x + int p) < ?w" "0 \<le> i" "0 \<le> j" "0 \<le> x + int p" "0 \<le> y + int q"
      using that True by (auto simp: texture_at_def texture_ok_def)
    have eq: "?l = ?k \<longleftrightarrow> i = x + int p \<and> j = y + int q"
    proof
      assume "?l = ?k"
      then have "nat (y + int q) = nat j \<and> nat (x + int p) = nat i" using r(1,2) by (intro pixel_inj) auto
      with r show "i = x + int p \<and> j = y + int q" by (metis eq_nat_nat_iff)
    qed auto
    note at = texture_address [OF True]
    have "rgba (wiiu_draw_pixel bm x y p q s) i j =
       (if ?l = ?k then [wf_r s, wf_g s, wf_b s, alpha_byte (wf_a s) (bm_buffer bm ! nat (int q * bm_pitch bm + int p))]
        else rgba s i j)"
      using True at quad_update [of ?l "wf_pixels s" _ _ _ _ ?k]
      by (simp add: wiiu_draw_pixel_def rgba_def texture_at_def FONT_BUFFER_WIDTH_def FONT_BUFFER_HEIGHT_def Let_def not_le)
    then show ?thesis unfolding eq by (simp add: ink_rgba_def)
  qed
qed

section \<open>An opaque colour keeps the coverage\<close>

text \<open>The two roundings of \<open>255 * (c / 255.0f)\<close> on integers: \<open>c\<close> has \<open>k + 1\<close> bits, the quotient is
  \<open>m / 2 ^ (31 - k)\<close> and the product \<open>v / 2 ^ (23 - k)\<close>.\<close>

definition opaque_kept :: "int \<Rightarrow> bool" where
  "opaque_kept c =
     (let k = length (filter (\<lambda>b. 2 ^ b \<le> c) [1, 2, 3, 4, 5, 6, 7::nat]);
          s = 2 ^ (31 - k); t = 2 ^ (23 - k); m = rdiv (c * s) 255; n = 255 * m * t; v = rdiv n s
      in 2 ^ 23 * 255 \<le> c * s \<and> c * s < 2 ^ 24 * 255 \<and> 2 ^ 23 * s \<le> n \<and> n < 2 ^ 24 * s \<and> v div t = c \<and> 0 \<le> v)"

lemma all_opaque_kept: "list_all opaque_kept [1..254]"
  by code_simp

lemma opaque_alpha:
  assumes "1 \<le> c" and "c \<le> 255"
  shows "f32_to_int (f32 (255 * f32 (of_int c / 255))) = c"
proof (cases "c = 255")
  case True
  then show ?thesis using f32_int [of 1] f32_int [of 255] by (simp add: f32_to_int_def)
next
  case False
  define k where "k = length (filter (\<lambda>b. 2 ^ b \<le> c) [1, 2, 3, 4, 5, 6, 7::nat])"
  define m where "m = rdiv (c * 2 ^ (31 - k)) 255"
  define v where "v = rdiv (255 * m * 2 ^ (23 - k)) (2 ^ (31 - k))"
  have k: "k \<le> 7" unfolding k_def by (rule order_trans [OF length_filter_le]) simp
  have "opaque_kept c" using all_opaque_kept assms False by (simp add: list_all_iff)
  then have h: "2 ^ 23 * 255 \<le> c * 2 ^ (31 - k)" "c * 2 ^ (31 - k) < 2 ^ 24 * 255"
    "2 ^ 23 * 2 ^ (31 - k) \<le> 255 * m * 2 ^ (23 - k)" "255 * m * 2 ^ (23 - k) < 2 ^ 24 * 2 ^ (31 - k)"
    "v div 2 ^ (23 - k) = c" "0 \<le> v"
    unfolding opaque_kept_def Let_def k_def [symmetric] m_def [symmetric] v_def [symmetric] by blast+
  have 1: "f32 (of_int c / 255) = of_int m / 2 ^ (31 - k)"
    using f32_fraction [OF _ h(1,2)] by (simp add: m_def)
  have "f32 (of_int (255 * m) / of_int (2 ^ (31 - k))) = of_int v / 2 ^ (23 - k)"
    using f32_fraction [OF _ h(3,4)] by (simp add: v_def)
  then have 2: "f32 (255 * f32 (of_int c / 255)) = of_int v / of_int (2 ^ (23 - k))" by (simp add: 1)
  show ?thesis
    unfolding 2 f32_to_int_def using h(5,6) by (simp only: floor_divide_of_int_eq) simp
qed

lemma alpha_byte_opaque: "alpha_byte 255 c = c"
proof (cases "c = 0")
  case False
  then have "0 < uint c" by (metis order_le_less uint_0_iff uint_ge_0)
  moreover have "uint c < 256" using uint_lt2p [of c] by simp
  ultimately have "f32_to_int (f32 (255 * f32 (of_int (uint c) / 255))) = uint c" by (intro opaque_alpha) simp_all
  then show ?thesis by (simp add: alpha_byte_def)
qed (simp add: alpha_byte_def f32_to_int_def)

text \<open>C20. The Wii U's text. A glyph drawn in an opaque colour gives each pixel of the texture its box covers that colour, with
  the glyph's coverage at that pixel, exact, as its alpha, and leaves every other pixel, the
  memory and the pens alone.\<close>

theorem wiiu_glyph_pixels:
  assumes "texture_ok s" and "0 \<le> i" and "i < 1920" and "0 \<le> j" and "j < 1080" and "wf_a s = 255"
  shows "rgba (wiiu_draw_freetype_bitmap bm x y s) i j =
     (if x \<le> i \<and> i < x + bm_width bm \<and> y \<le> j \<and> j < y + bm_rows bm
      then [wf_r s, wf_g s, wf_b s, bm_buffer bm ! nat ((j - y) * bm_pitch bm + (i - x))]
      else rgba s i j) \<and>
    same_texture s (wiiu_draw_freetype_bitmap bm x y s)"
proof -
  have at: "texture_at s i j" using assms by (simp add: texture_at_def)
  have "int (nat (bm_width bm)) = bm_width bm \<or> bm_width bm < 0" "int (nat (bm_rows bm)) = bm_rows bm \<or> bm_rows bm < 0"
    by linarith+
  with assms(6) show ?thesis
    using wf.get_bitmap [OF at, of bm x y "nat (bm_rows bm)" "nat (bm_width bm)"] wf.same_bitmap
    by (auto simp: wiiu_draw_freetype_bitmap_def ink_rgba_def alpha_byte_opaque)
qed

definition example_texture :: wiiu_font where
  "example_texture = \<lparr>wf_face = None, wf_pixels = replicate (1920 * 1080 * 4) 0, wf_pitch = 1920,
     wf_r = 255, wf_g = 0, wf_b = 0, wf_a = 255, wf_size = 24, wf_calls = []\<rparr>"

theorem wiiu_glyph_pixels_witness:
  "rgba (wiiu_draw_freetype_bitmap example_glyph 1919 (- 1) example_texture) 1919 0 = [255, 0, 0, 255]"
proof -
  have ok: "texture_ok example_texture" by (simp add: texture_ok_def example_texture_def)
  have a: "wf_a example_texture = 255" by (simp add: example_texture_def)
  show ?thesis
    using wiiu_glyph_pixels [OF ok _ _ _ _ a, of 1919 0 example_glyph 1919 "- 1"]
    by (simp add: example_glyph_def example_texture_def)
qed

text \<open>A text, line breaks included, only writes pixels of the texture; the picture goes to the television and then to the
  GamePad.\<close>

lemma wiiu_print_same: "same_texture s (wiiu_print_glyphs fc x px py cs s)"
proof (induction fc x px py cs s rule: wiiu_print_glyphs.induct)
  case (2 fc x px py c cs s)
  have "same_texture s (wiiu_draw_freetype_bitmap bm u v s)" for bm u v
    by (simp add: wiiu_draw_freetype_bitmap_def wf.same_bitmap)
  then show ?case
    using 2 same_texture_trans by (cases "c = 10") (simp_all add: Let_def, blast)
qed (simp add: same_texture_refl)

lemma wiiu_text_shown:
  assumes "wiiu_Font_Print x y str s = Some t"
  shows "same_texture s t \<and> (texture_ok s \<longrightarrow> texture_ok t) \<and>
    filter (\<lambda>c. case c of Set_font_texture _ \<Rightarrow> True | WHBGfxBeginRenderTV \<Rightarrow> True | WHBGfxBeginRenderDRC \<Rightarrow> True | _ \<Rightarrow> False)
      (drop (length (wf_calls s)) (wf_calls (wiiu_Font_Draw_TVDRC t))) =
    [WHBGfxBeginRenderTV, Set_font_texture (wf_pixels t), WHBGfxBeginRenderDRC, Set_font_texture (wf_pixels t)]"
proof -
  have "same_texture s t"
    using assms wiiu_print_same by (auto simp: wiiu_Font_Print_def wiiu_Font_Printw_def split: option.splits)
  then show ?thesis
    by (elim same_textureE)
      (simp add: same_texture_def texture_ok_def wiiu_Font_Draw_TVDRC_def wiiu_Font_Draw_def screen_calls_def)
qed

lemma wiiu_no_font: "wf_face s = None \<Longrightarrow> wiiu_Font_Print x y str s = None"
  by (simp add: wiiu_Font_Print_def wiiu_Font_Printw_def)

end
