(* ===== verification/WiiuScreen.thy ===== *)
theory WiiuScreen
  imports WiiuVideo Single
begin

text \<open>
  The rest of the Wii U port: the textures of \<open>src/wiiu/decode.c\<close>, the vertices, the render state and the drawing calls of
  \<open>src/wiiu/wiiu.c\<close>, the threads of \<open>src/wiiu/net.c\<close> and \<open>src/wiiu/input.c\<close>, the log of \<open>src/wiiu/debug.c\<close>. The graphics
  library's calls are recorded with their arguments; what the system answers is a parameter.
\<close>

unbundle bit_operations_syntax

section \<open>Textures\<close>

datatype gx2_format = GX2_SURFACE_FORMAT_UNORM_R8 | GX2_SURFACE_FORMAT_UNORM_R8_G8

record gx2_surface =
  sf_format :: gx2_format
  sf_width :: u32
  sf_height :: u32
  sf_imageSize :: u32
  sf_image :: nat

text \<open>\<open>GX2CalcSurfaceSizeAndAlignment\<close> gives the size of a linear surface from its format, width and height.\<close>

type_synonym surface_calc = "gx2_format \<Rightarrow> u32 \<Rightarrow> u32 \<Rightarrow> u32"

definition make_surface :: "surface_calc \<Rightarrow> gx2_format \<Rightarrow> u32 \<Rightarrow> u32 \<Rightarrow> gx2_surface" where
  "make_surface calc f w h = \<lparr>sf_format = f, sf_width = w, sf_height = h, sf_imageSize = calc f w h, sf_image = 0\<rparr>"

text \<open>The memory both planes share is \<open>memory n\<close> for \<open>n\<close> bytes.\<close>

definition plane_memory :: "u32 \<Rightarrow> u32 \<Rightarrow> nat" where
  "plane_memory width height = unat (drop_bit 1 ((((width + 0xff) AND NOT 0xff) * height) * 3))"

definition createYUVTextures :: "surface_calc \<Rightarrow> (nat \<Rightarrow> nat) \<Rightarrow> u32 \<Rightarrow> u32 \<Rightarrow> gx2_surface \<times> gx2_surface" where
  "createYUVTextures calc memory width height0 =
     (let height = (height0 + 0xf) AND NOT 0xf;
          y = make_surface calc GX2_SURFACE_FORMAT_UNORM_R8 width height;
          uv = make_surface calc GX2_SURFACE_FORMAT_UNORM_R8_G8 (width div 2) (height div 2);
          m = memory (plane_memory width height)
      in (y\<lparr>sf_image := m\<rparr>, uv\<lparr>sf_image := m + unat (sf_imageSize y)\<rparr>))"

text \<open>Linear surfaces have rows of a multiple of 256 bytes.\<close>

definition linear_rows :: "surface_calc \<Rightarrow> bool" where
  "linear_rows calc \<longleftrightarrow> (\<forall>w h. unat w \<le> 4096 \<longrightarrow> unat h \<le> 4096 \<longrightarrow>
     unat (calc GX2_SURFACE_FORMAT_UNORM_R8 w h) = (unat w + 255) div 256 * 256 * unat h \<and>
     unat (calc GX2_SURFACE_FORMAT_UNORM_R8_G8 w h) = (2 * unat w + 255) div 256 * 256 * unat h)"

lemma aligned_sizes:
  fixes w :: u32
  assumes "unat w < 2 ^ 31"
  shows "unat ((w + 0xff) AND NOT 0xff) = (unat w + 255) div 256 * 256" "unat ((w + 0xf) AND NOT 0xf) = (unat w + 15) div 16 * 16"
proof -
  have "unat (w + 0xff) = unat w + 255" "unat (w + 0xf) = unat w + 15"
    using assms by (simp_all add: unat_word_ariths)
  then show "unat ((w + 0xff) AND NOT 0xff) = (unat w + 255) div 256 * 256" "unat ((w + 0xf) AND NOT 0xf) = (unat w + 15) div 16 * 16"
    using unat_and_not_mask [of "w + 0xff" 8] unat_and_not_mask [of "w + 0xf" 4] by (simp_all add: mask_eq_exp_minus_1)
qed

text \<open>A picture of an even width: its two planes fill the memory allocated for them, exactly, one behind the other.\<close>

lemma planes_fill_memory:
  assumes "linear_rows calc" and "even (unat width)" and "unat width \<le> 4096" and "unat height \<le> 4080"
    and "createYUVTextures calc memory width height = (y, uv)"
  shows "sf_image uv = sf_image y + unat (sf_imageSize y) \<and>
    sf_image uv + unat (sf_imageSize uv) =
      memory (plane_memory width ((height + 0xf) AND NOT 0xf)) + plane_memory width ((height + 0xf) AND NOT 0xf) \<and>
    sf_image y = memory (plane_memory width ((height + 0xf) AND NOT 0xf)) \<and> unat height \<le> unat (sf_height y)"
proof -
  let ?h = "(height + 0xf) AND NOT 0xf"
  define H where "H = (unat height + 15) div 16"
  define P where "P = (unat width + 255) div 256"
  have h: "unat ?h = 16 * H" and p: "unat ((width + 0xff) AND NOT 0xff) = 256 * P"
    using aligned_sizes [of height] aligned_sizes [of width] assms(3,4) by (simp_all add: H_def P_def)
  have HP: "H \<le> 255" "P \<le> 16" using assms(3,4) by (simp_all add: H_def P_def)
  then have b: "256 * P * (16 * H) * 3 \<le> 256 * 16 * (16 * 255) * 3" by (intro mult_le_mono) simp_all
  have "unat ((width + 0xff) AND NOT 0xff) * unat ?h < 2 ^ 32" using b unfolding h p by simp
  then have "unat (((width + 0xff) AND NOT 0xff) * ?h) = 256 * P * (16 * H)"
    using unat_mult_lem [of "(width + 0xff) AND NOT 0xff" ?h] h p by simp
  moreover from this have "unat (((width + 0xff) AND NOT 0xff) * ?h * 3) = 256 * P * (16 * H) * 3"
    using unat_mult_lem [of "((width + 0xff) AND NOT 0xff) * ?h" 3] b by simp
  moreover have "unat (drop_bit 1 v) = unat v div 2" for v :: u32 by (simp add: drop_bit_eq_div unat_div)
  moreover have "256 * P * (16 * H) * 3 div 2 = 6144 * P * H" by simp
  ultimately have m: "plane_memory width ?h = 6144 * P * H" unfolding plane_memory_def by metis
  have h4: "unat ?h \<le> 4096" unfolding h using HP by simp
  have w2: "unat (width div 2) = unat width div 2" by (simp add: unat_div)
  have h2: "unat (?h div 2) = 8 * H" using unat_div [of ?h 2] unfolding h by simp
  have "unat (width div 2) \<le> 4096" "unat (?h div 2) \<le> 4096" unfolding w2 h2 using assms(3) HP by simp_all
  then have "unat (calc GX2_SURFACE_FORMAT_UNORM_R8 width ?h) = (unat width + 255) div 256 * 256 * unat ?h"
    "unat (calc GX2_SURFACE_FORMAT_UNORM_R8_G8 (width div 2) (?h div 2)) =
       (2 * unat (width div 2) + 255) div 256 * 256 * unat (?h div 2)"
    using assms(1,3) h4 unfolding linear_rows_def by blast+
  moreover have "2 * (unat width div 2) = unat width" using assms(2) by simp
  ultimately have "unat (calc GX2_SURFACE_FORMAT_UNORM_R8 width ?h) = 256 * P * (16 * H)"
    "unat (calc GX2_SURFACE_FORMAT_UNORM_R8_G8 (width div 2) (?h div 2)) = 256 * P * (8 * H)"
    unfolding h w2 h2 P_def by (simp_all only: mult.commute)
  moreover have "unat height \<le> 16 * H" unfolding H_def by presburger
  ultimately show ?thesis
    using assms(5) m h by (auto simp: createYUVTextures_def make_surface_def Let_def)
qed

section \<open>Vertices\<close>

record wiiu_screen =
  tvScreenSize :: "rat list"
  tvAttribs :: "rat list"
  drcScreenSize :: "rat list"
  drcAttribs :: "rat list"

text \<open>The inverse size of a colour buffer, and the corners of a picture over all of it with their texture coordinates.\<close>

definition inverse_size :: "u32 \<Rightarrow> u32 \<Rightarrow> rat list" where
  "inverse_size w h = [f32 (1 / f32 (of_int (uint w))), f32 (1 / f32 (of_int (uint h)))]"

definition corner_attribs :: "u32 \<Rightarrow> u32 \<Rightarrow> rat list" where
  "corner_attribs w h =
     (let W = f32 (of_int (uint w)); H = f32 (of_int (uint h))
      in [0, 0, 0, 0,
          W, 0, 1, 0,
          W, H, 1, 1,
          0, H, 0, 1])"

definition wiiu_screen_init :: "u32 \<times> u32 \<Rightarrow> u32 \<times> u32 \<Rightarrow> wiiu_screen" where
  "wiiu_screen_init tv drc =
     \<lparr>tvScreenSize = inverse_size (fst tv) (snd tv), tvAttribs = corner_attribs (fst tv) (snd tv),
      drcScreenSize = inverse_size (fst drc) (snd drc), drcAttribs = corner_attribs (fst drc) (snd drc)\<rparr>"

lemma corners_exact:
  assumes "unat w < 2 ^ 24" and "unat h < 2 ^ 24"
  shows "corner_attribs w h = [0, 0, 0, 0, of_nat (unat w), 0, 1, 0, of_nat (unat w), of_nat (unat h), 1, 1, 0, of_nat (unat h), 0, 1]"
proof -
  have "f32 (of_int (uint v)) = of_nat (unat v)" if "unat v < 2 ^ 24" for v :: u32
  proof -
    have "int (unat v) < int (2 ^ 24)" using that by (simp only: of_nat_less_iff)
    then have "\<bar>uint v\<bar> < 2 ^ 24" by simp
    then have "f32 (of_int (uint v)) = of_int (uint v)" by (rule f32_int)
    then show ?thesis by (metis of_int_of_nat_eq uint_nat)
  qed
  with assms show ?thesis by (simp add: corner_attribs_def Let_def)
qed

section \<open>Drawing\<close>

datatype gx2_call =
    Gfx_LoadShaderGroup | Gfx_InitShaderAttribute string nat nat | Gfx_InitFetchShader | GX2InitSampler_POINT | Gfx_FreeShaderGroup
  | Gfx_BeginRender | Gfx_BeginRenderTV | Gfx_BeginRenderDRC | Gfx_ClearColor_black
  | GX2SetPixelTexture nat gx2_format nat | GX2SetPixelSampler nat
  | Gfx_set_shaders | GX2SetVertexUniformReg "rat list" | GX2SetAttribBuffer "rat list" | GX2DrawEx_QUADS nat
  | Gfx_FinishRenderTV | Gfx_FinishRenderDRC | Gfx_FinishRender
  | GX2SetColorControl_COPY int bool bool | GX2SetBlendControl_alpha bool | GX2SetDepthOnlyControl_ALWAYS bool bool

text \<open>The shader and its inputs at the start of a stream; a failure is only logged.\<close>

definition stream_init_calls :: "gx2_call list" where
  "stream_init_calls =
     [Gfx_LoadShaderGroup, Gfx_InitShaderAttribute ''in_pos'' 0 0, Gfx_InitShaderAttribute ''in_texCoord'' 0 8, Gfx_InitFetchShader,
      GX2InitSampler_POINT]"

definition wiiu_stream_fini :: "wiiu_screen \<Rightarrow> wiiu_screen \<times> gx2_call list" where
  "wiiu_stream_fini scr = (scr\<lparr>tvAttribs := [], drcAttribs := []\<rparr>, [Gfx_FreeShaderGroup])"

text \<open>One screen: both planes of texture \<open>tex\<close>, the shaders, the size of the screen, its corners.\<close>

definition quad_calls :: "nat \<Rightarrow> rat list \<Rightarrow> rat list \<Rightarrow> gx2_call list" where
  "quad_calls tex size_reg attribs =
     [Gfx_ClearColor_black, GX2SetPixelTexture tex GX2_SURFACE_FORMAT_UNORM_R8 0, GX2SetPixelTexture tex GX2_SURFACE_FORMAT_UNORM_R8_G8 1,
      GX2SetPixelSampler 0, GX2SetPixelSampler 1, Gfx_set_shaders, GX2SetVertexUniformReg size_reg, GX2SetAttribBuffer attribs,
      GX2DrawEx_QUADS 4]"

definition picture_calls :: "wiiu_screen \<Rightarrow> nat \<Rightarrow> gx2_call list" where
  "picture_calls scr tex =
     [Gfx_BeginRender, Gfx_BeginRenderTV] @ quad_calls tex (tvScreenSize scr) (tvAttribs scr) @ [Gfx_FinishRenderTV, Gfx_BeginRenderDRC] @
     quad_calls tex (drcScreenSize scr) (drcAttribs scr) @ [Gfx_FinishRenderDRC, Gfx_FinishRender]"

text \<open>What \<open>wiiu_stream_draw\<close> issues: nothing for an empty queue or a skipped picture.\<close>

definition stream_draw_calls :: "wiiu_screen \<Rightarrow> wiiu_video \<Rightarrow> gx2_call list" where
  "stream_draw_calls scr s = concat (map (picture_calls scr) (drop (length (drawn s)) (drawn (wiiu_stream_draw s))))"

definition wiiu_setup_renderstate :: "gx2_call list" where
  "wiiu_setup_renderstate =
     (let state = [GX2SetColorControl_COPY 0xFF False True, GX2SetBlendControl_alpha True, GX2SetDepthOnlyControl_ALWAYS False False]
      in [Gfx_BeginRenderTV] @ state @ [Gfx_BeginRenderDRC] @ state)"

text \<open>A picture that is drawn is drawn on both screens, once.\<close>

lemma stream_draw_both:
  "stream_draw_calls scr s = [] \<or> (\<exists>tex. fst (wiiu_get_frame s) = Some tex \<and> stream_draw_calls scr s = picture_calls scr tex)"
proof -
  have "drawn (snd (wiiu_get_frame s)) = drawn s" by (simp add: wiiu_get_frame_def Let_def)
  then show ?thesis
    by (cases "wiiu_get_frame s") (auto simp: stream_draw_calls_def wiiu_stream_draw_def Let_def split: option.split)
qed

section \<open>Threads\<close>

datatype thread_call =
    Memalign_stack nat | OSCreateThread bool | Free_stack | OSSetThreadName string | OSSetThreadDeallocator | OSResumeThread
  | Somemopt_wait | OSCancelAlarm | OSJoinThread

text \<open>Both threads are started the same way: memory for the stack, the thread (detached or not), and the memory back when there is no
  thread.\<close>

definition start_thread :: "bool \<Rightarrow> bool \<Rightarrow> bool \<Rightarrow> string \<Rightarrow> bool \<times> thread_call list" where
  "start_thread has_memory creates detached name =
     (if \<not> has_memory then (False, [Memalign_stack (4 * 1024 * 1024)])
      else if \<not> creates then (False, [Memalign_stack (4 * 1024 * 1024), OSCreateThread detached, Free_stack])
      else (True, [Memalign_stack (4 * 1024 * 1024), OSCreateThread detached, OSSetThreadName name, OSSetThreadDeallocator, OSResumeThread]))"

definition wiiu_net_init :: "bool \<Rightarrow> bool \<Rightarrow> thread_call list" where
  "wiiu_net_init has_memory creates =
     (case start_thread has_memory creates True ''NetMemory'' of (ok, cs) \<Rightarrow> cs @ (if ok then [Somemopt_wait] else []))"

text \<open>\<open>thread_running\<close> and the calls.\<close>

definition wiiu_start_input_thread :: "bool \<Rightarrow> bool \<Rightarrow> bool \<Rightarrow> bool \<times> thread_call list" where
  "wiiu_start_input_thread has_memory creates running0 =
     (case start_thread has_memory creates False ''PadInput'' of (ok, cs) \<Rightarrow> (ok \<or> running0, cs))"

definition wiiu_stop_input_thread :: "bool \<times> thread_call list" where
  "wiiu_stop_input_thread = (False, [OSCancelAlarm, OSJoinThread])"

text \<open>A stack is given back exactly when the thread that would own it could not be made.\<close>

lemma stack_returned:
  "Free_stack \<in> set (snd (start_thread m c d n)) \<longleftrightarrow> m \<and> \<not> c"
  "OSResumeThread \<in> set (snd (start_thread m c d n)) \<longleftrightarrow> m \<and> c"
  by (simp_all add: start_thread_def)

section \<open>The log\<close>

text \<open>\<open>OSReport ("%*.*s", len, len, ptr)\<close>: at most \<open>len\<close> characters up to a NUL, padded on the left to \<open>len\<close>.\<close>

definition wiiu_log_write :: "string \<Rightarrow> nat \<times> string" where
  "wiiu_log_write ptr = (length ptr, replicate (length ptr - length (cstr ptr)) (CHR '' '') @ cstr ptr)"

lemma log_text_kept: "nul \<notin> set ptr \<Longrightarrow> wiiu_log_write ptr = (length ptr, ptr)"
  by (simp add: wiiu_log_write_def cstr_id)

end
