(* ===== verification/Spec2Isabelle.thy ===== *)
theory Spec2Isabelle
  imports Compat ConfigFacts FrameQueue MenuFacts ClientFacts TlsTest Program AppFacts AudioFacts GxSetupFacts Streaming
    NetcompatFacts ViEncoder Platform WiiuVideo WiiuInput WiiuPlatform WiiuFont WiiuScreen
begin

text \<open>
  moonlight-wii: a GameStream client for the Wii (and the Wii U). The program reads \<open>moonlight.conf\<close>, pairs with a host over
  HTTP(S), starts an application there, and then receives its picture and sound and sends the controller's events.
  This development models the C code under \<open>src/\<close> and \<open>libgamestream/\<close> and proves what makes its parts correct. What is not that code is a
  parameter of the definitions: mbedtls, expat, FreeType, FFmpeg, Opus, libogc (network, heap of MEM2, DMA, video interface), the streaming
  library, the allocator, the clock and the file system's answers.

  \<^bold>\<open>Conventions.\<close> A function of the code is a definition of the same name; a loop in it that is recursive here has a
  name of its own. State is an explicit record; a procedure that can fail early is a step on it (\<open>Prelude\<close>: \<open>bindE\<close>, \<open>retE\<close>).
  \<open>None\<close> or \<open>Undefined\<close> is undefined behaviour: an access outside of an array, of a freed block, through \<open>NULL\<close>.
  Integers have the width of the code wherever they can wrap. Threads are interleavings of uninterruptible steps: of whole
  queue operations (they hold a mutex), of events of a stream, of single statements against the audio interrupt.

  \<^bold>\<open>Theories and the code they model.\<close>
  \<^item> \<open>Prelude\<close>: machine integers, the string and number functions of the C library, the combinators for state and early return with
    their rules (\<open>frame_rules\<close>, \<open>triple_rules\<close>), list lemmas.
  \<^item> \<open>Compat\<close> (\<open>wii/compat.c\<close>), \<open>Config\<close>, \<open>ConfigFacts\<close> (\<open>config.c\<close>): reading lines, the configuration file, its writer.
  \<^item> \<open>Input\<close> (\<open>wii/proc.c\<close>, \<open>wii/input.c\<close>), \<open>Raster\<close> and \<open>Font\<close> (\<open>wii/font.c\<close>), \<open>Menu\<close>, \<open>MenuFacts\<close> (\<open>wii/menu.c\<close>): HOME button, controller
    events, text on a canvas, selection and text entry.
  \<^item> \<open>Http\<close>, \<open>HttpFacts\<close> (\<open>http.c\<close>), \<open>GsError\<close> (\<open>set_error.c\<close>), \<open>Xml\<close>, \<open>XmlFacts\<close> (\<open>xml.c\<close>), \<open>Hex\<close> and \<open>Conf\<close>
    (\<open>conf.c\<close>, \<open>mkcert.c\<close>, byte helpers), \<open>Client\<close>, \<open>Pairing\<close>, \<open>ClientFacts\<close> (\<open>client.c\<close>); \<open>HostExample\<close> is a host on which
    whole runs are followed for the witnesses.
  \<^item> \<open>FrameQueue\<close> (\<open>wii/wii.c\<close>), \<open>Decode\<close>, \<open>DecodeFacts\<close> (\<open>wii/decode.c\<close>), \<open>Mem2\<close> (\<open>wii/mem2_manager.c\<close>), \<open>GxVideo\<close>, \<open>GxVideoFacts\<close>
    (\<open>wii/gx_video.c\<close>), and \<open>Streaming\<close>, which puts them together: the way of a picture. \<open>GxSetup\<close>, \<open>GxSetupFacts\<close>: how
    \<open>gx_video.c\<close> programs the graphics processor, a list of calls with their arguments, and the geometry of the picture.
  \<^item> \<open>Single\<close>: single precision numbers as rationals that are rounded after each operation, and how far off they are.
  \<^item> \<open>Audio\<close>, \<open>AudioFacts\<close> (\<open>wii/audio.c\<close>): the ring between the decoder thread and the DMA interrupt.
  \<^item> \<open>Connection\<close> (\<open>_connection.c\<close>), \<open>App\<close>, \<open>AppFacts\<close> (\<open>main.c\<close>): the callbacks of a stream, its threads, the menus
    that drive the client. \<open>TlsTest\<close> (\<open>wii/tlstest.c\<close>): the TLS self test. \<open>Program\<close>: \<open>main\<close> from the start of the
    services to their end.
  \<^item> \<open>Netcompat\<close>, \<open>NetcompatFacts\<close> (\<open>wii/netcompat.c\<close>), \<open>ViEncoder\<close> (\<open>wii/vi_encoder.c\<close>), \<open>Platform\<close> (\<open>wii/debug.c\<close>,
    \<open>wii/net.c\<close>, \<open>tls_rng.c\<close>, \<open>sps.c\<close>): what the program adds below the C library.
  \<^item> \<open>WiiuVideo\<close>, \<open>WiiuScreen\<close>, \<open>WiiuFont\<close>, \<open>WiiuInput\<close>, \<open>WiiuPlatform\<close> (\<open>src/wiiu/\<close>): queue, decoder, textures and drawing, text,
    touch screen, controllers, threads, process, sound and log of the Wii U port.

  \<^bold>\<open>Interfaces.\<close> \<open>bounded_queue\<close> (\<open>FrameQueue\<close>) is the contract of a queue that drops what does not fit; the ring of each port is an
  interpretation of it (\<open>fq\<close>, \<open>wq\<close>), and every execution of such a queue refines the same on a list. \<open>buffer_pool\<close> extends it by
  a producer with fewer buffers than the queue has room for (\<open>fp\<close>, \<open>wp\<close>). \<open>button_device\<close> (\<open>WiiuInput\<close>) is what makes presses and
  releases alternate, interpreted for the touch screen in its three modes (\<open>td\<close>). \<open>host_calls\<close> (\<open>ClientFacts\<close>) is what
  the client relies on in the modules below it: building a URL, sending a request and reading an answer leave its own state alone.
  \<open>raster\<close> (\<open>Raster\<close>) is the contract of writing one pixel of a glyph; both text renderers interpret it (\<open>fr\<close>, \<open>wf\<close>)
  and get from it that the loop over the bitmap inks each covered pixel once.

  \<^bold>\<open>What is shown.\<close>
  \<^item> Safety of the protocol: a host is paired only after its signature and the PIN hash were checked; status, start and quit report
    success only when the host's answer allows it; a start uses fresh keys and a mode the host offers.
  \<^item> Round trips: configuration, identity, entered address, hexadecimal text, URLs.
  \<^item> The way of a picture: a decode unit never leaves the buffers of the decoder and keeps them well-formed; a decoded picture
    reaches the texels of the graphics processor byte by byte; which of the offered sizes fit in the textures; the picture reaches every edge of the screen, and the program of the texture
    stages reads nothing that was not written before. The way of the sound: no byte is
    lost, repeated or reordered while there is room, under every interleaving with the interrupt.
  \<^item> Interaction: HOME, controller events, touch screen, menus, the loop of a stream and the main menu.
  \<^item> Text: a glyph changes the pixels it covers, once, and nothing outside of the canvas; on the Wii U its coverage becomes its
    alpha without a rounding error.
  \<^item> The start: services end in the order they have to, the IOS is loaded before the network; an attempt of the TLS self test
    succeeds exactly when every step did, and closes its socket.
  \<^item> The layer below: \<open>select\<close> and \<open>poll\<close> on public descriptors, the time base, the MEM2 arena, the bus to the video encoder.
  \<^item> Bounds of the fixed arrays of requests and launch URLs; termination of the configuration parser without inclusions.
  \<^item> Where the code does not do what it means to, the theorem says what it does: declined pairings, self inclusion, only
    the first application, chunks that overrun the audio ring, 1920x1080, queued pictures that are written over, the result of \<open>poll\<close>.

  \<^bold>\<open>Fuel and scripts.\<close> \<open>config_file_parse\<close> takes the nesting depth as fuel, because a file may include itself: a file without
  inclusions needs one level, and self inclusion exhausts every fuel. Menus and streams are run over a script of
  samples or events; a script that ends too early is an outcome of its own, never success. \<open>gettime\<close> is a partial function that is
  proved to return; the \<open>handshake\<close> of the self test one that returns exactly when the library stops wanting more. All other recursions are on lists or have a measure.

  \<^bold>\<open>Not modelled.\<close> \<open>font_data.c\<close> (the bytes of a font) and the shader binaries of the Wii U are data. What the graphics processors
  do with the calls they get is hardware; the calls are modelled up to their arguments. \<open>wiiu/compat.c\<close> repeats \<open>wii/compat.c\<close>.
  Cache flushes and log output (with it \<open>log_clocks\<close> and the times of the self test) change nothing that is modelled. The
  creation of threads is the presence of their steps. The \<open>#ifndef __WII__\<close> parts of \<open>config.c\<close> are not compiled for the console.
\<close>

unbundle bit_operations_syntax

section \<open>Properties that span components\<close>

text \<open>C12. What the settings menu offers, against what \<open>gx_video.c\<close> has room for: with the textures as they are allocated, every
  configuration the menu can make sets texture sizes that fit, except 1920x1080: there every upload of a picture
  writes behind the textures.\<close>

theorem offered_sizes_against_textures:
  assumes "streamable c" and "sized t" and "allocated t"
  shows "let u = gx_video_config_yuv (st_width (stream c)) (st_height (stream c)) t
    in configured u \<and> allocated u \<and>
       (if st_width (stream c) = 1920 then \<forall>ys us vs a b. GX_FillTextureYUV ys us vs a b u = None else fits u)"
proof -
  let ?w = "st_width (stream c)" and ?h = "st_height (stream c)"
  have s: "(?w, ?h) \<in> {(640, 480), (854, 480), (1280, 720), (1920, 1080)}" using assms(1) by (simp add: streamable_def)
  then have "0 < ?w" "?w < 65000" "0 < ?h" "?h < 65000" by auto
  note u = config_sized [OF assms(2) this]
  show ?thesis
  proof (cases "?w = 1920")
    case True
    then have "?h = 1080" using s by auto
    with full_hd_overruns(1) u assms(3) True show ?thesis by (simp add: Let_def)
  next
    case False
    then have "small_size ?w ?h" using s by (auto simp: small_size_def)
    with small_sizes_fit [OF _ assms(2,3)] u assms(3) False show ?thesis by (simp add: Let_def)
  qed
qed

theorem offered_sizes_against_textures_witness:
  "fits (gx_video_config_yuv 1280 720 example_textures) \<and>
   (\<forall>ys us vs a b. GX_FillTextureYUV ys us vs a b (gx_video_config_yuv 1920 1080 example_textures) = None)"
proof -
  let ?c = "\<lambda>w h. ConfigFacts.example_config\<lparr>stream := (stream ConfigFacts.example_config)\<lparr>st_width := w, st_height := h\<rparr>\<rparr>"
  have "sized example_textures" by (simp add: sized_def example_textures_def)
  note at = offered_sizes_against_textures [OF _ this example_allocated]
  have "streamable (?c 1280 720)" "streamable (?c 1920 1080)"
    by (simp_all add: streamable_def ConfigFacts.example_config_def default_config_def LiInitializeStreamConfiguration_def ENCFLG_AUDIO_def)
  from at [OF this(1)] at [OF this(2)] show ?thesis by (simp add: Let_def)
qed

text \<open>C3. The way of a picture: after a decoder was set up for one of the sizes up to 1280x720, a decode unit that
  holds a picture of that size, and one pass of the drawing thread, leave exactly the picture's bytes where the graphics processor looks
  for the texels of its planes, no buffer is left on the way, the queue is empty again, and one picture was drawn.\<close>

theorem decoded_picture_is_drawn:
  assumes "small_size w h" and "memalign_ok malloc" and "av_ok av"
    and "length (frames (video s0)) = NUM_BUFFERS" "queue_ok (video s0)" "queue_contents (video s0) = []"
    and "sized (gx s0)" "allocated (gx s0)"
    and "wii_decoder_setup av malloc VIDEO_FORMAT_H264 w h s0 = (0, s)"
    and "length e \<le> DECODER_BUFFER_SIZE" and "gives_picture av (packets s @ [e]) p" "pic_width p = nat w" "pic_height p = nat h"
    and "textures g = gx s"
  shows "\<exists>t v g'. wii_decoder_submit_decode_unit av (length e) [e] s = Some (DR_OK, t) \<and>
    wii_stream_draw (draw_frame can_open efb xfb) (video t, Some g) = (v, Some g') \<and>
    texels_show p (textures g') \<and> copied g' = copied g @ [whichfb g] \<and> queue_contents v = []"
proof -
  have b: "0 \<le> w" "w < 2 ^ 31" "0 \<le> h" "h < 2 ^ 31" using assms(1) by (auto simp: small_size_def)
  have "list_all (\<lambda>i. i < NUM_BUFFERS) (queue_contents (video s0))" using assms(6) by simp
  from decoder_setup_ok [OF assms(2) b assms(4,5) this assms(9)]
  have s: "decoder_ok s" "frames (video s) = replicate 2 (frame_for malloc w h)" "gx s = gx_video_config_yuv w h (gx s0)" by simp_all
  have q: "queue_contents (video s) = []" using setup_queue [OF assms(9)] assms(6) by simp
  let ?i = "currentTexture s"
  have i: "?i < 2" using s(1) by (simp add: decoder_ok_def NUM_BUFFERS_def)
  obtain t where t: "wii_decoder_submit_decode_unit av (length e) [e] s = Some (DR_OK, t)" "decoder_ok t"
      "shows_picture p (wii_frame_buffer ?i (video t))" "same_shape (wii_frame_buffer ?i (video t)) (wii_frame_buffer ?i (video s))"
      "queue_contents (video t) = [?i]"
    using decode_picture [OF s(1) assms(3,10,11)] q by (auto simp: spec_enq_def MAX_QUEUEMESSAGES_def)
  have ok: "queue_ok (video t)" and fok: "frame_ok (wii_frame_buffer ?i (video t))"
    using t(2) i by (auto simp: decoder_ok_def NUM_BUFFERS_def list_all_iff wii_frame_buffer_def)
  have "same_shape (wii_frame_buffer ?i (video t)) (frame_for malloc w h)"
    using t(4) s(2) i by (simp add: wii_frame_buffer_def)
  from frame_drawn [OF assms(1) fok this t(3) assms(7,8,12,13), of g can_open efb xfb] s(3) assms(14)
  obtain g' where g': "draw_frame can_open efb xfb (wii_frame_buffer ?i (video t)) (Some g) = Some g'" "texels_show p (textures g')"
      "copied g' = copied g @ [whichfb g]" by auto
  obtain r v where v: "get_frame (video t) = (r, v)" by fastforce
  from get_frame_ok [OF ok v] t(5) have r: "r = Some ?i" "queue_contents v = []" by auto
  have "wii_frame_buffer ?i v = wii_frame_buffer ?i (video t)" using get_frame_frames [OF v] by (simp add: wii_frame_buffer_def)
  then have "wii_stream_draw (draw_frame can_open efb xfb) (video t, Some g) = (v, Some g')"
    using v r g'(1) by (simp add: wii_stream_draw_def)
  with t(1) g' r show ?thesis by blast
qed

definition full_picture :: "u8 \<Rightarrow> picture" where
  "full_picture b = \<lparr>pic_width = 640, pic_height = 480, pic_y = replicate 307200 b, pic_u = replicate 76800 b, pic_v = replicate 76800 b,
     pic_linesize = (640, 320, 320)\<rparr>"

definition stream_ffmpeg :: ffmpeg where
  "stream_ffmpeg = example_ffmpeg\<lparr>av_decode := (\<lambda>ps. (0, Some (full_picture 7)))\<rparr>"

definition fresh_decoder :: decoder_state where
  "fresh_decoder = \<lparr>has_ctx = False, decodebuffer = None, currentTexture = 0, packets = [], video = example_video, gx = example_textures\<rparr>"

definition example_screen :: "gx_textures \<Rightarrow> gx_state" where
  "example_screen t = \<lparr>vmode = None, xfb_bpp = 2, whichfb = 1, gx_presented = False, flip_pending = False, sync_interlace = 1, is_pal = False,
     want576i = False, pal60 = False, delayrender_frames = 0, vi_black = True, shown = 0, copied = [], textures = t, neutral_uv_size = 0,
     dbg_frame = 0, dumped = []\<rparr>"

theorem decoded_picture_is_drawn_witness:
  "\<exists>s t v g'. wii_decoder_setup stream_ffmpeg example_malloc VIDEO_FORMAT_H264 640 480 fresh_decoder = (0, s) \<and>
     wii_decoder_submit_decode_unit stream_ffmpeg 2 [[0, 1]] s = Some (DR_OK, t) \<and>
     wii_stream_draw (draw_frame (\<lambda>_. False) [] []) (video t, Some (example_screen (gx s))) = (v, Some g') \<and>
     luma_at (textures g') 639 479 = 7 \<and> copied g' = [1]"
proof -
  have two: "[0..<NUM_BUFFERS] = [0, 1]" by (simp add: NUM_BUFFERS_def upt_rec)
  obtain s where s: "wii_decoder_setup stream_ffmpeg example_malloc VIDEO_FORMAT_H264 640 480 fresh_decoder = (0, s)"
    by (simp add: wii_decoder_setup_def wii_alloc_frames_def two frame_for_def example_malloc_def stream_ffmpeg_def example_ffmpeg_def Let_def)
  have ok: "small_size 640 480" "av_ok stream_ffmpeg" "sized (gx fresh_decoder)" "allocated (gx fresh_decoder)"
      "length (frames (video fresh_decoder)) = NUM_BUFFERS" "queue_ok (video fresh_decoder)" "queue_contents (video fresh_decoder) = []"
    using example_allocated
    by (simp_all add: small_size_def av_ok_def stream_ffmpeg_def full_picture_def picture_ok_def plane_has_def sized_def fresh_decoder_def
        example_textures_def example_video_def queue_ok_def queue_len_def queue_contents_def MAX_QUEUEMESSAGES_def NUM_BUFFERS_def)
  have p: "gives_picture stream_ffmpeg (packets s @ [[0, 1]]) (full_picture 7)" "length [0, 1::u8] \<le> DECODER_BUFFER_SIZE"
      "pic_width (full_picture 7) = nat 640" "pic_height (full_picture 7) = nat 480"
    by (simp_all add: gives_picture_def stream_ffmpeg_def full_picture_def DECODER_BUFFER_SIZE_def)
  have g: "textures (example_screen (gx s)) = gx s" "whichfb (example_screen (gx s)) = 1" "copied (example_screen (gx s)) = []"
    by (simp_all add: example_screen_def)
  obtain t v g' where r: "wii_decoder_submit_decode_unit stream_ffmpeg (length [0, 1::u8]) [[0, 1]] s = Some (DR_OK, t)"
      "wii_stream_draw (draw_frame (\<lambda>_. False) [] []) (video t, Some (example_screen (gx s))) = (v, Some g')"
      "texels_show (full_picture 7) (textures g')" "copied g' = [1]"
    using decoded_picture_is_drawn [OF ok(1) example_memalign_ok ok(2,5-7,3,4) s p(2,1,3,4) g(1)] g by fastforce
  have "luma_at (textures g') 639 479 = 7" using r(3) by (simp add: texels_show_def full_picture_def)
  with s r show ?thesis by (auto simp: numeral_2_eq_2)
qed

end
